(* ===== verification/Prelude.thy ===== *)
theory Prelude
  imports Complex_Main "HOL-Library.AList"
begin

text \<open>
  Shared vocabulary of the development: the Python values and library operations that the
  components of dio-serve use, with the generic lemmas and the two generic interfaces
  (bounded logs, invariant-preserving step functions) that the component theories interpret.

  Conventions of the whole development:
  \<^item> a Python \<open>float\<close> is a \<open>real\<close>: the model computes exactly where CPython rounds, and a
    \<open>float("inf")\<close> sentinel of the source is an \<open>option\<close> of the model;
  \<^item> a Python \<open>int\<close> is an \<open>int\<close>; counters that only ever grow from 0 are \<open>nat\<close>;
  \<^item> a Python \<open>str\<close> is a \<open>string\<close>, one \<open>char\<close> per code point (so the code points
    0 to 255 are covered);
  \<^item> a Python \<open>dict\<close> is an association list in insertion order: \<open>map_of d k\<close> reads a key,
    \<open>AList.update k v d\<close> overwrites in place or appends, \<open>AList.delete k d\<close> is \<open>pop(k, None)\<close>;
  \<^item> a \<open>collections.deque(maxlen=n)\<close> is a list that \<open>deque_append n\<close> keeps to its last \<open>n\<close> elements;
  \<^item> a method that holds the object's lock is one atomic function from state to state.
\<close>

named_theorems py_simps \<open>unfolding equations of the modelled Python operations\<close>
named_theorems bound_intros \<open>introduction rules for bounds and sign conditions\<close>

type_synonym 'v dict = "(string \<times> 'v) list"

subsection \<open>Numbers\<close>

definition clamp :: "real \<Rightarrow> real \<Rightarrow> real \<Rightarrow> real" where
  "clamp lo hi x = max lo (min hi x)"

text \<open>\<open>int(x)\<close> of a float truncates towards zero; \<open>round(x)\<close> rounds half to even.\<close>

definition py_trunc :: "real \<Rightarrow> int" where
  "py_trunc x = (if 0 \<le> x then \<lfloor>x\<rfloor> else \<lceil>x\<rceil>)"

definition py_round :: "real \<Rightarrow> int" where
  "py_round x =
     (let f = \<lfloor>x\<rfloor>; d = x - of_int f
      in if d < 1 / 2 then f else if d > 1 / 2 then f + 1 else if even f then f else f + 1)"

text \<open>\<open>round(x, n)\<close>.\<close>

definition round_to :: "nat \<Rightarrow> real \<Rightarrow> real" where
  "round_to n x = of_int (py_round (x * 10 ^ n)) / 10 ^ n"

subsection \<open>Decimal text of numbers\<close>

definition digit_char :: "nat \<Rightarrow> char" where
  "digit_char n = char_of (n + 48)"

fun show_nat :: "nat \<Rightarrow> string" where
  "show_nat n =
     (if n < 10 then [digit_char n] else show_nat (n div 10) @ [digit_char (n mod 10)])"

declare show_nat.simps [simp del]

definition show_int :: "int \<Rightarrow> string" where
  "show_int i = (if i < 0 then ''-'' @ show_nat (nat (- i)) else show_nat (nat i))"

text \<open>The \<open>format\<close> specifications \<open>.0f\<close> and \<open>.1f\<close>, which round half to even.\<close>

definition fmt_0f :: "real \<Rightarrow> string" where
  "fmt_0f x = (if x < 0 then ''-'' else []) @ show_nat (nat (py_round \<bar>x\<bar>))"

definition fmt_1f :: "real \<Rightarrow> string" where
  "fmt_1f x =
     (let n = nat (py_round (10 * \<bar>x\<bar>))
      in (if x < 0 then ''-'' else []) @ show_nat (n div 10) @ ''.'' @ show_nat (n mod 10))"

subsection \<open>Containers\<close>

definition deque_append :: "nat \<Rightarrow> 'a list \<Rightarrow> 'a \<Rightarrow> 'a list" where
  "deque_append maxlen xs x = (let ys = xs @ [x] in drop (length ys - maxlen) ys)"

text \<open>\<open>min(xs, key=f)\<close>: the first element with the least key, None where Python raises.\<close>

fun min_by :: "('a \<Rightarrow> 'b::linorder) \<Rightarrow> 'a list \<Rightarrow> 'a option" where
  "min_by f [] = None"
| "min_by f (x # xs) =
     (case min_by f xs of None \<Rightarrow> Some x | Some y \<Rightarrow> if f x \<le> f y then Some x else Some y)"

lemma find_SomeD: "List.find P xs = Some x \<Longrightarrow> x \<in> set xs \<and> P x"
  by (induction xs) (auto split: if_splits)

subsection \<open>Lemmas on numbers\<close>

lemma clamp_ge [simp, bound_intros]: "lo \<le> clamp lo hi x"
  by (simp add: clamp_def)

lemma clamp_le [bound_intros]: "lo \<le> hi \<Longrightarrow> clamp lo hi x \<le> hi"
  by (simp add: clamp_def)

lemma clamp_id: "lo \<le> x \<Longrightarrow> x \<le> hi \<Longrightarrow> clamp lo hi x = x"
  by (simp add: clamp_def)

text \<open>Clamping to an interval never increases the distance to a point of the interval.\<close>

lemma clamp_nonexpansive:
  assumes "lo \<le> a" and "a \<le> hi"
  shows "\<bar>clamp lo hi x - a\<bar> \<le> \<bar>x - a\<bar>"
  using assms by (auto simp: clamp_def max_def min_def abs_if)

lemma clamp_mono: "x \<le> y \<Longrightarrow> clamp lo hi x \<le> clamp lo hi y"
  by (auto simp: clamp_def)

lemma abs_clamp_sym: "0 \<le> c \<Longrightarrow> \<bar>clamp (- c) c x\<bar> \<le> c"
  by (auto simp: clamp_def max_def min_def abs_if)

lemma convex_bounds:
  fixes a b lo hi t :: real
  assumes "0 \<le> t" and "t \<le> 1" and "lo \<le> a" and "a \<le> hi" and "lo \<le> b" and "b \<le> hi"
  shows "lo \<le> t * a + (1 - t) * b" and "t * a + (1 - t) * b \<le> hi"
proof -
  have "t * lo + (1 - t) * lo \<le> t * a + (1 - t) * b"
    using assms by (intro add_mono mult_left_mono) auto
  then show "lo \<le> t * a + (1 - t) * b" by (simp add: algebra_simps)
  have "t * a + (1 - t) * b \<le> t * hi + (1 - t) * hi"
    using assms by (intro add_mono mult_left_mono) auto
  then show "t * a + (1 - t) * b \<le> hi" by (simp add: algebra_simps)
qed

lemma py_trunc_nonneg [bound_intros]: "0 \<le> x \<Longrightarrow> 0 \<le> py_trunc x"
  by (simp add: py_trunc_def)

lemma py_round_of_int [simp]: "py_round (of_int i) = i"
  by (simp add: py_round_def)

lemma py_round_near: "\<bar>x - of_int (py_round x)\<bar> \<le> 1 / 2"
proof -
  have "of_int \<lfloor>x\<rfloor> \<le> x" and "x < of_int \<lfloor>x\<rfloor> + 1" by linarith+
  then show ?thesis unfolding py_round_def Let_def by (auto simp: abs_if; linarith)
qed

subsection \<open>Lemmas on dictionaries\<close>

lemma map_of_AList_delete [simp]:
  "map_of (AList.delete k d) k' = (if k' = k then None else map_of d k')"
  by (simp add: AList.delete_conv')

lemma map_of_AList_update [simp]:
  "map_of (AList.update k v d) k' = (if k' = k then Some v else map_of d k')"
  by (simp add: AList.update_conv')

lemma keys_AList_update [simp]:
  "fst ` set (AList.update k v d) = insert k (fst ` set d)"
  by (simp add: AList.dom_update)

lemma keys_AList_delete [simp]:
  "fst ` set (AList.delete k d) = fst ` set d - {k}"
  by (induction d) auto

lemma distinct_keys_update [simp]:
  "distinct (map fst d) \<Longrightarrow> distinct (map fst (AList.update k v d))"
  by (rule AList.distinct_update)

lemma distinct_keys_delete [simp]:
  "distinct (map fst d) \<Longrightarrow> distinct (map fst (AList.delete k d))"
  by (rule AList.distinct_delete)

lemma map_fst_update_present [simp]:
  "k \<in> fst ` set d \<Longrightarrow> map fst (AList.update k v d) = map fst d"
  by (induction d) auto

lemma map_of_eq_Some_keys: "map_of d k = Some v \<Longrightarrow> k \<in> fst ` set d"
  by (metis domI dom_map_of_conv_image_fst)

lemma map_of_SomeI_distinct:
  "distinct (map fst d) \<Longrightarrow> (k, v) \<in> set d \<Longrightarrow> map_of d k = Some v"
  by simp

lemma length_AList_update:
  "length (AList.update k v d) = (if k \<in> fst ` set d then length d else Suc (length d))"
  by (induction d) auto

text \<open>A property of all values is kept when one entry is replaced by a value that has it.\<close>

lemma values_update:
  "(\<forall>w v. map_of d w = Some v \<longrightarrow> P v) \<Longrightarrow> P v0 \<Longrightarrow>
   (\<forall>w v. map_of (AList.update k v0 d) w = Some v \<longrightarrow> P v)"
  by simp

subsection \<open>Lemmas on deques\<close>

lemma deque_append_eq: "deque_append n xs x = drop (Suc (length xs) - n) (xs @ [x])"
  by (simp add: deque_append_def)

lemma length_deque_append [simp]: "length (deque_append n xs x) = min n (Suc (length xs))"
  by (simp add: deque_append_def)

lemma last_deque_append: "0 < n \<Longrightarrow> last (deque_append n xs x) = x"
  by (simp add: deque_append_def last_drop)

lemma set_deque_append: "set (deque_append n xs x) \<subseteq> insert x (set xs)"
  using set_drop_subset [of "Suc (length xs) - n" "xs @ [x]"] by (simp add: deque_append_eq)

lemma deque_append_room: "length xs < n \<Longrightarrow> deque_append n xs x = xs @ [x]"
  by (simp add: deque_append_def)

subsection \<open>Lemmas on the first minimum\<close>

lemma min_by_eq_None [simp]: "min_by f xs = None \<longleftrightarrow> xs = []"
  by (cases xs) (auto split: option.splits)

lemma min_by_in_set: "min_by f xs = Some x \<Longrightarrow> x \<in> set xs"
proof (induction xs arbitrary: x)
  case Nil
  then show ?case by simp
next
  case (Cons a xs)
  then show ?case by (auto split: option.splits if_splits)
qed

lemma min_by_least: "min_by f xs = Some x \<Longrightarrow> y \<in> set xs \<Longrightarrow> f x \<le> f y"
proof (induction xs arbitrary: x)
  case Nil
  then show ?case by simp
next
  case (Cons a xs)
  show ?case
  proof (cases "min_by f xs")
    case None
    with Cons.prems show ?thesis by simp
  next
    case (Some z)
    from Some Cons.prems Cons.IH [OF Some] show ?thesis
      by (auto split: if_splits intro: order.trans)
  qed
qed

text \<open>The minimum found is the first one: strictly better than everything before it.\<close>

lemma min_by_first:
  "min_by f xs = Some x \<Longrightarrow>
   \<exists>ys zs. xs = ys @ x # zs \<and> (\<forall>y \<in> set ys. f x < f y) \<and> (\<forall>z \<in> set zs. f x \<le> f z)"
proof (induction xs)
  case Nil
  then show ?case by simp
next
  case (Cons a xs)
  show ?case
  proof (cases "min_by f xs = Some x \<and> f x < f a")
    case True
    then obtain ys zs where "xs = ys @ x # zs" "\<forall>y \<in> set ys. f x < f y" "\<forall>z \<in> set zs. f x \<le> f z"
      using Cons.IH by blast
    with True show ?thesis by (intro exI [of _ "a # ys"] exI [of _ zs]) simp
  next
    case False
    then have "x = a" using Cons.prems by (auto split: option.splits if_splits)
    moreover have "\<forall>z \<in> set xs. f x \<le> f z" using min_by_least [OF Cons.prems] by simp
    ultimately show ?thesis by (intro exI [of _ "[]"] exI [of _ xs]) simp
  qed
qed

subsection \<open>Interface: a log that keeps its newest entries\<close>

text \<open>
  What the code relies on wherever it uses \<open>deque(maxlen=...)\<close>: an append never lets the log
  grow past its capacity and only ever drops the oldest entries.
\<close>

locale bounded_log =
  fixes app :: "'q \<Rightarrow> 'a \<Rightarrow> 'q" and items :: "'q \<Rightarrow> 'a list" and cap :: nat
  assumes items_app: "items (app q x) = drop (Suc (length (items q)) - cap) (items q @ [x])"
begin

lemma app_bounded: "length (items (app q x)) \<le> cap"
  by (simp add: items_app)

lemma app_newest: "0 < cap \<Longrightarrow> last (items (app q x)) = x"
  by (simp add: items_app last_drop)

text \<open>After any run of appends the log holds exactly the newest entries, in order.\<close>

lemma run_items:
  "length (items q) \<le> cap \<Longrightarrow>
   items (foldl app q xs) = drop (length (items q) + length xs - cap) (items q @ xs)"
proof (induction xs arbitrary: q)
  case Nil
  then show ?case by simp
next
  case (Cons x xs)
  have "items (foldl app (app q x) xs) =
      drop (length (items (app q x)) + length xs - cap) (items (app q x) @ xs)"
    by (rule Cons.IH) (rule app_bounded)
  also have "\<dots> = drop (length (items q) + length (x # xs) - cap) (items q @ x # xs)"
  proof (cases "length (items q) < cap")
    case True
    then show ?thesis by (simp add: items_app)
  next
    case False
    with Cons.prems have len: "length (items q) = cap" by simp
    show ?thesis
    proof (cases "items q")
      case Nil
      with len show ?thesis by (simp add: items_app)
    next
      case (Cons a as)
      with len show ?thesis by (simp add: items_app)
    qed
  qed
  finally show ?case by simp
qed

lemma run_bounded: "length (items q) \<le> cap \<Longrightarrow> length (items (foldl app q xs)) \<le> cap"
  by (simp add: run_items)

end

interpretation dq: bounded_log "deque_append n" "\<lambda>xs. xs" n for n
  by unfold_locales (simp add: deque_append_eq)

subsection \<open>Interface: operations that keep an invariant\<close>

text \<open>
  The objects of the program are driven by sequences of calls; each call runs under the
  object's lock, so a run is a left fold of single steps.
\<close>

locale step_system =
  fixes step :: "'s \<Rightarrow> 'e \<Rightarrow> 's" and inv :: "'s \<Rightarrow> bool"
  assumes step_inv: "inv s \<Longrightarrow> inv (step s e)"
begin

lemma run_inv: "inv s \<Longrightarrow> inv (foldl step s es)"
  by (induction es arbitrary: s) (auto intro: step_inv)

end

end
