(* ===== verification/Py_Values.thy ===== *)
theory Py_Values
  imports Prelude
begin

text \<open>
  Python values as the gateway sees them: exceptions, the string methods the sources call, and
  JSON documents (what \<open>json.loads\<close>, a request body or \<open>as_dict\<close> produces) with Python's
  truthiness, \<open>dict.get\<close>, \<open>str()\<close>, \<open>int()\<close> and \<open>float()\<close>.

  The decimal text of a float (\<open>repr\<close>) and the reading of a float or integer from text are
  interpreter internals; where a source line depends on them they are parameters, collected in
  the record \<open>py_text\<close>.
\<close>

datatype py_exc =
    KeyError string
  | ValueError string
  | TypeError string
  | AttributeError string
  | IndexError string

type_synonym 'a py = "py_exc + 'a"

fun py_bind :: "'e + 'a \<Rightarrow> ('a \<Rightarrow> 'e + 'b) \<Rightarrow> 'e + 'b" where
  "py_bind (Inl e) f = Inl e"
| "py_bind (Inr x) f = f x"

subsection \<open>Strings\<close>

definition py_isspace :: "char \<Rightarrow> bool" where
  "py_isspace c =
     (let n = (of_char c :: nat) in 9 \<le> n \<and> n \<le> 13 \<or> 28 \<le> n \<and> n \<le> 32 \<or> n = 133 \<or> n = 160)"

definition py_isdigit :: "char \<Rightarrow> bool" where
  "py_isdigit c = (let n = (of_char c :: nat) in 48 \<le> n \<and> n \<le> 57)"

text \<open>\<open>str.isdigit\<close>, which accepts the superscripts that \<open>int()\<close> then rejects.\<close>

definition str_isdigit :: "string \<Rightarrow> bool" where
  "str_isdigit s \<longleftrightarrow>
     s \<noteq> [] \<and> list_all (\<lambda>c. py_isdigit c \<or> (of_char c :: nat) \<in> {178, 179, 185}) s"

definition py_lower_char :: "char \<Rightarrow> char" where
  "py_lower_char c =
     (let n = (of_char c :: nat)
      in if 65 \<le> n \<and> n \<le> 90 \<or> 192 \<le> n \<and> n \<le> 222 \<and> n \<noteq> 215 then char_of (n + 32) else c)"

definition py_lower :: "string \<Rightarrow> string" where
  "py_lower s = map py_lower_char s"

definition lstrip_by :: "(char \<Rightarrow> bool) \<Rightarrow> string \<Rightarrow> string" where
  "lstrip_by P s = dropWhile P s"

definition rstrip_by :: "(char \<Rightarrow> bool) \<Rightarrow> string \<Rightarrow> string" where
  "rstrip_by P s = rev (dropWhile P (rev s))"

definition strip_by :: "(char \<Rightarrow> bool) \<Rightarrow> string \<Rightarrow> string" where
  "strip_by P s = rstrip_by P (lstrip_by P s)"

definition py_strip :: "string \<Rightarrow> string" where
  "py_strip s = strip_by py_isspace s"

definition startswith :: "string \<Rightarrow> string \<Rightarrow> bool" where
  "startswith s pre \<longleftrightarrow> take (length pre) s = pre"

definition endswith :: "string \<Rightarrow> string \<Rightarrow> bool" where
  "endswith s suf \<longleftrightarrow> length suf \<le> length s \<and> drop (length s - length suf) s = suf"

text \<open>\<open>s.partition(c)\<close> and \<open>s.split(c, 1)\<close> at the first occurrence of one character.\<close>

fun partition_at :: "char \<Rightarrow> string \<Rightarrow> string \<times> bool \<times> string" where
  "partition_at c [] = ([], False, [])"
| "partition_at c (x # xs) =
     (if x = c then ([], True, xs)
      else let (a, found, b) = partition_at c xs in (x # a, found, b))"

text \<open>\<open>s.split(c)\<close> on one character, never empty; \<open>c.join(xs)\<close>.\<close>

fun split_on :: "char \<Rightarrow> string \<Rightarrow> string list" where
  "split_on c [] = [[]]"
| "split_on c (x # xs) =
     (if x = c then [] # split_on c xs
      else case split_on c xs of [] \<Rightarrow> [[x]] | w # ws \<Rightarrow> (x # w) # ws)"

fun join_with :: "string \<Rightarrow> string list \<Rightarrow> string" where
  "join_with sep [] = []"
| "join_with sep [x] = x"
| "join_with sep (x # y # xs) = x @ sep @ join_with sep (y # xs)"

text \<open>\<open>s.rsplit("/", 1)[-1]\<close>: what follows the last occurrence.\<close>

definition last_segment :: "char \<Rightarrow> string \<Rightarrow> string" where
  "last_segment c s = rev (takeWhile (\<lambda>x. x \<noteq> c) (rev s))"

text \<open>\<open>s.replace("-", "_")\<close> for single characters.\<close>

definition replace_char :: "char \<Rightarrow> char \<Rightarrow> string \<Rightarrow> string" where
  "replace_char a b s = map (\<lambda>x. if x = a then b else x) s"

subsection \<open>JSON values\<close>

datatype json =
    JNull
  | JBool bool
  | JInt int
  | JFloat real
  | JStr string
  | JArr "json list"
  | JObj "(string \<times> json) list"

fun truthy :: "json \<Rightarrow> bool" where
  "truthy JNull = False"
| "truthy (JBool b) = b"
| "truthy (JInt i) = (i \<noteq> 0)"
| "truthy (JFloat x) = (x \<noteq> 0)"
| "truthy (JStr s) = (s \<noteq> [])"
| "truthy (JArr xs) = (xs \<noteq> [])"
| "truthy (JObj d) = (d \<noteq> [])"

text \<open>\<open>a or b\<close> on values.\<close>

definition or_else :: "json \<Rightarrow> json \<Rightarrow> json" where
  "or_else a b = (if truthy a then a else b)"

text \<open>\<open>d.get(key, default)\<close> on a dictionary, and on a value that may not be one.\<close>

definition dget_def :: "(string \<times> json) list \<Rightarrow> string \<Rightarrow> json \<Rightarrow> json" where
  "dget_def d k v = (case map_of d k of None \<Rightarrow> v | Some x \<Rightarrow> x)"

abbreviation dget :: "(string \<times> json) list \<Rightarrow> string \<Rightarrow> json" where
  "dget d k \<equiv> dget_def d k JNull"

fun jget_def :: "json \<Rightarrow> string \<Rightarrow> json \<Rightarrow> json py" where
  "jget_def (JObj d) k v = Inr (dget_def d k v)"
| "jget_def _ k v = Inl (AttributeError ''get'')"

text \<open>\<open>v[key]\<close>\<close>

fun py_getitem :: "json \<Rightarrow> string \<Rightarrow> json py" where
  "py_getitem (JObj d) k = (case map_of d k of None \<Rightarrow> Inl (KeyError k) | Some v \<Rightarrow> Inr v)"
| "py_getitem v k = Inl (TypeError ''indices must be integers'')"

fun is_obj :: "json \<Rightarrow> bool" where
  "is_obj (JObj d) = True"
| "is_obj _ = False"

fun is_str :: "json \<Rightarrow> bool" where
  "is_str (JStr s) = True"
| "is_str _ = False"

text \<open>Interpreter internals that a source line may reach: the text of a float and reading numbers.\<close>

record py_text =
  pt_repr_float :: "real \<Rightarrow> string"
  pt_read_float :: "string \<Rightarrow> real option"
  pt_read_int :: "string \<Rightarrow> int option"

definition py_quote :: "string \<Rightarrow> string" where
  "py_quote s =
     (let q = (if CHR 0x27 \<in> set s \<and> CHR 0x22 \<notin> set s then CHR 0x22 else CHR 0x27)
      in [q] @ concat (map (\<lambda>c. if c = q \<or> c = CHR 0x5C then [CHR 0x5C, c]
             else if c = CHR 0x0A then [CHR 0x5C, CHR ''n'']
             else if c = CHR 0x0D then [CHR 0x5C, CHR ''r'']
             else if c = CHR 0x09 then [CHR 0x5C, CHR ''t''] else [c]) s) @ [q])"

text \<open>\<open>repr()\<close> and \<open>str()\<close> of a JSON value; \<open>str\<close> differs on strings only.\<close>

fun py_repr :: "py_text \<Rightarrow> json \<Rightarrow> string" where
  "py_repr t JNull = ''None''"
| "py_repr t (JBool b) = (if b then ''True'' else ''False'')"
| "py_repr t (JInt i) = show_int i"
| "py_repr t (JFloat x) = pt_repr_float t x"
| "py_repr t (JStr s) = py_quote s"
| "py_repr t (JArr xs) = ''['' @ join_with '', '' (map (py_repr t) xs) @ '']''"
| "py_repr t (JObj d) =
     ''{'' @ join_with '', '' (map (\<lambda>kv. py_quote (fst kv) @ '': '' @ py_repr t (snd kv)) d) @ ''}''"

fun py_str :: "py_text \<Rightarrow> json \<Rightarrow> string" where
  "py_str t (JStr s) = s"
| "py_str t v = py_repr t v"

fun py_int :: "py_text \<Rightarrow> json \<Rightarrow> int py" where
  "py_int t (JBool b) = Inr (if b then 1 else 0)"
| "py_int t (JInt i) = Inr i"
| "py_int t (JFloat x) = Inr (py_trunc x)"
| "py_int t (JStr s) =
     (case pt_read_int t s of Some i \<Rightarrow> Inr i | None \<Rightarrow> Inl (ValueError ''invalid literal for int()''))"
| "py_int t v = Inl (TypeError ''int() argument'')"

fun py_float :: "py_text \<Rightarrow> json \<Rightarrow> real py" where
  "py_float t (JBool b) = Inr (if b then 1 else 0)"
| "py_float t (JInt i) = Inr (of_int i)"
| "py_float t (JFloat x) = Inr x"
| "py_float t (JStr s) =
     (case pt_read_float t s of Some x \<Rightarrow> Inr x | None \<Rightarrow> Inl (ValueError ''could not convert string to float''))"
| "py_float t v = Inl (TypeError ''float() argument'')"

subsection \<open>Iteration, length and integer tests\<close>

text \<open>\<open>for x in v\<close>: a list yields its elements, a dictionary its keys, a string its characters.\<close>

fun py_iter :: "json \<Rightarrow> json list py" where
  "py_iter (JArr xs) = Inr xs"
| "py_iter (JObj d) = Inr (map (\<lambda>(k, v). JStr k) d)"
| "py_iter (JStr s) = Inr (map (\<lambda>c. JStr [c]) s)"
| "py_iter v = Inl (TypeError ''object is not iterable'')"

fun py_len :: "json \<Rightarrow> nat py" where
  "py_len (JStr s) = Inr (length s)"
| "py_len (JArr xs) = Inr (length xs)"
| "py_len (JObj d) = Inr (length d)"
| "py_len v = Inl (TypeError ''object has no len()'')"

text \<open>\<open>"k" in v\<close>\<close>

definition is_infix :: "string \<Rightarrow> string \<Rightarrow> bool" where
  "is_infix x s \<longleftrightarrow> list_ex (\<lambda>i. startswith (drop i s) x) [0..<Suc (length s)]"

fun py_contains :: "string \<Rightarrow> json \<Rightarrow> bool py" where
  "py_contains k (JObj d) = Inr (k \<in> fst ` set d)"
| "py_contains k (JArr xs) = Inr (JStr k \<in> set xs)"
| "py_contains k (JStr s) = Inr (is_infix k s)"
| "py_contains k v = Inl (TypeError ''argument is not iterable'')"

text \<open>\<open>isinstance(v, int)\<close>, which holds of booleans too, and the integer it stands for.\<close>

fun int_instance :: "json \<Rightarrow> int option" where
  "int_instance (JInt i) = Some i"
| "int_instance (JBool b) = Some (if b then 1 else 0)"
| "int_instance v = None"

text \<open>A list comprehension whose body may raise: the first exception ends it.\<close>

fun py_map :: "('a \<Rightarrow> 'b py) \<Rightarrow> 'a list \<Rightarrow> 'b list py" where
  "py_map f [] = Inr []"
| "py_map f (x # xs) =
     (case f x of Inl e \<Rightarrow> Inl e
      | Inr y \<Rightarrow> (case py_map f xs of Inl e \<Rightarrow> Inl e | Inr ys \<Rightarrow> Inr (y # ys)))"

text \<open>\<open>xs[:n]\<close>: a negative bound counts from the end.\<close>

definition py_take :: "int \<Rightarrow> 'a list \<Rightarrow> 'a list" where
  "py_take n xs = take (nat (if n < 0 then int (length xs) + n else n)) xs"

text \<open>\<open>xs[n:]\<close>, also for a negative start.\<close>

definition py_drop :: "int \<Rightarrow> 'a list \<Rightarrow> 'a list" where
  "py_drop n xs = drop (nat (if n < 0 then int (length xs) + n else n)) xs"

subsection \<open>json.dumps\<close>

definition hex_char :: "nat \<Rightarrow> char" where
  "hex_char n = (if n < 10 then char_of (n + 48) else char_of (n + 87))"

text \<open>Escapes of \<open>json.dumps\<close> with its default \<open>ensure_ascii=True\<close>.\<close>

definition dumps_char :: "char \<Rightarrow> string" where
  "dumps_char c =
     (let n = (of_char c :: nat)
      in if n = 34 then [CHR 0x5C, CHR 0x22] else if n = 92 then [CHR 0x5C, CHR 0x5C]
         else if n = 10 then [CHR 0x5C, CHR ''n''] else if n = 13 then [CHR 0x5C, CHR ''r'']
         else if n = 9 then [CHR 0x5C, CHR ''t''] else if n = 8 then [CHR 0x5C, CHR ''b'']
         else if n = 12 then [CHR 0x5C, CHR ''f'']
         else if n < 32 \<or> 126 < n
         then [CHR 0x5C, CHR ''u'', CHR ''0'', CHR ''0'', hex_char (n div 16), hex_char (n mod 16)]
         else [c])"

definition dumps_str :: "string \<Rightarrow> string" where
  "dumps_str s = [CHR 0x22] @ concat (map dumps_char s) @ [CHR 0x22]"

fun json_dumps :: "py_text \<Rightarrow> json \<Rightarrow> string" where
  "json_dumps t JNull = ''null''"
| "json_dumps t (JBool b) = (if b then ''true'' else ''false'')"
| "json_dumps t (JInt i) = show_int i"
| "json_dumps t (JFloat x) = pt_repr_float t x"
| "json_dumps t (JStr s) = dumps_str s"
| "json_dumps t (JArr xs) = ''['' @ join_with '', '' (map (json_dumps t) xs) @ '']''"
| "json_dumps t (JObj d) =
     ''{'' @ join_with '', '' (map (\<lambda>kv. dumps_str (fst kv) @ '': '' @ json_dumps t (snd kv)) d) @ ''}''"

subsection \<open>Lemmas\<close>

lemma py_map_length: "py_map f xs = Inr ys \<Longrightarrow> length ys = length xs"
  by (induction xs arbitrary: ys) (auto split: sum.splits)

lemma py_map_total: "(\<forall>x \<in> set xs. f x = Inr (g x)) \<Longrightarrow> py_map f xs = Inr (map g xs)"
  by (induction xs) auto

lemma length_py_take: "length (py_take n xs) \<le> length xs"
  by (simp add: py_take_def)

lemma startswith_iff: "startswith s pre \<longleftrightarrow> (\<exists>t. s = pre @ t)"
  by (metis append_eq_conv_conj append_take_drop_id startswith_def)

lemma endswith_iff: "endswith s suf \<longleftrightarrow> (\<exists>t. s = t @ suf)"
proof
  assume "endswith s suf"
  then have "s = take (length s - length suf) s @ suf"
    by (metis append_take_drop_id endswith_def)
  then show "\<exists>t. s = t @ suf" ..
next
  assume "\<exists>t. s = t @ suf"
  then show "endswith s suf" by (auto simp: endswith_def)
qed

lemma startswith_self [simp]: "startswith s s"
  by (simp add: startswith_def)

lemma py_bind_Inr: "py_bind m f = Inr y \<longleftrightarrow> (\<exists>x. m = Inr x \<and> f x = Inr y)"
  by (cases m) auto

lemma py_bind_Inl: "py_bind m f = Inl e \<longleftrightarrow> m = Inl e \<or> (\<exists>x. m = Inr x \<and> f x = Inl e)"
  by (cases m) auto

lemma partition_at_found:
  "partition_at c s = (a, True, b) \<Longrightarrow> s = a @ c # b \<and> c \<notin> set a"
  by (induction s arbitrary: a) (auto split: if_splits prod.splits)

lemma partition_at_missing:
  "partition_at c s = (a, False, b) \<Longrightarrow> s = a \<and> b = [] \<and> c \<notin> set s"
  by (induction s arbitrary: a) (auto split: if_splits prod.splits)

lemma partition_no_sep: "c \<notin> set s \<Longrightarrow> partition_at c (s @ c # r) = (s, True, r)"
  by (induction s) auto

lemma split_on_nonempty [simp]: "split_on c s \<noteq> []"
  by (induction s) (auto split: list.splits)

lemma join_split: "join_with [c] (split_on c s) = s"
proof (induction s)
  case Nil
  show ?case by simp
next
  case (Cons x xs)
  obtain w ws where w: "split_on c xs = w # ws" by (meson neq_Nil_conv split_on_nonempty)
  with Cons show ?case by (cases ws) auto
qed

lemma last_segment_no_sep: "c \<notin> set (last_segment c s)"
  by (auto simp: last_segment_def dest: set_takeWhileD)

lemma length_strip_by: "length (strip_by P s) \<le> length s"
  by (metis length_dropWhile_le length_rev lstrip_by_def order.trans rstrip_by_def strip_by_def)

lemma jget_obj [simp]: "jget_def (JObj d) k v = Inr (dget_def d k v)"
  by simp

lemma dget_def_update [simp]:
  "dget_def (AList.update k v d) k' u = (if k' = k then v else dget_def d k' u)"
  by (simp add: dget_def_def)

lemma dget_def_Nil [simp]: "dget_def [] k v = v"
  by (simp add: dget_def_def)

lemma dget_def_Cons [simp]: "dget_def ((k, x) # d) k' v = (if k' = k then x else dget_def d k' v)"
  by (simp add: dget_def_def)

end
