(* ===== verification/Backends.thy ===== *)
theory Backends
  imports Engine_Metrics
begin

text \<open>
  The backend registry of \<open>backends.py\<close>: vetting of backend URLs (with the part of
  \<open>urllib.parse.urlsplit\<close> it uses), the \<open>Backend\<close> record and its URLs and headers, the two
  translations between the OpenAI chat shape and TGI's \<open>/generate\<close>, and \<open>BackendPool\<close> with the
  requests it sends. The HTTP client is a parameter; a forward is the request that is sent.
\<close>

subsection \<open>urlsplit\<close>

definition scheme_char :: "char \<Rightarrow> bool" where
  "scheme_char c \<longleftrightarrow> is_alpha c \<or> py_isdigit c \<or> c \<in> {CHR ''+'', CHR ''-'', CHR ''.''}"

definition split_scheme :: "string \<Rightarrow> string \<times> string" where
  "split_scheme url =
     (case partition_at (CHR '':'') url of
        (a, found, b) \<Rightarrow>
          if found \<and> a \<noteq> [] \<and> is_alpha (hd a) \<and> list_all scheme_char a then (py_lower a, b)
          else ([], url))"

text \<open>
  Scheme and network location. Control characters and blanks are dropped from the front, tabs and
  line ends everywhere; whether a bracketed IPv6 host is well formed is the parameter \<open>bracket_ok\<close>
  (the \<open>ipaddress\<close> module).
\<close>

definition urlsplit :: "(string \<Rightarrow> bool) \<Rightarrow> string \<Rightarrow> (string \<times> string) py" where
  "urlsplit bracket_ok url0 =
     (let url1 = dropWhile (\<lambda>c. (of_char c :: nat) \<le> 32) url0;
          url2 = filter (\<lambda>c. (of_char c :: nat) \<notin> {9, 10, 13}) url1;
          (scheme, rest) = split_scheme url2;
          netloc = (if startswith rest ''//''
                    then takeWhile (\<lambda>c. c \<notin> {CHR ''/'', CHR ''?'', CHR ''#''}) (drop 2 rest) else []);
          opened = (CHR ''['' \<in> set netloc); closed = (CHR '']'' \<in> set netloc)
      in if opened \<noteq> closed then Inl (ValueError ''Invalid IPv6 URL'')
         else if opened \<and> \<not> bracket_ok netloc then Inl (ValueError ''Invalid IPv6 URL'')
         else Inr (scheme, netloc))"

text \<open>\<open>SplitResult.hostname\<close>, None when there is none.\<close>

definition hostname_of :: "string \<Rightarrow> string option" where
  "hostname_of netloc =
     (let hostinfo = last_segment (CHR ''@'') netloc;
          (_, have_open, bracketed) = partition_at (CHR ''['') hostinfo;
          host = (if have_open then fst (partition_at (CHR '']'') bracketed)
                  else fst (partition_at (CHR '':'') hostinfo));
          (name, percent, zone) = partition_at (CHR 0x25) host
      in if host = [] then None
         else Some (py_lower name @ (if percent then CHR 0x25 # zone else [])))"

definition blocked_backend_hosts :: "string set" where
  "blocked_backend_hosts = {''169.254.169.254'', ''fd00:ec2::254'', ''metadata.google.internal''}"

text \<open>\<open>shown\<close> is the \<open>repr\<close> of the backend id, which a configuration file may give any type.\<close>

definition vet_url :: "(string \<Rightarrow> bool) \<Rightarrow> json \<Rightarrow> string \<Rightarrow> string py" where
  "vet_url bracket_ok base_url shown =
     (let who = ''backend '' @ shown
      in case base_url of
           JStr s \<Rightarrow>
             (let url = py_strip s
              in if url = [] then Inl (ValueError (who @ '': base_url must be a non-empty URL''))
                 else if list_ex py_isspace url
                 then Inl (ValueError (who @ '': base_url contains whitespace: '' @ py_quote url))
                 else case urlsplit bracket_ok url of
                        Inl e \<Rightarrow> Inl e
                      | Inr (scheme, netloc) \<Rightarrow>
                          if scheme \<notin> {''http'', ''https''}
                          then Inl (ValueError (who @ '': base_url must start with http:// or https:// (got ''
                                      @ py_quote (if scheme = [] then ''no scheme'' else scheme) @ '')''))
                          else (case hostname_of netloc of
                                  None \<Rightarrow> Inl (ValueError (who @ '': base_url has no host: '' @ py_quote url))
                                | Some host \<Rightarrow>
                                    if host \<in> blocked_backend_hosts
                                    then Inl (ValueError (who @ '': refusing to forward to metadata host ''
                                                @ py_quote host))
                                    else Inr url))
         | _ \<Rightarrow> Inl (ValueError (who @ '': base_url must be a non-empty URL'')))"

definition validate_backend_url :: "(string \<Rightarrow> bool) \<Rightarrow> json \<Rightarrow> string \<Rightarrow> string py" where
  "validate_backend_url bracket_ok base_url backend_id = vet_url bracket_ok base_url (py_quote backend_id)"

subsection \<open>Backend\<close>

type_synonym headers = "(string \<times> string) list"

record backend =
  be_id :: string
  be_base_url :: string
  be_tier :: string
  be_model :: "string option"
  be_total_vram_mb :: real
  be_free_vram_mb :: real
  be_weight :: real
  be_prior_slope :: "real option"
  be_prior_intercept :: "real option"
  be_labels :: headers
  be_api_style :: string
  be_api_key :: "string option"
  be_chat_path :: string
  be_completions_path :: string
  be_generate_path :: string
  be_health_path :: string
  be_models_path :: string
  be_metrics_path :: string
  be_timeout_s :: "real option"

text \<open>The dataclass with its defaults, before \<open>__post_init__\<close>.\<close>

definition backend_default :: "string \<Rightarrow> string \<Rightarrow> backend" where
  "backend_default bid url =
     \<lparr>be_id = bid, be_base_url = url, be_tier = ''small'', be_model = None,
      be_total_vram_mb = 24000, be_free_vram_mb = 24000, be_weight = 1, be_prior_slope = None,
      be_prior_intercept = None, be_labels = [], be_api_style = ''openai'', be_api_key = None,
      be_chat_path = ''/v1/chat/completions'', be_completions_path = ''/v1/completions'',
      be_generate_path = ''/generate'', be_health_path = ''/health'', be_models_path = ''/v1/models'',
      be_metrics_path = ''/metrics'', be_timeout_s = None\<rparr>"

definition backend_post_init :: "(string \<Rightarrow> bool) \<Rightarrow> backend \<Rightarrow> backend py" where
  "backend_post_init bracket_ok b =
     py_bind (validate_backend_url bracket_ok (JStr (be_base_url b)) (be_id b))
       (\<lambda>url. Inr (b\<lparr>be_base_url := url\<rparr>))"

definition backend_url :: "backend \<Rightarrow> string \<Rightarrow> string" where
  "backend_url b path =
     rstrip_by (\<lambda>c. c = CHR ''/'') (be_base_url b)
     @ (if startswith path ''/'' then path else ''/'' @ path)"

definition metrics_url :: "backend \<Rightarrow> string" where
  "metrics_url b = backend_url b (be_metrics_path b)"

definition chat_url :: "backend \<Rightarrow> string" where
  "chat_url b =
     (if be_api_style b = ''tgi_generate'' then backend_url b (be_generate_path b)
      else backend_url b (be_chat_path b))"

definition completions_url :: "backend \<Rightarrow> string" where
  "completions_url b =
     (if be_api_style b = ''tgi_generate'' then backend_url b (be_generate_path b)
      else backend_url b (be_completions_path b))"

definition models_url :: "backend \<Rightarrow> string" where
  "models_url b = backend_url b (be_models_path b)"

definition health_url :: "backend \<Rightarrow> string" where
  "health_url b = backend_url b (be_health_path b)"

text \<open>\<open>if x:\<close> on an optional string: present and not empty.\<close>

definition given :: "string option \<Rightarrow> bool" where
  "given x = (case x of None \<Rightarrow> False | Some s \<Rightarrow> s \<noteq> [])"

definition auth_headers :: "backend \<Rightarrow> headers" where
  "auth_headers b =
     (case be_api_key b of
        None \<Rightarrow> []
      | Some k \<Rightarrow> if k = [] then [] else [(''Authorization'', ''Bearer '' @ k)])"

subsection \<open>TGI translation\<close>

text \<open>One chat message as a prompt line: \<open>f"{m.get('role', 'user')}: {m.get('content', '')}"\<close>.\<close>

definition message_line :: "py_text \<Rightarrow> json \<Rightarrow> string py" where
  "message_line t m =
     py_bind (jget_def m ''role'' (JStr ''user'')) (\<lambda>role.
     py_bind (jget_def m ''content'' (JStr [])) (\<lambda>content.
     Inr (py_str t role @ '': '' @ py_str t content)))"

definition tgi_prompt :: "py_text \<Rightarrow> (string \<times> json) list \<Rightarrow> string py" where
  "tgi_prompt t body =
     (let messages = or_else (dget body ''messages'') (JArr [])
      in if truthy messages
         then py_bind (py_iter messages) (\<lambda>ms.
              py_bind (py_map (message_line t) ms) (\<lambda>parts.
              Inr (join_with [CHR 0x0A] parts @ [CHR 0x0A] @ ''assistant:'')))
         else Inr (py_str t (or_else (dget body ''prompt'') (JStr []))))"

text \<open>\<open>if body.get(src) is not None: params[dst] = float(body[src])\<close>\<close>

definition float_param ::
  "py_text \<Rightarrow> (string \<times> json) list \<Rightarrow> string \<times> string \<Rightarrow> (string \<times> json) list \<Rightarrow> (string \<times> json) list py" where
  "float_param t body sd params =
     (if dget body (fst sd) = JNull then Inr params
      else py_bind (py_float t (dget body (fst sd)))
             (\<lambda>x. Inr (AList.update (snd sd) (JFloat x) params)))"

definition temperature_params ::
  "py_text \<Rightarrow> (string \<times> json) list \<Rightarrow> (string \<times> json) list \<Rightarrow> (string \<times> json) list py" where
  "temperature_params t body params =
     (let temperature = dget body ''temperature''
      in if temperature = JNull then Inr (AList.update ''temperature'' (JFloat 0.7) params)
         else py_bind (py_float t temperature) (\<lambda>x.
              Inr (AList.update ''do_sample'' (JBool (x > 0))
                     (AList.update ''temperature'' (JFloat x) params))))"

definition stop_params ::
  "(string \<times> json) list \<Rightarrow> (string \<times> json) list \<Rightarrow> (string \<times> json) list py" where
  "stop_params body params =
     (let stop = dget body ''stop''
      in if stop = JNull then Inr params
         else if is_str stop then Inr (AList.update ''stop_sequences'' (JArr [stop]) params)
         else py_bind (py_iter stop)
                (\<lambda>xs. Inr (AList.update ''stop_sequences'' (JArr xs) params)))"

definition openai_chat_to_tgi_generate :: "py_text \<Rightarrow> (string \<times> json) list \<Rightarrow> json py" where
  "openai_chat_to_tgi_generate t body =
     py_bind (tgi_prompt t body) (\<lambda>prompt.
     let max_new = (if dget body ''max_tokens'' = JNull then dget body ''max_new_tokens''
                    else dget body ''max_tokens'')
     in py_bind (if max_new = JNull then Inr 64 else py_int t max_new) (\<lambda>n.
        py_bind (temperature_params t body [(''max_new_tokens'', JInt n), (''do_sample'', JBool True)])
          (\<lambda>p0.
        py_bind (float_param t body (''top_p'', ''top_p'') p0) (\<lambda>p1.
        py_bind (float_param t body (''presence_penalty'', ''repetition_penalty'') p1) (\<lambda>p2.
        py_bind (float_param t body (''frequency_penalty'', ''frequency_penalty'') p2) (\<lambda>p3.
        py_bind (stop_params body p3) (\<lambda>params.
        Inr (JObj [(''inputs'', JStr prompt), (''parameters'', JObj params)]))))))))"

text \<open>The text and the details of a TGI answer, which is a list of generations or one generation.\<close>

definition tgi_parts :: "json \<Rightarrow> (json \<times> (string \<times> json) list) py" where
  "tgi_parts raw =
     (let details_of = (\<lambda>v. case v of JObj d \<Rightarrow> d | _ \<Rightarrow> [])
      in case raw of
           JArr (r # rs) \<Rightarrow>
             py_bind (jget_def r ''generated_text'' JNull) (\<lambda>g.
             py_bind (jget_def r ''details'' JNull) (\<lambda>d.
             Inr (or_else g (JStr []), details_of d)))
         | JObj d \<Rightarrow>
             Inr (or_else (or_else (dget d ''generated_text'') (dget d ''text'')) (JStr []),
                  details_of (dget d ''details''))
         | _ \<Rightarrow> Inr (JStr [], []))"

text \<open>The engine's own token count when it is a positive integer, else a quarter of the length.\<close>

definition tgi_completion_tokens :: "json \<Rightarrow> (string \<times> json) list \<Rightarrow> (json \<times> int) py" where
  "tgi_completion_tokens text details =
     (let reported = dget details ''generated_tokens''
      in case int_instance reported of
           Some n \<Rightarrow> if n \<le> 0 then py_bind (py_len text) (\<lambda>k. let m = max 1 (int k div 4) in Inr (JInt m, m))
                     else Inr (reported, n)
         | None \<Rightarrow> py_bind (py_len text) (\<lambda>k. let m = max 1 (int k div 4) in Inr (JInt m, m)))"

definition tgi_generate_to_openai_chat :: "int \<Rightarrow> json \<Rightarrow> json \<Rightarrow> int \<Rightarrow> json py" where
  "tgi_generate_to_openai_chat now_ms raw model prompt_tokens =
     py_bind (tgi_parts raw) (\<lambda>(text, details).
     py_bind (tgi_completion_tokens text details) (\<lambda>(completion_tokens, n).
     let prompt_n = (if prompt_tokens > 0 then prompt_tokens else 0)
     in Inr (JObj
          [(''id'', JStr (''chatcmpl-tgi-'' @ show_int now_ms)),
           (''object'', JStr ''chat.completion''),
           (''created'', JInt (now_ms div 1000)),
           (''model'', model),
           (''choices'', JArr [JObj
              [(''index'', JInt 0),
               (''message'', JObj [(''role'', JStr ''assistant''), (''content'', text)]),
               (''finish_reason'', JStr ''stop'')]]),
           (''usage'', JObj
              [(''prompt_tokens'', JInt prompt_n),
               (''completion_tokens'', completion_tokens),
               (''total_tokens'', JInt (prompt_n + n))])])))"

subsection \<open>BackendPool\<close>

type_synonym pool = "backend dict"

definition pool_add :: "pool \<Rightarrow> backend \<Rightarrow> pool" where
  "pool_add p b = AList.update (be_id b) b p"

definition pool_init :: "backend list \<Rightarrow> pool" where
  "pool_init bs = foldl pool_add [] bs"

definition pool_get :: "pool \<Rightarrow> string \<Rightarrow> backend py" where
  "pool_get p bid = (case map_of p bid of None \<Rightarrow> Inl (KeyError bid) | Some b \<Rightarrow> Inr b)"

definition pool_list :: "pool \<Rightarrow> backend list" where
  "pool_list p = map snd p"

text \<open>The client parameter answers a GET with a status, or None when it raises.\<close>

definition probe_health ::
  "(string \<Rightarrow> headers \<Rightarrow> int option) \<Rightarrow> pool \<Rightarrow> string \<Rightarrow> bool py" where
  "probe_health client p bid =
     py_bind (pool_get p bid) (\<lambda>b.
     Inr (list_ex (\<lambda>url. case client url (auth_headers b) of
                           None \<Rightarrow> False | Some status \<Rightarrow> status < 500)
                  [health_url b, models_url b]))"

record post_request =
  pr_url :: string
  pr_payload :: json
  pr_headers :: headers
  pr_timeout :: real

definition forward_timeout :: "backend \<Rightarrow> real \<Rightarrow> real" where
  "forward_timeout b timeout = (case be_timeout_s b of None \<Rightarrow> timeout | Some t \<Rightarrow> t)"

definition override_model :: "backend \<Rightarrow> (string \<times> json) list \<Rightarrow> (string \<times> json) list" where
  "override_model b payload =
     (if given (be_model b) then AList.update ''model'' (JStr (the (be_model b))) payload else payload)"

text \<open>The request of \<open>forward_chat\<close> and \<open>forward_completions\<close>, which differ in the URL only.\<close>

definition forward_to ::
  "py_text \<Rightarrow> (backend \<Rightarrow> string) \<Rightarrow> pool \<Rightarrow> string \<Rightarrow> (string \<times> json) list \<Rightarrow> real \<Rightarrow> post_request py" where
  "forward_to t url_of p bid body timeout =
     py_bind (pool_get p bid) (\<lambda>b.
     py_bind (if be_api_style b = ''tgi_generate'' then openai_chat_to_tgi_generate t body
              else Inr (JObj (override_model b body))) (\<lambda>payload.
     Inr \<lparr>pr_url = url_of b, pr_payload = payload, pr_headers = auth_headers b,
          pr_timeout = forward_timeout b timeout\<rparr>))"

definition forward_chat ::
  "py_text \<Rightarrow> pool \<Rightarrow> string \<Rightarrow> (string \<times> json) list \<Rightarrow> real \<Rightarrow> post_request py" where
  "forward_chat t p bid body timeout = forward_to t chat_url p bid body timeout"

definition forward_completions ::
  "py_text \<Rightarrow> pool \<Rightarrow> string \<Rightarrow> (string \<times> json) list \<Rightarrow> real \<Rightarrow> post_request py" where
  "forward_completions t p bid body timeout = forward_to t completions_url p bid body timeout"

end
