(* ===== verification/Nlms.thy ===== *)
theory Nlms
  imports Prelude
begin

text \<open>
  The latency learners of \<open>scheduler.py\<close>: \<open>DualTimescaleNLMS\<close> (record \<open>nlms\<close>) and the
  \<open>SimpleRLS\<close> baseline (record \<open>rls\<close>). One definition per method; \<open>update\<close> is split at the two
  nested blocks of the source (\<open>nlms_clip\<close> for the guard on a contended sample, \<open>nlms_learn\<close>
  for the whole non-frozen block). The interface \<open>latency_model\<close> says what the router relies on,
  and both learners are interpreted in it.
\<close>

subsection \<open>DualTimescaleNLMS\<close>

record nlms =
  n_robust :: bool
  n_err_clip :: real
  n_step_frac :: real
  n_slope_max :: real
  n_intercept_max :: real
  n_clipped_updates :: nat
  n_clip_streak :: nat
  n_contended_updates :: nat
  n_recent :: "real list"
  n_inflight_log :: "int list"
  n_mu_fast :: real
  n_mu_slow :: real
  n_mu_bias :: real
  n_blend :: real
  n_fast_slope :: real
  n_slow_slope :: real
  n_intercept :: real
  n_avg_latency :: real
  n_dual :: bool
  n_frozen :: bool
  n_tier :: string
  n_total_vram_mb :: real
  n_update_count :: nat
  n_sum_abs :: real
  n_sum_rel :: real
  n_sum_sq :: real
  n_pending :: int
  n_free_vram_mb :: real
  n_healthy :: bool

text \<open>The keyword arguments of \<open>DualTimescaleNLMS.__init__\<close>.\<close>

record nlms_args =
  a_mu_fast :: real
  a_mu_slow :: real
  a_mu_bias :: real
  a_blend :: real
  a_initial_slope :: real
  a_initial_intercept :: real
  a_dual :: bool
  a_frozen :: bool
  a_tier :: string
  a_total_vram_mb :: real
  a_robust :: bool
  a_err_clip :: real
  a_step_frac :: real
  a_slope_max :: real
  a_intercept_max :: real

definition nlms_default_args :: nlms_args where
  "nlms_default_args =
     \<lparr>a_mu_fast = 0.1, a_mu_slow = 0.01, a_mu_bias = 0.005, a_blend = 0.8,
      a_initial_slope = 2, a_initial_intercept = 150, a_dual = True, a_frozen = False,
      a_tier = ''small'', a_total_vram_mb = 24000, a_robust = True, a_err_clip = 2,
      a_step_frac = 0.05, a_slope_max = 200, a_intercept_max = 1000000\<rparr>"

definition nlms_init :: "nlms_args \<Rightarrow> nlms" where
  "nlms_init a =
     \<lparr>n_robust = a_robust a, n_err_clip = a_err_clip a, n_step_frac = a_step_frac a,
      n_slope_max = a_slope_max a, n_intercept_max = a_intercept_max a,
      n_clipped_updates = 0, n_clip_streak = 0, n_contended_updates = 0,
      n_recent = [], n_inflight_log = [],
      n_mu_fast = a_mu_fast a, n_mu_slow = a_mu_slow a, n_mu_bias = a_mu_bias a,
      n_blend = a_blend a,
      n_fast_slope = a_initial_slope a, n_slow_slope = a_initial_slope a,
      n_intercept = a_initial_intercept a, n_avg_latency = 0,
      n_dual = (a_dual a \<and> \<not> a_frozen a), n_frozen = a_frozen a, n_tier = a_tier a,
      n_total_vram_mb = a_total_vram_mb a, n_update_count = 0,
      n_sum_abs = 0, n_sum_rel = 0, n_sum_sq = 0, n_pending = 0,
      n_free_vram_mb = a_total_vram_mb a, n_healthy = True\<rparr>"

definition effective_slope :: "nlms \<Rightarrow> real" where
  "effective_slope p =
     (if n_dual p then n_blend p * n_fast_slope p + (1 - n_blend p) * n_slow_slope p
      else n_fast_slope p)"

definition nlms_mode :: "nlms \<Rightarrow> string" where
  "nlms_mode p =
     (if n_frozen p then ''STATIC'' else if n_dual p then ''DUAL'' else ''SINGLE'')"

definition nlms_estimate :: "nlms \<Rightarrow> int \<Rightarrow> real \<times> real" where
  "nlms_estimate p tokens =
     (let base = effective_slope p * of_int (max 1 tokens) + n_intercept p
      in (base, if n_avg_latency p > 0 then n_avg_latency p else base))"

definition robust_scale :: "nlms \<Rightarrow> real \<Rightarrow> real" where
  "robust_scale p pred =
     (if length (n_recent p) \<ge> 8
      then let xs = sort (n_recent p)
           in max (xs ! nat \<lfloor>0.25 * real (length xs - 1)\<rfloor>) 1
      else max pred 1)"

text \<open>The guard on a contended sample: the clipped error, the widening factor, the counters.\<close>

definition nlms_clip :: "nlms \<Rightarrow> real \<Rightarrow> real \<Rightarrow> nlms \<times> real \<times> real" where
  "nlms_clip p pred err =
     (let p1 = p\<lparr>n_contended_updates := n_contended_updates p + 1\<rparr>;
          widen = 2 ^ min (n_clip_streak p1) 6;
          base = n_err_clip p1 * robust_scale p1 pred;
          limit = base * widen;
          update_err = (if err > limit then limit else if err < - limit then - limit else err);
          p2 = (if update_err \<noteq> err
                then p1\<lparr>n_clipped_updates := n_clipped_updates p1 + 1,
                        n_clip_streak := n_clip_streak p1 + 1\<rparr>
                else if \<bar>err\<bar> \<le> base then p1\<lparr>n_clip_streak := 0\<rparr> else p1)
      in (p2, update_err, widen))"

text \<open>\<open>max(-step_cap, min(step_cap, step))\<close>, with None for a cap of \<open>float("inf")\<close>.\<close>

fun cap_step :: "real option \<Rightarrow> real \<Rightarrow> real" where
  "cap_step None step = step"
| "cap_step (Some c) step = clamp (- c) c step"

definition nlms_trusted :: "nlms \<Rightarrow> int \<Rightarrow> bool" where
  "nlms_trusted p inflight \<longleftrightarrow> \<not> n_robust p \<or> inflight \<le> 1"

definition nlms_learn :: "nlms \<Rightarrow> real \<Rightarrow> real \<Rightarrow> int \<Rightarrow> int \<Rightarrow> nlms" where
  "nlms_learn p pred err tokens inflight =
     (let trusted = nlms_trusted p inflight;
          (p1, update_err, widen) =
            (if trusted then (p\<lparr>n_clip_streak := 0\<rparr>, err, 1) else nlms_clip p pred err);
          grad = update_err / of_int tokens;
          step_cap = (if trusted then None
                      else Some (max (n_step_frac p1 * widen * pred / of_int tokens) (1 / 10 ^ 9)));
          fast = n_fast_slope p1 + cap_step step_cap (n_mu_fast p1 * grad);
          slow = (if n_dual p1 then n_slow_slope p1 + cap_step step_cap (n_mu_slow p1 * grad)
                  else fast);
          icpt = n_intercept p1 + n_mu_bias p1 * update_err
      in p1\<lparr>n_fast_slope := clamp 0.1 (n_slope_max p1) fast,
            n_slow_slope := clamp 0.1 (n_slope_max p1) slow,
            n_intercept := clamp 0.1 (n_intercept_max p1) icpt\<rparr>)"

text \<open>The dictionary that \<open>update\<close> returns.\<close>

record update_info =
  ui_predicted :: real
  ui_actual :: real
  ui_abs_err :: real
  ui_rel_err :: real
  ui_fast_slope :: real
  ui_slow_slope :: real

definition nlms_update :: "nlms \<Rightarrow> real \<Rightarrow> int \<Rightarrow> int \<Rightarrow> nlms \<times> update_info" where
  "nlms_update p actual_ms tokens0 inflight =
     (let tokens = max 1 tokens0;
          pred = effective_slope p * of_int tokens + n_intercept p;
          err = actual_ms - pred;
          abs_err = \<bar>err\<bar>;
          rel = abs_err / max actual_ms 1;
          p1 = p\<lparr>n_sum_abs := n_sum_abs p + abs_err, n_sum_rel := n_sum_rel p + rel,
                 n_sum_sq := n_sum_sq p + err * err, n_update_count := n_update_count p + 1\<rparr>;
          p2 = (if n_frozen p1 then p1 else nlms_learn p1 pred err tokens inflight);
          p3 = p2\<lparr>n_recent := deque_append 32 (n_recent p2) actual_ms,
                  n_avg_latency := (if n_avg_latency p2 \<le> 0 then actual_ms
                                    else 0.9 * n_avg_latency p2 + 0.1 * actual_ms)\<rparr>
      in (p3, \<lparr>ui_predicted = pred, ui_actual = actual_ms, ui_abs_err = abs_err,
               ui_rel_err = rel, ui_fast_slope = n_fast_slope p3,
               ui_slow_slope = n_slow_slope p3\<rparr>))"

subsection \<open>SimpleRLS\<close>

record rls =
  r_lam :: real
  r_slope :: real
  r_intercept :: real
  r_p00 :: real
  r_p01 :: real
  r_p10 :: real
  r_p11 :: real
  r_avg_latency :: real
  r_update_count :: nat

definition rls_init :: "real \<Rightarrow> real \<Rightarrow> real \<Rightarrow> rls" where
  "rls_init lam slope intercept =
     \<lparr>r_lam = lam, r_slope = slope, r_intercept = intercept,
      r_p00 = 1000, r_p01 = 0, r_p10 = 0, r_p11 = 1000, r_avg_latency = 0, r_update_count = 0\<rparr>"

definition rls_estimate :: "rls \<Rightarrow> int \<Rightarrow> real \<times> real" where
  "rls_estimate r tokens =
     (let base = r_slope r * of_int (max 1 tokens) + r_intercept r
      in (base, if r_avg_latency r > 0 then r_avg_latency r else base))"

definition rls_update :: "rls \<Rightarrow> real \<Rightarrow> int \<Rightarrow> rls" where
  "rls_update r actual_ms tokens0 =
     (let tokens = max 1 tokens0;
          x0 = of_int tokens; x1 = 1;
          pred = r_slope r * x0 + r_intercept r;
          err = actual_ms - pred;
          px0 = r_p00 r * x0 + r_p01 r * x1;
          px1 = r_p10 r * x0 + r_p11 r * x1;
          denom = max (1 / 10 ^ 9) (r_lam r + x0 * px0 + x1 * px1);
          k0 = px0 / denom; k1 = px1 / denom;
          slope = r_slope r + k0 * err;
          intercept = r_intercept r + k1 * err;
          p00 = r_p00 r; p01 = r_p01 r; p10 = r_p10 r; p11 = r_p11 r
      in r\<lparr>r_p00 := (p00 - k0 * (x0 * p00 + x1 * p10)) / r_lam r,
           r_p01 := (p01 - k0 * (x0 * p01 + x1 * p11)) / r_lam r,
           r_p10 := (p10 - k1 * (x0 * p00 + x1 * p10)) / r_lam r,
           r_p11 := (p11 - k1 * (x0 * p01 + x1 * p11)) / r_lam r,
           r_slope := max 0.1 slope,
           r_intercept := max 0.1 intercept,
           r_update_count := r_update_count r + 1,
           r_avg_latency := (if r_avg_latency r \<le> 0 then actual_ms
                             else 0.9 * r_avg_latency r + 0.1 * actual_ms)\<rparr>)"


subsection \<open>Well-formed learners\<close>

definition nlms_ok :: "nlms \<Rightarrow> bool" where
  "nlms_ok p \<longleftrightarrow>
     1 / 10 \<le> n_fast_slope p \<and> 1 / 10 \<le> n_slow_slope p \<and> 1 / 10 \<le> n_intercept p \<and>
     0 \<le> n_blend p \<and> n_blend p \<le> 1"

text \<open>In addition the parameters lie below their configured ceilings.\<close>

definition nlms_within :: "nlms \<Rightarrow> bool" where
  "nlms_within p \<longleftrightarrow>
     nlms_ok p \<and> n_fast_slope p \<le> n_slope_max p \<and> n_slow_slope p \<le> n_slope_max p \<and>
     n_intercept p \<le> n_intercept_max p"

definition rls_ok :: "rls \<Rightarrow> bool" where
  "rls_ok r \<longleftrightarrow> 1 / 10 \<le> r_slope r \<and> 1 / 10 \<le> r_intercept r"

text \<open>The covariance of the RLS filter: symmetric and positive definite.\<close>

definition rls_posdef :: "rls \<Rightarrow> bool" where
  "rls_posdef r \<longleftrightarrow>
     r_p01 r = r_p10 r \<and> 0 < r_p00 r \<and> 0 < r_p11 r \<and> 0 < r_p00 r * r_p11 r - r_p01 r * r_p10 r"

text \<open>The bound that the guard puts on the error of one contended sample.\<close>

definition clip_widen :: "nlms \<Rightarrow> real" where
  "clip_widen p = 2 ^ min (n_clip_streak p) 6"

definition clip_limit :: "nlms \<Rightarrow> real \<Rightarrow> real" where
  "clip_limit p pred = n_err_clip p * robust_scale p pred * clip_widen p"

subsection \<open>What the guard does\<close>

lemma clip_widen_bounds: "1 \<le> clip_widen p" "clip_widen p \<le> 64"
proof -
  show "1 \<le> clip_widen p" by (simp add: clip_widen_def)
  have "(2::real) ^ min (n_clip_streak p) 6 \<le> 2 ^ 6"
    by (rule power_increasing) auto
  then show "clip_widen p \<le> 64" by (simp add: clip_widen_def)
qed

lemma robust_scale_ge_1 [simp]: "1 \<le> robust_scale p pred"
  by (simp add: robust_scale_def Let_def)

lemma clip_limit_nonneg: "0 \<le> n_err_clip p \<Longrightarrow> 0 \<le> clip_limit p pred"
proof -
  assume "0 \<le> n_err_clip p"
  moreover have "0 \<le> robust_scale p pred" using robust_scale_ge_1 [of p pred] by linarith
  moreover have "0 \<le> clip_widen p" using clip_widen_bounds(1) [of p] by linarith
  ultimately show ?thesis by (simp add: clip_limit_def)
qed

lemma robust_scale_contended [simp]:
  "robust_scale (p\<lparr>n_contended_updates := c\<rparr>) pred = robust_scale p pred"
  by (simp add: robust_scale_def)

lemma nlms_clip_error:
  assumes "0 \<le> n_err_clip p"
  shows "fst (snd (nlms_clip p pred err)) = clamp (- clip_limit p pred) (clip_limit p pred) err"
  using clip_limit_nonneg [OF assms, of pred]
  by (auto simp: nlms_clip_def clip_limit_def clip_widen_def clamp_def Let_def max_def min_def)

lemma nlms_clip_widen [simp]: "snd (snd (nlms_clip p pred err)) = clip_widen p"
  by (simp add: nlms_clip_def clip_widen_def Let_def)

text \<open>The guard touches only its three counters.\<close>

lemma nlms_clip_frame:
  "fst (nlms_clip p pred err) =
     p\<lparr>n_contended_updates := n_contended_updates p + 1,
       n_clipped_updates := n_clipped_updates (fst (nlms_clip p pred err)),
       n_clip_streak := n_clip_streak (fst (nlms_clip p pred err))\<rparr>"
  by (simp add: nlms_clip_def Let_def)

lemma nlms_clip_fields [simp]:
  "n_fast_slope (fst (nlms_clip p pred err)) = n_fast_slope p"
  "n_slow_slope (fst (nlms_clip p pred err)) = n_slow_slope p"
  "n_intercept (fst (nlms_clip p pred err)) = n_intercept p"
  "n_blend (fst (nlms_clip p pred err)) = n_blend p"
  "n_dual (fst (nlms_clip p pred err)) = n_dual p"
  "n_mu_fast (fst (nlms_clip p pred err)) = n_mu_fast p"
  "n_mu_slow (fst (nlms_clip p pred err)) = n_mu_slow p"
  "n_mu_bias (fst (nlms_clip p pred err)) = n_mu_bias p"
  "n_step_frac (fst (nlms_clip p pred err)) = n_step_frac p"
  "n_slope_max (fst (nlms_clip p pred err)) = n_slope_max p"
  "n_intercept_max (fst (nlms_clip p pred err)) = n_intercept_max p"
  "n_avg_latency (fst (nlms_clip p pred err)) = n_avg_latency p"
  "n_recent (fst (nlms_clip p pred err)) = n_recent p"
  "n_inflight_log (fst (nlms_clip p pred err)) = n_inflight_log p"
  "n_pending (fst (nlms_clip p pred err)) = n_pending p"
  "n_healthy (fst (nlms_clip p pred err)) = n_healthy p"
  "n_frozen (fst (nlms_clip p pred err)) = n_frozen p"
  "n_robust (fst (nlms_clip p pred err)) = n_robust p"
  "n_err_clip (fst (nlms_clip p pred err)) = n_err_clip p"
  "n_tier (fst (nlms_clip p pred err)) = n_tier p"
  "n_total_vram_mb (fst (nlms_clip p pred err)) = n_total_vram_mb p"
  "n_free_vram_mb (fst (nlms_clip p pred err)) = n_free_vram_mb p"
  "n_sum_abs (fst (nlms_clip p pred err)) = n_sum_abs p"
  "n_sum_rel (fst (nlms_clip p pred err)) = n_sum_rel p"
  "n_update_count (fst (nlms_clip p pred err)) = n_update_count p"
  by (simp_all add: nlms_clip_def Let_def)

subsection \<open>One learning step\<close>

definition learn_step_cap :: "nlms \<Rightarrow> real \<Rightarrow> int \<Rightarrow> real" where
  "learn_step_cap p pred tokens =
     max (n_step_frac p * clip_widen p * pred / of_int tokens) (1 / 10 ^ 9)"

lemma learn_step_cap_pos: "0 < learn_step_cap p pred tokens"
  by (simp add: learn_step_cap_def less_max_iff_disj)

lemma nlms_learn_fields:
  fixes p pred err tokens k
  defines "q \<equiv> nlms_learn p pred err tokens k"
  shows "1 / 10 \<le> n_fast_slope q" "1 / 10 \<le> n_slow_slope q" "1 / 10 \<le> n_intercept q"
    "1 / 10 \<le> n_slope_max p \<Longrightarrow> n_fast_slope q \<le> n_slope_max p"
    "1 / 10 \<le> n_slope_max p \<Longrightarrow> n_slow_slope q \<le> n_slope_max p"
    "1 / 10 \<le> n_intercept_max p \<Longrightarrow> n_intercept q \<le> n_intercept_max p"
  unfolding q_def nlms_learn_def Let_def
  by (auto simp: case_prod_beta intro: clamp_le)

lemma nlms_learn_frame [simp]:
  "n_blend (nlms_learn p pred err tokens k) = n_blend p"
  "n_dual (nlms_learn p pred err tokens k) = n_dual p"
  "n_slope_max (nlms_learn p pred err tokens k) = n_slope_max p"
  "n_intercept_max (nlms_learn p pred err tokens k) = n_intercept_max p"
  "n_avg_latency (nlms_learn p pred err tokens k) = n_avg_latency p"
  "n_recent (nlms_learn p pred err tokens k) = n_recent p"
  "n_inflight_log (nlms_learn p pred err tokens k) = n_inflight_log p"
  "n_pending (nlms_learn p pred err tokens k) = n_pending p"
  "n_healthy (nlms_learn p pred err tokens k) = n_healthy p"
  "n_frozen (nlms_learn p pred err tokens k) = n_frozen p"
  "n_robust (nlms_learn p pred err tokens k) = n_robust p"
  "n_err_clip (nlms_learn p pred err tokens k) = n_err_clip p"
  "n_step_frac (nlms_learn p pred err tokens k) = n_step_frac p"
  "n_mu_fast (nlms_learn p pred err tokens k) = n_mu_fast p"
  "n_mu_slow (nlms_learn p pred err tokens k) = n_mu_slow p"
  "n_mu_bias (nlms_learn p pred err tokens k) = n_mu_bias p"
  "n_tier (nlms_learn p pred err tokens k) = n_tier p"
  "n_total_vram_mb (nlms_learn p pred err tokens k) = n_total_vram_mb p"
  "n_free_vram_mb (nlms_learn p pred err tokens k) = n_free_vram_mb p"
  "n_sum_abs (nlms_learn p pred err tokens k) = n_sum_abs p"
  "n_sum_rel (nlms_learn p pred err tokens k) = n_sum_rel p"
  "n_update_count (nlms_learn p pred err tokens k) = n_update_count p"
  by (simp_all add: nlms_learn_def Let_def case_prod_beta)

text \<open>A contended sample moves each parameter by at most its cap, whatever the sample was.\<close>

lemma nlms_learn_contended:
  fixes p pred err tokens k
  defines "q \<equiv> nlms_learn p pred err tokens k"
  assumes "\<not> nlms_trusted p k" and "nlms_within p" and "0 \<le> n_err_clip p"
  shows "\<bar>n_fast_slope q - n_fast_slope p\<bar> \<le> learn_step_cap p pred tokens"
    and "n_dual p \<Longrightarrow> \<bar>n_slow_slope q - n_slow_slope p\<bar> \<le> learn_step_cap p pred tokens"
    and "\<bar>n_intercept q - n_intercept p\<bar> \<le> \<bar>n_mu_bias p\<bar> * clip_limit p pred"
proof -
  let ?c = "learn_step_cap p pred tokens" and ?l = "clip_limit p pred"
  have c: "0 \<le> ?c" using learn_step_cap_pos [of p pred tokens] by simp
  have l: "\<bar>clamp (- ?l) ?l err\<bar> \<le> ?l" using clip_limit_nonneg assms by (intro abs_clamp_sym) auto
  show "\<bar>n_fast_slope q - n_fast_slope p\<bar> \<le> ?c"
    using assms abs_clamp_sym [OF c]
    by (auto simp: q_def nlms_learn_def Let_def case_prod_beta nlms_within_def nlms_ok_def
        learn_step_cap_def intro: order.trans [OF clamp_nonexpansive])
  show "\<bar>n_slow_slope q - n_slow_slope p\<bar> \<le> ?c" if "n_dual p"
    using assms that abs_clamp_sym [OF c]
    by (auto simp: q_def nlms_learn_def Let_def case_prod_beta nlms_within_def nlms_ok_def
        learn_step_cap_def intro: order.trans [OF clamp_nonexpansive])
  have "\<bar>n_mu_bias p * clamp (- ?l) ?l err\<bar> \<le> \<bar>n_mu_bias p\<bar> * ?l"
    using l by (simp add: abs_mult mult_left_mono)
  then show "\<bar>n_intercept q - n_intercept p\<bar> \<le> \<bar>n_mu_bias p\<bar> * ?l"
    using assms
    by (auto simp: q_def nlms_learn_def Let_def case_prod_beta nlms_within_def nlms_ok_def
        nlms_clip_error intro: order.trans [OF clamp_nonexpansive])
qed

lemma nlms_learn_trusted:
  "nlms_trusted p k \<Longrightarrow>
   nlms_learn p pred err tokens k =
     (let fast = n_fast_slope p + n_mu_fast p * (err / of_int tokens);
          slow = (if n_dual p then n_slow_slope p + n_mu_slow p * (err / of_int tokens) else fast)
      in p\<lparr>n_clip_streak := 0,
           n_fast_slope := clamp 0.1 (n_slope_max p) fast,
           n_slow_slope := clamp 0.1 (n_slope_max p) slow,
           n_intercept := clamp 0.1 (n_intercept_max p) (n_intercept p + n_mu_bias p * err)\<rparr>)"
  by (simp add: nlms_learn_def Let_def)

subsection \<open>The whole update\<close>

lemma fst_nlms_estimate:
  "fst (nlms_estimate p n) = effective_slope p * of_int (max 1 n) + n_intercept p"
  by (simp add: nlms_estimate_def Let_def)

text \<open>The learner as \<open>update\<close> sees it once the error statistics are booked.\<close>

definition booked :: "nlms \<Rightarrow> real \<Rightarrow> int \<Rightarrow> nlms" where
  "booked p y n =
     (let err = y - fst (nlms_estimate p n)
      in p\<lparr>n_sum_abs := n_sum_abs p + \<bar>err\<bar>, n_sum_rel := n_sum_rel p + \<bar>err\<bar> / max y 1,
           n_sum_sq := n_sum_sq p + err * err, n_update_count := n_update_count p + 1\<rparr>)"

lemma booked_fields [simp]:
  "nlms_trusted (booked p y n) k = nlms_trusted p k"
  "nlms_within (booked p y n) = nlms_within p"
  "nlms_ok (booked p y n) = nlms_ok p"
  "effective_slope (booked p y n) = effective_slope p"
  "clip_limit (booked p y n) e = clip_limit p e"
  "learn_step_cap (booked p y n) e t = learn_step_cap p e t"
  "n_err_clip (booked p y n) = n_err_clip p"
  "n_mu_bias (booked p y n) = n_mu_bias p"
  "n_mu_fast (booked p y n) = n_mu_fast p"
  "n_mu_slow (booked p y n) = n_mu_slow p"
  "n_dual (booked p y n) = n_dual p"
  "n_frozen (booked p y n) = n_frozen p"
  "n_fast_slope (booked p y n) = n_fast_slope p"
  "n_slow_slope (booked p y n) = n_slow_slope p"
  "n_intercept (booked p y n) = n_intercept p"
  "n_blend (booked p y n) = n_blend p"
  "n_slope_max (booked p y n) = n_slope_max p"
  "n_intercept_max (booked p y n) = n_intercept_max p"
  "n_avg_latency (booked p y n) = n_avg_latency p"
  "n_recent (booked p y n) = n_recent p"
  "n_inflight_log (booked p y n) = n_inflight_log p"
  "n_pending (booked p y n) = n_pending p"
  "n_healthy (booked p y n) = n_healthy p"
  "n_robust (booked p y n) = n_robust p"
  "n_step_frac (booked p y n) = n_step_frac p"
  "n_clip_streak (booked p y n) = n_clip_streak p"
  "robust_scale (booked p y n) e = robust_scale p e"
  "n_tier (booked p y n) = n_tier p"
  "n_total_vram_mb (booked p y n) = n_total_vram_mb p"
  "n_free_vram_mb (booked p y n) = n_free_vram_mb p"
  by (simp_all add: booked_def Let_def nlms_trusted_def nlms_within_def nlms_ok_def
      effective_slope_def clip_limit_def robust_scale_def learn_step_cap_def clip_widen_def)

definition learned :: "nlms \<Rightarrow> real \<Rightarrow> int \<Rightarrow> int \<Rightarrow> nlms" where
  "learned p y n k =
     (if n_frozen p then booked p y n
      else nlms_learn (booked p y n) (fst (nlms_estimate p n)) (y - fst (nlms_estimate p n))
             (max 1 n) k)"

lemma nlms_update_eq:
  "fst (nlms_update p y n k) =
     (learned p y n k)
       \<lparr>n_recent := deque_append 32 (n_recent p) y,
        n_avg_latency := (if n_avg_latency p \<le> 0 then y else 0.9 * n_avg_latency p + 0.1 * y)\<rparr>"
  by (simp add: nlms_update_def learned_def booked_def fst_nlms_estimate Let_def)

lemma nlms_update_fields [simp]:
  "n_fast_slope (fst (nlms_update p y n k)) = n_fast_slope (learned p y n k)"
  "n_slow_slope (fst (nlms_update p y n k)) = n_slow_slope (learned p y n k)"
  "n_intercept (fst (nlms_update p y n k)) = n_intercept (learned p y n k)"
  "effective_slope (fst (nlms_update p y n k)) = effective_slope (learned p y n k)"
  "n_blend (fst (nlms_update p y n k)) = n_blend p"
  "n_dual (fst (nlms_update p y n k)) = n_dual p"
  "n_slope_max (fst (nlms_update p y n k)) = n_slope_max p"
  "n_intercept_max (fst (nlms_update p y n k)) = n_intercept_max p"
  "n_recent (fst (nlms_update p y n k)) = deque_append 32 (n_recent p) y"
  "n_avg_latency (fst (nlms_update p y n k)) =
     (if n_avg_latency p \<le> 0 then y else 0.9 * n_avg_latency p + 0.1 * y)"
  "n_inflight_log (fst (nlms_update p y n k)) = n_inflight_log p"
  "n_pending (fst (nlms_update p y n k)) = n_pending p"
  "n_healthy (fst (nlms_update p y n k)) = n_healthy p"
  "n_frozen (fst (nlms_update p y n k)) = n_frozen p"
  "n_robust (fst (nlms_update p y n k)) = n_robust p"
  "n_err_clip (fst (nlms_update p y n k)) = n_err_clip p"
  "n_step_frac (fst (nlms_update p y n k)) = n_step_frac p"
  "n_mu_fast (fst (nlms_update p y n k)) = n_mu_fast p"
  "n_mu_slow (fst (nlms_update p y n k)) = n_mu_slow p"
  "n_mu_bias (fst (nlms_update p y n k)) = n_mu_bias p"
  "n_tier (fst (nlms_update p y n k)) = n_tier p"
  "n_total_vram_mb (fst (nlms_update p y n k)) = n_total_vram_mb p"
  "n_free_vram_mb (fst (nlms_update p y n k)) = n_free_vram_mb p"
  by (simp_all add: nlms_update_eq learned_def effective_slope_def)

lemma nlms_update_ok: "nlms_ok p \<Longrightarrow> nlms_ok (fst (nlms_update p y n k))"
  using nlms_learn_fields(1-3) [where p = "booked p y n"]
  by (auto simp: nlms_ok_def learned_def simp del: divide_le_eq_1 le_divide_eq_numeral1 divide_le_eq_numeral1)

lemma nlms_update_within: "nlms_within p \<Longrightarrow> nlms_within (fst (nlms_update p y n k))"
  using nlms_update_ok [of p y n k] nlms_learn_fields(4-6) [where p = "booked p y n"]
  unfolding nlms_within_def
  by (auto simp: nlms_ok_def learned_def simp del: divide_le_eq_1 le_divide_eq_numeral1 divide_le_eq_numeral1)

lemma nlms_update_trusted:
  assumes "\<not> n_frozen p" and "nlms_trusted p k" and "n_dual p"
  shows "n_fast_slope (fst (nlms_update p y n k)) =
      clamp 0.1 (n_slope_max p) (n_fast_slope p + n_mu_fast p * ((y - fst (nlms_estimate p n)) / of_int (max 1 n)))"
    and "n_slow_slope (fst (nlms_update p y n k)) =
      clamp 0.1 (n_slope_max p) (n_slow_slope p + n_mu_slow p * ((y - fst (nlms_estimate p n)) / of_int (max 1 n)))"
    and "n_intercept (fst (nlms_update p y n k)) =
      clamp 0.1 (n_intercept_max p) (n_intercept p + n_mu_bias p * (y - fst (nlms_estimate p n)))"
  using assms by (simp_all add: learned_def nlms_learn_trusted Let_def)

subsection \<open>Estimates\<close>

lemma effective_slope_ge: "nlms_ok p \<Longrightarrow> 1 / 10 \<le> effective_slope p"
  using convex_bounds(1) [of "n_blend p" "1 / 10" "n_fast_slope p"
      "max (n_fast_slope p) (n_slow_slope p)" "n_slow_slope p"]
  by (auto simp: effective_slope_def nlms_ok_def)

lemma linear_estimate_ge:
  fixes s b :: real
  assumes "1 / 10 \<le> s" and "1 / 10 \<le> b"
  shows "of_int (max 1 n) / 10 + 1 / 10 \<le> s * of_int (max 1 n) + b"
proof -
  have "1 / 10 * of_int (max 1 n) \<le> s * of_int (max 1 n)"
    using assms(1) by (rule mult_right_mono) simp
  with assms(2) show ?thesis by simp
qed

lemma linear_estimate_mono:
  fixes s b :: real
  assumes "1 / 10 \<le> s" and "n \<le> m"
  shows "s * of_int (max 1 n) + b \<le> s * of_int (max 1 m) + b"
proof -
  have "(of_int (max 1 n) :: real) \<le> of_int (max 1 m)" using assms(2) by simp
  then show ?thesis using assms(1) by (simp add: mult_left_mono)
qed

subsection \<open>Interface: a latency model\<close>

text \<open>
  What the router relies on: an estimate is a pair of the predicted service time and the
  typical latency used for the queue term; both are positive, the prediction grows with the
  token count, and learning keeps it so.
\<close>

locale latency_model =
  fixes est :: "'m \<Rightarrow> int \<Rightarrow> real \<times> real" and upd :: "'m \<Rightarrow> real \<Rightarrow> int \<Rightarrow> 'm"
    and ok :: "'m \<Rightarrow> bool"
  assumes ok_upd: "ok m \<Longrightarrow> ok (upd m y n)"
    and est_lower: "ok m \<Longrightarrow> of_int (max 1 n) / 10 + 1 / 10 \<le> fst (est m n)"
    and est_avg: "ok m \<Longrightarrow> 0 < snd (est m n)"
    and est_mono: "ok m \<Longrightarrow> n \<le> n' \<Longrightarrow> fst (est m n) \<le> fst (est m n')"
begin

lemma est_pos: "ok m \<Longrightarrow> 0 < fst (est m n)"
proof -
  assume "ok m"
  then have "of_int (max 1 n) / 10 + 1 / 10 \<le> fst (est m n)" by (rule est_lower)
  moreover have "0 < of_int (max 1 n) / 10 + (1 / 10 :: real)" by (simp add: add_nonneg_pos)
  ultimately show ?thesis by linarith
qed

lemma train_ok: "ok m \<Longrightarrow> ok (foldl (\<lambda>m (y, n). upd m y n) m samples)"
  by (induction samples arbitrary: m) (auto intro: ok_upd)

text \<open>No history of samples can drive a prediction to zero.\<close>

lemma train_est_lower:
  "ok m \<Longrightarrow>
   of_int (max 1 n) / 10 + 1 / 10 \<le> fst (est (foldl (\<lambda>m (y, n). upd m y n) m samples) n)"
  by (intro est_lower train_ok)

end

interpretation nlms_model: latency_model nlms_estimate "\<lambda>p y n. fst (nlms_update p y n k)" nlms_ok for k
proof unfold_locales
  fix p y n
  show "nlms_ok p \<Longrightarrow> nlms_ok (fst (nlms_update p y n k))" by (rule nlms_update_ok)
next
  fix p n
  assume ok: "nlms_ok p"
  then show lower: "of_int (max 1 n) / 10 + 1 / 10 \<le> fst (nlms_estimate p n)"
    unfolding fst_nlms_estimate
    by (intro linear_estimate_ge effective_slope_ge) (simp_all add: nlms_ok_def)
  have "0 < of_int (max 1 n) / 10 + (1 / 10 :: real)" by (simp add: add_nonneg_pos)
  with lower have "0 < fst (nlms_estimate p n)" by linarith
  then show "0 < snd (nlms_estimate p n)" by (simp add: nlms_estimate_def Let_def)
next
  fix p n n'
  assume "nlms_ok p" and "n \<le> (n'::int)"
  then show "fst (nlms_estimate p n) \<le> fst (nlms_estimate p n')"
    unfolding fst_nlms_estimate by (intro linear_estimate_mono effective_slope_ge)
qed

interpretation rls_model: latency_model rls_estimate rls_update rls_ok
proof unfold_locales
  fix r y n
  show "rls_ok r \<Longrightarrow> rls_ok (rls_update r y n)"
    by (simp add: rls_ok_def rls_update_def Let_def)
next
  fix r n
  assume ok: "rls_ok r"
  then show lower: "of_int (max 1 n) / 10 + 1 / 10 \<le> fst (rls_estimate r n)"
    using linear_estimate_ge [of "r_slope r" "r_intercept r" n]
    by (simp add: rls_ok_def rls_estimate_def Let_def)
  have "0 < of_int (max 1 n) / 10 + (1 / 10 :: real)" by (simp add: add_nonneg_pos)
  with lower have "0 < fst (rls_estimate r n)" by linarith
  then show "0 < snd (rls_estimate r n)" by (simp add: rls_estimate_def Let_def)
next
  fix r n n'
  assume "rls_ok r" and "n \<le> (n'::int)"
  then show "fst (rls_estimate r n) \<le> fst (rls_estimate r n')"
    using linear_estimate_mono [of "r_slope r" n n' "r_intercept r"]
    by (simp add: rls_ok_def rls_estimate_def Let_def)
qed


subsection \<open>Learning: properties\<close>

lemma effective_slope_moves:
  assumes "0 \<le> n_blend p" and "n_blend p \<le> 1" and "n_dual q = n_dual p"
    and "n_blend q = n_blend p" and "\<bar>n_fast_slope q - n_fast_slope p\<bar> \<le> c"
    and "n_dual p \<Longrightarrow> \<bar>n_slow_slope q - n_slow_slope p\<bar> \<le> c"
  shows "\<bar>effective_slope q - effective_slope p\<bar> \<le> c"
proof (cases "n_dual p")
  case True
  let ?f = "n_fast_slope q - n_fast_slope p" and ?s = "n_slow_slope q - n_slow_slope p"
  have "effective_slope q - effective_slope p = n_blend p * ?f + (1 - n_blend p) * ?s"
    using True assms by (simp add: effective_slope_def algebra_simps)
  moreover have "- c \<le> n_blend p * ?f + (1 - n_blend p) * ?s \<and>
      n_blend p * ?f + (1 - n_blend p) * ?s \<le> c"
    using True assms convex_bounds [of "n_blend p" "- c" ?f c ?s] by (simp add: abs_le_iff)
  ultimately show ?thesis by (simp add: abs_le_iff)
qed (use assms in \<open>simp add: effective_slope_def\<close>)



text \<open>A point on the segment between two points of an interval lies in the interval.\<close>

lemma segment_in_interval:
  fixes x d c lo hi :: real
  assumes "lo \<le> x" "x \<le> hi" "lo \<le> x + d" "x + d \<le> hi" "0 \<le> c" "c \<le> 1"
  shows "lo \<le> x + c * d \<and> x + c * d \<le> hi"
proof -
  have "x + c * d = c * (x + d) + (1 - c) * x" by (simp add: algebra_simps)
  then show ?thesis using convex_bounds [of c lo "x + d" hi x] assms by simp
qed

definition nlms_gain :: "nlms \<Rightarrow> real" where
  "nlms_gain p = n_blend p * n_mu_fast p + (1 - n_blend p) * n_mu_slow p + n_mu_bias p"

text \<open>
  The end points that a constant workload drives the parameters to: \<open>nlms_limits_ok\<close> says
  that they, like the start, lie within the clamping intervals.
\<close>

definition nlms_limits_ok :: "nlms \<Rightarrow> real \<Rightarrow> int \<Rightarrow> bool" where
  "nlms_limits_ok p y n \<longleftrightarrow>
     (let N = of_int (max 1 n); d = (y - fst (nlms_estimate p n)) / nlms_gain p in
      nlms_within p \<and>
      1 / 10 \<le> n_fast_slope p + n_mu_fast p * d / N \<and> n_fast_slope p + n_mu_fast p * d / N \<le> n_slope_max p \<and>
      1 / 10 \<le> n_slow_slope p + n_mu_slow p * d / N \<and> n_slow_slope p + n_mu_slow p * d / N \<le> n_slope_max p \<and>
      1 / 10 \<le> n_intercept p + n_mu_bias p * d \<and> n_intercept p + n_mu_bias p * d \<le> n_intercept_max p)"

text \<open>\<open>q\<close> is \<open>p\<close> after a fraction \<open>c\<close> of the way to the end point.\<close>

definition nlms_along :: "nlms \<Rightarrow> real \<Rightarrow> int \<Rightarrow> real \<Rightarrow> nlms \<Rightarrow> bool" where
  "nlms_along p y n c q \<longleftrightarrow>
     (let N = of_int (max 1 n); d = (y - fst (nlms_estimate p n)) / nlms_gain p in
      n_fast_slope q = n_fast_slope p + c * (n_mu_fast p * d / N) \<and>
      n_slow_slope q = n_slow_slope p + c * (n_mu_slow p * d / N) \<and>
      n_intercept q = n_intercept p + c * (n_mu_bias p * d) \<and>
      n_frozen q = n_frozen p \<and> n_dual q = n_dual p \<and> n_robust q = n_robust p \<and>
      n_blend q = n_blend p \<and> n_mu_fast q = n_mu_fast p \<and> n_mu_slow q = n_mu_slow p \<and>
      n_mu_bias q = n_mu_bias p \<and> n_slope_max q = n_slope_max p \<and>
      n_intercept_max q = n_intercept_max p)"

lemma nlms_along_error:
  assumes "nlms_along p y n c q" and "n_dual p" and "nlms_gain p \<noteq> 0"
  shows "y - fst (nlms_estimate q n) = (1 - c) * (y - fst (nlms_estimate p n))"
proof -
  let ?N = "of_int (max 1 n) :: real" and ?g = "nlms_gain p" and ?e = "y - fst (nlms_estimate p n)"
  have N: "?N \<noteq> 0" by simp
  define d where "d = ?e / ?g"
  have q: "n_fast_slope q = n_fast_slope p + c * (n_mu_fast p * d / ?N)"
      "n_slow_slope q = n_slow_slope p + c * (n_mu_slow p * d / ?N)"
      "n_intercept q = n_intercept p + c * (n_mu_bias p * d)" "n_dual q" "n_blend q = n_blend p"
    using assms by (simp_all add: nlms_along_def Let_def d_def)
  have "effective_slope q * ?N =
      effective_slope p * ?N + c * d * (n_blend p * n_mu_fast p + (1 - n_blend p) * n_mu_slow p)"
    using N q assms(2) by (simp add: effective_slope_def field_simps)
  then have "fst (nlms_estimate q n) = fst (nlms_estimate p n) + c * (?g * d)"
    by (simp add: fst_nlms_estimate q(3) nlms_gain_def algebra_simps)
  also have "\<dots> = fst (nlms_estimate p n) + c * ?e" using assms by (simp add: d_def)
  finally show ?thesis by (simp add: algebra_simps)
qed

lemma segment_extend:
  fixes g c m e N x :: real
  assumes "g \<noteq> 0"
  shows "x + c * (m * (e / g) / N) + m * ((1 - c) * e / N) = x + (c + g * (1 - c)) * (m * (e / g) / N)"
    and "x + c * (m * (e / g)) + m * ((1 - c) * e) = x + (c + g * (1 - c)) * (m * (e / g))"
proof -
  have "m * ((1 - c) * e / N) = g * (1 - c) * (m * (e / g) / N)" using assms by simp
  then show "x + c * (m * (e / g) / N) + m * ((1 - c) * e / N) = x + (c + g * (1 - c)) * (m * (e / g) / N)"
    by (simp only: distrib_right add.assoc)
  have "m * ((1 - c) * e) = g * (1 - c) * (m * (e / g))" using assms by simp
  then show "x + c * (m * (e / g)) + m * ((1 - c) * e) = x + (c + g * (1 - c)) * (m * (e / g))"
    by (simp only: distrib_right add.assoc)
qed

lemma nlms_along_step:
  assumes along: "nlms_along p y n c q" and lim: "nlms_limits_ok p y n"
    and "\<not> n_frozen p" and "n_dual p" and "\<not> n_robust p \<or> k \<le> 1"
    and g: "0 < nlms_gain p" "nlms_gain p \<le> 1" and c: "0 \<le> c" "c \<le> 1"
  shows "nlms_along p y n (c + nlms_gain p * (1 - c)) (fst (nlms_update q y n k))"
proof -
  let ?N = "of_int (max 1 n) :: real" and ?g = "nlms_gain p"
  let ?e = "y - fst (nlms_estimate p n)" and ?c' = "c + nlms_gain p * (1 - c)"
  have c': "0 \<le> ?c'" "?c' \<le> 1"
  proof -
    show "0 \<le> ?c'" using g c by simp
    have "?g * (1 - c) \<le> 1 * (1 - c)" using g c by (intro mult_right_mono) auto
    then show "?c' \<le> 1" by simp
  qed
  have err: "y - fst (nlms_estimate q n) = (1 - c) * ?e"
    using nlms_along_error [OF along] assms by simp
  have step: "n_fast_slope q + n_mu_fast q * ((1 - c) * ?e / ?N) =
        n_fast_slope p + ?c' * (n_mu_fast p * (?e / ?g) / ?N)"
      "n_slow_slope q + n_mu_slow q * ((1 - c) * ?e / ?N) =
        n_slow_slope p + ?c' * (n_mu_slow p * (?e / ?g) / ?N)"
      "n_intercept q + n_mu_bias q * ((1 - c) * ?e) = n_intercept p + ?c' * (n_mu_bias p * (?e / ?g))"
    using along g segment_extend [of ?g] by (simp_all add: nlms_along_def Let_def)
  note seg = segment_in_interval [OF _ _ _ _ c']
  have room: "1 / 10 \<le> n_fast_slope p + ?c' * (n_mu_fast p * (?e / ?g) / ?N) \<and>
        n_fast_slope p + ?c' * (n_mu_fast p * (?e / ?g) / ?N) \<le> n_slope_max p"
      "1 / 10 \<le> n_slow_slope p + ?c' * (n_mu_slow p * (?e / ?g) / ?N) \<and>
        n_slow_slope p + ?c' * (n_mu_slow p * (?e / ?g) / ?N) \<le> n_slope_max p"
      "1 / 10 \<le> n_intercept p + ?c' * (n_mu_bias p * (?e / ?g)) \<and>
        n_intercept p + ?c' * (n_mu_bias p * (?e / ?g)) \<le> n_intercept_max p"
    using lim by (intro seg; simp only: nlms_limits_ok_def nlms_within_def nlms_ok_def Let_def)+
  have q: "\<not> n_frozen q" "nlms_trusted q k" "n_dual q" "n_slope_max q = n_slope_max p"
      "n_intercept_max q = n_intercept_max p"
    using along assms(3-5) by (simp_all add: nlms_trusted_def nlms_along_def Let_def)
  have "n_fast_slope (fst (nlms_update q y n k)) = n_fast_slope p + ?c' * (n_mu_fast p * (?e / ?g) / ?N)"
    unfolding nlms_update_trusted(1) [OF q(1-3)] q err step using room(1) by (intro clamp_id) auto
  moreover have "n_slow_slope (fst (nlms_update q y n k)) = n_slow_slope p + ?c' * (n_mu_slow p * (?e / ?g) / ?N)"
    unfolding nlms_update_trusted(2) [OF q(1-3)] q err step using room(2) by (intro clamp_id) auto
  moreover have "n_intercept (fst (nlms_update q y n k)) = n_intercept p + ?c' * (n_mu_bias p * (?e / ?g))"
    unfolding nlms_update_trusted(3) [OF q(1-3)] q err step using room(3) by (intro clamp_id) auto
  ultimately show ?thesis
    using along unfolding nlms_along_def Let_def by (simp del: nlms_update_fields(1-4))
qed



lemma nlms_estimate_le:
  assumes "nlms_within p"
  shows "fst (nlms_estimate p n) \<le> n_slope_max p * of_int (max 1 n) + n_intercept_max p"
proof -
  have "effective_slope p \<le> n_slope_max p"
    using assms convex_bounds(2) [of "n_blend p" "1 / 10" "n_fast_slope p" "n_slope_max p" "n_slow_slope p"]
    by (simp add: effective_slope_def nlms_within_def nlms_ok_def)
  then have "effective_slope p * of_int (max 1 n) \<le> n_slope_max p * of_int (max 1 n)"
    by (rule mult_right_mono) simp
  moreover have "n_intercept p \<le> n_intercept_max p" using assms by (simp add: nlms_within_def)
  ultimately show ?thesis by (simp add: fst_nlms_estimate)
qed

text \<open>
  No history of samples can push a learner out of its bounds. After any run of updates
  (any latencies, token counts and in-flight depths) the prediction for \<open>n\<close> tokens stays between
  \<open>0.1*n + 0.1\<close> and \<open>slope_max*n + intercept_max\<close>, so it is always positive.
\<close>

lemma nlms_prediction_range:
  assumes "nlms_within p"
  shows "of_int (max 1 n) / 10 + 1 / 10
      \<le> fst (nlms_estimate (foldl (\<lambda>p (y, m, k). fst (nlms_update p y m k)) p samples) n) \<and>
    fst (nlms_estimate (foldl (\<lambda>p (y, m, k). fst (nlms_update p y m k)) p samples) n)
      \<le> n_slope_max p * of_int (max 1 n) + n_intercept_max p"
proof -
  let ?step = "\<lambda>p (y, m, k). fst (nlms_update p y m k)" and ?N = "of_int (max 1 n) :: real"
  have run: "nlms_within (foldl ?step p samples) \<and>
      n_slope_max (foldl ?step p samples) = n_slope_max p \<and>
      n_intercept_max (foldl ?step p samples) = n_intercept_max p"
    using assms
  proof (induction samples arbitrary: p)
    case (Cons a samples)
    obtain y m k where a: "a = (y, m, k)" by (cases a)
    from Cons.IH [OF nlms_update_within [OF Cons.prems], of y m k] show ?case by (simp add: a)
  qed simp
  let ?q = "foldl ?step p samples"
  from run have q: "nlms_within ?q" "nlms_ok ?q" by (auto simp: nlms_within_def)
  from q(2) have "?N / 10 + 1 / 10 \<le> fst (nlms_estimate ?q n)" by (rule nlms_model.est_lower)
  moreover have "fst (nlms_estimate ?q n) \<le> n_slope_max p * ?N + n_intercept_max p"
    using nlms_estimate_le [OF q(1), of n] run by simp
  ultimately show ?thesis by (rule conjI)
qed

lemma nlms_default_within: "nlms_within (nlms_init nlms_default_args)"
  by (simp add: nlms_within_def nlms_ok_def nlms_init_def nlms_default_args_def)

theorem nlms_prediction_range_witness:
  "2 / 10 \<le> fst (nlms_estimate (foldl (\<lambda>p (y, m, k). fst (nlms_update p y m k))
       (nlms_init nlms_default_args) [(5000, 3, 7), (0, 900, 1)]) 0)"
  using nlms_prediction_range [OF nlms_default_within, of 0 "[(5000, 3, 7), (0, 900, 1)]"] by simp

text \<open>
  The error statistics are never clipped. Each update books the raw error of the prediction
  it replaces, whether or not the sample was contended, clipped or the learner frozen; and a
  frozen learner books statistics but never changes a parameter.
\<close>

lemma nlms_statistics_raw:
  "n_sum_abs (fst (nlms_update p y n k)) = n_sum_abs p + \<bar>y - fst (nlms_estimate p n)\<bar> \<and>
   n_sum_rel (fst (nlms_update p y n k)) = n_sum_rel p + \<bar>y - fst (nlms_estimate p n)\<bar> / max y 1 \<and>
   n_update_count (fst (nlms_update p y n k)) = n_update_count p + 1 \<and>
   ui_abs_err (snd (nlms_update p y n k)) = \<bar>y - fst (nlms_estimate p n)\<bar> \<and>
   fst (nlms_estimate (fst (nlms_update (p\<lparr>n_frozen := True\<rparr>) y n k)) m) = fst (nlms_estimate p m)"
  by (simp add: nlms_update_def fst_nlms_estimate effective_slope_def Let_def)

text \<open>
  The clip streak, which widens the trust region, is a four-way state machine. An
  uncontended sample resets it; a contended one resets it when the error is inside the
  unwidened tolerance, leaves it alone between the tolerance and the widened limit, and
  increments it when the error was clipped. The widening is \<open>2^min(streak, 6)\<close>.
\<close>

lemma nlms_streak_machine:
  assumes "\<not> n_frozen p" and "0 \<le> n_err_clip p"
  shows "n_clip_streak (fst (nlms_update p y n k)) =
     (let e = fst (nlms_estimate p n); err = \<bar>y - e\<bar>; base = n_err_clip p * robust_scale p e
      in if \<not> n_robust p \<or> k \<le> 1 then 0
         else if base * 2 ^ min (n_clip_streak p) 6 < err then n_clip_streak p + 1
         else if err \<le> base then 0 else n_clip_streak p)"
proof -
  let ?e = "fst (nlms_estimate p n)"
  have l: "0 \<le> n_err_clip p * robust_scale p ?e * 2 ^ min (n_clip_streak p) 6"
    using clip_limit_nonneg [OF assms(2), of ?e] by (simp add: clip_limit_def clip_widen_def)
  have "n_clip_streak (fst (nlms_update p y n k)) = n_clip_streak (learned p y n k)"
    by (simp add: nlms_update_eq)
  also have "\<dots> = (if nlms_trusted p k then 0
      else n_clip_streak (fst (nlms_clip (booked p y n) ?e (y - ?e))))"
    using assms(1) by (simp add: learned_def nlms_learn_def Let_def case_prod_beta)
  finally show ?thesis
    using l by (auto simp: nlms_trusted_def nlms_clip_def Let_def abs_if)
qed

theorem nlms_streak_machine_witness:
  "n_clip_streak (fst (nlms_update (nlms_init nlms_default_args) 100000 10 5)) = 1"
proof -
  let ?p = "nlms_init nlms_default_args"
  have e: "fst (nlms_estimate ?p 10) = 170" "robust_scale ?p 170 = 170"
    by (simp_all add: fst_nlms_estimate effective_slope_def robust_scale_def nlms_init_def nlms_default_args_def)
  have f: "\<not> n_frozen ?p" "0 \<le> n_err_clip ?p" "n_robust ?p" "n_err_clip ?p = 2" "n_clip_streak ?p = 0"
    by (simp_all add: nlms_init_def nlms_default_args_def)
  show ?thesis using nlms_streak_machine [OF f(1,2), of 100000 10 5] by (simp add: e f Let_def)
qed

subsection \<open>The RLS covariance\<close>

lemma rls_quadratic_pos:
  fixes a b c x :: real
  assumes "0 < a" and "0 < a * c - b * b"
  shows "0 < a * (x * x) + 2 * b * x + c"
proof -
  have "a * (a * (x * x) + 2 * b * x + c) = (a * x + b) * (a * x + b) + (a * c - b * b)"
    by (simp add: algebra_simps)
  also have "\<dots> > 0" using assms(2) by (simp add: add_nonneg_pos)
  finally show ?thesis using assms(1) by (simp add: zero_less_mult_iff)
qed

text \<open>The covariance after one update, over the common denominator \<open>lam * D\<close>.\<close>

lemma rls_update_cov:
  fixes r y n
  defines "x \<equiv> of_int (max 1 n)"
  defines "a \<equiv> r_p00 r" and "b \<equiv> r_p01 r" and "c \<equiv> r_p11 r" and "l \<equiv> r_lam r"
  defines "D \<equiv> l + (a * (x * x) + 2 * b * x + c)"
  assumes "rls_posdef r" and "1 / 10 ^ 9 \<le> l"
  shows "0 < D"
    and "r_p00 (rls_update r y n) = (a * l + (a * c - b * b)) / (l * D)"
    and "r_p01 (rls_update r y n) = (b * l - x * (a * c - b * b)) / (l * D)"
    and "r_p10 (rls_update r y n) = (b * l - x * (a * c - b * b)) / (l * D)"
    and "r_p11 (rls_update r y n) = (c * l + x * x * (a * c - b * b)) / (l * D)"
proof -
  have sym: "r_p10 r = b" and pos: "0 < a" "0 < a * c - b * b"
    using assms(7) by (auto simp: rls_posdef_def a_def b_def c_def)
  have q: "0 < a * (x * x) + 2 * b * x + c" by (rule rls_quadratic_pos [OF pos])
  have l: "0 < l" using assms(8) by (rule less_le_trans [rotated]) simp
  show D: "0 < D" using q l by (simp add: D_def)
  have den: "max (1 / 1000000000) (l + x * (a * x + b) + (b * x + c)) = D"
    using q assms(8) by (simp add: D_def algebra_simps max_def)
  have frac: "(w - u * v / D) / l = (w * D - u * v) / (l * D)" for w u v
    using D l by (simp add: field_simps)
  note expand = rls_update_def Let_def sym x_def [symmetric] a_def [symmetric] b_def [symmetric]
    c_def [symmetric] l_def [symmetric]
  show "r_p00 (rls_update r y n) = (a * l + (a * c - b * b)) / (l * D)"
    "r_p01 (rls_update r y n) = (b * l - x * (a * c - b * b)) / (l * D)"
    "r_p10 (rls_update r y n) = (b * l - x * (a * c - b * b)) / (l * D)"
    "r_p11 (rls_update r y n) = (c * l + x * x * (a * c - b * b)) / (l * D)"
    by (simp_all add: expand den frac) (simp_all add: D_def algebra_simps)
qed

text \<open>
  C40: the RLS covariance matrix stays symmetric and positive definite. With a forgetting factor
  of at least \<open>1e-9\<close> the guard on the denominator never fires and each update divides the
  determinant by \<open>lam * (lam + x' P x)\<close>, so it stays positive.
\<close>

theorem rls_covariance_posdef:
  assumes "rls_posdef r" and "1 / 10 ^ 9 \<le> r_lam r"
  shows "rls_posdef (rls_update r y n)"
proof -
  let ?x = "of_int (max 1 n) :: real" and ?a = "r_p00 r" and ?b = "r_p01 r" and ?c = "r_p11 r"
  let ?l = "r_lam r" and ?d = "r_p00 r * r_p11 r - r_p01 r * r_p01 r"
  let ?D = "?l + (?a * (?x * ?x) + 2 * ?b * ?x + ?c)"
  note cov = rls_update_cov [OF assms, where n = n]
  have pos: "0 < ?a" "0 < ?c" "0 < ?d" using assms(1) by (auto simp: rls_posdef_def)
  have l: "0 < ?l" using assms(2) by (rule less_le_trans [rotated]) simp
  have lD: "0 < ?l * ?D" using l cov(1) by simp
  have "(?a * ?l + ?d) * (?c * ?l + ?x * ?x * ?d) - (?b * ?l - ?x * ?d) * (?b * ?l - ?x * ?d)
      = ?d * (?l * ?D)"
    by (simp add: algebra_simps)
  then have "r_p00 (rls_update r y n) * r_p11 (rls_update r y n)
      - r_p01 (rls_update r y n) * r_p10 (rls_update r y n) = ?d * (?l * ?D) / ((?l * ?D) * (?l * ?D))"
    unfolding cov by (simp only: times_divide_times_eq diff_divide_distrib [symmetric])
  also have "\<dots> > 0" using pos(3) l cov(1) by (intro divide_pos_pos mult_pos_pos)
  finally have det: "0 < r_p00 (rls_update r y n) * r_p11 (rls_update r y n)
      - r_p01 (rls_update r y n) * r_p10 (rls_update r y n)" .
  have "0 < (?a * ?l + ?d) / (?l * ?D)"
    using mult_pos_pos [OF pos(1) l] pos(3) by (intro divide_pos_pos [OF _ lD] add_pos_pos)
  moreover have "0 < (?c * ?l + ?x * ?x * ?d) / (?l * ?D)"
    using mult_pos_pos [OF pos(2) l] pos(3)
    by (intro divide_pos_pos [OF _ lD] add_pos_nonneg mult_nonneg_nonneg) simp_all
  ultimately show ?thesis using det by (simp only: rls_posdef_def cov simp_thms)
qed

theorem rls_covariance_posdef_witness:
  "rls_posdef (rls_update (rls_init 0.99 2 150) 300 10)"
  by (rule rls_covariance_posdef) (simp_all add: rls_posdef_def rls_init_def)

end
