(* ===== verification/Admission.thy ===== *)
theory Admission
  imports Py_Values "HOL-Library.Multiset"
begin

text \<open>
  The admission side of \<open>scheduler.py\<close>: \<open>AdmissionStats\<close> with its \<open>snapshot\<close>, and the
  interpolated \<open>_percentile\<close> that the SLO gate compares with the budget. The lemmas show that a
  percentile is a value between the least and the greatest sample, independent of their order,
  and monotone in the percentage.
\<close>

subsection \<open>Counters\<close>

record admission_stats =
  adm_admitted :: nat
  adm_rejected_slo :: nat
  adm_rejected_vram :: nat
  adm_rejected_no_worker :: nat
  adm_completed_under_slo :: nat
  adm_completed_over_slo :: nat
  adm_completed_total :: nat
  adm_failed_total :: nat
  adm_sum_e2e_ms :: real
  adm_would_reject_absolute :: nat
  adm_rejected_slo_suppressed :: nat
  adm_would_admit_absolute :: nat
  adm_absolute_vs_active_disagree :: nat

definition admission_stats_init :: admission_stats where
  "admission_stats_init =
     \<lparr>adm_admitted = 0, adm_rejected_slo = 0, adm_rejected_vram = 0, adm_rejected_no_worker = 0,
      adm_completed_under_slo = 0, adm_completed_over_slo = 0, adm_completed_total = 0,
      adm_failed_total = 0, adm_sum_e2e_ms = 0, adm_would_reject_absolute = 0,
      adm_rejected_slo_suppressed = 0, adm_would_admit_absolute = 0,
      adm_absolute_vs_active_disagree = 0\<rparr>"

definition goodput_fraction :: "admission_stats \<Rightarrow> real" where
  "goodput_fraction a =
     (let attempts = adm_completed_total a + adm_failed_total a
      in if attempts \<noteq> 0 then real (adm_completed_under_slo a) / real attempts else 0)"

definition failure_rate :: "admission_stats \<Rightarrow> real" where
  "failure_rate a =
     (let attempts = adm_completed_total a + adm_failed_total a
      in if attempts \<noteq> 0 then real (adm_failed_total a) / real attempts else 0)"

definition avg_e2e_ms :: "admission_stats \<Rightarrow> real" where
  "avg_e2e_ms a =
     (if adm_completed_total a \<noteq> 0 then adm_sum_e2e_ms a / real (adm_completed_total a) else 0)"

definition absolute_disagree_frac :: "admission_stats \<Rightarrow> real" where
  "absolute_disagree_frac a =
     (let cmp_n = adm_would_reject_absolute a + adm_would_admit_absolute a
      in if cmp_n \<noteq> 0 then real (adm_absolute_vs_active_disagree a) / real cmp_n else 0)"

definition jnat :: "nat \<Rightarrow> json" where
  "jnat n = JInt (int n)"

definition admission_snapshot ::
  "admission_stats \<Rightarrow> real \<Rightarrow> bool \<Rightarrow> (string \<times> json) list \<Rightarrow> (string \<times> json) list" where
  "admission_snapshot a slo_ms admission_enabled extra =
     foldl (\<lambda>d (k, v). AList.update k v d)
     [(''admitted'', jnat (adm_admitted a)),
      (''rejected_slo'', jnat (adm_rejected_slo a)),
      (''rejected_vram'', jnat (adm_rejected_vram a)),
      (''rejected_no_worker'', jnat (adm_rejected_no_worker a)),
      (''rejected_slo_suppressed'', jnat (adm_rejected_slo_suppressed a)),
      (''completed_under_slo'', jnat (adm_completed_under_slo a)),
      (''completed_over_slo'', jnat (adm_completed_over_slo a)),
      (''completed_total'', jnat (adm_completed_total a)),
      (''failed_total'', jnat (adm_failed_total a)),
      (''attempts'', jnat (adm_completed_total a + adm_failed_total a)),
      (''failure_rate'', JFloat (failure_rate a)),
      (''goodput_fraction'', JFloat (goodput_fraction a)),
      (''avg_e2e_ms'', JFloat (avg_e2e_ms a)),
      (''slo_ms'', JFloat slo_ms),
      (''admission_enabled'', JBool admission_enabled),
      (''would_reject_absolute'', jnat (adm_would_reject_absolute a)),
      (''would_admit_absolute'', jnat (adm_would_admit_absolute a)),
      (''absolute_vs_active_disagree'', jnat (adm_absolute_vs_active_disagree a)),
      (''absolute_disagree_frac'', JFloat (absolute_disagree_frac a))]
     extra"

subsection \<open>Percentiles\<close>

definition percentile :: "real list \<Rightarrow> real \<Rightarrow> real" where
  "percentile xs p =
     (if xs = [] then 0
      else let ys = sort xs
           in if length ys = 1 then ys ! 0
              else let k = (max 0 (min 100 p) / 100) * real (length ys - 1);
                       lo = \<lfloor>k\<rfloor>; hi = \<lceil>k\<rceil>
                   in if lo = hi then ys ! nat lo
                      else let t = k - of_int lo
                           in ys ! nat lo * (1 - t) + ys ! nat hi * t)"

text \<open>The reference definition: linear interpolation at the real index \<open>k\<close>.\<close>

definition interp :: "real list \<Rightarrow> real \<Rightarrow> real" where
  "interp ys k = (1 - frac k) * ys ! nat \<lfloor>k\<rfloor> + frac k * ys ! nat \<lceil>k\<rceil>"

definition rank_of :: "real list \<Rightarrow> real \<Rightarrow> real" where
  "rank_of xs p = max 0 (min 100 p) / 100 * real (length xs - 1)"

text \<open>
  What the counters promise: the completions split into under and over budget, and the two gates
  cannot disagree more often than they were compared.
\<close>

definition admission_wf :: "admission_stats \<Rightarrow> bool" where
  "admission_wf a \<longleftrightarrow>
     adm_completed_total a = adm_completed_under_slo a + adm_completed_over_slo a \<and>
     adm_absolute_vs_active_disagree a \<le> adm_would_reject_absolute a + adm_would_admit_absolute a"

subsection \<open>Lemmas on percentiles\<close>

lemma frac_ceiling: "frac k \<noteq> 0 \<Longrightarrow> \<lceil>k\<rceil> = \<lfloor>k\<rfloor> + 1"
  by (metis Ints_of_int add.commute ceiling_altdef frac_eq_0_iff)

lemma percentile_eq_interp:
  "xs \<noteq> [] \<Longrightarrow> percentile xs p = interp (sort xs) (rank_of xs p)"
proof -
  assume "xs \<noteq> []"
  have "\<lfloor>k\<rfloor> = \<lceil>k\<rceil> \<Longrightarrow> frac k = 0" for k :: real
    by (metis Ints_of_int ceiling_altdef frac_eq_0_iff less_add_one order_less_irrefl)
  then show ?thesis
    using \<open>xs \<noteq> []\<close>
    by (auto simp: percentile_def interp_def rank_of_def Let_def frac_def mult.commute
        dest: length_0_conv [THEN iffD1])
qed

lemma rank_of_bounds: "0 \<le> rank_of xs p" "rank_of xs p \<le> real (length xs - 1)"
proof -
  show "0 \<le> rank_of xs p" by (simp add: rank_of_def)
  have "max 0 (min 100 p) / 100 * real (length xs - 1) \<le> 1 * real (length xs - 1)"
    by (intro mult_right_mono) auto
  then show "rank_of xs p \<le> real (length xs - 1)" by (simp add: rank_of_def)
qed

lemma rank_of_mono: "p \<le> q \<Longrightarrow> rank_of xs p \<le> rank_of xs q"
  unfolding rank_of_def by (intro mult_right_mono divide_right_mono) auto

lemma index_bounds:
  assumes "0 \<le> k" and "k \<le> real (n - 1)" and "0 < n"
  shows "nat \<lfloor>k\<rfloor> < n" and "nat \<lceil>k\<rceil> < n" and "nat \<lfloor>k\<rfloor> \<le> nat \<lceil>k\<rceil>"
proof -
  have "\<lceil>k\<rceil> \<le> int (n - 1)" using assms(2) by (metis ceiling_le_iff of_int_of_nat_eq)
  moreover have "\<lfloor>k\<rfloor> \<le> \<lceil>k\<rceil>" by (simp add: floor_le_ceiling)
  ultimately show "nat \<lfloor>k\<rfloor> < n" "nat \<lceil>k\<rceil> < n" "nat \<lfloor>k\<rfloor> \<le> nat \<lceil>k\<rceil>"
    using assms by linarith+
qed

lemma sort_eq_Nil [simp]: "sort xs = [] \<longleftrightarrow> xs = []"
  by (metis length_0_conv length_sort)

lemma sort_ends:
  assumes "x \<in> set xs"
  shows "sort xs ! 0 \<le> x" and "x \<le> sort xs ! (length xs - 1)"
proof -
  from assms obtain i where i: "i < length xs" "x = sort xs ! i"
    by (metis in_set_conv_nth length_sort set_sort)
  show "sort xs ! 0 \<le> x" "x \<le> sort xs ! (length xs - 1)"
    unfolding i(2) using i(1) by (auto intro!: sorted_nth_mono)
qed

lemma interp_between:
  assumes "sorted ys" and "0 \<le> k" and "k \<le> real (length ys - 1)" and "ys \<noteq> []"
  shows "ys ! nat \<lfloor>k\<rfloor> \<le> interp ys k" and "interp ys k \<le> ys ! nat \<lceil>k\<rceil>"
proof -
  note idx = index_bounds [OF assms(2,3)] assms(4)
  have le: "ys ! nat \<lfloor>k\<rfloor> \<le> ys ! nat \<lceil>k\<rceil>"
    using assms(1) idx by (intro sorted_nth_mono) auto
  have f: "0 \<le> frac k" "frac k \<le> 1" by (simp_all add: frac_lt_1 less_imp_le)
  show "ys ! nat \<lfloor>k\<rfloor> \<le> interp ys k" "interp ys k \<le> ys ! nat \<lceil>k\<rceil>"
    using convex_bounds [OF f le order.refl order.refl le] by (simp_all add: interp_def add.commute)
qed

lemma interp_mono:
  assumes "sorted ys" and "0 \<le> k" and "k \<le> k'" and "k' \<le> real (length ys - 1)" and "ys \<noteq> []"
  shows "interp ys k \<le> interp ys k'"
proof -
  have k': "0 \<le> k'" "0 < length ys" using assms by auto
  note idx = index_bounds [OF k'(1) assms(4) k'(2)]
  show ?thesis
proof (cases "\<lfloor>k\<rfloor> = \<lfloor>k'\<rfloor>")
  case True
  let ?a = "ys ! nat \<lfloor>k\<rfloor>" and ?b = "ys ! nat \<lceil>k'\<rceil>"
  have le: "?a \<le> ?b"
    using assms idx True by (intro sorted_nth_mono) auto
  have f: "frac k \<le> frac k'" using assms(3) True by (simp add: frac_def)
  have "interp ys k = (1 - frac k) * ?a + frac k * ?b"
  proof (cases "frac k = 0")
    case False
    then have "\<lceil>k\<rceil> = \<lfloor>k\<rfloor> + 1" by (rule frac_ceiling)
    moreover have "\<lceil>k'\<rceil> = \<lfloor>k'\<rfloor> + 1"
      using False f frac_ge_0 [of k] by (intro frac_ceiling) linarith
    ultimately show ?thesis using True by (simp add: interp_def)
  qed (simp add: interp_def)
  also have "\<dots> = ?a + frac k * (?b - ?a)" by (simp add: algebra_simps)
  also have "\<dots> \<le> ?a + frac k' * (?b - ?a)" using le f by (simp add: mult_right_mono)
  also have "\<dots> = interp ys k'" using True by (simp add: interp_def algebra_simps)
  finally show ?thesis .
next
  case False
  with assms(3) have "\<lfloor>k\<rfloor> < \<lfloor>k'\<rfloor>" by (simp add: floor_mono less_le)
  then have "\<lceil>k\<rceil> \<le> \<lfloor>k'\<rfloor>" by linarith
  then have "nat \<lceil>k\<rceil> \<le> nat \<lfloor>k'\<rfloor>" by (rule nat_mono)
  then have "ys ! nat \<lceil>k\<rceil> \<le> ys ! nat \<lfloor>k'\<rfloor>"
    using assms(1) idx(1) by (intro sorted_nth_mono)
  then show ?thesis
    using interp_between [of ys k] interp_between [of ys k'] assms by linarith
qed
qed

lemma percentile_range:
  assumes "xs \<noteq> []"
  shows "\<exists>a \<in> set xs. \<exists>b \<in> set xs. a \<le> percentile xs p \<and> percentile xs p \<le> b"
proof -
  let ?ys = "sort xs" and ?k = "rank_of xs p"
  note idx = index_bounds [OF rank_of_bounds, of xs p]
  have "?ys ! nat \<lfloor>?k\<rfloor> \<in> set xs" "?ys ! nat \<lceil>?k\<rceil> \<in> set xs"
    using idx assms by (metis length_greater_0_conv length_sort nth_mem set_sort)+
  moreover have "?ys ! nat \<lfloor>?k\<rfloor> \<le> interp ?ys ?k" "interp ?ys ?k \<le> ?ys ! nat \<lceil>?k\<rceil>"
    using rank_of_bounds [of xs p] assms by (auto intro!: interp_between)
  ultimately show ?thesis using assms by (auto simp: percentile_eq_interp)
qed

lemma percentile_le: "xs \<noteq> [] \<Longrightarrow> \<forall>x \<in> set xs. x \<le> c \<Longrightarrow> percentile xs p \<le> c"
  using percentile_range [of xs p] by force

lemma percentile_ge: "xs \<noteq> [] \<Longrightarrow> \<forall>x \<in> set xs. c \<le> x \<Longrightarrow> c \<le> percentile xs p"
  using percentile_range [of xs p] by force

lemma percentile_gt: "xs \<noteq> [] \<Longrightarrow> \<forall>x \<in> set xs. c < x \<Longrightarrow> c < percentile xs p"
  using percentile_range [of xs p] by force

lemma sort_mset_cong: "mset xs = mset ys \<Longrightarrow> sort xs = sort (ys :: real list)"
  by (metis sorted_list_of_multiset_mset)

subsection \<open>Properties of the percentile\<close>

lemma percentile_laws:
  assumes "xs \<noteq> []"
  shows "Min (set xs) \<le> percentile xs p" and "percentile xs p \<le> Max (set xs)"
    and "p \<le> q \<Longrightarrow> percentile xs p \<le> percentile xs q"
    and "p \<le> 0 \<Longrightarrow> percentile xs p = Min (set xs)"
    and "100 \<le> p \<Longrightarrow> percentile xs p = Max (set xs)"
    and "mset xs = mset zs \<Longrightarrow> percentile xs p = percentile zs p"
proof -
  let ?ys = "sort xs"
  have len: "length ?ys = length xs" "?ys \<noteq> []" "sorted ?ys"
    using assms by auto
  show lo: "Min (set xs) \<le> percentile xs p" and hi: "percentile xs p \<le> Max (set xs)"
    using assms by (auto intro!: percentile_le percentile_ge)
  show "percentile xs p \<le> percentile xs q" if "p \<le> q"
    using assms len rank_of_bounds rank_of_mono [OF that]
    by (simp add: percentile_eq_interp interp_mono)
  show "percentile xs p = Min (set xs)" if "p \<le> 0"
  proof -
    have "percentile xs p = ?ys ! 0"
      using that assms by (simp add: percentile_eq_interp rank_of_def interp_def)
    also have "\<dots> \<le> Min (set xs)"
      using assms by (intro Min.boundedI) (auto intro: sort_ends(1))
    finally show ?thesis using lo by simp
  qed
  show "percentile xs p = Max (set xs)" if "100 \<le> p"
  proof -
    have "percentile xs p = ?ys ! (length xs - 1)"
      using that assms by (simp add: percentile_eq_interp rank_of_def interp_def algebra_simps)
    moreover have "Max (set xs) \<le> ?ys ! (length xs - 1)"
      using assms by (intro Max.boundedI) (auto intro: sort_ends(2) [unfolded One_nat_def])
    ultimately show ?thesis using hi by simp
  qed
  show "percentile xs p = percentile zs p" if "mset xs = mset zs"
    using sort_mset_cong [OF that] mset_eq_length [OF that] assms
    by (auto simp: percentile_def Let_def)
qed

text \<open>
  The percentile behind the SLO gate is well behaved. It lies between the least and the
  greatest sample, is monotone in the percentage, is the minimum at 0 and the maximum at 100
  (and beyond, because the percentage is clamped), and does not depend on the sample order.
\<close>

lemma percentile_correct:
  assumes "xs \<noteq> []"
  shows "Min (set xs) \<le> percentile xs p \<and> percentile xs p \<le> Max (set xs) \<and>
    (p \<le> q \<longrightarrow> percentile xs p \<le> percentile xs q) \<and>
    (p \<le> 0 \<longrightarrow> percentile xs p = Min (set xs)) \<and>
    (100 \<le> p \<longrightarrow> percentile xs p = Max (set xs)) \<and>
    (mset xs = mset zs \<longrightarrow> percentile xs p = percentile zs p)"
  by (intro conjI impI percentile_laws [OF assms])

theorem percentile_correct_witness:
  "percentile [30, 10, 20] 50 \<le> percentile [30, 10, 20] 95 \<and> percentile [30, 10, 20] 0 = 10 \<and>
   percentile [30, 10, 20] 100 = 30 \<and> percentile [30, 10, 20] 95 = percentile [10, 20, 30] 95"
  using percentile_correct [of "[30, 10, 20]" 50 95] percentile_correct [of "[30, 10, 20]" 0]
    percentile_correct [of "[30, 10, 20]" 100] percentile_correct [of "[30, 10, 20]" 95 95 "[10, 20, 30]"]
  by simp

end
