(* ===== verification/Scheduler.thy ===== *)
theory Scheduler
  imports Nlms Engine_Metrics Admission
begin

text \<open>
  The \<open>Scheduler\<close> class of \<open>scheduler.py\<close>. The attributes that \<open>__init__\<close> sets once are the record
  \<open>sched_cfg\<close>, everything a method mutates is the record \<open>sched\<close>; each method that takes the lock
  is one function from state to state. The prefix hash (\<open>blake2b\<close> truncated to eight bytes) is a
  parameter \<open>h\<close> of the functions that use it, and the wall clock is an argument of \<open>feedback\<close>:
  the theorems hold for every hash and every clock.
\<close>

subsection \<open>Data\<close>

record ablation_flags =
  ab_name :: string
  ab_disable_queue :: bool
  ab_disable_vram_soft :: bool
  ab_disable_vram_hard :: bool
  ab_disable_tier :: bool
  ab_disable_cache :: bool
  ab_single_timescale :: bool

definition ablation_full :: ablation_flags where
  "ablation_full =
     \<lparr>ab_name = ''full'', ab_disable_queue = False, ab_disable_vram_soft = False,
      ab_disable_vram_hard = False, ab_disable_tier = False, ab_disable_cache = False,
      ab_single_timescale = False\<rparr>"

record routing_decision =
  rd_worker_id :: string
  rd_exec_ms :: real
  rd_wait_ms :: real
  rd_tier_cost_ms :: real
  rd_vram_cost_ms :: real
  rd_cache_bonus_ms :: real
  rd_total_ms :: real
  rd_tokens :: int
  rd_strategy :: string
  rd_engine_kv_cost_ms :: real
  rd_engine_queue_cost_ms :: real
  rd_engine_prefix_bonus_ms :: real
  rd_bonus_clamped_ms :: real
  rd_affinity_hit :: bool

text \<open>The positional constructor call \<open>RoutingDecision(wid, exec, wait, 0, 0, 0, total, tokens, strategy)\<close>.\<close>

definition plain_decision :: "string \<Rightarrow> real \<Rightarrow> real \<Rightarrow> real \<Rightarrow> int \<Rightarrow> string \<Rightarrow> routing_decision" where
  "plain_decision wid exec_ms wait total_ms tokens strategy =
     \<lparr>rd_worker_id = wid, rd_exec_ms = exec_ms, rd_wait_ms = wait, rd_tier_cost_ms = 0,
      rd_vram_cost_ms = 0, rd_cache_bonus_ms = 0, rd_total_ms = total_ms, rd_tokens = tokens,
      rd_strategy = strategy, rd_engine_kv_cost_ms = 0, rd_engine_queue_cost_ms = 0,
      rd_engine_prefix_bonus_ms = 0, rd_bonus_clamped_ms = 0, rd_affinity_hit = False\<rparr>"

definition decision_as_dict :: "routing_decision \<Rightarrow> json" where
  "decision_as_dict d = JObj
     [(''worker_id'', JStr (rd_worker_id d)), (''exec_ms'', JFloat (rd_exec_ms d)),
      (''wait_ms'', JFloat (rd_wait_ms d)), (''tier_cost_ms'', JFloat (rd_tier_cost_ms d)),
      (''vram_cost_ms'', JFloat (rd_vram_cost_ms d)), (''cache_bonus_ms'', JFloat (rd_cache_bonus_ms d)),
      (''total_ms'', JFloat (rd_total_ms d)), (''tokens'', JInt (rd_tokens d)),
      (''strategy'', JStr (rd_strategy d)), (''engine_kv_cost_ms'', JFloat (rd_engine_kv_cost_ms d)),
      (''engine_queue_cost_ms'', JFloat (rd_engine_queue_cost_ms d)),
      (''engine_prefix_bonus_ms'', JFloat (rd_engine_prefix_bonus_ms d)),
      (''bonus_clamped_ms'', JFloat (rd_bonus_clamped_ms d)),
      (''affinity_hit'', JBool (rd_affinity_hit d))]"

text \<open>One entry of \<open>pred_history\<close>.\<close>

record pred_sample =
  ps_unix_ms :: int
  ps_worker_id :: string
  ps_tokens :: int
  ps_info :: update_info
  ps_mode :: string

record sched_cfg =
  c_strategy :: string
  c_dual :: bool
  c_ablation :: ablation_flags
  c_slo_ms :: real
  c_admission_off :: bool
  c_admission_mode :: string
  c_admission_percentile :: real
  c_batch_size :: real
  c_tier_mismatch_ms :: real
  c_cache_bonus_ms :: real
  c_vram_soft_mb :: real
  c_vram_hard_mb :: real
  c_kv_cache_cost_ms :: real
  c_engine_queue_cost_ms :: real
  c_engine_prefix_hit_bonus_ms :: real
  c_use_engine_metrics :: bool
  c_mu_fast :: real
  c_mu_slow :: real
  c_mu_bias :: real
  c_blend :: real
  c_initial_slope :: real
  c_initial_intercept :: real
  c_robust :: bool
  c_err_clip :: real
  c_step_frac :: real
  c_slope_max :: real
  c_intercept_max :: real
  c_static_slope :: real
  c_static_intercept :: real
  c_ewma_alpha :: real
  c_ewma_prior_ms :: real
  c_affinity_cache_size :: nat
  c_recovery_hint_s :: int
  c_decision_log_size :: nat
  c_pred_history_size :: nat
  c_recent_maxlen :: nat

record sched =
  s_cfg :: sched_cfg
  s_predictors :: "nlms dict"
  s_rls :: "rls dict"
  s_ewma_e2e :: "real dict"
  s_ewma_samples :: "int dict"
  s_prefix_cache :: "(nat \<times> string) list"
  s_engine_snap :: "eng_dict dict"
  s_rr_index :: nat
  s_affinity_decisions :: nat
  s_affinity_hits :: nat
  s_affinity_evictions :: nat
  s_fail_streak :: "int dict"
  s_decision_log :: "json list"
  s_pred_history :: "pred_sample list"
  s_recent_e2e :: "real list"
  s_admission :: admission_stats
  s_last_decision :: "routing_decision option"

text \<open>The keyword arguments of \<open>Scheduler.__init__\<close>.\<close>

record sched_args =
  g_strategy :: string
  g_dual :: bool
  g_ablation :: "ablation_flags option"
  g_slo_ms :: real
  g_admission_off :: bool
  g_admission_mode :: string
  g_admission_percentile :: real
  g_recent_latency_window :: int
  g_batch_size :: real
  g_tier_mismatch_ms :: real
  g_cache_bonus_ms :: real
  g_vram_soft_mb :: real
  g_vram_hard_mb :: real
  g_kv_cache_cost_ms :: real
  g_engine_queue_cost_ms :: real
  g_engine_prefix_hit_bonus_ms :: real
  g_use_engine_metrics :: bool
  g_mu_fast :: real
  g_mu_slow :: real
  g_mu_bias :: real
  g_blend :: real
  g_initial_slope :: real
  g_initial_intercept :: real
  g_static_slope :: real
  g_static_intercept :: real
  g_decision_log_size :: int
  g_pred_history_size :: int
  g_affinity_cache_size :: int
  g_health_interval_s :: real
  g_learner_robust :: bool
  g_learner_err_clip :: real
  g_learner_step_frac :: real
  g_learner_slope_max :: real
  g_learner_intercept_max :: real

definition sched_default_args :: sched_args where
  "sched_default_args =
     \<lparr>g_strategy = ''nlms'', g_dual = True, g_ablation = None, g_slo_ms = 5000,
      g_admission_off = False, g_admission_mode = ''empirical'', g_admission_percentile = 95,
      g_recent_latency_window = 64, g_batch_size = 8, g_tier_mismatch_ms = 500,
      g_cache_bonus_ms = 200, g_vram_soft_mb = 4096, g_vram_hard_mb = 2400,
      g_kv_cache_cost_ms = 800, g_engine_queue_cost_ms = 50, g_engine_prefix_hit_bonus_ms = 150,
      g_use_engine_metrics = True, g_mu_fast = 0.1, g_mu_slow = 0.01, g_mu_bias = 0.005,
      g_blend = 0.8, g_initial_slope = 2, g_initial_intercept = 150, g_static_slope = 1,
      g_static_intercept = 50, g_decision_log_size = 200, g_pred_history_size = 5000,
      g_affinity_cache_size = 2048, g_health_interval_s = 5, g_learner_robust = True,
      g_learner_err_clip = 2, g_learner_step_frac = 0.05, g_learner_slope_max = 200,
      g_learner_intercept_max = 1000000\<rparr>"

definition sched_cfg_of :: "sched_args \<Rightarrow> sched_cfg" where
  "sched_cfg_of a =
     (let abl = (case g_ablation a of None \<Rightarrow> ablation_full | Some f \<Rightarrow> f)
      in \<lparr>c_strategy = replace_char (CHR ''-'') (CHR ''_'') (py_lower (g_strategy a)),
          c_dual = (if ab_single_timescale abl then False else g_dual a),
          c_ablation = abl, c_slo_ms = g_slo_ms a, c_admission_off = g_admission_off a,
          c_admission_mode = replace_char (CHR ''-'') (CHR ''_'')
            (py_lower (if g_admission_mode a = [] then ''empirical'' else g_admission_mode a)),
          c_admission_percentile = g_admission_percentile a,
          c_batch_size = (if g_batch_size a \<noteq> 0 \<and> g_batch_size a > 0 then g_batch_size a else 8),
          c_tier_mismatch_ms = g_tier_mismatch_ms a, c_cache_bonus_ms = g_cache_bonus_ms a,
          c_vram_soft_mb = g_vram_soft_mb a, c_vram_hard_mb = g_vram_hard_mb a,
          c_kv_cache_cost_ms = g_kv_cache_cost_ms a,
          c_engine_queue_cost_ms = g_engine_queue_cost_ms a,
          c_engine_prefix_hit_bonus_ms = g_engine_prefix_hit_bonus_ms a,
          c_use_engine_metrics = g_use_engine_metrics a,
          c_mu_fast = g_mu_fast a, c_mu_slow = g_mu_slow a, c_mu_bias = g_mu_bias a,
          c_blend = g_blend a, c_initial_slope = g_initial_slope a,
          c_initial_intercept = g_initial_intercept a,
          c_robust = g_learner_robust a, c_err_clip = g_learner_err_clip a,
          c_step_frac = g_learner_step_frac a, c_slope_max = g_learner_slope_max a,
          c_intercept_max = g_learner_intercept_max a,
          c_static_slope = g_static_slope a, c_static_intercept = g_static_intercept a,
          c_ewma_alpha = 0.2, c_ewma_prior_ms = 5000,
          c_affinity_cache_size = nat (max 16 (g_affinity_cache_size a)),
          c_recovery_hint_s =
            max 1 (py_round (if g_health_interval_s a \<noteq> 0 then g_health_interval_s a else 5)),
          c_decision_log_size = nat (g_decision_log_size a),
          c_pred_history_size = nat (g_pred_history_size a),
          c_recent_maxlen = nat (max 8 (g_recent_latency_window a))\<rparr>)"

text \<open>\<open>deque(maxlen=n)\<close> raises ValueError for a negative \<open>n\<close>.\<close>

definition scheduler_init :: "sched_args \<Rightarrow> sched py" where
  "scheduler_init a =
     (if g_decision_log_size a < 0 \<or> g_pred_history_size a < 0
      then Inl (ValueError ''maxlen must be non-negative'')
      else Inr \<lparr>s_cfg = sched_cfg_of a, s_predictors = [], s_rls = [], s_ewma_e2e = [],
                s_ewma_samples = [], s_prefix_cache = [], s_engine_snap = [], s_rr_index = 0,
                s_affinity_decisions = 0, s_affinity_hits = 0, s_affinity_evictions = 0,
                s_fail_streak = [], s_decision_log = [], s_pred_history = [], s_recent_e2e = [],
                s_admission = admission_stats_init, s_last_decision = None\<rparr>)"

subsection \<open>Registry operations\<close>

definition register :: "sched \<Rightarrow> string \<Rightarrow> string \<Rightarrow> real \<Rightarrow> real option \<Rightarrow> sched" where
  "register s wid tier total_vram free_vram =
     (let c = s_cfg s;
          frozen = (c_strategy c = ''static'');
          slope = (if frozen then c_static_slope c else c_initial_slope c);
          intercept = (if frozen then c_static_intercept c else c_initial_intercept c);
          p = nlms_init
                \<lparr>a_mu_fast = c_mu_fast c, a_mu_slow = c_mu_slow c, a_mu_bias = c_mu_bias c,
                 a_blend = c_blend c, a_initial_slope = slope, a_initial_intercept = intercept,
                 a_dual = (c_dual c \<and> \<not> frozen), a_frozen = frozen, a_tier = tier,
                 a_total_vram_mb = total_vram, a_robust = c_robust c, a_err_clip = c_err_clip c,
                 a_step_frac = c_step_frac c, a_slope_max = c_slope_max c,
                 a_intercept_max = c_intercept_max c\<rparr>;
          p = (case free_vram of None \<Rightarrow> p | Some f \<Rightarrow> p\<lparr>n_free_vram_mb := f\<rparr>)
      in s\<lparr>s_predictors := AList.update wid p (s_predictors s),
           s_rls := AList.update wid (rls_init 0.99 (c_initial_slope c) (c_initial_intercept c)) (s_rls s),
           s_ewma_e2e := AList.update wid (c_ewma_prior_ms c) (s_ewma_e2e s),
           s_ewma_samples := AList.update wid 0 (s_ewma_samples s)\<rparr>)"

definition unregister :: "sched \<Rightarrow> string \<Rightarrow> sched" where
  "unregister s wid =
     s\<lparr>s_predictors := AList.delete wid (s_predictors s), s_rls := AList.delete wid (s_rls s),
       s_ewma_e2e := AList.delete wid (s_ewma_e2e s),
       s_ewma_samples := AList.delete wid (s_ewma_samples s)\<rparr>"

text \<open>\<open>if worker_id in self.predictors: ...\<close>: apply an update to one predictor.\<close>

definition with_predictor :: "sched \<Rightarrow> string \<Rightarrow> (nlms \<Rightarrow> nlms) \<Rightarrow> sched" where
  "with_predictor s wid f =
     (case map_of (s_predictors s) wid of
        None \<Rightarrow> s
      | Some p \<Rightarrow> s\<lparr>s_predictors := AList.update wid (f p) (s_predictors s)\<rparr>)"

definition set_vram :: "sched \<Rightarrow> string \<Rightarrow> real \<Rightarrow> sched" where
  "set_vram s wid free_mb = with_predictor s wid (\<lambda>p. p\<lparr>n_free_vram_mb := free_mb\<rparr>)"

text \<open>\<open>float(x or 0.0)\<close> of an optional dictionary entry.\<close>

definition opt0 :: "real option \<Rightarrow> real" where
  "opt0 x = (case x of None \<Rightarrow> 0 | Some v \<Rightarrow> v)"

text \<open>The argument of \<open>set_engine_metrics\<close>: an object with \<open>as_dict\<close>, a dictionary, or anything else.\<close>

datatype snap_arg = SnapObj engine_snapshot | SnapDict eng_dict | SnapOther

definition set_engine_metrics :: "sched \<Rightarrow> string \<Rightarrow> snap_arg \<Rightarrow> sched" where
  "set_engine_metrics s wid snap =
     (case (case snap of SnapObj e \<Rightarrow> Some (engine_as_dict e) | SnapDict d \<Rightarrow> Some d | SnapOther \<Rightarrow> None) of
        None \<Rightarrow> s
      | Some d \<Rightarrow>
          (let s1 = s\<lparr>s_engine_snap := AList.update wid d (s_engine_snap s)\<rparr>
           in if ed_ok d = Some True
              then with_predictor s1 wid
                     (\<lambda>p. let kv = opt0 (ed_kv_cache_usage d); tot = n_total_vram_mb p
                          in if tot > 0 \<and> kv \<ge> 0 then p\<lparr>n_free_vram_mb := max 0 (tot * (1 - kv))\<rparr> else p)
              else s1))"

definition set_healthy :: "sched \<Rightarrow> string \<Rightarrow> bool \<Rightarrow> sched" where
  "set_healthy s wid healthy =
     (if map_of (s_predictors s) wid = None then s
      else let s1 = with_predictor s wid (\<lambda>p. p\<lparr>n_healthy := healthy\<rparr>)
           in if healthy then s1\<lparr>s_fail_streak := AList.update wid 0 (s_fail_streak s1)\<rparr> else s1)"

definition workers_health :: "sched \<Rightarrow> bool dict" where
  "workers_health s = map (\<lambda>(wid, p). (wid, n_healthy p)) (s_predictors s)"

definition get_streak :: "sched \<Rightarrow> string \<Rightarrow> int" where
  "get_streak s wid = (case map_of (s_fail_streak s) wid of None \<Rightarrow> 0 | Some k \<Rightarrow> k)"

definition note_failure :: "sched \<Rightarrow> string \<Rightarrow> int \<Rightarrow> sched \<times> bool" where
  "note_failure s wid threshold =
     (let streak = get_streak s wid + 1;
          s1 = s\<lparr>s_fail_streak := AList.update wid streak (s_fail_streak s)\<rparr>;
          tripped = (streak \<ge> threshold);
          s2 = (if tripped then with_predictor s1 wid (\<lambda>p. p\<lparr>n_healthy := False\<rparr>) else s1)
      in (s2, tripped))"

definition note_success :: "sched \<Rightarrow> string \<Rightarrow> sched" where
  "note_success s wid = s\<lparr>s_fail_streak := AList.update wid 0 (s_fail_streak s)\<rparr>"

definition prefix_hash :: "(string \<Rightarrow> nat) \<Rightarrow> string \<Rightarrow> nat" where
  "prefix_hash h text = h (take 256 text)"

subsection \<open>The joint cost\<close>

definition eng_get :: "sched \<Rightarrow> string \<Rightarrow> eng_dict option" where
  "eng_get s wid = map_of (s_engine_snap s) wid"

definition eng_ok :: "eng_dict option \<Rightarrow> bool" where
  "eng_ok e = (case e of None \<Rightarrow> False | Some d \<Rightarrow> ed_ok d = Some True)"

definition eng_val :: "(eng_dict \<Rightarrow> real option) \<Rightarrow> eng_dict option \<Rightarrow> real" where
  "eng_val f e = (case e of None \<Rightarrow> 0 | Some d \<Rightarrow> opt0 (f d))"

text \<open>The early returns with \<open>blocked = True\<close> that precede the estimate.\<close>

definition hard_blocked :: "sched \<Rightarrow> string \<Rightarrow> nlms \<Rightarrow> int \<Rightarrow> string \<Rightarrow> bool" where
  "hard_blocked s wid pred tokens tier =
     (let c = s_cfg s; abl = c_ablation c; free = n_free_vram_mb pred; eng = eng_get s wid
      in \<not> ab_disable_vram_hard abl \<and>
           (free > 0 \<and> free < c_vram_hard_mb c \<and> tokens > 1000 \<or>
            c_use_engine_metrics c \<and> eng_ok eng \<and> eng_val ed_kv_cache_usage eng > 0.95 \<and> tokens > 500)
         \<or> \<not> ab_disable_tier abl \<and> tier = ''large'' \<and> n_tier pred \<noteq> ''large'')"

text \<open>The terms of the joint cost, in the order of the source.\<close>

definition wait_term :: "sched_cfg \<Rightarrow> nlms \<Rightarrow> real \<Rightarrow> real \<Rightarrow> real" where
  "wait_term c pred exec_ms avg =
     (if ab_disable_queue (c_ablation c) then 0
      else let avg_t = (if avg > 0 then avg else exec_ms)
           in (of_int (n_pending pred) / c_batch_size c) * avg_t)"

definition tier_term :: "sched_cfg \<Rightarrow> nlms \<Rightarrow> string \<Rightarrow> real" where
  "tier_term c pred tier =
     (if \<not> ab_disable_tier (c_ablation c) \<and> tier = ''small'' \<and> n_tier pred = ''large''
      then c_tier_mismatch_ms c else 0)"

definition vram_term :: "sched_cfg \<Rightarrow> nlms \<Rightarrow> real" where
  "vram_term c pred =
     (if \<not> ab_disable_vram_soft (c_ablation c) \<and> n_total_vram_mb pred > 0 \<and>
         n_free_vram_mb pred < c_vram_soft_mb c
      then (1 - n_free_vram_mb pred / n_total_vram_mb pred) * 1000 else 0)"

text \<open>\<open>(eng_kv, eng_q, eng_pref)\<close>: all 0 without a usable engine snapshot.\<close>

definition engine_terms :: "sched_cfg \<Rightarrow> eng_dict option \<Rightarrow> real \<times> real \<times> real" where
  "engine_terms c eng =
     (if c_use_engine_metrics c \<and> eng_ok eng
      then (eng_val ed_kv_cache_usage eng * c_kv_cache_cost_ms c,
            eng_val ed_num_waiting eng * c_engine_queue_cost_ms c,
            eng_val ed_prefix_hit_rate eng * c_engine_prefix_hit_bonus_ms c)
      else (0, 0, 0))"

definition affinity_term :: "sched \<Rightarrow> string \<Rightarrow> nat \<Rightarrow> real \<times> bool" where
  "affinity_term s wid key =
     (if \<not> ab_disable_cache (c_ablation (s_cfg s)) \<and> map_of (s_prefix_cache s) key = Some wid
      then (c_cache_bonus_ms (s_cfg s), True) else (0, False))"

text \<open>The factor that keeps the two bonuses within the predicted service time.\<close>

definition bonus_scale :: "real \<Rightarrow> real \<Rightarrow> real" where
  "bonus_scale bonus_raw bonus_allowed =
     (if bonus_raw \<le> 0 \<or> bonus_raw \<le> bonus_allowed then 1 else bonus_allowed / bonus_raw)"

text \<open>The cost of one backend from its estimate \<open>(exec_ms, avg)\<close>, as the decision record.\<close>

definition joint_cost ::
  "sched \<Rightarrow> string \<Rightarrow> nlms \<Rightarrow> int \<Rightarrow> string \<Rightarrow> nat \<Rightarrow> real \<times> real \<Rightarrow> routing_decision" where
  "joint_cost s wid pred tokens tier key est =
     (let c = s_cfg s;
          (exec_ms, avg) = est;
          wait = wait_term c pred exec_ms avg;
          tier_cost = tier_term c pred tier;
          vram_cost = vram_term c pred;
          (eng_kv, eng_q, eng_pref) = engine_terms c (eng_get s wid);
          (cache_bonus, affinity_hit) = affinity_term s wid key;
          bonus_raw = cache_bonus + eng_pref;
          scale = bonus_scale bonus_raw (max 0 (wait + exec_ms));
          cache_bonus_applied = cache_bonus * scale;
          eng_pref_applied = eng_pref * scale;
          total_ms = max 0 (wait + exec_ms + tier_cost + vram_cost + eng_kv + eng_q
                         - cache_bonus_applied - eng_pref_applied)
      in \<lparr>rd_worker_id = wid, rd_exec_ms = exec_ms, rd_wait_ms = wait, rd_tier_cost_ms = tier_cost,
          rd_vram_cost_ms = vram_cost, rd_cache_bonus_ms = cache_bonus_applied + eng_pref_applied,
          rd_total_ms = total_ms, rd_tokens = tokens, rd_strategy = c_strategy c,
          rd_engine_kv_cost_ms = eng_kv, rd_engine_queue_cost_ms = eng_q,
          rd_engine_prefix_bonus_ms = eng_pref_applied,
          rd_bonus_clamped_ms = bonus_raw - (cache_bonus_applied + eng_pref_applied),
          rd_affinity_hit = affinity_hit\<rparr>)"

text \<open>
  \<open>_score\<close>: None when the backend is blocked; \<open>self.rls[worker_id]\<close> raises KeyError when there is
  no such filter. The key defaults to the hash of the prompt.
\<close>

definition score ::
  "(string \<Rightarrow> nat) \<Rightarrow> sched \<Rightarrow> string \<Rightarrow> nlms \<Rightarrow> int \<Rightarrow> string \<Rightarrow> string \<Rightarrow> bool \<Rightarrow> nat option \<Rightarrow>
   (real \<times> routing_decision) option py" where
  "score h s wid pred tokens tier prompt use_rls pkey =
     (if hard_blocked s wid pred tokens tier then Inr None
      else case (if use_rls
                 then (case map_of (s_rls s) wid of None \<Rightarrow> Inl (KeyError wid)
                       | Some r \<Rightarrow> Inr (rls_estimate r tokens))
                 else Inr (nlms_estimate pred tokens)) of
             Inl e \<Rightarrow> Inl e
           | Inr est \<Rightarrow>
               (if fst est \<ge> 10 ^ 300 then Inr None
                else let key = (case pkey of None \<Rightarrow> prefix_hash h prompt | Some k \<Rightarrow> k);
                         dec = joint_cost s wid pred tokens tier key est
                     in Inr (Some (rd_total_ms dec, dec))))"


subsection \<open>The admission gate\<close>

text \<open>The tests on the configured mode.\<close>

definition rank_mode :: "sched_cfg \<Rightarrow> bool" where
  "rank_mode c \<longleftrightarrow> c_admission_off c \<or> c_admission_mode c \<in> {''rank_only'', ''ranking'', ''none''}"

definition strict_mode :: "sched_cfg \<Rightarrow> bool" where
  "strict_mode c \<longleftrightarrow> c_admission_mode c \<in> {''strict'', ''shed'', ''overflow''}"

definition empirical_mode :: "sched_cfg \<Rightarrow> bool" where
  "empirical_mode c \<longleftrightarrow> c_admission_mode c \<in> {''empirical'', ''observed'', ''percentile''}"

text \<open>\<open>worst_quartile\<close>: no scored backend is clearly better placed than the best one.\<close>

definition worst_quartile :: "real \<Rightarrow> real list \<Rightarrow> bool" where
  "worst_quartile best_score scores =
     (if length scores \<ge> 2 then best_score \<ge> percentile scores 75 - 1 / 10 ^ 9 else True)"

text \<open>
  \<open>_should_reject_slo\<close>: the verdict and its reason. The empirical mode counts the admissions it
  lets through although the observed tail is over budget.
\<close>

definition should_reject_slo :: "sched \<Rightarrow> real \<Rightarrow> real list \<Rightarrow> sched \<times> bool \<times> string" where
  "should_reject_slo s best_score scores =
     (let c = s_cfg s;
          p = percentile (s_recent_e2e s) (c_admission_percentile c);
          suffix = fmt_0f (c_admission_percentile c) @ ''='' @ fmt_0f p @ ''>SLO''
      in if rank_mode c
         then (s, False, ''rank_only'')
         else if strict_mode c then
           (if length (s_recent_e2e s) < 8 then (s, False, ''strict_warmup'')
            else if p > c_slo_ms c then (s, True, ''strict_p'' @ suffix)
            else (s, False, ''strict_ok''))
         else if empirical_mode c then
           (if length (s_recent_e2e s) < 8 then (s, False, ''empirical_warmup'')
            else
              if p > c_slo_ms c \<and> worst_quartile best_score scores
              then (s, True, ''empirical_p'' @ suffix)
              else if p > c_slo_ms c
              then (s\<lparr>s_admission := (s_admission s)\<lparr>adm_rejected_slo_suppressed :=
                            adm_rejected_slo_suppressed (s_admission s) + 1\<rparr>\<rparr>,
                       False, ''empirical_ok_better_backend_available'')
              else (s, False, ''empirical_ok''))
         else if best_score > c_slo_ms c
         then (s, True, ''absolute_score='' @ fmt_0f best_score @ ''>SLO'')
         else (s, False, ''absolute_ok''))"

subsection \<open>Routing\<close>

datatype pick_error = AdmissionError string int | PickRaised py_exc

definition admission_error :: "string \<Rightarrow> int \<Rightarrow> pick_error" where
  "admission_error msg retry = AdmissionError msg (max 1 retry)"

type_synonym pick_result = "sched \<times> (pick_error + string \<times> routing_decision)"

definition bump_admission :: "(admission_stats \<Rightarrow> admission_stats) \<Rightarrow> sched \<Rightarrow> sched" where
  "bump_admission f s = s\<lparr>s_admission := f (s_admission s)\<rparr>"

abbreviation inc_admitted :: "admission_stats \<Rightarrow> admission_stats" where
  "inc_admitted a \<equiv> a\<lparr>adm_admitted := adm_admitted a + 1\<rparr>"

abbreviation inc_no_worker :: "admission_stats \<Rightarrow> admission_stats" where
  "inc_no_worker a \<equiv> a\<lparr>adm_rejected_no_worker := adm_rejected_no_worker a + 1\<rparr>"

abbreviation inc_rejected_slo :: "admission_stats \<Rightarrow> admission_stats" where
  "inc_rejected_slo a \<equiv> a\<lparr>adm_rejected_slo := adm_rejected_slo a + 1\<rparr>"

abbreviation inc_rejected_vram :: "admission_stats \<Rightarrow> admission_stats" where
  "inc_rejected_vram a \<equiv> a\<lparr>adm_rejected_vram := adm_rejected_vram a + 1\<rparr>"

definition mark_admitted :: "sched \<Rightarrow> string \<Rightarrow> sched" where
  "mark_admitted s wid =
     with_predictor s wid
       (\<lambda>p. p\<lparr>n_pending := n_pending p + 1,
              n_inflight_log := deque_append 1024 (n_inflight_log p) (n_pending p + 1)\<rparr>)"

definition log_decision :: "sched \<Rightarrow> routing_decision \<Rightarrow> sched" where
  "log_decision s dec =
     s\<lparr>s_decision_log :=
         deque_append (c_decision_log_size (s_cfg s)) (s_decision_log s) (decision_as_dict dec)\<rparr>"

text \<open>\<open>ids\<close>: the healthy registered backends, in registration order, that the caller allows.\<close>

definition candidate_ids :: "sched \<Rightarrow> string list option \<Rightarrow> string list" where
  "candidate_ids s allowed =
     (let ids = map fst (filter (\<lambda>(wid, p). n_healthy p) (s_predictors s))
      in case allowed of None \<Rightarrow> ids | Some bs \<Rightarrow> filter (\<lambda>wid. wid \<in> set bs) ids)"

definition pending_of :: "sched \<Rightarrow> string \<Rightarrow> int" where
  "pending_of s wid = (case map_of (s_predictors s) wid of None \<Rightarrow> 0 | Some p \<Rightarrow> n_pending p)"

definition pick_round_robin :: "sched \<Rightarrow> string list \<Rightarrow> int \<Rightarrow> pick_result" where
  "pick_round_robin s ids tokens =
     (let s1 = s\<lparr>s_rr_index := (s_rr_index s + 1) mod length ids\<rparr>;
          wid = ids ! s_rr_index s1;
          s2 = mark_admitted s1 wid;
          dec = plain_decision wid 0 0 0 tokens (c_strategy (s_cfg s));
          s3 = bump_admission inc_admitted s2
      in (log_decision s3 dec, Inr (wid, dec)))"

definition pick_least_loaded :: "sched \<Rightarrow> string list \<Rightarrow> int \<Rightarrow> pick_result" where
  "pick_least_loaded s ids tokens =
     (case min_by (pending_of s) ids of
        None \<Rightarrow> (s, Inl (PickRaised (ValueError ''min() arg is an empty sequence'')))
      | Some wid \<Rightarrow>
          (let s1 = mark_admitted s wid;
               dec = plain_decision wid 0 0 0 tokens (c_strategy (s_cfg s));
               s2 = bump_admission inc_admitted s1
           in (log_decision s2 dec, Inr (wid, dec))))"

definition ewma_of :: "sched \<Rightarrow> string \<Rightarrow> real" where
  "ewma_of s wid =
     (case map_of (s_ewma_e2e s) wid of None \<Rightarrow> c_ewma_prior_ms (s_cfg s) | Some x \<Rightarrow> x)"

definition ewma_sample_count :: "sched \<Rightarrow> string \<Rightarrow> int" where
  "ewma_sample_count s wid = (case map_of (s_ewma_samples s) wid of None \<Rightarrow> 0 | Some n \<Rightarrow> n)"

definition ewma_decision :: "sched \<Rightarrow> int \<Rightarrow> string \<Rightarrow> routing_decision" where
  "ewma_decision s tokens wid =
     (let ewma = ewma_of s wid;
          wait = (of_int (pending_of s wid) / max 1 (c_batch_size (s_cfg s))) * ewma
      in plain_decision wid ewma wait (ewma + wait) tokens (c_strategy (s_cfg s)))"

text \<open>The loop \<open>if score < best_score\<close> from an infinite start: the first strict minimum.\<close>

fun scan_best :: "('a \<Rightarrow> real) \<Rightarrow> 'a list \<Rightarrow> 'a option \<Rightarrow> 'a option" where
  "scan_best f [] best = best"
| "scan_best f (x # xs) best =
     scan_best f xs (case best of None \<Rightarrow> Some x | Some b \<Rightarrow> if f x < f b then Some x else best)"

definition admit_ewma :: "sched \<Rightarrow> routing_decision \<Rightarrow> pick_result" where
  "admit_ewma s dec =
     (let wid = rd_worker_id dec;
          s1 = bump_admission inc_admitted (mark_admitted s wid);
          s2 = log_decision s1 dec
      in (s2\<lparr>s_last_decision := Some dec\<rparr>, Inr (wid, dec)))"

definition pick_ewma :: "sched \<Rightarrow> string list \<Rightarrow> int \<Rightarrow> pick_result" where
  "pick_ewma s ids tokens =
     (let unexplored = filter (\<lambda>wid. ewma_sample_count s wid \<le> 0) ids
      in case min_by (pending_of s) unexplored of
           Some wid \<Rightarrow> admit_ewma s (ewma_decision s tokens wid)
         | None \<Rightarrow>
             (case scan_best (\<lambda>wid. rd_total_ms (ewma_decision s tokens wid)) ids None of
                None \<Rightarrow> (bump_admission inc_no_worker s,
                          Inl (admission_error ''no feasible backend'' (c_recovery_hint_s (s_cfg s))))
              | Some wid \<Rightarrow> admit_ewma s (ewma_decision s tokens wid)))"

text \<open>The ranking pass of the cost strategies: the best candidate, whether any, and all scores.\<close>

type_synonym rank_acc = "(string \<times> real \<times> routing_decision) option \<times> bool \<times> real list"

fun rank_loop ::
  "(string \<Rightarrow> (real \<times> routing_decision) option py) \<Rightarrow> string list \<Rightarrow> rank_acc \<Rightarrow> rank_acc py" where
  "rank_loop sc [] acc = Inr acc"
| "rank_loop sc (wid # ids) (best, any_candidate, scores) =
     (case sc wid of
        Inl e \<Rightarrow> Inl e
      | Inr None \<Rightarrow> rank_loop sc ids (best, any_candidate, scores)
      | Inr (Some (x, dec)) \<Rightarrow>
          rank_loop sc ids
            ((case best of None \<Rightarrow> Some (wid, x, dec)
              | Some (w, b, d) \<Rightarrow> if x < b then Some (wid, x, dec) else best),
             True, scores @ [x]))"

definition score_id ::
  "(string \<Rightarrow> nat) \<Rightarrow> sched \<Rightarrow> int \<Rightarrow> string \<Rightarrow> string \<Rightarrow> nat \<Rightarrow> string \<Rightarrow> (real \<times> routing_decision) option py" where
  "score_id h s tokens tier prompt pkey wid =
     (case map_of (s_predictors s) wid of
        None \<Rightarrow> Inl (KeyError wid)
      | Some p \<Rightarrow> score h s wid p tokens tier prompt (c_strategy (s_cfg s) = ''rls'') (Some pkey))"

text \<open>The prefix LRU: bind the key, move it to the end, evict from the front.\<close>

definition lru_put :: "'k \<Rightarrow> 'v \<Rightarrow> ('k \<times> 'v) list \<Rightarrow> ('k \<times> 'v) list" where
  "lru_put k v c = AList.delete k c @ [(k, v)]"

function lru_evict :: "nat \<Rightarrow> ('k \<times> 'v) list \<Rightarrow> nat \<Rightarrow> ('k \<times> 'v) list \<times> nat" where
  "lru_evict cap c evictions =
     (if length c > cap then lru_evict cap (tl c) (evictions + 1) else (c, evictions))"
  by pat_completeness auto
termination
  by (relation "measure (\<lambda>(cap, c, n). length c)") auto

declare lru_evict.simps [simp del]

text \<open>The accounting of an admitted request in a cost strategy.\<close>

definition admit_cost :: "sched \<Rightarrow> nat \<Rightarrow> string \<Rightarrow> routing_decision \<Rightarrow> pick_result" where
  "admit_cost s pkey wid dec =
     (let s1 = mark_admitted s wid;
          (cache, evictions) =
            lru_evict (c_affinity_cache_size (s_cfg s1)) (lru_put pkey wid (s_prefix_cache s1))
              (s_affinity_evictions s1);
          s2 = s1\<lparr>s_prefix_cache := cache, s_affinity_evictions := evictions\<rparr>;
          s3 = bump_admission inc_admitted s2;
          s4 = s3\<lparr>s_affinity_decisions := s_affinity_decisions s3 + 1,
                  s_affinity_hits := (if rd_affinity_hit dec then s_affinity_hits s3 + 1
                                      else s_affinity_hits s3)\<rparr>;
          s5 = log_decision s4 dec
      in (s5\<lparr>s_last_decision := Some dec\<rparr>, Inr (wid, dec)))"

text \<open>The diagnostic comparison with the absolute gate, then the verdict of the active mode.\<close>

definition gate :: "sched \<Rightarrow> real \<Rightarrow> real list \<Rightarrow> sched \<times> bool \<times> string" where
  "gate s best_score scores =
     (let absolute = (best_score > c_slo_ms (s_cfg s));
          s1 = (if absolute
                then bump_admission (\<lambda>a. a\<lparr>adm_would_reject_absolute := adm_would_reject_absolute a + 1\<rparr>) s
                else bump_admission (\<lambda>a. a\<lparr>adm_would_admit_absolute := adm_would_admit_absolute a + 1\<rparr>) s);
          (s2, reject, reason) = should_reject_slo s1 best_score scores;
          s3 = (if absolute \<noteq> reject
                then bump_admission (\<lambda>a. a\<lparr>adm_absolute_vs_active_disagree :=
                                              adm_absolute_vs_active_disagree a + 1\<rparr>) s2
                else s2)
      in (s3, reject, reason))"

definition pick_cost ::
  "(string \<Rightarrow> nat) \<Rightarrow> sched \<Rightarrow> string list \<Rightarrow> string \<Rightarrow> string \<Rightarrow> int \<Rightarrow> pick_result" where
  "pick_cost h s ids prompt tier tokens =
     (let pkey = prefix_hash h prompt
      in case rank_loop (score_id h s tokens tier prompt pkey) ids (None, False, []) of
           Inl e \<Rightarrow> (s, Inl (PickRaised e))
         | Inr (None, any_candidate, scores) \<Rightarrow>
             (if any_candidate
              then (bump_admission inc_rejected_vram s,
                    Inl (admission_error ''all backends VRAM/tier blocked'' 2))
              else (bump_admission inc_no_worker s,
                    Inl (admission_error ''no feasible backend'' (c_recovery_hint_s (s_cfg s)))))
         | Inr (Some (wid, best_score, dec), any_candidate, scores) \<Rightarrow>
             (let (s1, reject, reason) = gate s best_score scores
              in if reject
                 then (bump_admission inc_rejected_slo s1,
                       Inl (admission_error
                              (''admission rejected ('' @ c_admission_mode (s_cfg s) @ '': '' @ reason @ '')'')
                              (max 1 (py_trunc (best_score / 1000)))))
                 else admit_cost s1 pkey wid dec))"

definition pick ::
  "(string \<Rightarrow> nat) \<Rightarrow> sched \<Rightarrow> string \<Rightarrow> string \<Rightarrow> int option \<Rightarrow> string list option \<Rightarrow> pick_result" where
  "pick h s prompt tier tokens0 allowed =
     (let tokens = (case tokens0 of None \<Rightarrow> max 1 (int (length prompt) div 4) | Some n \<Rightarrow> n);
          ids = candidate_ids s allowed;
          strategy = c_strategy (s_cfg s)
      in if ids = []
         then (bump_admission inc_no_worker s,
               Inl (admission_error ''no healthy backends registered'' (c_recovery_hint_s (s_cfg s))))
         else if strategy \<in> {''round_robin'', ''roundrobin''} then pick_round_robin s ids tokens
         else if strategy \<in> {''least_loaded'', ''leastloaded'', ''least_load''}
         then pick_least_loaded s ids tokens
         else if strategy \<in> {''ewma'', ''ema'', ''recent_latency''} then pick_ewma s ids tokens
         else pick_cost h s ids prompt tier tokens)"

subsection \<open>Completion\<close>

definition release :: "sched \<Rightarrow> string \<Rightarrow> sched" where
  "release s wid =
     with_predictor s wid (\<lambda>p. if n_pending p > 0 then p\<lparr>n_pending := n_pending p - 1\<rparr> else p)"

text \<open>\<open>log.popleft()\<close> when the log is not empty: the recorded depth and the shortened log.\<close>

definition pop_inflight :: "sched \<Rightarrow> string \<Rightarrow> sched \<times> int" where
  "pop_inflight s wid =
     (case map_of (s_predictors s) wid of
        None \<Rightarrow> (s, 1)
      | Some p \<Rightarrow>
          (case n_inflight_log p of
             [] \<Rightarrow> (s, 1)
           | d # rest \<Rightarrow>
               (s\<lparr>s_predictors := AList.update wid (p\<lparr>n_inflight_log := rest\<rparr>) (s_predictors s)\<rparr>, d)))"

definition feedback_ewma :: "sched \<Rightarrow> string \<Rightarrow> real \<Rightarrow> sched" where
  "feedback_ewma s wid e2e_ms =
     (case map_of (s_ewma_e2e s) wid of
        None \<Rightarrow> s
      | Some prev \<Rightarrow>
          (let n = ewma_sample_count s wid; a = c_ewma_alpha (s_cfg s);
               level = (if n \<le> 0 then e2e_ms else a * e2e_ms + (1 - a) * prev)
           in s\<lparr>s_ewma_e2e := AList.update wid level (s_ewma_e2e s),
                s_ewma_samples := AList.update wid (n + 1) (s_ewma_samples s)\<rparr>))"

text \<open>The block under \<open>if worker_id in self.predictors\<close> of a successful completion.\<close>

definition feedback_learn :: "sched \<Rightarrow> string \<Rightarrow> real \<Rightarrow> int \<Rightarrow> int \<Rightarrow> int \<Rightarrow> sched" where
  "feedback_learn s wid e2e_ms tokens inflight unix_ms =
     (case map_of (s_predictors s) wid of
        None \<Rightarrow> s
      | Some p \<Rightarrow>
          (let (p', info) = nlms_update p e2e_ms tokens inflight;
               s1 = s\<lparr>s_predictors := AList.update wid p' (s_predictors s)\<rparr>;
               s2 = (case map_of (s_rls s1) wid of None \<Rightarrow> s1
                     | Some r \<Rightarrow> s1\<lparr>s_rls := AList.update wid (rls_update r e2e_ms tokens) (s_rls s1)\<rparr>);
               s3 = feedback_ewma s2 wid e2e_ms;
               sample = \<lparr>ps_unix_ms = unix_ms, ps_worker_id = wid, ps_tokens = tokens,
                         ps_info = info, ps_mode = nlms_mode p'\<rparr>
           in s3\<lparr>s_pred_history :=
                   deque_append (c_pred_history_size (s_cfg s3)) (s_pred_history s3) sample\<rparr>))"

definition feedback_count :: "sched \<Rightarrow> string \<Rightarrow> real \<Rightarrow> sched" where
  "feedback_count s wid e2e_ms =
     (let under = (e2e_ms \<le> c_slo_ms (s_cfg s));
          a = s_admission s
      in s\<lparr>s_admission := a\<lparr>adm_completed_total := adm_completed_total a + 1,
                            adm_sum_e2e_ms := adm_sum_e2e_ms a + e2e_ms,
                            adm_completed_under_slo := adm_completed_under_slo a + (if under then 1 else 0),
                            adm_completed_over_slo := adm_completed_over_slo a + (if under then 0 else 1)\<rparr>,
           s_recent_e2e := deque_append (c_recent_maxlen (s_cfg s)) (s_recent_e2e s) e2e_ms,
           s_fail_streak := AList.update wid 0 (s_fail_streak s)\<rparr>)"

definition feedback :: "sched \<Rightarrow> string \<Rightarrow> real \<Rightarrow> int \<Rightarrow> bool \<Rightarrow> int \<Rightarrow> sched" where
  "feedback s wid e2e_ms tokens success unix_ms =
     (let (s1, inflight) = pop_inflight s wid;
          s2 = (if success
                then feedback_count (feedback_learn s1 wid e2e_ms tokens inflight unix_ms) wid e2e_ms
                else bump_admission (\<lambda>a. a\<lparr>adm_failed_total := adm_failed_total a + 1\<rparr>) s1)
      in release s2 wid)"

definition reset_stats :: "sched \<Rightarrow> sched" where
  "reset_stats s =
     s\<lparr>s_admission := admission_stats_init, s_pred_history := [], s_decision_log := [],
       s_affinity_decisions := 0, s_affinity_hits := 0, s_affinity_evictions := 0,
       s_prefix_cache := [], s_fail_streak := []\<rparr>"

end
