(* ===== verification/Config.thy ===== *)
theory Config
  imports Scheduler
begin

text \<open>
  The settings object of \<open>config.py\<close>: \<open>DIOConfig\<close> with its defaults and the values that its
  \<open>Literal\<close> annotations admit, \<open>ablation_from_name\<close>, and the scheduler that the gateway builds from
  a configuration. Reading the environment is done by pydantic and is not modelled.
\<close>

record dio_config =
  cf_strategy :: string
  cf_nlms_mode :: string
  cf_ablation :: string
  cf_slo_ms :: real
  cf_admission_off :: bool
  cf_admission_mode :: string
  cf_admission_percentile :: real
  cf_recent_latency_window :: int
  cf_tier_mismatch_ms :: real
  cf_cache_bonus_ms :: real
  cf_affinity_cache_size :: int
  cf_vram_soft_limit_mb :: real
  cf_vram_hard_limit_mb :: real
  cf_batch_size :: real
  cf_engine_metrics :: bool
  cf_metrics_interval_s :: real
  cf_kv_cache_cost_ms :: real
  cf_engine_queue_cost_ms :: real
  cf_engine_prefix_hit_bonus_ms :: real
  cf_mu_fast :: real
  cf_mu_slow :: real
  cf_mu_bias :: real
  cf_fast_slow_blend :: real
  cf_initial_slope :: real
  cf_initial_intercept :: real
  cf_static_slope :: real
  cf_static_intercept :: real
  cf_learner_robust :: bool
  cf_learner_err_clip :: real
  cf_learner_step_frac :: real
  cf_learner_slope_max :: real
  cf_learner_intercept_max :: real
  cf_tokenizer_name :: "string option"
  cf_use_tokenizer :: bool
  cf_host :: string
  cf_port :: int
  cf_request_timeout_s :: real
  cf_health_interval_s :: real
  cf_max_tokens_cap :: int
  cf_token_feature_cap :: int
  cf_body_size_cap_bytes :: int
  cf_prompt_chars_cap :: int
  cf_api_key :: "string option"
  cf_protect_debug :: bool
  cf_data_plane_auth :: bool
  cf_log_decisions :: bool
  cf_decision_log_size :: int
  cf_pred_history_size :: int

definition dio_config_default :: dio_config where
  "dio_config_default =
     \<lparr>cf_strategy = ''nlms'', cf_nlms_mode = ''dual'', cf_ablation = ''full'', cf_slo_ms = 5000,
      cf_admission_off = False, cf_admission_mode = ''empirical'', cf_admission_percentile = 95,
      cf_recent_latency_window = 64, cf_tier_mismatch_ms = 500, cf_cache_bonus_ms = 200,
      cf_affinity_cache_size = 2048, cf_vram_soft_limit_mb = 4096, cf_vram_hard_limit_mb = 2400,
      cf_batch_size = 8, cf_engine_metrics = True, cf_metrics_interval_s = 1,
      cf_kv_cache_cost_ms = 800, cf_engine_queue_cost_ms = 50, cf_engine_prefix_hit_bonus_ms = 150,
      cf_mu_fast = 0.1, cf_mu_slow = 0.01, cf_mu_bias = 0.005, cf_fast_slow_blend = 0.8,
      cf_initial_slope = 2, cf_initial_intercept = 150, cf_static_slope = 1,
      cf_static_intercept = 50, cf_learner_robust = True, cf_learner_err_clip = 2,
      cf_learner_step_frac = 0.05, cf_learner_slope_max = 200, cf_learner_intercept_max = 1000000,
      cf_tokenizer_name = None, cf_use_tokenizer = True, cf_host = ''0.0.0.0'', cf_port = 8085,
      cf_request_timeout_s = 300, cf_health_interval_s = 5, cf_max_tokens_cap = 0,
      cf_token_feature_cap = 32768, cf_body_size_cap_bytes = 8 * 1024 * 1024,
      cf_prompt_chars_cap = 1000000, cf_api_key = None, cf_protect_debug = True,
      cf_data_plane_auth = False, cf_log_decisions = True, cf_decision_log_size = 200,
      cf_pred_history_size = 5000\<rparr>"

text \<open>The values that the \<open>Literal\<close> annotations admit.\<close>

definition config_literals_ok :: "dio_config \<Rightarrow> bool" where
  "config_literals_ok c \<longleftrightarrow>
     cf_strategy c \<in> {''nlms'', ''rls'', ''ewma'', ''static'', ''round_robin'', ''least_loaded''} \<and>
     cf_nlms_mode c \<in> {''dual'', ''single''} \<and>
     cf_ablation c \<in> {''full'', ''no_queue'', ''no_vram'', ''no_vram_hard'', ''no_tier'', ''no_cache'',
                     ''no_dual''} \<and>
     cf_admission_mode c \<in> {''absolute'', ''empirical'', ''strict'', ''rank_only''}"

definition ablation_from_name :: "string \<Rightarrow> ablation_flags" where
  "ablation_from_name name =
     (let n = py_lower (if name = [] then ''full'' else name);
          f = ablation_full\<lparr>ab_name := n\<rparr>
      in if n \<in> {''no_queue'', ''-queue''} then f\<lparr>ab_disable_queue := True\<rparr>
         else if n \<in> {''no_vram'', ''-vram''}
         then f\<lparr>ab_disable_vram_soft := True, ab_disable_vram_hard := True\<rparr>
         else if n = ''no_vram_hard'' then f\<lparr>ab_disable_vram_hard := True\<rparr>
         else if n \<in> {''no_tier'', ''-tier'', ''-tiers''} then f\<lparr>ab_disable_tier := True\<rparr>
         else if n \<in> {''no_cache'', ''-cache''} then f\<lparr>ab_disable_cache := True\<rparr>
         else if n \<in> {''no_dual'', ''single'', ''single_mu''} then f\<lparr>ab_single_timescale := True\<rparr>
         else f)"

end
