(* ===== verification/Gateway_Requests.thy ===== *)
theory Gateway_Requests
  imports Backends Config
begin

text \<open>
  The request helpers of \<open>gateway.py\<close>: extraction of the prompt, validation of a body, the caps, the
  token counter, path classification and key extraction, the error envelopes, and the translation
  of Ollama requests. An HTTP response is the record \<open>response\<close>; a handler returns a response or an
  exception, which the framework turns into a response (\<open>finish_handler\<close>).
\<close>

subsection \<open>Responses\<close>

text \<open>A JSON body, or the text chunks of a stream with their media type.\<close>

datatype http_body = JsonBody json | StreamBody string "string list"

record response =
  rs_status :: int
  rs_body :: http_body
  rs_headers :: headers

datatype raised = RaisedHttp int string | RaisedPy py_exc

type_synonym 'a handler = "raised + 'a"

fun lift_py :: "'a py \<Rightarrow> 'a handler" where
  "lift_py (Inl e) = Inl (RaisedPy e)"
| "lift_py (Inr x) = Inr x"

fun h_bind :: "'a handler \<Rightarrow> ('a \<Rightarrow> 'b handler) \<Rightarrow> 'b handler" where
  "h_bind (Inl e) f = Inl e"
| "h_bind (Inr x) f = f x"

definition json_response :: "int \<Rightarrow> json \<Rightarrow> headers \<Rightarrow> response" where
  "json_response status body hs = \<lparr>rs_status = status, rs_body = JsonBody body, rs_headers = hs\<rparr>"

definition openai_error :: "string \<Rightarrow> int \<Rightarrow> string \<Rightarrow> string option \<Rightarrow> response" where
  "openai_error message status err_type code =
     json_response status
       (JObj [(''error'', JObj ([(''message'', JStr message), (''type'', JStr err_type)]
          @ (case code of None \<Rightarrow> [] | Some c \<Rightarrow> if c = [] then [] else [(''code'', JStr c)])))]) []"

definition ollama_error :: "int \<Rightarrow> string \<Rightarrow> response" where
  "ollama_error status message = json_response status (JObj [(''error'', JStr message)]) []"

text \<open>
  What the framework makes of a handler's result: an \<open>HTTPException\<close> goes through \<open>_http_error\<close>,
  any other exception is the server's plain 500.
\<close>

definition http_error :: "string \<Rightarrow> int \<Rightarrow> string \<Rightarrow> response" where
  "http_error path status detail =
     (if startswith path ''/api/'' then ollama_error status detail
      else openai_error detail status
             (if status < 500 then ''invalid_request_error'' else ''server_error'') None)"

fun finish_handler :: "string \<Rightarrow> response handler \<Rightarrow> response" where
  "finish_handler path (Inr r) = r"
| "finish_handler path (Inl (RaisedHttp status detail)) = http_error path status detail"
| "finish_handler path (Inl (RaisedPy e)) =
     \<lparr>rs_status = 500, rs_body = StreamBody ''text/plain'' [''Internal Server Error''], rs_headers = []\<rparr>"

text \<open>\<open>_body_error\<close>: a body that fails the schema, with the location and message of the first error.\<close>

definition body_error :: "string \<Rightarrow> string list \<Rightarrow> string \<Rightarrow> response" where
  "body_error path loc msg =
     (let location = join_with ''.'' (filter (\<lambda>p. p \<noteq> ''body'') loc);
          message = (if location = [] then msg else location @ '': '' @ msg)
      in if startswith path ''/api/'' then ollama_error 400 message
         else openai_error message 400 ''invalid_request_error'' (Some ''invalid_body''))"

subsection \<open>The prompt\<close>

text \<open>\<open>" ".join(...)\<close> of the text parts of a multimodal content; join raises on a part that is no string.\<close>

definition text_part :: "json \<Rightarrow> string option py" where
  "text_part p =
     (case p of
        JObj d \<Rightarrow> (if dget d ''type'' = JStr ''text''
                   then (case dget_def d ''text'' (JStr []) of
                           JStr s \<Rightarrow> Inr (Some s)
                         | _ \<Rightarrow> Inl (TypeError ''sequence item: expected str instance''))
                   else Inr None)
      | _ \<Rightarrow> Inr None)"

definition somes :: "'a option list \<Rightarrow> 'a list" where
  "somes xs = concat (map (\<lambda>x. case x of None \<Rightarrow> [] | Some y \<Rightarrow> [y]) xs)"

definition content_text :: "py_text \<Rightarrow> json \<Rightarrow> string py" where
  "content_text t c =
     (case c of
        JArr ps \<Rightarrow> py_bind (py_map text_part ps) (\<lambda>xs. Inr (join_with '' '' (somes xs)))
      | _ \<Rightarrow> Inr (py_str t c))"

definition prompt_part :: "py_text \<Rightarrow> json \<Rightarrow> string py" where
  "prompt_part t m =
     py_bind (jget_def m ''content'' (JStr [])) (\<lambda>c.
     py_bind (content_text t c) (\<lambda>text.
     py_bind (jget_def m ''role'' (JStr ''user'')) (\<lambda>role.
     Inr (py_str t role @ '': '' @ text))))"

definition extract_prompt :: "py_text \<Rightarrow> (string \<times> json) list \<Rightarrow> string py" where
  "extract_prompt t body =
     (let messages = dget body ''messages''
      in if truthy messages
         then py_bind (py_iter messages) (\<lambda>ms.
              py_bind (py_map (prompt_part t) ms) (\<lambda>parts. Inr (join_with [CHR 0x0A] parts)))
         else Inr (py_str t (or_else (dget body ''prompt'') (JStr []))))"

subsection \<open>Validation\<close>

definition token_keys :: "string list" where
  "token_keys = [''max_tokens'', ''max_completion_tokens'', ''max_new_tokens'']"

definition token_key_problem :: "py_text \<Rightarrow> (string \<times> json) list \<Rightarrow> int \<Rightarrow> string \<Rightarrow> string option" where
  "token_key_problem t body cap key =
     (case dget body key of
        JNull \<Rightarrow> None
      | JInt n \<Rightarrow>
          (if n \<le> 0 then Some (py_quote key @ '' must be positive (got '' @ show_int n @ '')'')
           else if cap \<noteq> 0 \<and> n > cap
           then Some (py_quote key @ ''='' @ show_int n @ '' exceeds the configured cap of '' @ show_int cap)
           else None)
      | v \<Rightarrow> Some (py_quote key @ '' must be an integer (got '' @ py_repr t v @ '')''))"

fun first_problem :: "('a \<Rightarrow> string option) \<Rightarrow> 'a list \<Rightarrow> string option" where
  "first_problem f [] = None"
| "first_problem f (x # xs) = (case f x of None \<Rightarrow> first_problem f xs | Some m \<Rightarrow> Some m)"

definition shape_problem :: "(string \<times> json) list \<Rightarrow> string \<Rightarrow> string option" where
  "shape_problem body path =
     (if path = ''chat''
      then (case dget body ''messages'' of
              JArr (m # ms) \<Rightarrow> None
            | _ \<Rightarrow> Some (py_quote ''messages'' @ '' must be a non-empty array''))
      else (case dget body ''prompt'' of
              JNull \<Rightarrow> Some (py_quote ''prompt'' @ '' is required'')
            | JStr s \<Rightarrow> (if py_strip s = [] then Some (py_quote ''prompt'' @ '' is required'') else None)
            | _ \<Rightarrow> None))"

definition validate_openai_body :: "py_text \<Rightarrow> json \<Rightarrow> string \<Rightarrow> int \<Rightarrow> string option" where
  "validate_openai_body t body path max_tokens_cap =
     (case body of
        JObj d \<Rightarrow>
          (case shape_problem d path of
             Some m \<Rightarrow> Some m
           | None \<Rightarrow> first_problem (token_key_problem t d max_tokens_cap) token_keys)
      | _ \<Rightarrow> Some ''body must be a JSON object'')"

definition prompt_within_cap ::
  "py_text \<Rightarrow> (string \<times> json) list \<Rightarrow> int \<Rightarrow> bool \<Rightarrow> response option py" where
  "prompt_within_cap t body cap ollama_style =
     (if cap = 0 then Inr None
      else py_bind (extract_prompt t body) (\<lambda>prompt.
        let n = int (length prompt)
        in if n \<le> cap then Inr None
           else let message = ''prompt is '' @ show_int n @ '' characters, which exceeds the configured cap of ''
                              @ show_int cap
                in Inr (Some (if ollama_style then ollama_error 413 message
                              else openai_error message 413 ''invalid_request_error''
                                     (Some ''request_too_large'')))))"

subsection \<open>Counting tokens\<close>

definition completion_budget :: "py_text \<Rightarrow> (string \<times> json) list \<Rightarrow> int py" where
  "completion_budget t body =
     py_int t (or_else (or_else (dget body ''max_tokens'') (dget body ''max_completion_tokens'')) (JInt 64))"

definition estimate_tokens_heuristic :: "py_text \<Rightarrow> string \<Rightarrow> (string \<times> json) list \<Rightarrow> int py" where
  "estimate_tokens_heuristic t prompt body =
     py_bind (completion_budget t body)
       (\<lambda>out. Inr (max 1 (int (length prompt) div 4) + max 1 out))"

text \<open>
  \<open>_TokenCounter\<close>. The tokenizer is a parameter: absent, or a function that counts the tokens of a
  prompt or raises (None).
\<close>

type_synonym tokenizer = "(string \<Rightarrow> nat option) option"

text \<open>The constructor: \<open>load\<close> stands for \<open>AutoTokenizer.from_pretrained\<close>, None when it raises.\<close>

definition token_counter_init ::
  "(string \<Rightarrow> tokenizer) \<Rightarrow> string option \<Rightarrow> bool \<Rightarrow> tokenizer \<times> string" where
  "token_counter_init load name enabled =
     (case name of
        Some n \<Rightarrow>
          (if enabled \<and> n \<noteq> []
           then (case load n of None \<Rightarrow> (None, ''heuristic'') | Some f \<Rightarrow> (Some f, ''hf''))
           else (None, ''heuristic''))
      | None \<Rightarrow> (None, ''heuristic''))"

definition prompt_tokens :: "tokenizer \<Rightarrow> string \<Rightarrow> int" where
  "prompt_tokens tok prompt =
     (case (case tok of None \<Rightarrow> None | Some f \<Rightarrow> f prompt) of
        Some n \<Rightarrow> max 1 (int n)
      | None \<Rightarrow> max 1 (int (length prompt) div 4))"

definition count_tokens :: "py_text \<Rightarrow> tokenizer \<Rightarrow> string \<Rightarrow> (string \<times> json) list \<Rightarrow> int py" where
  "count_tokens t tok prompt body =
     py_bind (completion_budget t body) (\<lambda>out0.
     let out = max 1 out0
     in case (case tok of None \<Rightarrow> None | Some f \<Rightarrow> f prompt) of
          Some n \<Rightarrow> Inr (max 1 (int n + out))
        | None \<Rightarrow> estimate_tokens_heuristic t prompt body)"

definition feature_tokens :: "py_text \<Rightarrow> tokenizer \<Rightarrow> int \<Rightarrow> string \<Rightarrow> (string \<times> json) list \<Rightarrow> int py" where
  "feature_tokens t tok cap prompt body =
     py_bind (count_tokens t tok prompt body)
       (\<lambda>tokens. Inr (if cap \<noteq> 0 \<and> cap > 0 then min tokens cap else tokens))"

subsection \<open>Paths and keys\<close>

definition is_admin_path :: "string \<Rightarrow> bool" where
  "is_admin_path path \<longleftrightarrow> path = ''/debug'' \<or> startswith path ''/debug/''"

definition is_data_plane_path :: "string \<Rightarrow> bool" where
  "is_data_plane_path path \<longleftrightarrow> startswith path ''/v1/'' \<or> startswith path ''/api/''"

text \<open>The digest is a parameter: the hexadecimal \<open>blake2b\<close> of the name.\<close>

definition model_digest :: "(string \<Rightarrow> string) \<Rightarrow> string \<Rightarrow> string" where
  "model_digest hexdigest name = ''sha256:'' @ hexdigest name"

text \<open>Headers are looked up by their lower-case name.\<close>

definition supplied_api_key :: "headers \<Rightarrow> string option" where
  "supplied_api_key hs =
     (let auth = (case map_of hs ''authorization'' of None \<Rightarrow> [] | Some a \<Rightarrow> a);
          (scheme, _, token) = partition_at (CHR 0x20) auth
      in if py_lower scheme = ''bearer'' \<and> py_strip token \<noteq> [] then Some (py_strip token)
         else case map_of hs ''x-dio-api-key'' of
                None \<Rightarrow> None
              | Some key \<Rightarrow> if py_strip key = [] then None else Some (py_strip key))"

definition ndjson_error :: "py_text \<Rightarrow> string \<Rightarrow> string list" where
  "ndjson_error t message =
     [json_dumps t (JObj [(''error'', JStr message), (''done'', JBool True)]) @ [CHR 0x0A]]"

subsection \<open>Ollama requests\<close>

text \<open>\<open>if src in options: mapped[dst] = conv(options[src])\<close>\<close>

definition map_option_key ::
  "(json \<Rightarrow> json py) \<Rightarrow> string \<times> string \<Rightarrow> (string \<times> json) list \<Rightarrow> (string \<times> json) list \<Rightarrow> (string \<times> json) list py" where
  "map_option_key conv sd options mapped =
     (case map_of options (fst sd) of
        None \<Rightarrow> Inr mapped
      | Some v \<Rightarrow> py_bind (conv v) (\<lambda>w. Inr (AList.update (snd sd) w mapped)))"

definition to_float :: "py_text \<Rightarrow> json \<Rightarrow> json py" where
  "to_float t v = py_bind (py_float t v) (\<lambda>x. Inr (JFloat x))"

definition to_int :: "py_text \<Rightarrow> json \<Rightarrow> json py" where
  "to_int t v = py_bind (py_int t v) (\<lambda>n. Inr (JInt n))"

definition ollama_options_to_openai :: "py_text \<Rightarrow> json \<Rightarrow> (string \<times> json) list py" where
  "ollama_options_to_openai t options =
     (case options of
        JObj d \<Rightarrow>
          py_bind (map_option_key (to_float t) (''temperature'', ''temperature'') d []) (\<lambda>m1.
          py_bind (map_option_key (to_float t) (''top_p'', ''top_p'') d m1) (\<lambda>m2.
          py_bind (map_option_key (to_int t) (''num_predict'', ''max_tokens'') d m2) (\<lambda>m3.
          py_bind (map_option_key Inr (''stop'', ''stop'') d m3) (\<lambda>m4.
          py_bind (map_option_key (to_float t) (''presence_penalty'', ''presence_penalty'') d m4) (\<lambda>m5.
          map_option_key (to_float t) (''frequency_penalty'', ''frequency_penalty'') d m5)))))
      | _ \<Rightarrow> Inr [])"

definition ollama_request_to_openai :: "(string \<times> json) list \<Rightarrow> (string \<times> json) list" where
  "ollama_request_to_openai body =
     (let fmt = (case dget body ''format'' of
                   JStr s \<Rightarrow> (if py_lower s = ''json''
                             then [(''response_format'', JObj [(''type'', JStr ''json_object'')])] else [])
                 | JObj d \<Rightarrow> [(''response_format'', JObj [(''type'', JStr ''json_schema''),
                      (''json_schema'', JObj [(''name'', JStr ''ollama_format''), (''schema'', JObj d)])])]
                 | _ \<Rightarrow> []);
          tools = (case dget body ''tools'' of
                     JArr (x # xs) \<Rightarrow>
                       [(''tools'', JArr (x # xs))]
                       @ (if dget body ''tool_choice'' = JNull then []
                          else [(''tool_choice'', dget body ''tool_choice'')])
                   | _ \<Rightarrow> [])
      in fmt @ tools)"

text \<open>\<open>v[0]\<close>\<close>

fun py_first :: "json \<Rightarrow> json py" where
  "py_first (JArr (x # xs)) = Inr x"
| "py_first (JStr (c # cs)) = Inr (JStr [c])"
| "py_first (JArr []) = Inl (ValueError ''list index out of range'')"
| "py_first (JStr []) = Inl (ValueError ''string index out of range'')"
| "py_first (JObj d) = Inl (KeyError ''0'')"
| "py_first v = Inl (TypeError ''object is not subscriptable'')"

definition ollama_done_reason :: "json \<Rightarrow> string py" where
  "ollama_done_reason choices =
     (if \<not> truthy choices then Inr ''stop''
      else py_bind (py_first choices) (\<lambda>c.
           py_bind (jget_def c ''finish_reason'' JNull) (\<lambda>finish.
           Inr (if finish = JStr ''length'' then ''length''
                else if finish = JStr ''tool_calls'' then ''tool_calls'' else ''stop''))))"

text \<open>Accumulated tool calls: a slot per index, emitted in the order of the indices.\<close>

record tool_slot =
  ts_id :: json
  ts_name :: json
  ts_arguments :: string

definition tool_call_delta :: "int \<times> tool_slot \<Rightarrow> json list" where
  "tool_call_delta e =
     (case e of (idx, slot) \<Rightarrow>
        if \<not> truthy (ts_name slot) \<and> ts_arguments slot = [] then []
        else [JObj [(''id'', or_else (ts_id slot) (JStr (''call_'' @ show_int idx))),
                    (''type'', JStr ''function''),
                    (''function'', JObj [(''name'', if ts_name slot = JNull then JStr [] else ts_name slot),
                                        (''arguments'', JStr (ts_arguments slot))])]])"

definition ollama_tool_call_deltas :: "(int \<times> tool_slot) list \<Rightarrow> json list" where
  "ollama_tool_call_deltas acc = concat (map tool_call_delta (sort_key fst acc))"

text \<open>\<open>d.update(other)\<close>\<close>

definition dict_update :: "(string \<times> 'a) list \<Rightarrow> (string \<times> 'a) list \<Rightarrow> (string \<times> 'a) list" where
  "dict_update d other = foldl (\<lambda>d (k, v). AList.update k v d) d other"

end
