(* ===== verification/Model_Routing.thy ===== *)
theory Model_Routing
  imports Gateway_Requests
begin

text \<open>
  Multi-model routing of \<open>gateway.py\<close>: the alias table built from \<open>model_map\<close> and the backends' own
  model names, the resolution of a requested model to backend ids, and the listings that
  \<open>/v1/models\<close>, \<open>/api/tags\<close> and \<open>/api/show\<close> derive from it. The engines' answers to \<open>/v1/models\<close>
  are a parameter.
\<close>

subsection \<open>The alias table\<close>

type_synonym alias_table = "string list dict"

text \<open>\<open>ids = table.setdefault(name, [])\<close>, then append the id unless it is there.\<close>

definition add_alias :: "string \<Rightarrow> string \<Rightarrow> alias_table \<Rightarrow> alias_table" where
  "add_alias name bid table =
     (case map_of table name of
        None \<Rightarrow> AList.update name [bid] table
      | Some ids \<Rightarrow> if bid \<in> set ids then table else AList.update name (ids @ [bid]) table)"

definition map_entry :: "pool \<Rightarrow> string \<times> string list \<Rightarrow> alias_table \<Rightarrow> alias_table" where
  "map_entry p e table =
     (let kept = filter (\<lambda>i. i \<in> be_id ` set (pool_list p)) (snd e)
      in AList.update (fst e) (if kept = [] then snd e else kept) table)"

definition model_aliases :: "string list dict \<Rightarrow> pool \<Rightarrow> alias_table" where
  "model_aliases model_map p =
     (let table = foldl (\<lambda>t e. map_entry p e t) [] model_map
      in foldl (\<lambda>t b. if given (be_model b) then add_alias (the (be_model b)) (be_id b) t else t)
           table (pool_list p))"

subsection \<open>Resolution\<close>

definition tail_of :: "string \<Rightarrow> string" where
  "tail_of key = last_segment (CHR ''/'') (py_lower key)"

definition resolve_name :: "alias_table \<Rightarrow> string \<Rightarrow> string list" where
  "resolve_name table name =
     (case map_of table name of
        Some ids \<Rightarrow> ids
      | None \<Rightarrow>
          (let lower = py_strip (py_lower name)
           in if length lower < 3 then []
              else case List.find (\<lambda>(key, ids). lower = py_lower key \<or> tail_of key = lower) table of
                     Some (key, ids) \<Rightarrow> ids
                   | None \<Rightarrow>
                       (case List.find (\<lambda>(key, ids). startswith (tail_of key) lower
                                                 \<or> startswith lower (tail_of key)) table of
                          Some (key, ids) \<Rightarrow> ids
                        | None \<Rightarrow> [])))"

text \<open>
  \<open>_resolve_model_backends\<close>: None means every backend. The name comes from the body and may be any
  JSON value: an unhashable one raises in \<open>in table\<close>, another non-string one has no \<open>lower\<close>.
\<close>

definition resolve_model_backends :: "alias_table \<Rightarrow> json \<Rightarrow> string list option py" where
  "resolve_model_backends table model_name =
     (if table = [] \<or> \<not> truthy model_name then Inr None
      else case model_name of
             JStr name \<Rightarrow>
               (if name \<in> {''default'', ''dio-default''} then Inr None
                else Inr (Some (resolve_name table name)))
           | JArr xs \<Rightarrow> Inl (TypeError ''unhashable type'')
           | JObj d \<Rightarrow> Inl (TypeError ''unhashable type'')
           | _ \<Rightarrow> Inl (AttributeError ''lower''))"

subsection \<open>Listings\<close>

text \<open>An engine's answer to \<open>/v1/models\<close>: None when the client raises, else status and JSON body.\<close>

type_synonym models_client = "backend \<Rightarrow> (int \<times> json option) option"

text \<open>One reported model; an exception ends the loop over this engine and keeps what was added.\<close>

fun add_reported :: "py_text \<Rightarrow> backend \<Rightarrow> json list \<Rightarrow> alias_table \<Rightarrow> alias_table" where
  "add_reported t b [] table = table"
| "add_reported t b (m # ms) table =
     (case jget_def m ''id'' JNull of
        Inl e \<Rightarrow> table
      | Inr mid0 \<Rightarrow>
          (let mid = or_else (or_else mid0 (case be_model b of None \<Rightarrow> JNull | Some s \<Rightarrow> JStr s)) (JStr (be_id b))
           in add_reported t b ms
                (if truthy mid then add_alias (py_str t mid) (be_id b) table else table)))"

definition collect_from :: "py_text \<Rightarrow> models_client \<Rightarrow> alias_table \<Rightarrow> backend \<Rightarrow> alias_table" where
  "collect_from t client table b =
     (case client b of
        Some (status, Some (JObj d)) \<Rightarrow>
          (if status \<noteq> 200 then table
           else case py_iter (or_else (dget d ''data'') (JArr [])) of
                  Inl e \<Rightarrow> table
                | Inr ms \<Rightarrow> add_reported t b ms table)
      | _ \<Rightarrow> table)"

definition collect_model_names ::
  "py_text \<Rightarrow> models_client \<Rightarrow> string list dict \<Rightarrow> pool \<Rightarrow> alias_table" where
  "collect_model_names t client model_map p =
     foldl (collect_from t client) (model_aliases model_map p) (pool_list p)"

text \<open>The documents. \<open>ids[0]\<close> is only read when there is exactly one id.\<close>

definition list_models :: "alias_table \<Rightarrow> json" where
  "list_models table =
     (let data = map (\<lambda>(name, ids). JObj
                   [(''id'', JStr name), (''object'', JStr ''model''),
                    (''owned_by'', JStr (case ids of [i] \<Rightarrow> ''dio/'' @ i | _ \<Rightarrow> ''dio/config''))]) table
      in JObj [(''object'', JStr ''list''),
               (''data'', JArr (if data = []
                  then [JObj [(''id'', JStr ''dio-default''), (''object'', JStr ''model''),
                              (''owned_by'', JStr ''dio'')]]
                  else data))])"

definition model_details :: "(string \<times> json) list" where
  "model_details =
     [(''parent_model'', JStr []), (''format'', JStr ''gguf''), (''family'', JStr ''llama''),
      (''families'', JArr [JStr ''llama'']), (''parameter_size'', JStr ''8B''),
      (''quantization_level'', JStr ''Q4_K_M'')]"

definition ollama_tag :: "(string \<Rightarrow> string) \<Rightarrow> string \<Rightarrow> int \<Rightarrow> (string \<times> json) list \<Rightarrow> string \<Rightarrow> json" where
  "ollama_tag hexdigest now_iso bytes details name = JObj
     [(''name'', JStr name), (''model'', JStr name), (''modified_at'', JStr now_iso),
      (''size'', JInt bytes), (''digest'', JStr (model_digest hexdigest name)), (''details'', JObj details)]"

definition ollama_tags :: "(string \<Rightarrow> string) \<Rightarrow> string \<Rightarrow> alias_table \<Rightarrow> json" where
  "ollama_tags hexdigest now_iso table =
     JObj [(''models'', JArr
       (if table = []
        then [ollama_tag hexdigest now_iso 0 [(''format'', JStr ''gguf''), (''family'', JStr ''llama'')]
                ''dio-default'']
        else map (\<lambda>(name, ids). ollama_tag hexdigest now_iso 4000000000 model_details name) table))]"

definition ollama_show :: "py_text \<Rightarrow> (string \<times> json) list \<Rightarrow> json" where
  "ollama_show t body =
     (let model = py_str t (or_else (or_else (dget body ''model'') (dget body ''name'')) (JStr ''dio-default''))
      in JObj [(''modelfile'', JStr (''# Modelfile for '' @ model @ [CHR 0x0A] @ ''FROM '' @ model @ [CHR 0x0A]
                 @ ''PARAMETER temperature 0.7'')),
               (''parameters'', JStr ''temperature 0.7''), (''template'', JStr ''{{ .Prompt }}''),
               (''details'', JObj model_details)])"

end
