(* ===== verification/Scheduler_Metrics.thy ===== *)
theory Scheduler_Metrics
  imports Scheduler
begin

text \<open>
  The documents that the scheduler reports: \<open>DualTimescaleNLMS.snapshot\<close> and \<open>Scheduler.metrics\<close>,
  as JSON values built from the state.
\<close>

definition nlms_mae :: "nlms \<Rightarrow> real" where
  "nlms_mae p = (if n_update_count p \<noteq> 0 then n_sum_abs p / real (n_update_count p) else 0)"

definition nlms_mape :: "nlms \<Rightarrow> real" where
  "nlms_mape p = (if n_update_count p \<noteq> 0 then n_sum_rel p / real (n_update_count p) * 100 else 0)"

definition opt_json :: "('a \<Rightarrow> json) \<Rightarrow> string \<Rightarrow> 'a option \<Rightarrow> (string \<times> json) list" where
  "opt_json f k x = (case x of None \<Rightarrow> [] | Some v \<Rightarrow> [(k, f v)])"

definition eng_dict_json :: "eng_dict \<Rightarrow> json" where
  "eng_dict_json d = JObj
     (opt_json JFloat ''kv_cache_usage'' (ed_kv_cache_usage d)
      @ opt_json JFloat ''num_waiting'' (ed_num_waiting d)
      @ opt_json JFloat ''num_running'' (ed_num_running d)
      @ opt_json JFloat ''prefix_hit_rate'' (ed_prefix_hit_rate d)
      @ opt_json JFloat ''prefix_hits'' (ed_prefix_hits d)
      @ opt_json JFloat ''prefix_queries'' (ed_prefix_queries d)
      @ opt_json JFloat ''scraped_at'' (ed_scraped_at d)
      @ opt_json JBool ''ok'' (ed_ok d)
      @ opt_json JStr ''source'' (ed_source d))"

definition sample_json :: "pred_sample \<Rightarrow> json" where
  "sample_json x = (let i = ps_info x in JObj
     [(''unix_ms'', JInt (ps_unix_ms x)), (''worker_id'', JStr (ps_worker_id x)),
      (''tokens'', JInt (ps_tokens x)), (''predicted'', JFloat (ui_predicted i)),
      (''actual'', JFloat (ui_actual i)), (''abs_err'', JFloat (ui_abs_err i)),
      (''rel_err'', JFloat (ui_rel_err i)), (''fast_slope'', JFloat (ui_fast_slope i)),
      (''slow_slope'', JFloat (ui_slow_slope i)), (''mode'', JStr (ps_mode x))])"

text \<open>\<open>sum(s[...] for s in pred_history) / n\<close>, 0 for an empty history.\<close>

definition history_mean :: "(update_info \<Rightarrow> real) \<Rightarrow> pred_sample list \<Rightarrow> real" where
  "history_mean f xs = (if xs = [] then 0 else sum_list (map (\<lambda>x. f (ps_info x)) xs) / real (length xs))"

definition affinity_hit_rate :: "sched \<Rightarrow> real" where
  "affinity_hit_rate s =
     (if s_affinity_decisions s \<noteq> 0
      then real (s_affinity_hits s) / real (max 1 (s_affinity_decisions s)) else 0)"

definition nlms_snapshot :: "nlms \<Rightarrow> json" where
  "nlms_snapshot p = JObj
     [(''fast_slope'', JFloat (n_fast_slope p)), (''slow_slope'', JFloat (n_slow_slope p)),
      (''intercept'', JFloat (n_intercept p)), (''avg_latency_ms'', JFloat (n_avg_latency p)),
      (''updates'', jnat (n_update_count p)), (''clipped_updates'', jnat (n_clipped_updates p)),
      (''contended_updates'', jnat (n_contended_updates p)), (''robust'', JBool (n_robust p)),
      (''mode'', JStr (nlms_mode p)), (''mae_ms'', JFloat (nlms_mae p)),
      (''mape_pct'', JFloat (nlms_mape p)), (''pending'', JInt (n_pending p)),
      (''free_vram_mb'', JFloat (n_free_vram_mb p)), (''tier'', JStr (n_tier p)),
      (''healthy'', JBool (n_healthy p)), (''frozen'', JBool (n_frozen p))]"

definition affinity_json :: "sched \<Rightarrow> json" where
  "affinity_json s = JObj
     [(''decisions'', jnat (s_affinity_decisions s)), (''hits'', jnat (s_affinity_hits s)),
      (''hit_rate'', JFloat (affinity_hit_rate s)), (''evictions'', jnat (s_affinity_evictions s)),
      (''cache_size'', jnat (length (s_prefix_cache s))),
      (''capacity'', jnat (c_affinity_cache_size (s_cfg s)))]"

definition admission_json :: "sched \<Rightarrow> (string \<times> json) list" where
  "admission_json s =
     (let c = s_cfg s
      in admission_snapshot (s_admission s) (c_slo_ms c) (\<not> c_admission_off c)
           [(''admission_mode'', JStr (c_admission_mode c)),
            (''empirical_p_ms'', if s_recent_e2e s = [] then JNull
                               else JFloat (percentile (s_recent_e2e s) (c_admission_percentile c))),
            (''recent_e2e_n'', jnat (length (s_recent_e2e s)))])"

definition prediction_json :: "sched \<Rightarrow> (string \<times> json) list" where
  "prediction_json s =
     (let hist = s_pred_history s
      in [(''count'', jnat (length hist)), (''mae_ms'', JFloat (history_mean ui_abs_err hist)),
          (''mape_pct'', JFloat (history_mean ui_rel_err hist * 100)),
          (''samples'', JArr (map sample_json (drop (length hist - 200) hist)))])"

definition scheduler_metrics :: "sched \<Rightarrow> (string \<times> json) list" where
  "scheduler_metrics s =
     (let c = s_cfg s in
      [(''strategy'', JStr (c_strategy c)),
       (''nlms_mode'', JStr (if c_dual c then ''dual'' else ''single'')),
       (''ablation'', JStr (ab_name (c_ablation c))),
       (''workers'', JObj (map (\<lambda>(wid, p). (wid, nlms_snapshot p)) (s_predictors s))),
       (''engine_metrics'', JObj (map (\<lambda>(wid, d). (wid, eng_dict_json d)) (s_engine_snap s))),
       (''use_engine_metrics'', JBool (c_use_engine_metrics c)),
       (''affinity'', affinity_json s),
       (''admission'', JObj (admission_json s)),
       (''last_decision'', case s_last_decision s of None \<Rightarrow> JNull | Some d \<Rightarrow> decision_as_dict d),
       (''decisions'', JArr (s_decision_log s)),
       (''prediction'', JObj (prediction_json s))])"

end
