(* ===== verification/Gateway.thy ===== *)
theory Gateway
  imports Model_Routing Scheduler_Metrics "HOL-Library.Char_ord" "HOL-Library.List_Lexorder"
begin

text \<open>
  \<open>DIOGateway\<close> of \<open>gateway.py\<close>: construction, the request guard, the operational endpoints, and the
  JSON proxy. A proxied request spans an \<open>await\<close>, during which other requests run; it is therefore
  two steps, \<open>json_start\<close> (up to the forwarded request) and \<open>json_finish\<close> (from the engine's answer
  on), and what the coroutine remembers in between is the record \<open>ticket\<close>. Engines, the tokenizer,
  the prefix hash and the clock are parameters.
\<close>

subsection \<open>Construction\<close>

record gateway =
  gw_config :: dio_config
  gw_pool :: pool
  gw_model_map :: "string list dict"
  gw_sched :: sched
  gw_tok :: tokenizer
  gw_tok_mode :: string

text \<open>The ablation flags, with the timescale forced by \<open>nlms_mode\<close>.\<close>

definition gateway_ablation :: "dio_config \<Rightarrow> ablation_flags" where
  "gateway_ablation cfg =
     (let abl = ablation_from_name (cf_ablation cfg)
      in if cf_nlms_mode cfg = ''single'' then abl\<lparr>ab_single_timescale := True\<rparr> else abl)"

definition scheduler_args :: "dio_config \<Rightarrow> sched_args" where
  "scheduler_args cfg =
     (let abl = gateway_ablation cfg
      in \<lparr>g_strategy = cf_strategy cfg,
          g_dual = (cf_nlms_mode cfg = ''dual'' \<and> \<not> ab_single_timescale abl),
          g_ablation = Some abl, g_slo_ms = cf_slo_ms cfg, g_admission_off = cf_admission_off cfg,
          g_admission_mode = cf_admission_mode cfg,
          g_admission_percentile = cf_admission_percentile cfg,
          g_recent_latency_window = cf_recent_latency_window cfg, g_batch_size = cf_batch_size cfg,
          g_tier_mismatch_ms = cf_tier_mismatch_ms cfg, g_cache_bonus_ms = cf_cache_bonus_ms cfg,
          g_vram_soft_mb = cf_vram_soft_limit_mb cfg, g_vram_hard_mb = cf_vram_hard_limit_mb cfg,
          g_kv_cache_cost_ms = cf_kv_cache_cost_ms cfg,
          g_engine_queue_cost_ms = cf_engine_queue_cost_ms cfg,
          g_engine_prefix_hit_bonus_ms = cf_engine_prefix_hit_bonus_ms cfg,
          g_use_engine_metrics = cf_engine_metrics cfg,
          g_mu_fast = cf_mu_fast cfg, g_mu_slow = cf_mu_slow cfg, g_mu_bias = cf_mu_bias cfg,
          g_blend = cf_fast_slow_blend cfg, g_initial_slope = cf_initial_slope cfg,
          g_initial_intercept = cf_initial_intercept cfg, g_static_slope = cf_static_slope cfg,
          g_static_intercept = cf_static_intercept cfg,
          g_decision_log_size = cf_decision_log_size cfg,
          g_pred_history_size = cf_pred_history_size cfg,
          g_affinity_cache_size = cf_affinity_cache_size cfg,
          g_health_interval_s = cf_health_interval_s cfg, g_learner_robust = cf_learner_robust cfg,
          g_learner_err_clip = cf_learner_err_clip cfg,
          g_learner_step_frac = cf_learner_step_frac cfg,
          g_learner_slope_max = cf_learner_slope_max cfg,
          g_learner_intercept_max = cf_learner_intercept_max cfg\<rparr>)"

definition register_backend :: "sched \<Rightarrow> backend \<Rightarrow> sched" where
  "register_backend s b =
     register s (be_id b) (be_tier b) (be_total_vram_mb b) (Some (be_free_vram_mb b))"

definition gateway_init ::
  "(string \<Rightarrow> tokenizer) \<Rightarrow> backend list \<Rightarrow> dio_config \<Rightarrow> string list dict \<Rightarrow> gateway py" where
  "gateway_init load backends cfg model_map =
     py_bind (scheduler_init (scheduler_args cfg)) (\<lambda>s.
     let p = pool_init backends;
         name = (if cf_use_tokenizer cfg \<and> \<not> given (cf_tokenizer_name cfg) \<and> backends \<noteq> [] then None
                 else cf_tokenizer_name cfg);
         (tok, mode) = token_counter_init load name (cf_use_tokenizer cfg)
     in Inr \<lparr>gw_config = cfg, gw_pool = p, gw_model_map = model_map,
             gw_sched = foldl register_backend s (pool_list p), gw_tok = tok, gw_tok_mode = mode\<rparr>)"

definition add_backend :: "gateway \<Rightarrow> backend \<Rightarrow> gateway" where
  "add_backend g b =
     g\<lparr>gw_pool := pool_add (gw_pool g) b, gw_sched := register_backend (gw_sched g) b\<rparr>"

definition gateway_aliases :: "gateway \<Rightarrow> alias_table" where
  "gateway_aliases g = model_aliases (gw_model_map g) (gw_pool g)"

definition gateway_resolve :: "gateway \<Rightarrow> json \<Rightarrow> string list option py" where
  "gateway_resolve g model_name = resolve_model_backends (gateway_aliases g) model_name"

subsection \<open>The request guard\<close>

text \<open>\<open>hmac.compare_digest\<close> on two strings raises TypeError unless both are ASCII.\<close>

definition is_ascii :: "string \<Rightarrow> bool" where
  "is_ascii s \<longleftrightarrow> list_all (\<lambda>c. (of_char c :: nat) < 128) s"

definition compare_digest :: "string \<Rightarrow> string \<Rightarrow> bool py" where
  "compare_digest a b =
     (if is_ascii a \<and> is_ascii b then Inr (a = b)
      else Inl (TypeError ''comparing strings with non-ASCII characters is not supported''))"

definition int_of_digits :: "string \<Rightarrow> int py" where
  "int_of_digits s =
     (if s \<noteq> [] \<and> list_all py_isdigit s then Inr (int (read_digits s))
      else Inl (ValueError ''invalid literal for int()''))"

definition guard_scope :: "dio_config \<Rightarrow> string \<Rightarrow> string option" where
  "guard_scope cfg path =
     (if given (cf_api_key cfg) \<and> cf_protect_debug cfg \<and> is_admin_path path then Some ''admin''
      else if given (cf_api_key cfg) \<and> cf_data_plane_auth cfg \<and> is_data_plane_path path
      then Some ''inference'' else None)"

definition unauthorized :: "string \<Rightarrow> response" where
  "unauthorized scope =
     json_response 401
       (JObj [(''error'', JObj [(''message'', JStr (scope @ '' API key required'')),
          (''type'', JStr ''dio_unauthorized''), (''code'', JStr ''unauthorized'')])])
       [(''WWW-Authenticate'', ''Bearer'')]"

definition key_accepted :: "dio_config \<Rightarrow> headers \<Rightarrow> bool py" where
  "key_accepted cfg hs =
     (case supplied_api_key hs of
        None \<Rightarrow> Inr False
      | Some supplied \<Rightarrow>
          if supplied = [] then Inr False
          else compare_digest supplied (case cf_api_key cfg of None \<Rightarrow> [] | Some k \<Rightarrow> k))"

definition oversized :: "dio_config \<Rightarrow> string \<Rightarrow> string \<Rightarrow> headers \<Rightarrow> response option py" where
  "oversized cfg meth path hs =
     (let cap = cf_body_size_cap_bytes cfg;
          declared = (case map_of hs ''content-length'' of None \<Rightarrow> [] | Some d \<Rightarrow> d)
      in if cap \<noteq> 0 \<and> meth \<in> {''POST'', ''PUT'', ''PATCH''} \<and> str_isdigit declared
         then py_bind (int_of_digits declared) (\<lambda>n.
              if n \<le> cap then Inr None
              else let message = ''request body is '' @ show_int n
                         @ '' bytes, which exceeds the configured cap of '' @ show_int cap @ '' bytes''
                   in Inr (Some (if is_data_plane_path path
                                 then openai_error message 413 ''invalid_request_error''
                                        (Some ''request_too_large'')
                                 else ollama_error 413 message)))
         else Inr None)"

text \<open>None: the request goes on to its handler.\<close>

definition request_guard :: "dio_config \<Rightarrow> string \<Rightarrow> string \<Rightarrow> headers \<Rightarrow> response option py" where
  "request_guard cfg meth path hs =
     (case guard_scope cfg path of
        None \<Rightarrow> oversized cfg meth path hs
      | Some scope \<Rightarrow>
          py_bind (key_accepted cfg hs) (\<lambda>ok.
          if ok then oversized cfg meth path hs else Inr (Some (unauthorized scope))))"

subsection \<open>Operational endpoints\<close>

definition unhealthy_ids :: "sched \<Rightarrow> string list" where
  "unhealthy_ids s = sort (map fst (filter (\<lambda>(wid, ok). \<not> ok) (workers_health s)))"

definition healthz :: "gateway \<Rightarrow> json" where
  "healthz g =
     (let s = gw_sched g; cfg = gw_config g; a = s_admission s; bad = unhealthy_ids s
      in JObj
        [(''status'', JStr (if bad \<noteq> [] then ''degraded'' else ''ok'')), (''service'', JStr ''dio''),
         (''backends'', jnat (length (gw_pool g))),
         (''backends_registered'', jnat (length (workers_health s))),
         (''backends_unhealthy'', JArr (map JStr bad)), (''strategy'', JStr (cf_strategy cfg)),
         (''engine_metrics'', JBool (cf_engine_metrics cfg)),
         (''slo'', JObj
            [(''slo_ms'', JFloat (c_slo_ms (s_cfg s))),
             (''avg_e2e_ms'', JFloat (round_to 1 (avg_e2e_ms a))),
             (''goodput_fraction'', JFloat (round_to 4 (goodput_fraction a))),
             (''rejected_slo'', jnat (adm_rejected_slo a)),
             (''rejected_slo_suppressed'', jnat (adm_rejected_slo_suppressed a))])])"

definition debug_engine :: "gateway \<Rightarrow> json" where
  "debug_engine g =
     (let m = scheduler_metrics (gw_sched g)
      in JObj [(''enabled'', dget m ''use_engine_metrics''),
               (''interval_s'', JFloat (cf_metrics_interval_s (gw_config g))),
               (''snapshots'', or_else (dget m ''engine_metrics'') (JObj [])),
               (''affinity'', or_else (dget m ''affinity'') (JObj []))])"

definition debug_admission :: "gateway \<Rightarrow> json" where
  "debug_admission g = dget (scheduler_metrics (gw_sched g)) ''admission''"

definition debug_affinity :: "gateway \<Rightarrow> json" where
  "debug_affinity g = or_else (dget (scheduler_metrics (gw_sched g)) ''affinity'') (JObj [])"

definition debug_predictions :: "gateway \<Rightarrow> int \<Rightarrow> json" where
  "debug_predictions g limit =
     (let m = prediction_json (gw_sched g)
      in case dget m ''samples'' of
           JArr xs \<Rightarrow> JObj (AList.update ''samples'' (JArr (py_drop (- limit) xs)) m)
         | _ \<Rightarrow> JObj (AList.update ''samples'' (JArr []) m))"

definition debug_workers :: "gateway \<Rightarrow> json" where
  "debug_workers g =
     (let s = gw_sched g; m = scheduler_metrics s
      in JObj [(''worker_count'', jnat (length (s_predictors s))),
               (''workers'', JArr (map (\<lambda>(wid, p). JStr wid) (s_predictors s))),
               (''strategy'', dget m ''strategy''), (''detail'', dget m ''workers''),
               (''engine'', or_else (dget m ''engine_metrics'') (JObj []))])"

definition debug_reset :: "gateway \<Rightarrow> gateway \<times> json" where
  "debug_reset g =
     (g\<lparr>gw_sched := reset_stats (gw_sched g)\<rparr>, JObj [(''status'', JStr ''ok'')])"

text \<open>\<open>/debug/chaos/vram\<close>. A worker id that is a number names no backend; a list or object is unhashable.\<close>

definition set_pool_vram :: "pool \<Rightarrow> string \<Rightarrow> real \<Rightarrow> pool" where
  "set_pool_vram p wid free =
     (case map_of p wid of
        None \<Rightarrow> p | Some b \<Rightarrow> AList.update wid (b\<lparr>be_free_vram_mb := free\<rparr>) p)"

definition chaos_vram :: "py_text \<Rightarrow> gateway \<Rightarrow> json \<Rightarrow> gateway \<times> response handler" where
  "chaos_vram t g body =
     (case py_bind (jget_def body ''worker_id'' JNull) (\<lambda>wid.
           py_bind (jget_def body ''free_vram_mb'' (JInt 1500)) (\<lambda>f.
           py_bind (py_float t f) (\<lambda>free. Inr (wid, free)))) of
        Inl e \<Rightarrow> (g, Inl (RaisedPy e))
      | Inr (wid, free) \<Rightarrow>
          (if \<not> truthy wid then (g, Inl (RaisedHttp 400 ''worker_id required''))
           else let ok = json_response 200
                      (JObj [(''status'', JStr ''ok''), (''worker_id'', wid), (''free_vram_mb'', JFloat free)]) []
                in case wid of
                     JStr w \<Rightarrow>
                       (g\<lparr>gw_sched := set_vram (gw_sched g) w free,
                          gw_pool := set_pool_vram (gw_pool g) w free\<rparr>, Inr ok)
                   | JArr xs \<Rightarrow> (g, Inl (RaisedPy (TypeError ''unhashable type'')))
                   | JObj d \<Rightarrow> (g, Inl (RaisedPy (TypeError ''unhashable type'')))
                   | _ \<Rightarrow> (g, Inr ok)))"

definition bad_request :: "string \<Rightarrow> response" where
  "bad_request message =
     json_response 400
       (JObj [(''error'', JObj [(''message'', JStr message), (''type'', JStr ''dio_bad_request'')])]) []"

fun exc_text :: "py_exc \<Rightarrow> string" where
  "exc_text (KeyError k) = py_quote k"
| "exc_text (ValueError m) = m"
| "exc_text (TypeError m) = m"
| "exc_text (AttributeError m) = m"
| "exc_text (IndexError m) = m"

text \<open>
  \<open>/debug/backends\<close> on a parsed body (None: the body is no JSON). The id, tier and model are read as
  strings.
\<close>

definition str_field :: "(string \<times> json) list \<Rightarrow> string \<Rightarrow> string \<Rightarrow> string" where
  "str_field d k dflt = (case map_of d k of Some (JStr s) \<Rightarrow> s | _ \<Rightarrow> dflt)"

definition hot_backend :: "(string \<Rightarrow> bool) \<Rightarrow> py_text \<Rightarrow> (string \<times> json) list \<Rightarrow> backend py" where
  "hot_backend bracket_ok t d =
     py_bind (py_float t (dget_def d ''total_vram_mb'' (JInt 24000))) (\<lambda>total.
     py_bind (py_float t (dget_def d ''free_vram_mb'' (dget_def d ''total_vram_mb'' (JInt 24000)))) (\<lambda>free.
     py_bind (validate_backend_url bracket_ok (dget d ''base_url'') (str_field d ''id'' [])) (\<lambda>url.
     Inr ((backend_default (str_field d ''id'' []) url)
            \<lparr>be_tier := str_field d ''tier'' ''small'',
             be_model := (case dget d ''model'' of JStr m \<Rightarrow> Some m | _ \<Rightarrow> None),
             be_total_vram_mb := total, be_free_vram_mb := free\<rparr>))))"

definition add_backend_http ::
  "(string \<Rightarrow> bool) \<Rightarrow> py_text \<Rightarrow> gateway \<Rightarrow> json option \<Rightarrow> gateway \<times> response" where
  "add_backend_http bracket_ok t g body =
     (case body of
        None \<Rightarrow> (g, bad_request ''body must be JSON'')
      | Some (JObj d) \<Rightarrow>
          (if \<not> truthy (dget d ''id'') \<or> \<not> truthy (dget d ''base_url'')
           then (g, bad_request (''body must contain '' @ py_quote ''id'' @ '' and '' @ py_quote ''base_url''))
           else case hot_backend bracket_ok t d of
                  Inl e \<Rightarrow> (g, bad_request (exc_text e))
                | Inr b \<Rightarrow>
                    (add_backend g b,
                     json_response 200 (JObj [(''status'', JStr ''ok''), (''id'', JStr (be_id b))]) []))
      | Some v \<Rightarrow>
          (g, bad_request (''body must contain '' @ py_quote ''id'' @ '' and '' @ py_quote ''base_url'')))"

end
