(* ===== verification/Background.thy ===== *)
theory Background
  imports Gateway
begin

text \<open>
  The background tasks of \<open>gateway.py\<close>: \<open>_metrics_loop\<close> and \<open>_health_loop\<close>. Each loop awaits one HTTP
  answer per backend, so the step between two awaits is one backend; a round is the fold over the
  pool. An exception of the client or of the scrape is logged and the round goes on. The listening
  address of \<open>run\<close> is here too.
\<close>

text \<open>One scrape: the client answers with a status and a text, or None when it raises.\<close>

definition scrape_backend ::
  "(string \<Rightarrow> headers \<Rightarrow> (int \<times> string) option) \<Rightarrow> real \<Rightarrow> sched \<Rightarrow> backend \<Rightarrow> sched" where
  "scrape_backend client now s b =
     (case client (metrics_url b) (auth_headers b) of
        None \<Rightarrow> s
      | Some (status, text) \<Rightarrow>
          (if status \<ge> 400 then s
           else let snap = snapshot_from_metrics now (parse_prometheus_text text)
                in if es_ok snap then set_engine_metrics s (be_id b) (SnapObj snap) else s))"

definition metrics_round ::
  "(string \<Rightarrow> headers \<Rightarrow> (int \<times> string) option) \<Rightarrow> real \<Rightarrow> gateway \<Rightarrow> gateway" where
  "metrics_round client now g =
     g\<lparr>gw_sched := foldl (scrape_backend client now) (gw_sched g) (pool_list (gw_pool g))\<rparr>"

definition metrics_interval :: "dio_config \<Rightarrow> real" where
  "metrics_interval cfg = max 0.25 (cf_metrics_interval_s cfg)"

text \<open>One round of probes; a KeyError of the pool would end it.\<close>

fun probe_all ::
  "(string \<Rightarrow> headers \<Rightarrow> int option) \<Rightarrow> pool \<Rightarrow> backend list \<Rightarrow> sched \<Rightarrow> sched" where
  "probe_all client p [] s = s"
| "probe_all client p (b # bs) s =
     (case probe_health client p (be_id b) of
        Inl e \<Rightarrow> s
      | Inr ok \<Rightarrow> probe_all client p bs (set_healthy s (be_id b) ok))"

definition health_round :: "(string \<Rightarrow> headers \<Rightarrow> int option) \<Rightarrow> gateway \<Rightarrow> gateway" where
  "health_round client g =
     g\<lparr>gw_sched := probe_all client (gw_pool g) (pool_list (gw_pool g)) (gw_sched g)\<rparr>"

definition health_interval :: "dio_config \<Rightarrow> real" where
  "health_interval cfg = max 2 (cf_health_interval_s cfg)"

text \<open>\<open>host or self.config.host\<close>, \<open>port or self.config.port\<close>\<close>

definition listen_address :: "dio_config \<Rightarrow> string option \<Rightarrow> int option \<Rightarrow> string \<times> int" where
  "listen_address cfg host port =
     (if given host then the host else cf_host cfg,
      case port of None \<Rightarrow> cf_port cfg | Some p \<Rightarrow> if p = 0 then cf_port cfg else p)"

end
