(* ===== verification/Proxy.thy ===== *)
theory Proxy
  imports Gateway
begin

text \<open>
  The data plane of \<open>gateway.py\<close>: \<open>_proxy_json\<close> and \<open>_relay_stream\<close> as steps around the awaits, the
  OpenAI endpoints and the Ollama endpoints that translate to them.
\<close>

subsection \<open>Admission of a request\<close>

text \<open>What a handler remembers of an admitted request.\<close>

record ticket =
  tk_worker :: string
  tk_tokens :: int
  tk_prompt :: string
  tk_body :: "(string \<times> json) list"
  tk_path :: string
  tk_decision :: routing_decision

datatype refusal = Refused string int | Failed py_exc

text \<open>The common prologue: extract the prompt, compute the feature, pick a backend.\<close>

definition admit_request ::
  "(string \<Rightarrow> nat) \<Rightarrow> py_text \<Rightarrow> gateway \<Rightarrow> (string \<times> json) list \<Rightarrow> string \<Rightarrow> string \<Rightarrow>
   string list option \<Rightarrow> gateway \<times> (refusal + ticket)" where
  "admit_request h t g body path tier allowed =
     (case py_bind (extract_prompt t body) (\<lambda>prompt.
           py_bind (feature_tokens t (gw_tok g) (cf_token_feature_cap (gw_config g)) prompt body)
             (\<lambda>tokens. Inr (prompt, tokens))) of
        Inl e \<Rightarrow> (g, Inl (Failed e))
      | Inr (prompt, tokens) \<Rightarrow>
          (case pick h (gw_sched g) prompt tier (Some tokens) allowed of
             (s, Inl (AdmissionError msg retry)) \<Rightarrow> (g\<lparr>gw_sched := s\<rparr>, Inl (Refused msg retry))
           | (s, Inl (PickRaised e)) \<Rightarrow> (g\<lparr>gw_sched := s\<rparr>, Inl (Failed e))
           | (s, Inr (wid, dec)) \<Rightarrow>
               (g\<lparr>gw_sched := s\<rparr>,
                Inr \<lparr>tk_worker = wid, tk_tokens = tokens, tk_prompt = prompt, tk_body = body,
                     tk_path = path, tk_decision = dec\<rparr>)))"

definition rejection_json :: "string \<Rightarrow> json" where
  "rejection_json msg =
     JObj [(''error'', JObj [(''message'', JStr msg), (''type'', JStr ''dio_admission_rejected''),
       (''code'', JStr ''service_unavailable'')])]"

subsection \<open>The JSON proxy\<close>

text \<open>What the engine makes of a POST: status, JSON body (None when it is no JSON) and text.\<close>

datatype engine_reply = Reply int "json option" string | ReplyFailed string

definition fallback_body :: "ticket \<Rightarrow> (string \<times> json) list" where
  "fallback_body tk =
     (let body = tk_body tk
      in [(''model'', dget body ''model''), (''prompt'', JStr (tk_prompt tk)),
          (''max_tokens'', dget_def body ''max_tokens'' (JInt 64)),
          (''temperature'', dget_def body ''temperature'' (JFloat 0.7))])"

definition send :: "(post_request \<Rightarrow> engine_reply) \<Rightarrow> post_request py \<Rightarrow> engine_reply" where
  "send post req = (case req of Inl e \<Rightarrow> ReplyFailed (exc_text e) | Inr r \<Rightarrow> post r)"

text \<open>The exchange: the forward, and the second attempt for an engine without a chat route.\<close>

definition exchange ::
  "py_text \<Rightarrow> (post_request \<Rightarrow> engine_reply) \<Rightarrow> gateway \<Rightarrow> ticket \<Rightarrow> engine_reply" where
  "exchange t post g tk =
     (let timeout = cf_request_timeout_s (gw_config g);
          first = send post ((if tk_path tk = ''chat'' then forward_chat else forward_completions)
                               t (gw_pool g) (tk_worker tk) (tk_body tk) timeout)
      in case first of
           Reply status body text \<Rightarrow>
             (if status = 404 \<and> tk_path tk = ''chat''
              then send post (forward_completions t (gw_pool g) (tk_worker tk) (fallback_body tk) timeout)
              else first)
         | ReplyFailed msg \<Rightarrow> first)"

text \<open>\<open>usage\<close> as reported by the engine; any exception here falls back to the raw text.\<close>

definition reported_tokens :: "py_text \<Rightarrow> string \<Rightarrow> json \<Rightarrow> int option py" where
  "reported_tokens t prompt data =
     (let usage = (case data of JObj d \<Rightarrow> or_else (dget d ''usage'') (JObj []) | _ \<Rightarrow> JObj [])
      in py_bind (jget_def usage ''total_tokens'' JNull) (\<lambda>total.
         py_bind (jget_def usage ''completion_tokens'' JNull) (\<lambda>completion.
         if truthy total then py_bind (py_int t total) (\<lambda>n. Inr (Some n))
         else if truthy completion
         then py_bind (py_int t completion) (\<lambda>n. Inr (Some (max 1 (int (length prompt) div 4) + n)))
         else Inr None)))"

definition normalise_reply ::
  "py_text \<Rightarrow> tokenizer \<Rightarrow> int \<Rightarrow> backend \<Rightarrow> ticket \<Rightarrow> int \<Rightarrow> json option \<Rightarrow> string \<Rightarrow> json \<times> int option" where
  "normalise_reply t tok now_ms b tk status body text =
     (case (case body of
              None \<Rightarrow> Inl (ValueError ''Expecting value'')
            | Some data0 \<Rightarrow>
                py_bind (if status < 400 \<and> be_api_style b = ''tgi_generate'' \<and> tk_path tk = ''chat''
                         then tgi_generate_to_openai_chat now_ms data0
                                (or_else (or_else (case be_model b of None \<Rightarrow> JNull | Some m \<Rightarrow> JStr m)
                                            (dget (tk_body tk) ''model'')) (JStr ''tgi''))
                                (prompt_tokens tok (tk_prompt tk))
                         else Inr data0) (\<lambda>data.
                py_bind (reported_tokens t (tk_prompt tk) data) (\<lambda>n. Inr (data, n)))) of
        Inl e \<Rightarrow> (JObj [(''raw'', JStr text)], None)
      | Inr r \<Rightarrow> r)"

definition dio_annotation :: "gateway \<Rightarrow> backend \<Rightarrow> ticket \<Rightarrow> real \<Rightarrow> int option \<Rightarrow> json" where
  "dio_annotation g b tk e2e_ms reported = JObj
     [(''backend_id'', JStr (tk_worker tk)), (''backend_url'', JStr (be_base_url b)),
      (''api_style'', JStr (be_api_style b)), (''e2e_ms'', JFloat (round_to 2 e2e_ms)),
      (''tokens'', JInt (tk_tokens tk)),
      (''reported_tokens'', case reported of None \<Rightarrow> JNull | Some n \<Rightarrow> JInt n),
      (''slo_ms'', JFloat (cf_slo_ms (gw_config g))),
      (''over_budget'', JBool (e2e_ms > cf_slo_ms (gw_config g))),
      (''decision'', decision_as_dict (tk_decision tk))]"

definition annotate :: "json \<Rightarrow> json \<Rightarrow> json" where
  "annotate data note = (case data of JObj d \<Rightarrow> JObj (AList.update ''dio'' note d) | _ \<Rightarrow> data)"

definition json_start ::
  "(string \<Rightarrow> nat) \<Rightarrow> py_text \<Rightarrow> gateway \<Rightarrow> (string \<times> json) list \<Rightarrow> string \<Rightarrow> string \<Rightarrow>
   string list option \<Rightarrow> gateway \<times> (response handler + ticket)" where
  "json_start h t g body path tier allowed =
     (case admit_request h t g body path tier allowed of
        (g', Inl (Refused msg retry)) \<Rightarrow>
          (g', Inl (Inr (json_response 503 (rejection_json msg) [(''Retry-After'', show_int retry)])))
      | (g', Inl (Failed e)) \<Rightarrow> (g', Inl (Inl (RaisedPy e)))
      | (g', Inr tk) \<Rightarrow> (g', Inr tk))"

text \<open>The scheduler's part of the epilogue: circuit breaker, then feedback.\<close>

definition settle :: "sched \<Rightarrow> ticket \<Rightarrow> int \<Rightarrow> real \<Rightarrow> int \<Rightarrow> sched" where
  "settle s tk status e2e_ms now_ms =
     (let s1 = (if status \<ge> 500 then fst (note_failure s (tk_worker tk) 3) else s)
      in feedback s1 (tk_worker tk) e2e_ms (tk_tokens tk) (status < 400) now_ms)"

definition json_finish ::
  "py_text \<Rightarrow> gateway \<Rightarrow> ticket \<Rightarrow> engine_reply \<Rightarrow> real \<Rightarrow> int \<Rightarrow> gateway \<times> response handler" where
  "json_finish t g tk reply e2e_ms now_ms =
     (case reply of
        ReplyFailed msg \<Rightarrow>
          (g\<lparr>gw_sched := release (gw_sched g) (tk_worker tk)\<rparr>,
           Inl (RaisedHttp 502 (''backend '' @ tk_worker tk @ '' error: '' @ msg)))
      | Reply status body text \<Rightarrow>
          (case pool_get (gw_pool g) (tk_worker tk) of
             Inl e \<Rightarrow> (g, Inl (RaisedPy e))
           | Inr b \<Rightarrow>
               (let (data, reported) = normalise_reply t (gw_tok g) now_ms b tk status body text;
                    g' = g\<lparr>gw_sched := settle (gw_sched g) tk status e2e_ms now_ms\<rparr>;
                    slo = cf_slo_ms (gw_config g)
                in if status \<ge> 400 then (g', Inr (json_response status data []))
                   else (g', Inr (json_response 200 (annotate data (dio_annotation g b tk e2e_ms reported))
                          [(''X-DIO-Backend'', tk_worker tk), (''X-DIO-E2E-Ms'', fmt_1f e2e_ms),
                           (''X-DIO-Budget-Ms'', fmt_0f slo),
                           (''X-DIO-Over-Budget'', if e2e_ms > slo then ''1'' else ''0'')])))))"

subsection \<open>Endpoints\<close>

text \<open>What an endpoint does after its checks: answer, proxy as JSON, or proxy as a stream.\<close>

datatype plan =
    Answer response
  | CallJson "(string \<times> json) list" string "string list option"
  | CallStream "(string \<times> json) list" string "string list option"
  | CallOllamaStream "(string \<times> json) list" string bool "string list option"

text \<open>The checks shared by the four inference endpoints.\<close>

definition checked ::
  "py_text \<Rightarrow> gateway \<Rightarrow> json \<Rightarrow> string \<Rightarrow> bool \<Rightarrow>
   (string \<Rightarrow> response) \<Rightarrow> (json \<Rightarrow> response) \<Rightarrow>
   ((string \<times> json) list \<Rightarrow> json \<Rightarrow> string list option \<Rightarrow> plan py) \<Rightarrow> plan py" where
  "checked t g body path ollama_style invalid not_found k =
     (case body of
        JObj d \<Rightarrow>
          (case validate_openai_body t body path (cf_max_tokens_cap (gw_config g)) of
             Some problem \<Rightarrow> Inr (Answer (invalid problem))
           | None \<Rightarrow>
               py_bind (prompt_within_cap t d (cf_prompt_chars_cap (gw_config g)) ollama_style) (\<lambda>large.
               case large of
                 Some r \<Rightarrow> Inr (Answer r)
               | None \<Rightarrow>
                   (let model_hint = or_else (dget d ''model'') (JStr [])
                    in py_bind (gateway_resolve g model_hint) (\<lambda>allowed.
                       if allowed = Some [] then Inr (Answer (not_found model_hint))
                       else k d model_hint allowed))))
      | _ \<Rightarrow> Inr (Answer (invalid ''body must be a JSON object'')))"

definition openai_endpoint :: "py_text \<Rightarrow> gateway \<Rightarrow> string \<Rightarrow> json \<Rightarrow> plan py" where
  "openai_endpoint t g path body =
     checked t g body path False
       (\<lambda>problem. openai_error problem 400 ''invalid_request_error'' (Some ''invalid_body''))
       (\<lambda>m. openai_error (''The model '' @ [CHR 0x27] @ py_str t m @ [CHR 0x27] @ '' does not exist.'') 404
              ''invalid_request_error'' (Some ''model_not_found''))
       (\<lambda>d m allowed. Inr (if truthy (dget d ''stream'') then CallStream d path allowed
                           else CallJson d path allowed))"

definition chat_completions :: "py_text \<Rightarrow> gateway \<Rightarrow> json \<Rightarrow> plan py" where
  "chat_completions t g body = openai_endpoint t g ''chat'' body"

definition completions :: "py_text \<Rightarrow> gateway \<Rightarrow> json \<Rightarrow> plan py" where
  "completions t g body = openai_endpoint t g ''completions'' body"

text \<open>The OpenAI body of an Ollama request: the base, the options, the request-level fields.\<close>

definition ollama_body ::
  "py_text \<Rightarrow> (string \<times> json) list \<Rightarrow> (string \<times> json) list \<Rightarrow> (string \<times> json) list py" where
  "ollama_body t base d =
     py_bind (case map_of d ''options'' of
                None \<Rightarrow> Inr base
              | Some opts \<Rightarrow> py_bind (ollama_options_to_openai t opts) (\<lambda>m. Inr (dict_update base m)))
       (\<lambda>b. Inr (dict_update b (ollama_request_to_openai d)))"

definition ollama_endpoint ::
  "py_text \<Rightarrow> gateway \<Rightarrow> string \<Rightarrow> bool \<Rightarrow> ((string \<times> json) list \<Rightarrow> string \<times> json) \<Rightarrow> json \<Rightarrow> plan py" where
  "ollama_endpoint t g path is_chat payload body =
     checked t g body path True (ollama_error 400)
       (\<lambda>m. ollama_error 404 (''model '' @ [CHR 0x27] @ py_str t m @ [CHR 0x27] @ '' not found''))
       (\<lambda>d m allowed.
          py_bind (ollama_body t [(''model'', m), payload d] d) (\<lambda>openai_body.
          Inr (if truthy (dget_def d ''stream'' (JBool True))
               then CallOllamaStream (AList.update ''stream'' (JBool True) openai_body) path is_chat allowed
               else CallJson openai_body path allowed)))"

definition ollama_chat :: "py_text \<Rightarrow> gateway \<Rightarrow> json \<Rightarrow> plan py" where
  "ollama_chat t g body =
     ollama_endpoint t g ''chat'' True (\<lambda>d. (''messages'', or_else (dget d ''messages'') (JArr []))) body"

definition ollama_generate :: "py_text \<Rightarrow> gateway \<Rightarrow> json \<Rightarrow> plan py" where
  "ollama_generate t g body =
     ollama_endpoint t g ''completions'' False (\<lambda>d. (''prompt'', or_else (dget d ''prompt'') (JStr []))) body"

subsection \<open>Ollama answers\<close>

definition chat_message :: "json \<Rightarrow> (string \<times> json) py" where
  "chat_message choices =
     (let none = JObj [(''role'', JStr ''assistant''), (''content'', JStr [])]
      in if \<not> truthy choices then Inr (''message'', none)
         else py_bind (py_first choices) (\<lambda>c.
              py_bind (py_contains ''message'' c) (\<lambda>has.
              py_bind (if has then py_getitem c ''message'' else Inr none) (\<lambda>m.
              Inr (''message'', m)))))"

definition generate_text :: "json \<Rightarrow> (string \<times> json) py" where
  "generate_text choices =
     (if \<not> truthy choices then Inr (''response'', JStr [])
      else py_bind (py_first choices) (\<lambda>c.
           py_bind (jget_def c ''text'' (JStr [])) (\<lambda>x. Inr (''response'', x))))"

definition routing_headers :: "headers \<Rightarrow> headers" where
  "routing_headers hs =
     concat (map (\<lambda>k. case map_of hs k of None \<Rightarrow> [] | Some v \<Rightarrow> if v = [] then [] else [(k, v)])
              [''X-DIO-Backend'', ''X-DIO-E2E-Ms''])"

text \<open>
  The translation of a successful JSON answer. The latency is read back from the header, which the
  float parser parameter turns into a number; 10.0 stands in for a missing header.
\<close>

definition ollama_reply ::
  "py_text \<Rightarrow> string \<Rightarrow> json \<Rightarrow> (json \<Rightarrow> (string \<times> json) py) \<Rightarrow> response \<Rightarrow> response handler" where
  "ollama_reply t now_iso model_name content r =
     (if rs_status r \<ge> 400 then Inr r
      else lift_py
        (let data = (case rs_body r of JsonBody v \<Rightarrow> v | StreamBody mt cs \<Rightarrow> JObj [])
         in py_bind (jget_def data ''choices'' JNull) (\<lambda>choices0.
            let choices = or_else choices0 (JArr [])
            in py_bind (content choices) (\<lambda>payload.
               py_bind (case map_of (rs_headers r) ''X-DIO-E2E-Ms'' of
                          None \<Rightarrow> Inr 10 | Some v \<Rightarrow> py_float t (JStr v)) (\<lambda>e2e_ms.
               py_bind (jget_def data ''usage'' JNull) (\<lambda>usage0.
               let usage = or_else usage0 (JObj [])
               in py_bind (ollama_done_reason choices) (\<lambda>reason.
                  py_bind (jget_def usage ''prompt_tokens'' (JInt 0)) (\<lambda>pe.
                  py_bind (jget_def usage ''completion_tokens'' (JInt 0)) (\<lambda>ec.
                  Inr (json_response 200
                    (JObj [(''model'', or_else model_name (JStr ''dio-default'')),
                           (''created_at'', JStr now_iso), payload, (''done'', JBool True),
                           (''done_reason'', JStr reason),
                           (''total_duration'', JInt (py_trunc (e2e_ms * 1000000))),
                           (''load_duration'', JInt 1000000), (''prompt_eval_count'', pe),
                           (''eval_count'', ec)])
                    (routing_headers (rs_headers r))))))))))))"

end
