(* ===== verification/Streams.thy ===== *)
theory Streams
  imports Proxy
begin

text \<open>
  Streaming in \<open>gateway.py\<close>: \<open>_relay_stream\<close>, which passes an engine's events through, and
  \<open>_proxy_ollama_stream\<close>, which translates them line by line into Ollama's newline-delimited JSON.
  A stream is admitted, opened and ended in three steps; \<open>json.loads\<close> (\<open>loads\<close>, None when it raises)
  and the formatted clock (\<open>now_iso\<close>) are parameters, and a chunk is given decoded.
\<close>

subsection \<open>Opening a stream\<close>

definition stream_payload :: "backend \<Rightarrow> (string \<times> json) list \<Rightarrow> (string \<times> json) list" where
  "stream_payload b body = override_model b (AList.update ''stream'' (JBool True) body)"

text \<open>\<open>payload.setdefault("stream_options", ...)\<close> for engines of the OpenAI style.\<close>

definition ollama_payload :: "backend \<Rightarrow> (string \<times> json) list \<Rightarrow> (string \<times> json) list" where
  "ollama_payload b body =
     (let payload = stream_payload b body
      in if be_api_style b = ''openai'' \<and> map_of payload ''stream_options'' = None
         then AList.update ''stream_options'' (JObj [(''include_usage'', JBool True)]) payload
         else payload)"

text \<open>\<open>b.timeout_s or self.config.request_timeout_s\<close>\<close>

definition stream_timeout :: "backend \<Rightarrow> real \<Rightarrow> real" where
  "stream_timeout b timeout =
     (case be_timeout_s b of None \<Rightarrow> timeout | Some x \<Rightarrow> if x = 0 then timeout else x)"

definition stream_request ::
  "gateway \<Rightarrow> backend \<Rightarrow> string \<Rightarrow> (string \<times> json) list \<Rightarrow> post_request" where
  "stream_request g b path payload =
     \<lparr>pr_url = (if path = ''chat'' then chat_url b else completions_url b), pr_payload = JObj payload,
      pr_headers = auth_headers b,
      pr_timeout = stream_timeout b (cf_request_timeout_s (gw_config g))\<rparr>"

text \<open>The engine's answer to an opened stream: a failure, or a status with the text read on an error.\<close>

datatype opened = OpenFailed string | Opened int string

text \<open>A stream that rejects \<open>stream_options\<close> with a 400 is tried once more without it.\<close>

definition ollama_connect ::
  "(post_request \<Rightarrow> opened) \<Rightarrow> gateway \<Rightarrow> backend \<Rightarrow> string \<Rightarrow> (string \<times> json) list \<Rightarrow> opened" where
  "ollama_connect connect g b path payload =
     (case connect (stream_request g b path payload) of
        Opened status text \<Rightarrow>
          (if status = 400 \<and> map_of payload ''stream_options'' \<noteq> None
           then connect (stream_request g b path (AList.delete ''stream_options'' payload))
           else Opened status text)
      | OpenFailed msg \<Rightarrow> OpenFailed msg)"

definition sse_text :: "py_text \<Rightarrow> json \<Rightarrow> string" where
  "sse_text t v = ''data: '' @ json_dumps t v @ [CHR 0x0A, CHR 0x0A]"

definition done_text :: string where
  "done_text = ''data: [DONE]'' @ [CHR 0x0A, CHR 0x0A]"

definition stream_response :: "int \<Rightarrow> string \<Rightarrow> string list \<Rightarrow> headers \<Rightarrow> response" where
  "stream_response status media chunks hs =
     \<lparr>rs_status = status, rs_body = StreamBody media chunks, rs_headers = hs\<rparr>"

text \<open>The refusal of a stream is itself a stream, with the status and the retry hint of a JSON refusal.\<close>

definition stream_start ::
  "(string \<Rightarrow> nat) \<Rightarrow> py_text \<Rightarrow> gateway \<Rightarrow> (string \<times> json) list \<Rightarrow> string \<Rightarrow> string \<Rightarrow>
   string list option \<Rightarrow> string \<Rightarrow> (string \<Rightarrow> string list) \<Rightarrow> gateway \<times> (response handler + ticket)" where
  "stream_start h t g body path tier allowed media refusal =
     (case admit_request h t g body path tier allowed of
        (g', Inl (Refused msg retry)) \<Rightarrow>
          (g', Inl (Inr (stream_response 503 media (refusal msg) [(''Retry-After'', show_int retry)])))
      | (g', Inl (Failed e)) \<Rightarrow> (g', Inl (Inl (RaisedPy e)))
      | (g', Inr tk) \<Rightarrow> (g', Inr tk))"

definition relay_start ::
  "(string \<Rightarrow> nat) \<Rightarrow> py_text \<Rightarrow> gateway \<Rightarrow> (string \<times> json) list \<Rightarrow> string \<Rightarrow> string \<Rightarrow>
   string list option \<Rightarrow> gateway \<times> (response handler + ticket)" where
  "relay_start h t g body path tier allowed =
     stream_start h t g body path tier allowed ''text/event-stream''
       (\<lambda>msg. [sse_text t (rejection_json msg), done_text])"

definition ollama_start ::
  "(string \<Rightarrow> nat) \<Rightarrow> py_text \<Rightarrow> gateway \<Rightarrow> (string \<times> json) list \<Rightarrow> string \<Rightarrow> string \<Rightarrow>
   string list option \<Rightarrow> gateway \<times> (response handler + ticket)" where
  "ollama_start h t g body path tier allowed =
     stream_start h t g body path tier allowed ''application/x-ndjson'' (ndjson_error t)"

text \<open>The slot of a stream that an engine answered with an error status.\<close>

definition settle_refused :: "sched \<Rightarrow> ticket \<Rightarrow> int \<Rightarrow> real \<Rightarrow> int \<Rightarrow> sched" where
  "settle_refused s tk status e2e_ms now_ms =
     (let s1 = feedback s (tk_worker tk) e2e_ms (tk_tokens tk) False now_ms
      in if status \<ge> 500 then fst (note_failure s1 (tk_worker tk) 3) else s1)"

definition relay_error :: "(string \<Rightarrow> json option) \<Rightarrow> int \<Rightarrow> string \<Rightarrow> response" where
  "relay_error loads status text =
     json_response status
       (case loads text of
          Some v \<Rightarrow> v
        | None \<Rightarrow> JObj [(''error'', JObj [(''message'', JStr text), (''type'', JStr ''backend_error'')])]) []"

definition ollama_upstream_error ::
  "py_text \<Rightarrow> (string \<Rightarrow> json option) \<Rightarrow> int \<Rightarrow> string \<Rightarrow> response" where
  "ollama_upstream_error t loads status raw =
     (let text = py_strip raw;
          fallback = (if text = [] then ''backend returned HTTP '' @ show_int status else text);
          message = (case loads text of
                       Some (JObj d) \<Rightarrow>
                         py_str t (or_else (case dget d ''error'' of
                                              JObj err \<Rightarrow> dget err ''message''
                                            | v \<Rightarrow> v) (JStr text))
                     | _ \<Rightarrow> fallback)
      in stream_response status ''application/x-ndjson'' (ndjson_error t message) [])"

text \<open>
  The step after the connection: a failure or an error status ends the request, otherwise the
  stream starts with its headers. \<open>err\<close> builds the error response of the two callers.
\<close>

definition stream_open ::
  "gateway \<Rightarrow> ticket \<Rightarrow> opened \<Rightarrow> real \<Rightarrow> int \<Rightarrow> (int \<Rightarrow> string \<Rightarrow> response) \<Rightarrow>
   gateway \<times> (response handler + headers)" where
  "stream_open g tk o1 e2e_ms now_ms err =
     (case o1 of
        OpenFailed msg \<Rightarrow>
          (g\<lparr>gw_sched := release (gw_sched g) (tk_worker tk)\<rparr>,
           Inl (Inl (RaisedHttp 502 (''backend '' @ tk_worker tk @ '' error: '' @ msg))))
      | Opened status text \<Rightarrow>
          (if status \<ge> 400
           then (g\<lparr>gw_sched := settle_refused (gw_sched g) tk status e2e_ms now_ms\<rparr>,
                 Inl (Inr (err status text)))
           else (g, Inr [(''X-DIO-Backend'', tk_worker tk), (''Cache-Control'', ''no-cache''),
                         (''X-DIO-Budget-Ms'', fmt_0f (cf_slo_ms (gw_config g))),
                         (''X-DIO-Predicted-Ms'', fmt_1f (rd_total_ms (tk_decision tk)))])))"

subsection \<open>Ending a stream\<close>

text \<open>
  How a generator ends: exhausted, broken by an exception of the engine's connection, cancelled
  because the client left, or closed by the server without cancellation.
\<close>

datatype stream_outcome = StreamDone | StreamBroke string | ClientGone | StreamClosed

definition stream_settle :: "sched \<Rightarrow> ticket \<Rightarrow> stream_outcome \<Rightarrow> real \<Rightarrow> int \<Rightarrow> sched" where
  "stream_settle s tk outcome e2e_ms now_ms =
     (let fb = (\<lambda>s ok. feedback s (tk_worker tk) e2e_ms (tk_tokens tk) ok now_ms)
      in case outcome of
           StreamDone \<Rightarrow> fb s True
         | StreamBroke msg \<Rightarrow> fb (fst (note_failure s (tk_worker tk) 3)) False
         | ClientGone \<Rightarrow> release s (tk_worker tk)
         | StreamClosed \<Rightarrow> fb s False)"

definition stream_close :: "gateway \<Rightarrow> ticket \<Rightarrow> stream_outcome \<Rightarrow> real \<Rightarrow> int \<Rightarrow> gateway" where
  "stream_close g tk outcome e2e_ms now_ms =
     g\<lparr>gw_sched := stream_settle (gw_sched g) tk outcome e2e_ms now_ms\<rparr>"

text \<open>What the relay still writes: an in-band error after a broken stream, nothing otherwise.\<close>

definition relay_trailer :: "py_text \<Rightarrow> stream_outcome \<Rightarrow> string list" where
  "relay_trailer t outcome =
     (case outcome of
        StreamBroke msg \<Rightarrow>
          [sse_text t (JObj [(''error'', JObj [(''message'', JStr (''upstream stream failed: '' @ msg)),
             (''type'', JStr ''dio_stream_error'')])]), done_text]
      | _ \<Rightarrow> [])"

subsection \<open>The translator\<close>

record translator =
  tr_gen_tokens :: nat
  tr_reported_prompt :: "int option"
  tr_reported_gen :: "int option"
  tr_tools :: "(int \<times> tool_slot) list"
  tr_finish :: json
  tr_finished :: bool
  tr_out :: "string list"

definition translator_init :: translator where
  "translator_init =
     \<lparr>tr_gen_tokens = 0, tr_reported_prompt = None, tr_reported_gen = None,
      tr_tools = [], tr_finish = JNull, tr_finished = False, tr_out = []\<rparr>"

text \<open>The fixed parameters of one stream.\<close>

record stream_env =
  se_text :: py_text
  se_loads :: "string \<Rightarrow> json option"
  se_now_iso :: string
  se_model :: json
  se_chat :: bool

text \<open>
  The body of the \<open>try\<close> is a sequence of steps; a step that raises, or that continues with the next
  line, ends it (False) and keeps the state reached so far.
\<close>

type_synonym tr_step = "translator \<Rightarrow> bool \<times> translator"

definition and_then :: "tr_step \<Rightarrow> tr_step \<Rightarrow> tr_step" where
  "and_then f k st = (case f st of (True, st') \<Rightarrow> k st' | (False, st') \<Rightarrow> (False, st'))"

definition guarded :: "'a py \<Rightarrow> ('a \<Rightarrow> tr_step) \<Rightarrow> tr_step" where
  "guarded m k st = (case m of Inl e \<Rightarrow> (False, st) | Inr x \<Rightarrow> k x st)"

definition emit_line :: "stream_env \<Rightarrow> (string \<times> json) list \<Rightarrow> translator \<Rightarrow> translator" where
  "emit_line env entries st =
     st\<lparr>tr_out := tr_out st @
          [json_dumps (se_text env)
             (JObj ([(''model'', se_model env), (''created_at'', JStr (se_now_iso env))]
                    @ entries @ [(''done'', JBool False)])) @ [CHR 0x0A]],
        tr_gen_tokens := tr_gen_tokens st + 1\<rparr>"

definition usage_step :: "stream_env \<Rightarrow> json \<Rightarrow> tr_step" where
  "usage_step env usage st =
     (case usage of
        JObj d \<Rightarrow>
          and_then
            (\<lambda>st. if dget d ''prompt_tokens'' = JNull then (True, st)
                  else guarded (py_int (se_text env) (dget d ''prompt_tokens''))
                         (\<lambda>n st. (True, st\<lparr>tr_reported_prompt := Some n\<rparr>)) st)
            (\<lambda>st. if dget d ''completion_tokens'' = JNull then (True, st)
                  else guarded (py_int (se_text env) (dget d ''completion_tokens''))
                         (\<lambda>n st. (True, st\<lparr>tr_reported_gen := Some n\<rparr>)) st) st
      | _ \<Rightarrow> (True, st))"

definition with_slot :: "int \<Rightarrow> (tool_slot \<Rightarrow> tool_slot) \<Rightarrow> translator \<Rightarrow> translator" where
  "with_slot idx f st =
     (let slot = (case map_of (tr_tools st) idx of
                    None \<Rightarrow> \<lparr>ts_id = JNull, ts_name = JNull, ts_arguments = []\<rparr> | Some x \<Rightarrow> x)
      in st\<lparr>tr_tools := AList.update idx (f slot) (tr_tools st)\<rparr>)"

text \<open>One fragment of a tool call: the slot of its index, its id, its name, more arguments.\<close>

definition tool_step :: "stream_env \<Rightarrow> json \<Rightarrow> tr_step" where
  "tool_step env frag =
     guarded (py_bind (jget_def frag ''index'' JNull) (\<lambda>v. py_int (se_text env) (or_else v (JInt 0)))) (\<lambda>idx.
     guarded (jget_def frag ''function'' JNull) (\<lambda>fn0.
     guarded (jget_def frag ''id'' JNull) (\<lambda>fid st.
     let fn = or_else fn0 (JObj []);
         st1 = with_slot idx (\<lambda>slot. if truthy fid then slot\<lparr>ts_id := fid\<rparr> else slot) st
     in guarded (jget_def fn ''name'' JNull) (\<lambda>name.
        guarded (jget_def fn ''arguments'' JNull) (\<lambda>args st.
        let st2 = with_slot idx (\<lambda>slot. if truthy name then slot\<lparr>ts_name := name\<rparr> else slot) st;
            st3 = with_slot idx
                    (\<lambda>slot. if truthy args
                            then slot\<lparr>ts_arguments := ts_arguments slot @ py_str (se_text env) args\<rparr>
                            else slot) st2
        in (True, emit_line env
              [(''message'', JObj [(''role'', JStr ''assistant''), (''content'', JStr []),
                 (''tool_calls'', JArr (ollama_tool_call_deltas (tr_tools st3)))])] st3))) st1)))"

fun tool_steps :: "stream_env \<Rightarrow> json list \<Rightarrow> tr_step" where
  "tool_steps env [] st = (True, st)"
| "tool_steps env (f # fs) st = and_then (tool_step env f) (tool_steps env fs) st"

definition text_step :: "stream_env \<Rightarrow> (json \<Rightarrow> (string \<times> json) list) \<Rightarrow> json \<Rightarrow> tr_step" where
  "text_step env entries v st = (True, if truthy v then emit_line env (entries v) st else st)"

definition choice_step :: "stream_env \<Rightarrow> json \<Rightarrow> tr_step" where
  "choice_step env choice =
     and_then
       (guarded (jget_def choice ''finish_reason'' JNull)
          (\<lambda>v st. (True, if truthy v then st\<lparr>tr_finish := v\<rparr> else st)))
       (if se_chat env
        then guarded (jget_def choice ''delta'' JNull) (\<lambda>delta0.
             let delta = or_else delta0 (JObj [])
             in guarded (jget_def delta ''content'' JNull) (\<lambda>c.
                and_then
                  (text_step env (\<lambda>v. [(''message'', JObj [(''role'', JStr ''assistant''), (''content'', v)])])
                     (or_else c (JStr [])))
                  (guarded (jget_def delta ''tool_calls'' JNull) (\<lambda>calls.
                   guarded (py_iter (or_else calls (JArr []))) (tool_steps env)))))
        else guarded (jget_def choice ''text'' JNull) (\<lambda>x.
             text_step env (\<lambda>v. [(''response'', v)]) (or_else x (JStr []))))"

definition chunk_step :: "stream_env \<Rightarrow> json \<Rightarrow> tr_step" where
  "chunk_step env chunk =
     guarded (jget_def chunk ''usage'' JNull) (\<lambda>usage.
     and_then (usage_step env usage)
       (guarded (jget_def chunk ''choices'' JNull) (\<lambda>choices0.
        let choices = or_else choices0 (JArr [])
        in if \<not> truthy choices then (\<lambda>st. (False, st))
           else guarded (py_first choices) (choice_step env))))"

definition line_step :: "stream_env \<Rightarrow> string \<Rightarrow> translator \<Rightarrow> translator" where
  "line_step env line0 st =
     (let line = py_strip line0
      in if line = [] \<or> \<not> startswith line ''data:'' then st
         else let data_str = py_strip (drop 5 line)
              in if data_str = ''[DONE]'' then st\<lparr>tr_finished := True\<rparr>
                 else case se_loads env data_str of
                        None \<Rightarrow> st
                      | Some chunk \<Rightarrow> snd (chunk_step env chunk st))"

lemma partition_at_shorter: "(a, True, b) = partition_at c s \<Longrightarrow> length b < length s"
  using partition_at_found [of c s a b] by simp

text \<open>The loop \<open>while "\n" in buffer\<close>, left early by \<open>[DONE]\<close>: the state and the rest of the buffer.\<close>

function translate_buffer :: "stream_env \<Rightarrow> string \<Rightarrow> translator \<Rightarrow> translator \<times> string" where
  "translate_buffer env buf st =
     (case partition_at (CHR 0x0A) buf of
        (line, found, rest) \<Rightarrow>
          (if found
           then let st' = line_step env line st
                in if tr_finished st' then (st', rest) else translate_buffer env rest st'
           else (st, buf)))"
  by pat_completeness auto
termination
  by (relation "measure (\<lambda>(env, buf, st). length buf)") (auto simp only: in_measure split_conv partition_at_shorter)

declare translate_buffer.simps [simp del]

fun translate_chunks :: "stream_env \<Rightarrow> string list \<Rightarrow> string \<Rightarrow> translator \<Rightarrow> translator" where
  "translate_chunks env [] buffer st = st"
| "translate_chunks env (c # cs) buffer st =
     (case translate_buffer env (buffer @ c) st of
        (st', rest) \<Rightarrow> if tr_finished st' then st' else translate_chunks env cs rest st')"

text \<open>The last line: token counts of the engine when it reported them, estimates otherwise.\<close>

definition final_line :: "stream_env \<Rightarrow> int \<Rightarrow> real \<Rightarrow> translator \<Rightarrow> string py" where
  "final_line env prompt_only e2e_ms st =
     py_bind (ollama_done_reason (JArr [JObj [(''finish_reason'', tr_finish st)]])) (\<lambda>reason.
     Inr (json_dumps (se_text env) (JObj
       ([(''model'', se_model env), (''created_at'', JStr (se_now_iso env)), (''done'', JBool True),
         (''done_reason'', JStr reason),
         (''total_duration'', JInt (py_trunc (e2e_ms * 1000000))), (''load_duration'', JInt 1000000),
         (''prompt_eval_count'', JInt (case tr_reported_prompt st of None \<Rightarrow> prompt_only | Some n \<Rightarrow> n)),
         (''eval_count'', JInt (case tr_reported_gen st of None \<Rightarrow> int (tr_gen_tokens st) | Some n \<Rightarrow> n))]
        @ (if se_chat env
           then [(''message'', JObj ([(''role'', JStr ''assistant''), (''content'', JStr [])]
                   @ (if tr_tools st = [] then []
                      else [(''tool_calls'', JArr (ollama_tool_call_deltas (tr_tools st)))])))]
           else [(''response'', JStr [])]))) @ [CHR 0x0A]))"

text \<open>Everything an Ollama client receives of a stream that delivers these chunks and then ends.\<close>

definition ollama_lines ::
  "stream_env \<Rightarrow> int \<Rightarrow> real \<Rightarrow> string list \<Rightarrow> stream_outcome \<Rightarrow> string list" where
  "ollama_lines env prompt_only e2e_ms chunks outcome =
     (let st = translate_chunks env chunks [] translator_init
      in tr_out st
         @ (case outcome of
              StreamDone \<Rightarrow> (case final_line env prompt_only e2e_ms st of Inl e \<Rightarrow> [] | Inr l \<Rightarrow> [l])
            | StreamBroke msg \<Rightarrow>
                [json_dumps (se_text env) (JObj [(''error'', JStr (''upstream stream failed: '' @ msg)),
                   (''done'', JBool True)]) @ [CHR 0x0A]]
            | ClientGone \<Rightarrow> []
            | StreamClosed \<Rightarrow> []))"

subsection \<open>Chunk boundaries do not matter\<close>

lemma partition_append_found:
  "partition_at c a = (l, True, r) \<Longrightarrow> partition_at c (a @ b) = (l, True, r @ b)"
  by (induction a arbitrary: l) (auto split: if_splits prod.splits)


text \<open>Translating a longer buffer is translating its front and then the rest.\<close>

lemma translate_buffer_append:
  assumes "translate_buffer env a st = (st', r)" and "\<not> tr_finished st"
  shows "translate_buffer env (a @ b) st =
    (if tr_finished st' then (st', r @ b) else translate_buffer env (r @ b) st')"
  using assms
proof (induction env a st arbitrary: st' r rule: translate_buffer.induct)
  case (1 env buf st)
  obtain line found rest where p: "partition_at (CHR 0x0A) buf = (line, found, rest)"
    by (cases "partition_at (CHR 0x0A) buf")
  show ?case
  proof (cases found)
    case False
    with 1(2) p have "st' = st" "r = buf" by (auto simp: translate_buffer.simps [of env buf st])
    then show ?thesis using 1(3) by simp
  next
    case True
    have app: "partition_at (CHR 0x0A) (buf @ b) = (line, True, rest @ b)"
      using p True by (simp add: partition_append_found)
    show ?thesis
    proof (cases "tr_finished (line_step env line st)")
      case fin: True
      with 1(2) p True have "st' = line_step env line st" "r = rest"
        by (auto simp: translate_buffer.simps [of env buf st] Let_def)
      then show ?thesis
        using fin app by (auto simp: translate_buffer.simps [of env "buf @ b" st] Let_def)
    next
      case fin: False
      with 1(2) p True have rec: "translate_buffer env rest (line_step env line st) = (st', r)"
        by (simp add: translate_buffer.simps [of env buf st] Let_def)
      have "translate_buffer env (buf @ b) st = translate_buffer env (rest @ b) (line_step env line st)"
        using fin app by (simp add: translate_buffer.simps [of env "buf @ b" st] Let_def)
      then show ?thesis
        using 1(1) [OF p [symmetric] refl True refl fin rec fin] by simp
    qed
  qed
qed

lemma translate_chunks_append:
  "\<not> tr_finished st \<Longrightarrow>
   translate_chunks env (c # cs) buffer st = translate_chunks env [c @ concat cs] buffer st"
proof (induction cs arbitrary: c buffer st)
  case Nil
  show ?case by simp
next
  case (Cons d cs)
  obtain st' r where tb: "translate_buffer env (buffer @ c) st = (st', r)"
    by (cases "translate_buffer env (buffer @ c) st")
  note app = translate_buffer_append [OF tb Cons.prems, of "d @ concat cs"]
  show ?case
  proof (cases "tr_finished st'")
    case True
    with tb app show ?thesis by simp
  next
    case False
    have "translate_chunks env (c # d # cs) buffer st = translate_chunks env (d # cs) r st'"
      using tb False by simp
    also have "\<dots> = translate_chunks env [d @ concat cs] r st'" by (rule Cons.IH [OF False])
    also have "\<dots> = translate_chunks env [c @ concat (d # cs)] buffer st"
      using app False by simp
    finally show ?thesis by simp
  qed
qed

end
