(* ===== verification/Scheduler_Inv.thy ===== *)
theory Scheduler_Inv
  imports Scheduler
begin

text \<open>
  The scheduler as a state machine: one event per public method, the step function that runs it,
  the states reachable from \<open>__init__\<close>, and the invariant that every method keeps: the four
  registries have the same keys, pending counts are non-negative, the logs and the prefix LRU are
  within their capacities, the counters are consistent. The LRU and the registry are stated as
  interfaces (\<open>lru_store\<close>, \<open>step_system\<close>) and interpreted on the model.
\<close>

subsection \<open>The invariant\<close>

definition pred_wf :: "nlms \<Rightarrow> bool" where
  "pred_wf p \<longleftrightarrow> 0 \<le> n_pending p \<and> length (n_inflight_log p) \<le> 1024 \<and> length (n_recent p) \<le> 32"

definition keys_inv :: "sched \<Rightarrow> bool" where
  "keys_inv s \<longleftrightarrow>
     distinct (map fst (s_predictors s)) \<and>
     fst ` set (s_rls s) = fst ` set (s_predictors s) \<and>
     fst ` set (s_ewma_e2e s) = fst ` set (s_predictors s) \<and>
     fst ` set (s_ewma_samples s) = fst ` set (s_predictors s)"

definition preds_inv :: "sched \<Rightarrow> bool" where
  "preds_inv s \<longleftrightarrow> (\<forall>w p. map_of (s_predictors s) w = Some p \<longrightarrow> pred_wf p)"

definition cache_inv :: "sched \<Rightarrow> bool" where
  "cache_inv s \<longleftrightarrow>
     distinct (map fst (s_prefix_cache s)) \<and>
     length (s_prefix_cache s) \<le> c_affinity_cache_size (s_cfg s)"

definition logs_inv :: "sched \<Rightarrow> bool" where
  "logs_inv s \<longleftrightarrow>
     length (s_decision_log s) \<le> c_decision_log_size (s_cfg s) \<and>
     length (s_pred_history s) \<le> c_pred_history_size (s_cfg s) \<and>
     length (s_recent_e2e s) \<le> c_recent_maxlen (s_cfg s)"

definition stats_inv :: "sched \<Rightarrow> bool" where
  "stats_inv s \<longleftrightarrow>
     admission_wf (s_admission s) \<and> adm_rejected_vram (s_admission s) = 0 \<and>
     s_affinity_hits s \<le> s_affinity_decisions s"

definition cfg_inv :: "sched_cfg \<Rightarrow> bool" where
  "cfg_inv c \<longleftrightarrow> 0 < c_batch_size c \<and> 16 \<le> c_affinity_cache_size c \<and> 8 \<le> c_recent_maxlen c \<and>
     1 \<le> c_recovery_hint_s c"

definition sched_inv :: "sched \<Rightarrow> bool" where
  "sched_inv s \<longleftrightarrow>
     cfg_inv (s_cfg s) \<and> keys_inv s \<and> preds_inv s \<and> cache_inv s \<and> logs_inv s \<and> stats_inv s"

lemmas sched_inv_defs = keys_inv_def preds_inv_def cache_inv_def logs_inv_def stats_inv_def

subsection \<open>The methods as events\<close>

datatype sched_event =
    Register string string real "real option"
  | Unregister string
  | SetVram string real
  | SetEngineMetrics string snap_arg
  | SetHealthy string bool
  | NoteFailure string int
  | NoteSuccess string
  | Pick string string "int option" "string list option"
  | Release string
  | Feedback string real int bool int
  | ResetStats

fun sched_step :: "(string \<Rightarrow> nat) \<Rightarrow> sched \<Rightarrow> sched_event \<Rightarrow> sched" where
  "sched_step h s (Register wid tier tot free) = register s wid tier tot free"
| "sched_step h s (Unregister wid) = unregister s wid"
| "sched_step h s (SetVram wid free) = set_vram s wid free"
| "sched_step h s (SetEngineMetrics wid snap) = set_engine_metrics s wid snap"
| "sched_step h s (SetHealthy wid b) = set_healthy s wid b"
| "sched_step h s (NoteFailure wid k) = fst (note_failure s wid k)"
| "sched_step h s (NoteSuccess wid) = note_success s wid"
| "sched_step h s (Pick prompt tier tokens allowed) = fst (pick h s prompt tier tokens allowed)"
| "sched_step h s (Release wid) = release s wid"
| "sched_step h s (Feedback wid e2e tokens ok now) = feedback s wid e2e tokens ok now"
| "sched_step h s ResetStats = reset_stats s"

inductive sched_reachable :: "(string \<Rightarrow> nat) \<Rightarrow> sched \<Rightarrow> bool" for h where
  sr_init: "scheduler_init a = Inr s \<Longrightarrow> sched_reachable h s"
| sr_step: "sched_reachable h s \<Longrightarrow> sched_reachable h (sched_step h s e)"

subsection \<open>One predictor at a time\<close>

lemma with_predictor_frame [simp]:
  "s_cfg (with_predictor s wid f) = s_cfg s"
  "s_rls (with_predictor s wid f) = s_rls s"
  "s_ewma_e2e (with_predictor s wid f) = s_ewma_e2e s"
  "s_ewma_samples (with_predictor s wid f) = s_ewma_samples s"
  "s_prefix_cache (with_predictor s wid f) = s_prefix_cache s"
  "s_engine_snap (with_predictor s wid f) = s_engine_snap s"
  "s_rr_index (with_predictor s wid f) = s_rr_index s"
  "s_affinity_decisions (with_predictor s wid f) = s_affinity_decisions s"
  "s_affinity_hits (with_predictor s wid f) = s_affinity_hits s"
  "s_affinity_evictions (with_predictor s wid f) = s_affinity_evictions s"
  "s_fail_streak (with_predictor s wid f) = s_fail_streak s"
  "s_decision_log (with_predictor s wid f) = s_decision_log s"
  "s_pred_history (with_predictor s wid f) = s_pred_history s"
  "s_recent_e2e (with_predictor s wid f) = s_recent_e2e s"
  "s_admission (with_predictor s wid f) = s_admission s"
  "s_last_decision (with_predictor s wid f) = s_last_decision s"
  by (simp_all add: with_predictor_def split: option.split)

lemma with_predictor_keys [simp]:
  "map fst (s_predictors (with_predictor s wid f)) = map fst (s_predictors s)"
  by (simp add: with_predictor_def map_of_eq_Some_keys split: option.split)

lemma with_predictor_key_set [simp]:
  "fst ` set (s_predictors (with_predictor s wid f)) = fst ` set (s_predictors s)"
  by (metis with_predictor_keys set_map)

lemma with_predictor_map_of [simp]:
  "map_of (s_predictors (with_predictor s wid f)) w =
     (if w = wid then map_option f (map_of (s_predictors s) w) else map_of (s_predictors s) w)"
  by (auto simp: with_predictor_def split: option.split)

lemma with_predictor_inv:
  assumes "sched_inv s" and "\<And>p. pred_wf p \<Longrightarrow> pred_wf (f p)"
  shows "sched_inv (with_predictor s wid f)"
  using assms by (auto simp: sched_inv_def sched_inv_defs)

text \<open>The invariant does not read the fields that are missing on the right.\<close>

lemma sched_inv_other_fields [simp]:
  "sched_inv (s\<lparr>s_engine_snap := e\<rparr>) = sched_inv s"
  "sched_inv (s\<lparr>s_fail_streak := f\<rparr>) = sched_inv s"
  "sched_inv (s\<lparr>s_rr_index := i\<rparr>) = sched_inv s"
  "sched_inv (s\<lparr>s_last_decision := d\<rparr>) = sched_inv s"
  "sched_inv (s\<lparr>s_affinity_evictions := n\<rparr>) = sched_inv s"
  by (simp_all add: sched_inv_def sched_inv_defs)

lemma sched_inv_admission:
  "sched_inv s \<Longrightarrow> admission_wf a \<Longrightarrow> adm_rejected_vram a = 0 \<Longrightarrow> sched_inv (s\<lparr>s_admission := a\<rparr>)"
  by (simp add: sched_inv_def sched_inv_defs)

subsection \<open>Interface: a bounded least-recently-used store\<close>

text \<open>
  What the affinity lookup of the joint cost relies on: after a put the key is bound and is the
  newest entry, the store stays within its capacity, and an entry that survives keeps its value.
\<close>

locale lru_store =
  fixes put :: "'k \<Rightarrow> 'v \<Rightarrow> 's \<Rightarrow> 's" and find :: "'s \<Rightarrow> 'k \<Rightarrow> 'v option"
    and order :: "'s \<Rightarrow> 'k list" and cap :: nat
  assumes put_order:
      "distinct (order c) \<Longrightarrow>
       order (put k v c) = (let ks = filter (\<lambda>j. j \<noteq> k) (order c) @ [k] in drop (length ks - cap) ks)"
    and put_find:
      "distinct (order c) \<Longrightarrow>
       find (put k v c) j = (if j \<in> set (order (put k v c)) then if j = k then Some v else find c j else None)"
begin

lemma put_distinct: "distinct (order c) \<Longrightarrow> distinct (order (put k v c))"
  unfolding put_order Let_def by (rule distinct_drop) simp

lemma put_bounded: "distinct (order c) \<Longrightarrow> length (order (put k v c)) \<le> cap"
  by (simp add: put_order Let_def)

lemma put_newest:
  "distinct (order c) \<Longrightarrow> 0 < cap \<Longrightarrow> order (put k v c) \<noteq> [] \<and> last (order (put k v c)) = k"
  by (simp add: put_order Let_def last_drop)

lemma put_same: "distinct (order c) \<Longrightarrow> 0 < cap \<Longrightarrow> find (put k v c) k = Some v"
  by (metis put_find put_newest last_in_set)

lemma put_runs:
  "distinct (order c) \<Longrightarrow> distinct (order (foldl (\<lambda>c (k, v). put k v c) c kvs))"
  by (induction kvs arbitrary: c) (auto simp: put_distinct)

text \<open>A key is only forgotten when at least \<open>cap\<close> other keys were used after it.\<close>

lemma put_keeps_recent:
  assumes "distinct (order c)" and "order c = before @ j # after"
    and "length (filter (\<lambda>i. i \<noteq> k) after) + 1 < cap" and "j \<noteq> k"
  shows "find (put k v c) j = find c j"
proof -
  let ?after = "filter (\<lambda>i. i \<noteq> k) after" and ?before = "filter (\<lambda>i. i \<noteq> k) before"
  have "order (put k v c) =
      drop (length ?before + length ?after + 2 - cap) (?before @ j # ?after @ [k])"
    using assms by (simp add: put_order Let_def)
  moreover have "length ?before + length ?after + 2 - cap \<le> length ?before" using assms(3) by simp
  ultimately have "j \<in> set (order (put k v c))" by simp
  with assms show ?thesis by (simp add: put_find)
qed

end

lemma lru_evict_eq: "lru_evict cap c n = (drop (length c - cap) c, n + (length c - cap))"
proof (induction cap c n rule: lru_evict.induct)
  case (1 cap c n)
  show ?case
  proof (cases "cap < length c")
    case True
    then have "c \<noteq> []" by auto
    have "lru_evict cap c n = lru_evict cap (tl c) (n + 1)"
      using True by (subst lru_evict.simps) simp
    also have "\<dots> = (drop (length (tl c) - cap) (tl c), n + 1 + (length (tl c) - cap))"
      by (rule "1.IH" [OF True])
    also have "\<dots> = (drop (length c - cap) c, n + (length c - cap))"
      using True \<open>c \<noteq> []\<close> by (auto simp: drop_Suc [symmetric] Suc_diff_le intro: arg_cong2 [where f = drop])
    finally show ?thesis .
  next
    case False
    then show ?thesis by (subst lru_evict.simps) simp
  qed
qed

text \<open>One affinity update of \<open>pick\<close>: bind, move to the end, evict.\<close>

definition lru_step :: "nat \<Rightarrow> 'k \<Rightarrow> 'v \<Rightarrow> ('k \<times> 'v) list \<Rightarrow> ('k \<times> 'v) list" where
  "lru_step cap k v c = fst (lru_evict cap (lru_put k v c) 0)"

lemma lru_put_keys: "map fst (lru_put k v c) = filter (\<lambda>j. j \<noteq> k) (map fst c) @ [k]"
  by (induction c) (auto simp: lru_put_def)

lemma lru_put_distinct: "distinct (map fst c) \<Longrightarrow> distinct (map fst (lru_put k v c))"
  by (simp add: lru_put_keys)

lemma lru_put_find: "map_of (lru_put k v c) j = (if j = k then Some v else map_of c j)"
  by (simp add: lru_put_def map_add_def split: option.split)

lemma map_of_drop:
  assumes "distinct (map fst c)"
  shows "map_of (drop n c) j = (if j \<in> fst ` set (drop n c) then map_of c j else None)"
proof (cases "j \<in> fst ` set (drop n c)")
  case True
  then obtain v where v: "(j, v) \<in> set (drop n c)" by auto
  have "distinct (map fst (drop n c))" using assms by (simp add: drop_map [symmetric])
  then have "map_of (drop n c) j = Some v" using v by simp
  moreover have "map_of c j = Some v" using assms v by (meson in_set_dropD map_of_is_SomeI)
  ultimately show ?thesis using True by simp
qed (simp add: map_of_eq_None_iff)

interpretation lru: lru_store "lru_step cap" map_of "map fst" cap for cap
proof unfold_locales
  fix c :: "('a \<times> 'b) list" and k v j
  assume d: "distinct (map fst c)"
  have step: "lru_step cap k v c = drop (length (lru_put k v c) - cap) (lru_put k v c)"
    by (simp add: lru_step_def lru_evict_eq)
  show "map fst (lru_step cap k v c) =
      (let ks = filter (\<lambda>j. j \<noteq> k) (map fst c) @ [k] in drop (length ks - cap) ks)"
    by (simp only: Let_def lru_put_keys [of k v c, symmetric] length_map drop_map step)
  show "map_of (lru_step cap k v c) j =
      (if j \<in> set (map fst (lru_step cap k v c)) then if j = k then Some v else map_of c j else None)"
    using map_of_drop [OF lru_put_distinct [OF d], of "length (lru_put k v c) - cap" k v j]
    by (simp add: step lru_put_find)
qed

subsection \<open>Every method keeps the invariant\<close>

lemma cfg_of_inv: "cfg_inv (sched_cfg_of a)"
proof -
  have "0 < c_batch_size (sched_cfg_of a)" by (simp add: sched_cfg_of_def Let_def)
  moreover have "16 \<le> c_affinity_cache_size (sched_cfg_of a)" "8 \<le> c_recent_maxlen (sched_cfg_of a)"
      "1 \<le> c_recovery_hint_s (sched_cfg_of a)"
    by (simp_all only: sched_cfg_of_def Let_def sched_cfg.simps)
  ultimately show ?thesis by (simp add: cfg_inv_def)
qed

lemma init_inv: "scheduler_init a = Inr s \<Longrightarrow> sched_inv s"
  using cfg_of_inv [of a]
  by (auto simp: scheduler_init_def sched_inv_def sched_inv_defs admission_wf_def
      admission_stats_init_def split: if_splits)

lemma pred_wf_fields [simp]:
  "pred_wf (p\<lparr>n_free_vram_mb := x\<rparr>) = pred_wf p"
  "pred_wf (p\<lparr>n_healthy := b\<rparr>) = pred_wf p"
  by (simp_all add: pred_wf_def)

lemma register_inv: "sched_inv s \<Longrightarrow> sched_inv (register s wid tier tot free)"
  by (auto simp: register_def Let_def sched_inv_def sched_inv_defs pred_wf_def nlms_init_def
      split: option.splits if_splits)

lemma unregister_inv: "sched_inv s \<Longrightarrow> sched_inv (unregister s wid)"
  by (auto simp: unregister_def sched_inv_def sched_inv_defs split: if_splits)

lemma set_vram_inv: "sched_inv s \<Longrightarrow> sched_inv (set_vram s wid free)"
  by (simp add: set_vram_def with_predictor_inv)

lemma set_engine_metrics_inv: "sched_inv s \<Longrightarrow> sched_inv (set_engine_metrics s wid snap)"
  by (auto simp: set_engine_metrics_def Let_def intro!: with_predictor_inv split: option.split)

lemma set_healthy_inv: "sched_inv s \<Longrightarrow> sched_inv (set_healthy s wid b)"
  by (auto simp: set_healthy_def Let_def intro!: with_predictor_inv split: option.splits)

lemma note_failure_inv: "sched_inv s \<Longrightarrow> sched_inv (fst (note_failure s wid k))"
  by (auto simp: note_failure_def Let_def intro!: with_predictor_inv)

lemma note_success_inv: "sched_inv s \<Longrightarrow> sched_inv (note_success s wid)"
  by (simp add: note_success_def)

lemma release_inv: "sched_inv s \<Longrightarrow> sched_inv (release s wid)"
  by (auto simp: release_def pred_wf_def intro!: with_predictor_inv)

lemma reset_stats_inv: "sched_inv s \<Longrightarrow> sched_inv (reset_stats s)"
  by (simp add: reset_stats_def sched_inv_def sched_inv_defs admission_wf_def admission_stats_init_def)

text \<open>Completion: the log is popped, the learners are updated, the counters move.\<close>

lemma pop_inflight_eq:
  "fst (pop_inflight s wid) = with_predictor s wid (\<lambda>p. p\<lparr>n_inflight_log := tl (n_inflight_log p)\<rparr>)"
proof -
  have "s\<lparr>s_predictors := AList.update wid p (s_predictors s)\<rparr> = s"
    if "map_of (s_predictors s) wid = Some p" for p
    using that by (simp add: AList.update_triv)
  moreover have "p\<lparr>n_inflight_log := []\<rparr> = p" if "n_inflight_log p = []" for p
    using that by simp
  ultimately show ?thesis
    by (auto simp: pop_inflight_def with_predictor_def split: option.split list.split)
qed

lemma pop_inflight_snd:
  "snd (pop_inflight s wid) =
     (case map_of (s_predictors s) wid of None \<Rightarrow> 1
      | Some p \<Rightarrow> if n_inflight_log p = [] then 1 else hd (n_inflight_log p))"
  by (auto simp: pop_inflight_def split: option.split list.split)

lemma pop_inflight_inv: "sched_inv s \<Longrightarrow> sched_inv (fst (pop_inflight s wid))"
  by (auto simp: pop_inflight_eq pred_wf_def intro!: with_predictor_inv)

lemma feedback_ewma_frame [simp]:
  "s_cfg (feedback_ewma s wid y) = s_cfg s"
  "s_predictors (feedback_ewma s wid y) = s_predictors s"
  "s_rls (feedback_ewma s wid y) = s_rls s"
  "s_prefix_cache (feedback_ewma s wid y) = s_prefix_cache s"
  "s_decision_log (feedback_ewma s wid y) = s_decision_log s"
  "s_pred_history (feedback_ewma s wid y) = s_pred_history s"
  "s_recent_e2e (feedback_ewma s wid y) = s_recent_e2e s"
  "s_admission (feedback_ewma s wid y) = s_admission s"
  "s_affinity_hits (feedback_ewma s wid y) = s_affinity_hits s"
  "s_affinity_decisions (feedback_ewma s wid y) = s_affinity_decisions s"
  "s_rr_index (feedback_ewma s wid y) = s_rr_index s"
  "s_fail_streak (feedback_ewma s wid y) = s_fail_streak s"
  "s_engine_snap (feedback_ewma s wid y) = s_engine_snap s"
  by (simp_all add: feedback_ewma_def Let_def split: option.split)

lemma feedback_ewma_keys:
  "fst ` set (s_ewma_e2e (feedback_ewma s wid y)) = fst ` set (s_ewma_e2e s)"
  "wid \<in> fst ` set (s_ewma_samples s) \<Longrightarrow>
   fst ` set (s_ewma_samples (feedback_ewma s wid y)) = fst ` set (s_ewma_samples s)"
  by (auto simp: feedback_ewma_def Let_def map_of_eq_Some_keys split: option.split)

lemma feedback_learn_keys [simp]:
  "map fst (s_predictors (feedback_learn s wid y n k t)) = map fst (s_predictors s)"
  by (simp add: feedback_learn_def Let_def split_beta map_of_eq_Some_keys split: option.split)

lemma feedback_learn_frame [simp]:
  "s_cfg (feedback_learn s wid y n k t) = s_cfg s"
  "s_prefix_cache (feedback_learn s wid y n k t) = s_prefix_cache s"
  "s_decision_log (feedback_learn s wid y n k t) = s_decision_log s"
  "s_recent_e2e (feedback_learn s wid y n k t) = s_recent_e2e s"
  "s_admission (feedback_learn s wid y n k t) = s_admission s"
  "s_affinity_hits (feedback_learn s wid y n k t) = s_affinity_hits s"
  "s_affinity_decisions (feedback_learn s wid y n k t) = s_affinity_decisions s"
  "s_rr_index (feedback_learn s wid y n k t) = s_rr_index s"
  "s_fail_streak (feedback_learn s wid y n k t) = s_fail_streak s"
  "s_engine_snap (feedback_learn s wid y n k t) = s_engine_snap s"
  by (simp_all add: feedback_learn_def Let_def split_beta split: option.split)

lemma feedback_learn_map_of [simp]:
  "map_of (s_predictors (feedback_learn s wid y n k t)) w =
     (if w = wid then map_option (\<lambda>p. fst (nlms_update p y n k)) (map_of (s_predictors s) w)
      else map_of (s_predictors s) w)"
  by (auto simp: feedback_learn_def Let_def split_beta split: option.split)

lemma feedback_learn_history:
  "length (s_pred_history s) \<le> m \<Longrightarrow> m = c_pred_history_size (s_cfg s) \<Longrightarrow>
   length (s_pred_history (feedback_learn s wid y n k t)) \<le> m"
  by (auto simp: feedback_learn_def Let_def split_beta split: option.split)

lemma feedback_learn_key_sets:
  assumes "keys_inv s"
  shows "keys_inv (feedback_learn s wid y n k t)"
proof -
  have "fst ` set (s_predictors (feedback_learn s wid y n k t)) = fst ` set (s_predictors s)"
    by (metis feedback_learn_keys set_map)
  with assms show ?thesis
    by (auto simp: keys_inv_def feedback_learn_def Let_def split_beta feedback_ewma_def
        map_of_eq_Some_keys insert_absorb split: option.split)
qed

lemma pred_wf_update: "pred_wf p \<Longrightarrow> pred_wf (fst (nlms_update p y n k))"
  by (simp add: pred_wf_def)

lemma feedback_learn_inv: "sched_inv s \<Longrightarrow> sched_inv (feedback_learn s wid y n k t)"
  using feedback_learn_key_sets [of s wid y n k t] feedback_learn_history [of s _ wid y n k t]
  by (auto simp: sched_inv_def preds_inv_def cache_inv_def logs_inv_def stats_inv_def pred_wf_update
      split: if_splits)

lemma feedback_count_inv: "sched_inv s \<Longrightarrow> sched_inv (feedback_count s wid y)"
  by (auto simp: feedback_count_def Let_def sched_inv_def sched_inv_defs admission_wf_def)

lemma feedback_inv: "sched_inv s \<Longrightarrow> sched_inv (feedback s wid y n ok t)"
proof -
  assume inv: "sched_inv s"
  let ?s1 = "fst (pop_inflight s wid)"
  have "sched_inv ?s1" using inv by (rule pop_inflight_inv)
  moreover from this have "sched_inv (bump_admission (\<lambda>a. a\<lparr>adm_failed_total := adm_failed_total a + 1\<rparr>) ?s1)"
    by (simp add: bump_admission_def sched_inv_def sched_inv_defs admission_wf_def)
  ultimately show ?thesis
    by (simp add: feedback_def Let_def split_beta release_inv feedback_count_inv feedback_learn_inv)
qed

end
