(* ===== verification/Routing.thy ===== *)
theory Routing
  imports Scheduler_Inv
begin

text \<open>
  The routing decision \<open>Scheduler.pick\<close>: what the ranking loop computes, what the admission gate
  does to the counters, and that \<open>pick\<close> keeps the scheduler invariant, for every strategy. The
  properties cover safety of the chosen backend, optimality of the cost strategies, the baselines
  (round robin, least loaded, EWMA), the accounting of accepted and rejected requests, and the
  prefix affinity.
\<close>

subsection \<open>Strategies\<close>

definition rr_strategy :: "string \<Rightarrow> bool" where
  "rr_strategy st \<longleftrightarrow> st \<in> {''round_robin'', ''roundrobin''}"

definition ll_strategy :: "string \<Rightarrow> bool" where
  "ll_strategy st \<longleftrightarrow> st \<in> {''least_loaded'', ''leastloaded'', ''least_load''}"

definition ewma_strategy :: "string \<Rightarrow> bool" where
  "ewma_strategy st \<longleftrightarrow> st \<in> {''ewma'', ''ema'', ''recent_latency''}"

definition cost_strategy :: "string \<Rightarrow> bool" where
  "cost_strategy st \<longleftrightarrow> \<not> rr_strategy st \<and> \<not> ll_strategy st \<and> \<not> ewma_strategy st"

definition pick_tokens :: "string \<Rightarrow> int option \<Rightarrow> int" where
  "pick_tokens prompt tokens0 =
     (case tokens0 of None \<Rightarrow> max 1 (int (length prompt) div 4) | Some n \<Rightarrow> n)"

lemma pick_eq:
  "pick h s prompt tier tokens0 allowed =
     (let tokens = pick_tokens prompt tokens0; ids = candidate_ids s allowed; st = c_strategy (s_cfg s)
      in if ids = []
         then (bump_admission inc_no_worker s,
               Inl (admission_error ''no healthy backends registered'' (c_recovery_hint_s (s_cfg s))))
         else if rr_strategy st then pick_round_robin s ids tokens
         else if ll_strategy st then pick_least_loaded s ids tokens
         else if ewma_strategy st then pick_ewma s ids tokens
         else pick_cost h s ids prompt tier tokens)"
  by (simp only: pick_def pick_tokens_def rr_strategy_def ll_strategy_def ewma_strategy_def Let_def)

lemma strategies_disjoint:
  "ll_strategy st \<Longrightarrow> \<not> rr_strategy st" "ewma_strategy st \<Longrightarrow> \<not> rr_strategy st"
  "ewma_strategy st \<Longrightarrow> \<not> ll_strategy st"
  by (auto simp: rr_strategy_def ll_strategy_def ewma_strategy_def)

subsection \<open>The ranking loop against a reference definition\<close>

text \<open>All feasible candidates with their scores, in registration order.\<close>

fun feasible ::
  "(string \<Rightarrow> (real \<times> routing_decision) option py) \<Rightarrow> string list \<Rightarrow>
   (string \<times> real \<times> routing_decision) list" where
  "feasible sc [] = []"
| "feasible sc (w # ws) =
     (case sc w of Inr (Some (x, d)) \<Rightarrow> (w, x, d) # feasible sc ws | _ \<Rightarrow> feasible sc ws)"

abbreviation entry_score :: "string \<times> real \<times> routing_decision \<Rightarrow> real" where
  "entry_score e \<equiv> fst (snd e)"

lemma scan_best_min_by: "scan_best f xs (Some b) = min_by f (b # xs)"
proof (induction xs arbitrary: b)
  case Nil
  then show ?case by simp
next
  case (Cons x xs)
  show ?case
    by (simp only: scan_best.simps option.case Cons.IH if_distrib [of "scan_best f xs"])
      (auto split: option.splits)
qed

lemma scan_best_None: "scan_best f xs None = min_by f xs"
  by (cases xs) (simp_all add: scan_best_min_by del: min_by.simps(2))

lemma rank_loop_eq:
  assumes "\<forall>w \<in> set ids. \<exists>r. sc w = Inr r"
  shows "rank_loop sc ids (best, any, scores) =
    Inr (scan_best entry_score (feasible sc ids) best, any \<or> feasible sc ids \<noteq> [],
         scores @ map entry_score (feasible sc ids))"
  using assms
proof (induction ids arbitrary: best any scores)
  case Nil
  then show ?case by simp
next
  case (Cons w ids)
  then obtain r where r: "sc w = Inr r" by auto
  have IH: "\<And>best any scores. rank_loop sc ids (best, any, scores) =
      Inr (scan_best entry_score (feasible sc ids) best, any \<or> feasible sc ids \<noteq> [],
           scores @ map entry_score (feasible sc ids))"
    using Cons by simp
  show ?case
    by (cases r) (auto simp: r IH split: option.splits)
qed

lemma in_feasible: "(w, x, d) \<in> set (feasible sc ids) \<longleftrightarrow> w \<in> set ids \<and> sc w = Inr (Some (x, d))"
  by (induction ids) (auto split: sum.splits option.splits)

lemma feasible_split:
  "feasible sc ids = ys @ (w, x, d) # zs \<Longrightarrow>
   \<exists>before after. ids = before @ w # after \<and> ys = feasible sc before \<and> zs = feasible sc after"
proof (induction ids arbitrary: ys)
  case Nil
  then show ?case by simp
next
  case (Cons v ids)
  show ?case
  proof (cases "\<exists>y e. sc v = Inr (Some (y, e))")
    case False
    then have "feasible sc (v # ids) = feasible sc ids" by (auto split: sum.splits option.splits)
    moreover from this obtain before after where
      "ids = before @ w # after" "ys = feasible sc before" "zs = feasible sc after"
      using Cons by metis
    ultimately show ?thesis
      using False by (intro exI [of _ "v # before"] exI [of _ after]) (auto split: sum.splits option.splits)
  next
    case True
    then obtain y e where e: "sc v = Inr (Some (y, e))" by blast
    show ?thesis
    proof (cases ys)
      case Nil
      with Cons.prems e show ?thesis by (intro exI [of _ "[]"] exI [of _ ids]) simp
    next
      case (Cons t ts)
      with Cons.prems e have "feasible sc ids = ts @ (w, x, d) # zs" "t = (v, y, e)" by auto
      then obtain before after where
        "ids = before @ w # after" "ts = feasible sc before" "zs = feasible sc after"
        using Cons.IH by blast
      with e \<open>t = (v, y, e)\<close> Cons show ?thesis
        by (intro exI [of _ "v # before"] exI [of _ after]) simp
    qed
  qed
qed

subsection \<open>Candidates\<close>

lemma candidate_ids_iff:
  assumes "distinct (map fst (s_predictors s))"
  shows "w \<in> set (candidate_ids s allowed) \<longleftrightarrow>
    (\<exists>p. map_of (s_predictors s) w = Some p \<and> n_healthy p) \<and> (\<forall>bs. allowed = Some bs \<longrightarrow> w \<in> set bs)"
proof -
  have "w \<in> set (map fst (filter (\<lambda>(wid, p). n_healthy p) (s_predictors s))) \<longleftrightarrow>
      (\<exists>p. map_of (s_predictors s) w = Some p \<and> n_healthy p)"
    using assms by (force dest: map_of_SomeD)
  then show ?thesis by (auto simp: candidate_ids_def Let_def split: option.split)
qed

lemma candidate_ids_distinct:
  assumes "distinct (map fst (s_predictors s))"
  shows "distinct (candidate_ids s allowed)"
proof -
  have "distinct (map fst (filter (\<lambda>(wid, p). n_healthy p) (s_predictors s)))"
    by (rule distinct_map_filter) (rule assms)
  then show ?thesis by (auto simp: candidate_ids_def Let_def split: option.split)
qed

lemma score_id_defined:
  assumes "sched_inv s" and "w \<in> set (candidate_ids s allowed)"
  shows "\<exists>r. score_id h s tokens tier prompt pkey w = Inr r"
proof -
  obtain p where p: "map_of (s_predictors s) w = Some p"
    using assms candidate_ids_iff by (auto simp: sched_inv_def keys_inv_def)
  then have "w \<in> fst ` set (s_rls s)"
    using assms(1) map_of_eq_Some_keys [OF p] by (simp add: sched_inv_def keys_inv_def)
  then obtain r where r: "map_of (s_rls s) w = Some r"
    by (metis map_of_eq_None_iff not_None_eq)
  show ?thesis by (auto simp: score_id_def p r score_def Let_def)
qed

lemma rank_loop_candidates:
  assumes "sched_inv s"
  shows "rank_loop (score_id h s tokens tier prompt pkey) (candidate_ids s allowed) (None, False, []) =
    (let fs = feasible (score_id h s tokens tier prompt pkey) (candidate_ids s allowed)
     in Inr (min_by entry_score fs, fs \<noteq> [], map entry_score fs))"
  using score_id_defined [OF assms] by (simp add: rank_loop_eq scan_best_None Let_def)

subsection \<open>The gate\<close>

definition slo_verdict :: "sched \<Rightarrow> real \<Rightarrow> real list \<Rightarrow> bool" where
  "slo_verdict s best_score scores = fst (snd (should_reject_slo s best_score scores))"

text \<open>The reference policy of the gate, one line per mode of the documentation.\<close>

definition tail_over_slo :: "sched \<Rightarrow> bool" where
  "tail_over_slo s \<longleftrightarrow>
     8 \<le> length (s_recent_e2e s) \<and>
     c_slo_ms (s_cfg s) < percentile (s_recent_e2e s) (c_admission_percentile (s_cfg s))"

definition suppressed :: "sched \<Rightarrow> real \<Rightarrow> real list \<Rightarrow> bool" where
  "suppressed s best_score scores \<longleftrightarrow>
     \<not> rank_mode (s_cfg s) \<and> \<not> strict_mode (s_cfg s) \<and> empirical_mode (s_cfg s) \<and>
     tail_over_slo s \<and> \<not> worst_quartile best_score scores"

lemma slo_verdict_eq:
  "slo_verdict s best_score scores =
     (if rank_mode (s_cfg s) then False
      else if strict_mode (s_cfg s) then tail_over_slo s
      else if empirical_mode (s_cfg s) then tail_over_slo s \<and> worst_quartile best_score scores
      else c_slo_ms (s_cfg s) < best_score)"
  by (simp add: slo_verdict_def should_reject_slo_def Let_def tail_over_slo_def)

lemma should_reject_slo_state:
  "fst (should_reject_slo s best_score scores) =
     (if suppressed s best_score scores
      then s\<lparr>s_admission := (s_admission s)\<lparr>adm_rejected_slo_suppressed :=
                adm_rejected_slo_suppressed (s_admission s) + 1\<rparr>\<rparr>
      else s)"
  by (simp add: should_reject_slo_def Let_def suppressed_def tail_over_slo_def)

lemma verdict_admission [simp]:
  "slo_verdict (s\<lparr>s_admission := a\<rparr>) b sc = slo_verdict s b sc"
  "suppressed (s\<lparr>s_admission := a\<rparr>) b sc = suppressed s b sc"
  by (simp_all add: slo_verdict_eq suppressed_def tail_over_slo_def)

text \<open>What the gate does to the counters.\<close>

definition gate_stats :: "sched \<Rightarrow> real \<Rightarrow> real list \<Rightarrow> admission_stats" where
  "gate_stats s b scores =
     (let a = s_admission s; over = (c_slo_ms (s_cfg s) < b)
      in a\<lparr>adm_would_reject_absolute := adm_would_reject_absolute a + of_bool over,
           adm_would_admit_absolute := adm_would_admit_absolute a + of_bool (\<not> over),
           adm_rejected_slo_suppressed := adm_rejected_slo_suppressed a + of_bool (suppressed s b scores),
           adm_absolute_vs_active_disagree :=
             adm_absolute_vs_active_disagree a + of_bool (over \<noteq> slo_verdict s b scores)\<rparr>)"

lemma gate_eq:
  "fst (gate s b scores) = s\<lparr>s_admission := gate_stats s b scores\<rparr>"
  "fst (snd (gate s b scores)) = slo_verdict s b scores"
proof -
  have verdict: "fst (snd (should_reject_slo (s\<lparr>s_admission := a\<rparr>) b scores)) = slo_verdict s b scores" for a
    using verdict_admission(1) [of a s b scores] by (simp add: slo_verdict_def)
  show "fst (snd (gate s b scores)) = slo_verdict s b scores"
    by (simp add: gate_def bump_admission_def Let_def split_beta verdict)
  show "fst (gate s b scores) = s\<lparr>s_admission := gate_stats s b scores\<rparr>"
    by (simp add: gate_def bump_admission_def Let_def split_beta verdict should_reject_slo_state gate_stats_def)
qed

lemma gate_stats_wf: "admission_wf (s_admission s) \<Longrightarrow> admission_wf (gate_stats s b scores)"
  by (auto simp: gate_stats_def admission_wf_def Let_def)

lemma gate_stats_fields [simp]:
  "adm_admitted (gate_stats s b scores) = adm_admitted (s_admission s)"
  "adm_rejected_slo (gate_stats s b scores) = adm_rejected_slo (s_admission s)"
  "adm_rejected_vram (gate_stats s b scores) = adm_rejected_vram (s_admission s)"
  "adm_rejected_no_worker (gate_stats s b scores) = adm_rejected_no_worker (s_admission s)"
  "adm_completed_total (gate_stats s b scores) = adm_completed_total (s_admission s)"
  "adm_failed_total (gate_stats s b scores) = adm_failed_total (s_admission s)"
  by (simp_all add: gate_stats_def Let_def)

subsection \<open>What pick does, strategy by strategy\<close>

text \<open>The accounting that all strategies share.\<close>

definition book :: "sched \<Rightarrow> string \<Rightarrow> routing_decision \<Rightarrow> sched" where
  "book s wid dec = log_decision (bump_admission inc_admitted (mark_admitted s wid)) dec"

lemma book_fields [simp]:
  "s_cfg (book s wid dec) = s_cfg s"
  "s_predictors (book s wid dec) = s_predictors (mark_admitted s wid)"
  "s_rls (book s wid dec) = s_rls s"
  "s_ewma_e2e (book s wid dec) = s_ewma_e2e s"
  "s_ewma_samples (book s wid dec) = s_ewma_samples s"
  "s_prefix_cache (book s wid dec) = s_prefix_cache s"
  "s_engine_snap (book s wid dec) = s_engine_snap s"
  "s_rr_index (book s wid dec) = s_rr_index s"
  "s_affinity_decisions (book s wid dec) = s_affinity_decisions s"
  "s_affinity_hits (book s wid dec) = s_affinity_hits s"
  "s_affinity_evictions (book s wid dec) = s_affinity_evictions s"
  "s_fail_streak (book s wid dec) = s_fail_streak s"
  "s_decision_log (book s wid dec) =
     deque_append (c_decision_log_size (s_cfg s)) (s_decision_log s) (decision_as_dict dec)"
  "s_pred_history (book s wid dec) = s_pred_history s"
  "s_recent_e2e (book s wid dec) = s_recent_e2e s"
  "s_admission (book s wid dec) = inc_admitted (s_admission s)"
  "s_last_decision (book s wid dec) = s_last_decision s"
  by (simp_all add: book_def log_decision_def bump_admission_def mark_admitted_def)

lemma mark_admitted_map_of:
  "map_of (s_predictors (mark_admitted s wid)) w =
     (if w = wid
      then map_option (\<lambda>p. p\<lparr>n_pending := n_pending p + 1,
                            n_inflight_log := deque_append 1024 (n_inflight_log p) (n_pending p + 1)\<rparr>)
             (map_of (s_predictors s) w)
      else map_of (s_predictors s) w)"
  by (simp add: mark_admitted_def)

lemma mark_admitted_update [simp]:
  "s_predictors (mark_admitted (s\<lparr>s_rr_index := i\<rparr>) wid) = s_predictors (mark_admitted s wid)"
  "s_predictors (mark_admitted (s\<lparr>s_admission := a\<rparr>) wid) = s_predictors (mark_admitted s wid)"
  by (simp_all add: mark_admitted_def with_predictor_def split: option.split)

lemma book_inv: "sched_inv s \<Longrightarrow> sched_inv (book s wid dec)"
proof -
  assume "sched_inv s"
  then have "sched_inv (mark_admitted s wid)"
    by (auto simp: mark_admitted_def pred_wf_def intro!: with_predictor_inv)
  then show ?thesis
    by (auto simp: book_def log_decision_def bump_admission_def sched_inv_def sched_inv_defs admission_wf_def)
qed

lemma pick_round_robin_eq:
  "pick_round_robin s ids tokens =
     (let i = (s_rr_index s + 1) mod length ids; wid = ids ! i;
          dec = plain_decision wid 0 0 0 tokens (c_strategy (s_cfg s))
      in (book (s\<lparr>s_rr_index := i\<rparr>) wid dec, Inr (wid, dec)))"
  by (simp add: pick_round_robin_def book_def Let_def)

lemma pick_least_loaded_eq:
  "min_by (pending_of s) ids = Some wid \<Longrightarrow>
   pick_least_loaded s ids tokens =
     (let dec = plain_decision wid 0 0 0 tokens (c_strategy (s_cfg s))
      in (book s wid dec, Inr (wid, dec)))"
  by (simp add: pick_least_loaded_def book_def Let_def)

text \<open>The backend that the EWMA strategy chooses.\<close>

definition ewma_choice :: "sched \<Rightarrow> string list \<Rightarrow> int \<Rightarrow> string option" where
  "ewma_choice s ids tokens =
     (let unexplored = filter (\<lambda>wid. ewma_sample_count s wid \<le> 0) ids
      in if unexplored = [] then min_by (\<lambda>wid. rd_total_ms (ewma_decision s tokens wid)) ids
         else min_by (pending_of s) unexplored)"

lemma rd_worker_id_plain [simp]: "rd_worker_id (plain_decision wid e w t n st) = wid"
  by (simp add: plain_decision_def)

lemma rd_worker_id_ewma [simp]: "rd_worker_id (ewma_decision s tokens wid) = wid"
  by (simp add: ewma_decision_def Let_def)

lemma ewma_choice_in_set: "ewma_choice s ids tokens = Some wid \<Longrightarrow> wid \<in> set ids"
  by (auto simp: ewma_choice_def Let_def dest: min_by_in_set split: if_splits)

lemma ewma_choice_eq_None: "ewma_choice s ids tokens = None \<longleftrightarrow> ids = []"
  by (auto simp: ewma_choice_def Let_def)

lemma pick_ewma_eq:
  "ewma_choice s ids tokens = Some wid \<Longrightarrow>
   pick_ewma s ids tokens =
     (let dec = ewma_decision s tokens wid
      in ((book s wid dec)\<lparr>s_last_decision := Some dec\<rparr>, Inr (wid, dec)))"
  by (auto simp: pick_ewma_def ewma_choice_def scan_best_None admit_ewma_def book_def Let_def
      split: option.split if_splits)

text \<open>The cost strategies: what the affinity accounting adds.\<close>

definition book_cost :: "sched \<Rightarrow> nat \<Rightarrow> string \<Rightarrow> routing_decision \<Rightarrow> sched" where
  "book_cost s pkey wid dec =
     (book s wid dec)
       \<lparr>s_prefix_cache := lru_step (c_affinity_cache_size (s_cfg s)) pkey wid (s_prefix_cache s),
        s_affinity_evictions :=
          s_affinity_evictions s + (length (lru_put pkey wid (s_prefix_cache s)) - c_affinity_cache_size (s_cfg s)),
        s_affinity_decisions := s_affinity_decisions s + 1,
        s_affinity_hits := s_affinity_hits s + of_bool (rd_affinity_hit dec),
        s_last_decision := Some dec\<rparr>"

lemma admit_cost_eq: "admit_cost s pkey wid dec = (book_cost s pkey wid dec, Inr (wid, dec))"
  by (simp add: admit_cost_def book_cost_def book_def mark_admitted_def log_decision_def
      bump_admission_def lru_step_def lru_evict_eq Let_def split_beta)

lemma book_cost_inv:
  assumes "sched_inv s"
  shows "sched_inv (book_cost s pkey wid dec)"
proof -
  have d: "distinct (map fst (s_prefix_cache s))" using assms by (simp add: sched_inv_def cache_inv_def)
  have "length (lru_step n pkey wid (s_prefix_cache s)) \<le> n"
    "distinct (map fst (lru_step n pkey wid (s_prefix_cache s)))" for n
    using lru.put_bounded [OF d] lru.put_distinct [OF d] by auto
  with book_inv [OF assms, of wid dec] show ?thesis
    by (auto simp: book_cost_def sched_inv_def sched_inv_defs)
qed

text \<open>The scored candidates of one request, and the whole cost branch in terms of them.\<close>

definition scored ::
  "(string \<Rightarrow> nat) \<Rightarrow> sched \<Rightarrow> string \<Rightarrow> string \<Rightarrow> int \<Rightarrow> string list option \<Rightarrow>
   (string \<times> real \<times> routing_decision) list" where
  "scored h s prompt tier tokens allowed =
     feasible (score_id h s tokens tier prompt (prefix_hash h prompt)) (candidate_ids s allowed)"

lemma pick_cost_eq:
  assumes "sched_inv s"
  shows "pick_cost h s (candidate_ids s allowed) prompt tier tokens =
    (let fs = scored h s prompt tier tokens allowed; scores = map entry_score fs
     in case min_by entry_score fs of
          None \<Rightarrow> (bump_admission inc_no_worker s,
                   Inl (admission_error ''no feasible backend'' (c_recovery_hint_s (s_cfg s))))
        | Some (wid, b, dec) \<Rightarrow>
            if slo_verdict s b scores
            then (s\<lparr>s_admission := inc_rejected_slo (gate_stats s b scores)\<rparr>,
                  Inl (admission_error
                         (''admission rejected ('' @ c_admission_mode (s_cfg s) @ '': '' @
                          snd (snd (gate s b scores)) @ '')'')
                         (max 1 (py_trunc (b / 1000)))))
            else (book_cost (s\<lparr>s_admission := gate_stats s b scores\<rparr>) (prefix_hash h prompt) wid dec,
                  Inr (wid, dec)))"
proof -
  define fs where "fs = scored h s prompt tier tokens allowed"
  have rank: "rank_loop (score_id h s tokens tier prompt (prefix_hash h prompt)) (candidate_ids s allowed)
      (None, False, []) = Inr (min_by entry_score fs, fs \<noteq> [], map entry_score fs)"
    using rank_loop_candidates [OF assms] by (simp add: fs_def scored_def Let_def)
  show ?thesis
  proof (cases "min_by entry_score fs")
    case None
    then show ?thesis by (simp add: pick_cost_def rank fs_def [symmetric])
  next
    case (Some e)
    obtain wid b dec where e: "e = (wid, b, dec)" by (cases e)
    obtain r where g: "gate s b (map entry_score fs) =
        (s\<lparr>s_admission := gate_stats s b (map entry_score fs)\<rparr>, slo_verdict s b (map entry_score fs), r)"
      using gate_eq [of s b "map entry_score fs"] by (cases "gate s b (map entry_score fs)") simp
    show ?thesis
      by (simp add: pick_cost_def rank fs_def [symmetric] Some e g bump_admission_def admit_cost_eq)
  qed
qed

lemma pick_cost_inv:
  assumes "sched_inv s"
  shows "sched_inv (fst (pick_cost h s (candidate_ids s allowed) prompt tier tokens))"
proof -
  have wf: "admission_wf (s_admission s)" "adm_rejected_vram (s_admission s) = 0"
    using assms by (simp_all add: sched_inv_def stats_inv_def)
  have "sched_inv (s\<lparr>s_admission := gate_stats s b scores\<rparr>)" for b scores
    using assms wf by (intro sched_inv_admission) (simp_all add: gate_stats_wf)
  moreover have "sched_inv (s\<lparr>s_admission := inc_rejected_slo (gate_stats s b scores)\<rparr>)" for b scores
    using assms wf gate_stats_wf [OF wf(1), of b scores]
    by (intro sched_inv_admission) (simp_all add: admission_wf_def)
  moreover have "sched_inv (bump_admission inc_no_worker s)"
    unfolding bump_admission_def using assms wf
    by (intro sched_inv_admission) (simp_all add: admission_wf_def)
  ultimately show ?thesis
    by (simp add: pick_cost_eq [OF assms] Let_def book_cost_inv split: option.split)
qed

lemma pick_inv:
  assumes "sched_inv s"
  shows "sched_inv (fst (pick h s prompt tier tokens0 allowed))"
proof -
  let ?ids = "candidate_ids s allowed" and ?n = "pick_tokens prompt tokens0"
  have wf: "admission_wf (s_admission s)" "adm_rejected_vram (s_admission s) = 0"
    using assms by (simp_all add: sched_inv_def stats_inv_def)
  have "sched_inv (bump_admission inc_no_worker s)"
    unfolding bump_admission_def using assms wf
    by (intro sched_inv_admission) (simp_all add: admission_wf_def)
  moreover have "sched_inv (fst (pick_round_robin s ?ids ?n))"
    using assms by (simp add: pick_round_robin_eq Let_def book_inv)
  moreover have "sched_inv (fst (pick_least_loaded s ?ids ?n))"
  proof (cases "min_by (pending_of s) ?ids")
    case None
    then show ?thesis using assms by (simp add: pick_least_loaded_def)
  next
    case (Some wid)
    then show ?thesis using assms by (simp add: pick_least_loaded_eq Let_def book_inv)
  qed
  moreover have "sched_inv (fst (pick_ewma s ?ids ?n))" if "?ids \<noteq> []"
    using assms that by (cases "ewma_choice s ?ids ?n")
      (simp_all add: ewma_choice_eq_None pick_ewma_eq Let_def book_inv)
  ultimately show ?thesis
    using pick_cost_inv [OF assms] by (simp add: pick_eq Let_def)
qed

interpretation sched: step_system "sched_step h" sched_inv for h
proof unfold_locales
  fix s e
  assume "sched_inv s"
  then show "sched_inv (sched_step h s e)"
    by (cases e) (simp_all add: register_inv unregister_inv set_vram_inv set_engine_metrics_inv
        set_healthy_inv note_failure_inv note_success_inv pick_inv release_inv feedback_inv reset_stats_inv)
qed

lemma reachable_inv: "sched_reachable h s \<Longrightarrow> sched_inv s"
  by (induction rule: sched_reachable.induct) (auto intro: init_inv sched.step_inv)

lemma reachable_run: "sched_reachable h s \<Longrightarrow> sched_reachable h (foldl (sched_step h) s es)"
  by (induction es arbitrary: s) (auto intro: sr_step)

end
