(* ===== verification/Demo_Pool.thy ===== *)
theory Demo_Pool
  imports Routing
begin

text \<open>
  A concrete two-backend pool on which the witnesses of the scheduler properties run: default
  learners, the default configuration, one backend of each tier.
\<close>

definition demo_cfg :: "string \<Rightarrow> string \<Rightarrow> sched_cfg" where
  "demo_cfg strategy mode =
     \<lparr>c_strategy = strategy, c_dual = True, c_ablation = ablation_full, c_slo_ms = 5000,
      c_admission_off = False, c_admission_mode = mode, c_admission_percentile = 95,
      c_batch_size = 8, c_tier_mismatch_ms = 500, c_cache_bonus_ms = 200, c_vram_soft_mb = 4096,
      c_vram_hard_mb = 2400, c_kv_cache_cost_ms = 800, c_engine_queue_cost_ms = 50,
      c_engine_prefix_hit_bonus_ms = 150, c_use_engine_metrics = True, c_mu_fast = 0.1,
      c_mu_slow = 0.01, c_mu_bias = 0.005, c_blend = 0.8, c_initial_slope = 2,
      c_initial_intercept = 150, c_robust = True, c_err_clip = 2, c_step_frac = 0.05,
      c_slope_max = 200, c_intercept_max = 1000000, c_static_slope = 1, c_static_intercept = 50,
      c_ewma_alpha = 0.2, c_ewma_prior_ms = 5000, c_affinity_cache_size = 2048,
      c_recovery_hint_s = 5, c_decision_log_size = 200, c_pred_history_size = 5000,
      c_recent_maxlen = 64\<rparr>"

definition demo_pool :: "string \<Rightarrow> string \<Rightarrow> sched" where
  "demo_pool strategy mode =
     \<lparr>s_cfg = demo_cfg strategy mode,
      s_predictors = [(''a'', nlms_init nlms_default_args),
                      (''b'', nlms_init (nlms_default_args\<lparr>a_tier := ''large''\<rparr>))],
      s_rls = [(''a'', rls_init 0.99 2 150), (''b'', rls_init 0.99 2 150)],
      s_ewma_e2e = [(''a'', 5000), (''b'', 5000)], s_ewma_samples = [(''a'', 0), (''b'', 0)],
      s_prefix_cache = [], s_engine_snap = [], s_rr_index = 0, s_affinity_decisions = 0,
      s_affinity_hits = 0, s_affinity_evictions = 0, s_fail_streak = [], s_decision_log = [],
      s_pred_history = [], s_recent_e2e = [], s_admission = admission_stats_init,
      s_last_decision = None\<rparr>"

lemmas demo_eval = demo_pool_def demo_cfg_def nlms_init_def nlms_default_args_def rls_init_def
  ablation_full_def admission_stats_init_def

lemma demo_inv [simp]: "sched_inv (demo_pool strategy mode)"
  by (simp add: demo_eval sched_inv_def sched_inv_defs cfg_inv_def pred_wf_def admission_wf_def)

lemma demo_fields [simp]:
  "s_cfg (demo_pool strategy mode) = demo_cfg strategy mode"
  "c_strategy (demo_cfg strategy mode) = strategy"
  "c_slo_ms (demo_cfg strategy mode) = 5000"
  "c_admission_mode (demo_cfg strategy mode) = mode"
  "s_recent_e2e (demo_pool strategy mode) = []"
  "s_rr_index (demo_pool strategy mode) = 0"
  by (simp_all add: demo_pool_def demo_cfg_def)

lemma demo_candidates [simp]: "candidate_ids (demo_pool strategy mode) None = [''a'', ''b'']"
  by (simp add: candidate_ids_def demo_eval)

lemma demo_pending [simp]: "pending_of (demo_pool strategy mode) w = 0"
  by (simp add: pending_of_def demo_eval)

text \<open>A short prompt for the small tier: the small backend costs 152, the large one 652.\<close>

lemma demo_scores:
  "score_id h (demo_pool ''nlms'' mode) 1 ''small'' prompt key ''a'' =
     Inr (Some (152, (plain_decision ''a'' 152 0 152 1 ''nlms'')))"
  "score_id h (demo_pool ''nlms'' mode) 1 ''small'' prompt key ''b'' =
     Inr (Some (652, (plain_decision ''b'' 152 0 652 1 ''nlms'')\<lparr>rd_tier_cost_ms := 500\<rparr>))"
  by (simp_all add: demo_eval score_id_def score_def hard_blocked_def Let_def joint_cost_def
      wait_term_def tier_term_def vram_term_def engine_terms_def affinity_term_def bonus_scale_def
      eng_get_def eng_ok_def nlms_estimate_def effective_slope_def plain_decision_def)

lemma demo_scored:
  "scored h (demo_pool ''nlms'' mode) prompt ''small'' 1 None =
     [(''a'', 152, plain_decision ''a'' 152 0 152 1 ''nlms''),
      (''b'', 652, (plain_decision ''b'' 152 0 652 1 ''nlms'')\<lparr>rd_tier_cost_ms := 500\<rparr>)]"
  by (simp add: scored_def demo_scores)

text \<open>The pick of that prompt, before any completion was observed.\<close>

lemma demo_pick:
  "pick h (demo_pool ''nlms'' ''empirical'') ''hello'' ''small'' None None =
     (let s = demo_pool ''nlms'' ''empirical''; dec = plain_decision ''a'' 152 0 152 1 ''nlms''
      in (book_cost (s\<lparr>s_admission := gate_stats s 152 [152, 652]\<rparr>) (prefix_hash h ''hello'') ''a'' dec,
          Inr (''a'', dec)))"
proof -
  have n: "pick_tokens ''hello'' None = 1" by (simp add: pick_tokens_def)
  have v: "\<not> slo_verdict (demo_pool ''nlms'' ''empirical'') 152 [152, 652]"
    by (simp add: slo_verdict_eq tail_over_slo_def empirical_mode_def)
  have "pick_cost h (demo_pool ''nlms'' ''empirical'')
      (candidate_ids (demo_pool ''nlms'' ''empirical'') None) ''hello'' ''small'' 1 =
     (let s = demo_pool ''nlms'' ''empirical''; dec = plain_decision ''a'' 152 0 152 1 ''nlms''
      in (book_cost (s\<lparr>s_admission := gate_stats s 152 [152, 652]\<rparr>) (prefix_hash h ''hello'') ''a'' dec,
          Inr (''a'', dec)))"
    by (simp only: pick_cost_eq [OF demo_inv] demo_scored) (simp add: v Let_def)
  then show ?thesis
    by (simp add: pick_eq n rr_strategy_def ll_strategy_def ewma_strategy_def)
qed

end
