(* ===== verification/Routing_Props.thy ===== *)
theory Routing_Props
  imports Demo_Pool
begin

text \<open>
  The properties of the routing decision and of the accounting around it. Each property is a few
  steps over the characterisations of \<open>Routing\<close> (\<open>pick_admit\<close>, \<open>pick_reject\<close> and the equations of
  the single strategies); the witnesses run the model on a two-backend pool.
\<close>

subsection \<open>The two outcomes of pick\<close>

lemma rd_joint_cost [simp]:
  "rd_worker_id (joint_cost s wid p n tier key est) = wid"
  "rd_tokens (joint_cost s wid p n tier key est) = n"
  "rd_strategy (joint_cost s wid p n tier key est) = c_strategy (s_cfg s)"
  by (simp_all add: joint_cost_def Let_def split_beta)

lemma score_id_SomeD:
  assumes "score_id h s n tier prompt key wid = Inr (Some (x, dec))"
  shows "x = rd_total_ms dec" and "rd_worker_id dec = wid"
    and "\<exists>p. map_of (s_predictors s) wid = Some p \<and> \<not> hard_blocked s wid p n tier"
  using assms by (auto simp: score_id_def score_def Let_def split: option.splits if_splits sum.splits)

lemma scored_min:
  assumes "min_by entry_score (scored h s prompt tier n allowed) = Some (wid, b, dec)"
  shows "wid \<in> set (candidate_ids s allowed)"
    and "score_id h s n tier prompt (prefix_hash h prompt) wid = Inr (Some (b, dec))"
    and "b = rd_total_ms dec" and "rd_worker_id dec = wid"
proof -
  from min_by_in_set [OF assms]
  show w: "wid \<in> set (candidate_ids s allowed)"
    and sc: "score_id h s n tier prompt (prefix_hash h prompt) wid = Inr (Some (b, dec))"
    by (simp_all add: scored_def in_feasible)
  from sc show "b = rd_total_ms dec" "rd_worker_id dec = wid" by (rule score_id_SomeD)+
qed

definition outcome_total :: "admission_stats \<Rightarrow> nat" where
  "outcome_total a =
     adm_admitted a + adm_rejected_slo a + adm_rejected_vram a + adm_rejected_no_worker a"

text \<open>What an admitted request changes, whatever the strategy.\<close>

definition admits :: "sched \<Rightarrow> string \<Rightarrow> routing_decision \<Rightarrow> sched \<Rightarrow> bool" where
  "admits s wid dec s' \<longleftrightarrow>
     rd_worker_id dec = wid \<and> s_cfg s' = s_cfg s \<and>
     s_predictors s' = s_predictors (mark_admitted s wid) \<and>
     s_rls s' = s_rls s \<and> s_ewma_e2e s' = s_ewma_e2e s \<and> s_ewma_samples s' = s_ewma_samples s \<and>
     s_engine_snap s' = s_engine_snap s \<and> s_fail_streak s' = s_fail_streak s \<and>
     s_pred_history s' = s_pred_history s \<and> s_recent_e2e s' = s_recent_e2e s \<and>
     s_decision_log s' =
       deque_append (c_decision_log_size (s_cfg s)) (s_decision_log s) (decision_as_dict dec) \<and>
     adm_admitted (s_admission s') = adm_admitted (s_admission s) + 1 \<and>
     adm_rejected_slo (s_admission s') = adm_rejected_slo (s_admission s) \<and>
     adm_rejected_vram (s_admission s') = adm_rejected_vram (s_admission s) \<and>
     adm_rejected_no_worker (s_admission s') = adm_rejected_no_worker (s_admission s)"

lemma admits_book:
  "rd_worker_id dec = wid \<Longrightarrow> admits s wid dec (book s wid dec)"
  "rd_worker_id dec = wid \<Longrightarrow> admits s wid dec (book (s\<lparr>s_rr_index := i\<rparr>) wid dec)"
  "admits s wid dec s' \<Longrightarrow> admits s wid dec (s'\<lparr>s_last_decision := d\<rparr>)"
  "rd_worker_id dec = wid \<Longrightarrow>
   admits s wid dec (book_cost (s\<lparr>s_admission := gate_stats s b scores\<rparr>) key wid dec)"
  by (simp_all add: admits_def book_cost_def)

lemma pick_admit:
  assumes "sched_inv s" and "pick h s prompt tier tokens0 allowed = (s', Inr (wid, dec))"
  shows "wid \<in> set (candidate_ids s allowed)" and "admits s wid dec s'"
proof -
  let ?ids = "candidate_ids s allowed" and ?n = "pick_tokens prompt tokens0"
  let ?st = "c_strategy (s_cfg s)"
  have ids: "?ids \<noteq> []" using assms(2) by (auto simp: pick_eq Let_def)
  have "wid \<in> set ?ids \<and> admits s wid dec s'"
  proof -
    consider "rr_strategy ?st" | "ll_strategy ?st" | "ewma_strategy ?st" | "cost_strategy ?st"
      by (auto simp: cost_strategy_def)
    then show ?thesis
    proof cases
      case 1
      then show ?thesis
        using assms(2) ids by (auto simp: pick_eq pick_round_robin_eq Let_def admits_book)
    next
      case 2
      obtain w where "min_by (pending_of s) ?ids = Some w" using ids by fastforce
      with 2 show ?thesis
        using assms(2) ids
        by (auto simp: strategies_disjoint pick_eq pick_least_loaded_eq Let_def admits_book dest: min_by_in_set)
    next
      case 3
      obtain w where "ewma_choice s ?ids ?n = Some w" using ids ewma_choice_eq_None by fastforce
      with 3 show ?thesis
        using assms(2) ids
        by (auto simp: strategies_disjoint pick_eq pick_ewma_eq Let_def admits_book dest: ewma_choice_in_set)
    next
      case 4
      with assms ids have "pick_cost h s ?ids prompt tier ?n = (s', Inr (wid, dec))"
        by (simp add: pick_eq cost_strategy_def Let_def)
      then show ?thesis
        by (auto simp: pick_cost_eq [OF assms(1)] Let_def intro: scored_min(1)
            intro!: admits_book(4) scored_min(4) split: option.splits if_splits)
    qed
  qed
  then show "wid \<in> set ?ids" "admits s wid dec s'" by auto
qed

text \<open>What a rejected request changes: counters only, and always one of two of them.\<close>

definition rejects :: "sched \<Rightarrow> pick_error \<Rightarrow> sched \<Rightarrow> bool" where
  "rejects s e s' \<longleftrightarrow>
     (\<exists>msg k. e = AdmissionError msg k \<and> 1 \<le> k) \<and> s' = s\<lparr>s_admission := s_admission s'\<rparr> \<and>
     adm_admitted (s_admission s') = adm_admitted (s_admission s) \<and>
     adm_rejected_vram (s_admission s') = adm_rejected_vram (s_admission s) \<and>
     outcome_total (s_admission s') = outcome_total (s_admission s) + 1"

lemma rejects_no_worker: "rejects s (admission_error msg k) (bump_admission inc_no_worker s)"
  by (simp add: rejects_def bump_admission_def admission_error_def outcome_total_def)

lemma rejects_slo:
  "rejects s (admission_error msg k) (s\<lparr>s_admission := inc_rejected_slo (gate_stats s b scores)\<rparr>)"
  by (simp add: rejects_def admission_error_def outcome_total_def)

lemma pick_reject:
  assumes "sched_inv s" and "pick h s prompt tier tokens0 allowed = (s', Inl e)"
  shows "rejects s e s'" and "candidate_ids s allowed \<noteq> [] \<Longrightarrow> cost_strategy (c_strategy (s_cfg s))"
proof -
  let ?ids = "candidate_ids s allowed" and ?n = "pick_tokens prompt tokens0"
  let ?st = "c_strategy (s_cfg s)"
  have ll: "\<exists>w. min_by (pending_of s) ?ids = Some w" if "?ids \<noteq> []"
    using that by (cases "min_by (pending_of s) ?ids") auto
  have ew: "\<exists>w. ewma_choice s ?ids ?n = Some w" if "?ids \<noteq> []"
    using that by (cases "ewma_choice s ?ids ?n") (auto simp: ewma_choice_eq_None)
  show cost: "cost_strategy ?st" if "?ids \<noteq> []"
    using assms(2) that ll [OF that] ew [OF that]
    by (auto simp: pick_eq Let_def pick_round_robin_eq pick_least_loaded_eq pick_ewma_eq
        cost_strategy_def split: if_splits)
  show "rejects s e s'"
  proof (cases "?ids = []")
    case True
    with assms(2) show ?thesis by (auto simp: pick_eq Let_def intro!: rejects_no_worker [simplified])
  next
    case False
    with cost assms have "pick_cost h s ?ids prompt tier ?n = (s', Inl e)"
      by (simp add: pick_eq cost_strategy_def Let_def)
    then show ?thesis
      by (auto simp: pick_cost_eq [OF assms(1)] Let_def
          intro!: rejects_no_worker [simplified] rejects_slo [simplified] split: option.splits if_splits)
  qed
qed

subsection \<open>Safety and accounting of pick\<close>

lemma pending_of_mark_admitted:
  "map_of (s_predictors s) wid \<noteq> None \<Longrightarrow> s_predictors s' = s_predictors (mark_admitted s wid) \<Longrightarrow>
   pending_of s' w = pending_of s w + of_bool (w = wid)"
  by (auto simp: pending_of_def mark_admitted_map_of)

lemma pick_pending:
  assumes "sched_inv s" and "pick h s prompt tier tokens0 allowed = (s', Inr (wid, dec))"
  shows "pending_of s' w = pending_of s w + of_bool (w = wid)"
proof -
  note admit = pick_admit [OF assms]
  have "distinct (map fst (s_predictors s))" using assms(1) by (simp add: sched_inv_def keys_inv_def)
  then have "map_of (s_predictors s) wid \<noteq> None" using admit(1) by (auto simp: candidate_ids_iff)
  then show ?thesis
    using admit(2) by (intro pending_of_mark_admitted) (simp_all add: admits_def)
qed

text \<open>In the cost strategies the chosen backend is the first minimum of the scored candidates.\<close>

lemma pick_cost_choice:
  assumes "sched_inv s" and "cost_strategy (c_strategy (s_cfg s))"
    and "pick h s prompt tier tokens0 allowed = (s', Inr (wid, dec))"
  defines "fs \<equiv> scored h s prompt tier (pick_tokens prompt tokens0) allowed"
  shows "min_by entry_score fs = Some (wid, rd_total_ms dec, dec)"
    and "\<not> slo_verdict s (rd_total_ms dec) (map entry_score fs)"
    and "s' = book_cost (s\<lparr>s_admission := gate_stats s (rd_total_ms dec) (map entry_score fs)\<rparr>)
                (prefix_hash h prompt) wid dec"
proof -
  have "candidate_ids s allowed \<noteq> []" using assms(3) by (auto simp: pick_eq Let_def)
  then have pc: "pick_cost h s (candidate_ids s allowed) prompt tier (pick_tokens prompt tokens0) =
      (s', Inr (wid, dec))"
    using assms(2,3) by (simp add: pick_eq cost_strategy_def Let_def)
  then obtain b where b: "min_by entry_score fs = Some (wid, b, dec)"
      "\<not> slo_verdict s b (map entry_score fs)"
      "s' = book_cost (s\<lparr>s_admission := gate_stats s b (map entry_score fs)\<rparr>) (prefix_hash h prompt) wid dec"
    by (auto simp: pick_cost_eq [OF assms(1)] Let_def fs_def split: option.splits if_splits)
  moreover have "b = rd_total_ms dec" using b(1) unfolding fs_def by (rule scored_min(3))
  ultimately show "min_by entry_score fs = Some (wid, rd_total_ms dec, dec)"
      "\<not> slo_verdict s (rd_total_ms dec) (map entry_score fs)"
      "s' = book_cost (s\<lparr>s_admission := gate_stats s (rd_total_ms dec) (map entry_score fs)\<rparr>)
              (prefix_hash h prompt) wid dec"
    by simp_all
qed



text \<open>
  C24: every rejection is an \<open>AdmissionError\<close> with a positive retry hint (never a KeyError or another
  exception of the ranking), it changes nothing but the admission counters, exactly one of the four
  outcome counters moves, and a request with a healthy allowed backend is only ever rejected by a
  cost strategy.
\<close>

theorem pick_rejection:
  assumes "sched_inv s" and "pick h s prompt tier tokens0 allowed = (s', Inl e)"
  shows "(\<exists>msg retry. e = AdmissionError msg retry \<and> 1 \<le> retry) \<and>
    s' = s\<lparr>s_admission := s_admission s'\<rparr> \<and>
    adm_admitted (s_admission s') = adm_admitted (s_admission s) \<and>
    outcome_total (s_admission s') = outcome_total (s_admission s) + 1 \<and>
    (candidate_ids s allowed = [] \<or> cost_strategy (c_strategy (s_cfg s)))"
  using pick_reject [OF assms] by (auto simp: rejects_def)

theorem pick_rejection_witness:
  "\<exists>s' e. pick (\<lambda>t. 0) (demo_pool ''nlms'' ''strict'') ''hello'' ''small'' None (Some [''c'']) = (s', Inl e) \<and>
     (\<exists>msg retry. e = AdmissionError msg retry \<and> 1 \<le> retry)"
proof -
  have "candidate_ids (demo_pool ''nlms'' ''strict'') (Some [''c'']) = []"
    by (simp add: candidate_ids_def demo_eval)
  then have p: "pick (\<lambda>t. 0) (demo_pool ''nlms'' ''strict'') ''hello'' ''small'' None (Some [''c'']) =
      (bump_admission inc_no_worker (demo_pool ''nlms'' ''strict''),
       Inl (admission_error ''no healthy backends registered''
              (c_recovery_hint_s (demo_cfg ''nlms'' ''strict''))))"
    by (simp add: pick_eq Let_def)
  show ?thesis
    using p pick_rejection [OF demo_inv p] by (simp only: prod.inject sum.inject) blast
qed

text \<open>
  C7: under a cost strategy the admitted backend minimises the joint cost over all healthy allowed
  backends that are not blocked, and among equals it is the one registered first.
\<close>

theorem pick_optimal:
  assumes "sched_inv s" and "cost_strategy (c_strategy (s_cfg s))"
    and "pick h s prompt tier tokens0 allowed = (s', Inr (wid, dec))"
  defines "cost \<equiv> score_id h s (pick_tokens prompt tokens0) tier prompt (prefix_hash h prompt)"
  shows "\<exists>before after. candidate_ids s allowed = before @ wid # after \<and>
      cost wid = Inr (Some (rd_total_ms dec, dec)) \<and>
      (\<forall>w \<in> set before. \<forall>x d. cost w = Inr (Some (x, d)) \<longrightarrow> rd_total_ms dec < x) \<and>
      (\<forall>w \<in> set after. \<forall>x d. cost w = Inr (Some (x, d)) \<longrightarrow> rd_total_ms dec \<le> x)"
proof -
  let ?fs = "feasible cost (candidate_ids s allowed)"
  have m: "min_by entry_score ?fs = Some (wid, rd_total_ms dec, dec)"
    using pick_cost_choice(1) [OF assms(1-3)] by (simp add: scored_def cost_def)
  then obtain ys zs where split: "?fs = ys @ (wid, rd_total_ms dec, dec) # zs"
      "\<forall>y \<in> set ys. rd_total_ms dec < entry_score y" "\<forall>z \<in> set zs. rd_total_ms dec \<le> entry_score z"
    using min_by_first [OF m] by auto
  then obtain before after where ba: "candidate_ids s allowed = before @ wid # after"
      "ys = feasible cost before" "zs = feasible cost after"
    using feasible_split by blast
  have lt: "rd_total_ms dec < x" if "w \<in> set before" "cost w = Inr (Some (x, d))" for w x d
    using split(2) in_feasible [of w x d cost before] that by (force simp: ba(2))
  have le: "rd_total_ms dec \<le> x" if "w \<in> set after" "cost w = Inr (Some (x, d))" for w x d
    using split(3) in_feasible [of w x d cost after] that by (force simp: ba(3))
  have "cost wid = Inr (Some (rd_total_ms dec, dec))"
    using min_by_in_set [OF m] by (simp add: in_feasible)
  with ba(1) lt le show ?thesis by blast
qed

theorem pick_optimal_witness:
  "cost_strategy ''nlms'' \<and>
   (\<exists>before after. candidate_ids (demo_pool ''nlms'' ''empirical'') None = before @ ''a'' # after)"
proof -
  have c: "cost_strategy ''nlms''"
    by (simp add: cost_strategy_def rr_strategy_def ll_strategy_def ewma_strategy_def)
  then have c': "cost_strategy (c_strategy (s_cfg (demo_pool ''nlms'' ''empirical'')))" by simp
  from pick_optimal [OF demo_inv c' demo_pick [unfolded Let_def]] c show ?thesis by blast
qed

end
