(* ===== verification/Scheduler_Props.thy ===== *)
theory Scheduler_Props
  imports Routing_Props
begin

text \<open>
  Properties of whole runs of the scheduler: its invariant, the accounting of picks, fairness and
  balance of the baseline strategies.
\<close>

subsection \<open>Reachable states\<close>

text \<open>
  C3: in every state that a scheduler can reach from its constructor through any sequence of its
  methods, the four registries have the same keys, in-flight counts are non-negative, the decision
  log, the sample history, the latency window, the in-flight logs and the prefix cache are within
  their capacities, and the counters are consistent. In particular \<open>rejected_vram\<close> is always 0.
\<close>

theorem scheduler_invariant:
  assumes "sched_reachable h s"
  shows "sched_inv s \<and> adm_rejected_vram (s_admission s) = 0"
  using reachable_inv [OF assms] by (simp add: sched_inv_def stats_inv_def)

theorem scheduler_invariant_witness:
  "\<exists>s. scheduler_init sched_default_args = Inr s \<and>
     sched_inv (foldl (sched_step (\<lambda>t. 0)) s
       [Register ''a'' ''small'' 24000 None, Pick ''hello'' ''small'' None None,
        Feedback ''a'' 120 1 True 0, NoteFailure ''a'' 3])"
proof -
  obtain s where s: "scheduler_init sched_default_args = Inr s"
    by (simp add: scheduler_init_def sched_default_args_def)
  from sr_init [OF s] have "sched_reachable (\<lambda>t. 0) s" .
  from scheduler_invariant [OF reachable_run [OF this]] s show ?thesis by blast
qed

subsection \<open>Accounting\<close>

fun is_pick :: "sched_event \<Rightarrow> bool" where
  "is_pick (Pick prompt tier tokens allowed) = True"
| "is_pick _ = False"

lemma outcome_total_release [simp]: "s_admission (release s w) = s_admission s"
  by (simp add: release_def)

lemma pop_inflight_frame [simp]:
  "s_admission (fst (pop_inflight s w)) = s_admission s"
  "s_cfg (fst (pop_inflight s w)) = s_cfg s"
  "s_fail_streak (fst (pop_inflight s w)) = s_fail_streak s"
  "s_rls (fst (pop_inflight s w)) = s_rls s"
  "s_ewma_e2e (fst (pop_inflight s w)) = s_ewma_e2e s"
  "s_ewma_samples (fst (pop_inflight s w)) = s_ewma_samples s"
  "s_pred_history (fst (pop_inflight s w)) = s_pred_history s"
  "s_recent_e2e (fst (pop_inflight s w)) = s_recent_e2e s"
  by (simp_all add: pop_inflight_eq)

lemma outcome_total_pick:
  assumes "sched_inv s"
  shows "outcome_total (s_admission (fst (pick h s prompt tier tokens allowed))) =
    outcome_total (s_admission s) + 1"
proof (cases "pick h s prompt tier tokens allowed")
  case (Pair s' r)
  show ?thesis
  proof (cases r)
    case (Inl e)
    with Pair pick_reject(1) [OF assms] show ?thesis by (auto simp: rejects_def)
  next
    case (Inr x)
    with Pair pick_admit(2) [OF assms] show ?thesis
      by (cases x) (auto simp: admits_def outcome_total_def)
  qed
qed

lemma outcome_total_other:
  "\<not> is_pick e \<Longrightarrow> e \<noteq> ResetStats \<Longrightarrow>
   outcome_total (s_admission (sched_step h s e)) = outcome_total (s_admission s)"
  by (cases e) (auto simp: outcome_total_def register_def unregister_def set_vram_def
      set_engine_metrics_def set_healthy_def note_failure_def note_success_def feedback_def
      feedback_count_def bump_admission_def Let_def split_beta split: option.split)

text \<open>
  C23: every call of \<open>pick\<close> ends in exactly one of the four outcome counters. After any run of the
  methods without \<open>reset_stats\<close>, the four counters together have grown by the number of picks.
\<close>

theorem pick_accounting:
  assumes "sched_inv s" and "ResetStats \<notin> set es"
  shows "outcome_total (s_admission (foldl (sched_step h) s es)) =
    outcome_total (s_admission s) + length (filter is_pick es)"
  using assms
proof (induction es arbitrary: s)
  case Nil
  show ?case by simp
next
  case (Cons e es)
  have "outcome_total (s_admission (sched_step h s e)) = outcome_total (s_admission s) + of_bool (is_pick e)"
  proof (cases "is_pick e")
    case True
    then show ?thesis using Cons.prems(1) by (cases e) (simp_all add: outcome_total_pick)
  next
    case False
    then show ?thesis using Cons.prems(2) by (auto simp: outcome_total_other)
  qed
  with Cons.IH [OF sched.step_inv [OF Cons.prems(1)]] Cons.prems(2) show ?case by simp
qed

theorem pick_accounting_witness:
  "outcome_total (s_admission (foldl (sched_step (\<lambda>t. 0)) (demo_pool ''nlms'' ''strict'')
     [Pick ''x'' ''small'' None None, Release ''a'', Pick ''y'' ''large'' None None,
      Pick ''z'' ''small'' None (Some [])])) = 3"
proof -
  have "outcome_total (s_admission (demo_pool ''nlms'' ''strict'')) = 0"
    by (simp add: demo_eval outcome_total_def)
  with pick_accounting [OF demo_inv, of "[Pick ''x'' ''small'' None None, Release ''a'',
      Pick ''y'' ''large'' None None, Pick ''z'' ''small'' None (Some [])]"]
  show ?thesis by simp
qed

subsection \<open>Fairness of round robin\<close>

text \<open>The backends that serve a sequence of requests (prompt, tier, tokens) with no event in between.\<close>

fun served ::
  "(string \<Rightarrow> nat) \<Rightarrow> sched \<Rightarrow> (string \<times> string \<times> int option) list \<Rightarrow> string option list" where
  "served h s [] = []"
| "served h s ((prompt, tier, tokens) # rs) =
     (case pick h s prompt tier tokens None of
        (s', Inr (wid, dec)) \<Rightarrow> Some wid # served h s' rs
      | (s', Inl e) \<Rightarrow> None # served h s' rs)"

lemma mark_admitted_health:
  "map (\<lambda>(w, p). (w, n_healthy p)) (s_predictors (mark_admitted s wid)) =
   map (\<lambda>(w, p). (w, n_healthy p)) (s_predictors s)"
proof -
  have "map (\<lambda>(w, p). (w, n_healthy p)) (AList.update k q d) = map (\<lambda>(w, p). (w, n_healthy p)) d"
    if "map_of d k = Some p" "n_healthy q = n_healthy p" for k q p and d :: "nlms dict"
    using that by (induction d) (auto split: if_splits)
  then show ?thesis by (simp add: mark_admitted_def with_predictor_def split: option.split)
qed

lemma candidate_ids_health:
  "candidate_ids s allowed =
     (let ids = map fst (filter snd (map (\<lambda>(w, p). (w, n_healthy p)) (s_predictors s)))
      in case allowed of None \<Rightarrow> ids | Some bs \<Rightarrow> filter (\<lambda>w. w \<in> set bs) ids)"
proof -
  have "map fst (filter (\<lambda>(w, p). n_healthy p) d) =
      map fst (filter snd (map (\<lambda>(w, p). (w, n_healthy p)) d))" for d :: "nlms dict"
    by (induction d) auto
  then show ?thesis by (simp add: candidate_ids_def)
qed

lemma admits_candidates: "admits s wid dec s' \<Longrightarrow> candidate_ids s' allowed = candidate_ids s allowed"
  by (simp add: admits_def candidate_ids_health mark_admitted_health)

lemma pick_rr:
  assumes "rr_strategy (c_strategy (s_cfg s))" and "candidate_ids s None = ids" and "ids \<noteq> []"
  obtains s' dec where "pick h s prompt tier tokens None = (s', Inr (ids ! ((s_rr_index s + 1) mod length ids), dec))"
    and "s_rr_index s' = (s_rr_index s + 1) mod length ids"
    and "s_cfg s' = s_cfg s" and "candidate_ids s' None = ids"
proof -
  let ?i = "(s_rr_index s + 1) mod length ids"
  let ?dec = "plain_decision (ids ! ?i) 0 0 0 (pick_tokens prompt tokens) (c_strategy (s_cfg s))"
  let ?s = "book (s\<lparr>s_rr_index := ?i\<rparr>) (ids ! ?i) ?dec"
  have "pick h s prompt tier tokens None = (?s, Inr (ids ! ?i, ?dec))"
    using assms by (simp add: pick_eq pick_round_robin_eq Let_def)
  moreover have "admits s (ids ! ?i) ?dec ?s" by (rule admits_book(2)) simp
  ultimately show thesis using that admits_candidates assms(2) by simp
qed

lemma served_rr:
  assumes "rr_strategy (c_strategy (s_cfg s))" and "candidate_ids s None = ids" and "ids \<noteq> []"
  shows "served h s rs = map (\<lambda>j. Some (ids ! ((s_rr_index s + 1 + j) mod length ids))) [0..<length rs]"
  using assms
proof (induction rs arbitrary: s)
  case Nil
  show ?case by simp
next
  case (Cons r rs)
  obtain prompt tier tokens where r: "r = (prompt, tier, tokens)" by (cases r)
  obtain s' dec where p: "pick h s prompt tier tokens None =
        (s', Inr (ids ! ((s_rr_index s + 1) mod length ids), dec))"
      "s_rr_index s' = (s_rr_index s + 1) mod length ids" "s_cfg s' = s_cfg s" "candidate_ids s' None = ids"
    using pick_rr [OF Cons.prems] .
  have shift: "((x + 1) mod n + 1 + j) mod n = (x + 1 + Suc j) mod n" for x n j :: nat
    using mod_add_left_eq [of "x + 1" n "1 + j"] by (simp add: ac_simps)
  have "served h s' rs = map (\<lambda>j. Some (ids ! ((s_rr_index s' + 1 + j) mod length ids))) [0..<length rs]"
    using Cons.IH Cons.prems p by simp
  also have "\<dots> = map (\<lambda>j. Some (ids ! ((s_rr_index s + 1 + Suc j) mod length ids))) [0..<length rs]"
    unfolding p(2) by (simp only: shift)
  finally show ?case
    by (simp add: r p upt_conv_Cons map_Suc_upt [symmetric] comp_def del: upt_Suc)
qed

lemma count_list_map_Some: "count_list (map Some xs) (Some x) = count_list xs x"
  by (induction xs) auto

lemma count_list_distinct: "distinct xs \<Longrightarrow> x \<in> set xs \<Longrightarrow> count_list xs x = 1"
  by (induction xs) (auto simp: count_list_0_iff)

lemma count_rotation:
  assumes "distinct ids" and "w \<in> set ids"
  shows "count_list (map (\<lambda>j. Some (ids ! ((c + j) mod length ids))) [0..<m * length ids]) (Some w) = m"
proof (induction m)
  case 0
  show ?case by simp
next
  case (Suc m)
  let ?n = "length ids"
  have "map (\<lambda>j. Some (ids ! ((c + j) mod ?n))) [m * ?n..<m * ?n + ?n] =
      map (\<lambda>j. Some (ids ! ((c + j) mod ?n))) [0..<?n]"
  proof (rule nth_equalityI)
    fix i assume "i < length (map (\<lambda>j. Some (ids ! ((c + j) mod ?n))) [m * ?n..<m * ?n + ?n])"
    moreover have "(c + (m * ?n + i)) mod ?n = (c + i) mod ?n"
      by (metis add.left_commute mod_mult_self3)
    ultimately show "map (\<lambda>j. Some (ids ! ((c + j) mod ?n))) [m * ?n..<m * ?n + ?n] ! i =
        map (\<lambda>j. Some (ids ! ((c + j) mod ?n))) [0..<?n] ! i" by simp
  qed simp
  moreover have "map (\<lambda>j. Some (ids ! ((c + j) mod ?n))) [0..<?n] = map Some (rotate c ids)"
    by (rule nth_equalityI) (simp_all add: nth_rotate)
  moreover have "count_list (map Some (rotate c ids)) (Some w) = 1"
    using assms by (simp add: count_list_map_Some count_list_distinct)
  moreover have "[0..<Suc m * ?n] = [0..<m * ?n] @ [m * ?n..<m * ?n + ?n]"
    using upt_add_eq_append [of 0 "m * ?n" ?n] by (simp add: add.commute)
  ultimately show ?case
    using Suc by (simp only: map_append count_list_append)
qed

text \<open>
  C21: under round robin, in a run of requests during which the pool does not change, the k-th
  request goes to the k-th healthy backend after the current position, cyclically; over any m full
  rounds every healthy backend serves exactly m requests.
\<close>

theorem round_robin_fair:
  assumes "sched_inv s" and "rr_strategy (c_strategy (s_cfg s))" and "candidate_ids s None = ids"
    and "ids \<noteq> []" and "length rs = m * length ids"
  shows "served h s rs =
      map (\<lambda>j. Some (ids ! ((s_rr_index s + 1 + j) mod length ids))) [0..<length rs] \<and>
    (\<forall>w \<in> set ids. count_list (served h s rs) (Some w) = m)"
proof -
  have "distinct ids"
    using assms(1,3) candidate_ids_distinct by (auto simp: sched_inv_def keys_inv_def)
  then show ?thesis
    using served_rr [OF assms(2,3,4), of h rs] count_rotation [of ids _ "s_rr_index s + 1" m] assms(5)
    by simp
qed

theorem round_robin_fair_witness:
  "count_list (served (\<lambda>t. 0) (demo_pool ''round_robin'' ''empirical'')
     (replicate 4 (''hi'', ''small'', None))) (Some ''b'') = 2"
proof -
  have "rr_strategy (c_strategy (s_cfg (demo_pool ''round_robin'' ''empirical'')))"
    by (simp add: rr_strategy_def)
  from conjunct2 [OF round_robin_fair [OF demo_inv this demo_candidates]]
  show ?thesis by simp
qed

subsection \<open>Balance of the least-loaded strategy\<close>

definition balanced :: "sched \<Rightarrow> bool" where
  "balanced s \<longleftrightarrow>
     (\<forall>v \<in> set (candidate_ids s None). \<forall>w \<in> set (candidate_ids s None). pending_of s v \<le> pending_of s w + 1)"

lemma pick_ll:
  assumes "sched_inv s" and "ll_strategy (c_strategy (s_cfg s))"
    and "pick h s prompt tier tokens None = (s', Inr (wid, dec))"
  shows "min_by (pending_of s) (candidate_ids s None) = Some wid"
proof -
  have "candidate_ids s None \<noteq> []" using assms(3) by (auto simp: pick_eq Let_def)
  then obtain w where w: "min_by (pending_of s) (candidate_ids s None) = Some w"
    by (cases "min_by (pending_of s) (candidate_ids s None)") auto
  with assms(2,3) \<open>candidate_ids s None \<noteq> []\<close> show ?thesis
    by (auto simp: strategies_disjoint pick_eq pick_least_loaded_eq Let_def)
qed

lemma pick_ll_balanced:
  assumes "sched_inv s" and "ll_strategy (c_strategy (s_cfg s))" and "balanced s"
  shows "balanced (fst (pick h s prompt tier tokens None))"
proof (cases "pick h s prompt tier tokens None")
  case (Pair s' r)
  show ?thesis
  proof (cases r)
    case (Inl e)
    then have "rejects s e s'" using Pair pick_reject(1) [OF assms(1)] by simp
    then have "s' = s\<lparr>s_admission := s_admission s'\<rparr>" by (simp add: rejects_def)
    then have "s_predictors s' = s_predictors s" by (metis sched.select_convs(2) sched.surjective sched.update_convs(16))
    then show ?thesis using assms(3) Pair by (simp add: balanced_def candidate_ids_def pending_of_def)
  next
    case (Inr x)
    obtain wid dec where x: "x = (wid, dec)" by (cases x)
    with Inr Pair have p: "pick h s prompt tier tokens None = (s', Inr (wid, dec))" by simp
    note m = pick_ll [OF assms(1,2) p] and a = pick_admit [OF assms(1) p] and slot = pick_pending [OF assms(1) p]
    have "pending_of s wid \<le> pending_of s v" if "v \<in> set (candidate_ids s None)" for v
      using min_by_least [OF m that] .
    then have "pending_of s' v \<le> pending_of s' w + 1"
      if "v \<in> set (candidate_ids s None)" "w \<in> set (candidate_ids s None)" for v w
      using that assms(3) slot by (fastforce simp: balanced_def)
    then show ?thesis using Pair admits_candidates [OF a(2)] by (simp add: balanced_def)
  qed
qed

lemma pick_cfg: "sched_inv s \<Longrightarrow> s_cfg (fst (pick h s prompt tier tokens allowed)) = s_cfg s"
proof (cases "pick h s prompt tier tokens allowed")
  case (Pair s' r)
  assume inv: "sched_inv s"
  show ?thesis
  proof (cases r)
    case (Inl e)
    then have "s' = s\<lparr>s_admission := s_admission s'\<rparr>"
      using Pair pick_reject(1) [OF inv] by (simp add: rejects_def)
    then have "s_cfg s' = s_cfg s" by (metis sched.select_convs(1) sched.surjective sched.update_convs(16))
    then show ?thesis using Pair by simp
  next
    case (Inr x)
    with Pair pick_admit(2) [OF inv] show ?thesis by (cases x) (auto simp: admits_def)
  qed
qed



end
