(* ===== verification/Completion_Props.thy ===== *)
theory Completion_Props
  imports Scheduler_Props Scheduler_Metrics
begin

text \<open>
  Properties of what happens after routing: the circuit breaker as an abstract machine that the
  scheduler refines, failed requests, the EWMA levels, the reported fractions, the eviction loop
  and the in-flight log.
\<close>

subsection \<open>The circuit breaker\<close>

text \<open>
  The contract of the breaker, one backend at a time: a failure streak, and whether the backend is
  registered (None when not) and in rotation.
\<close>

type_synonym breaker = "int \<times> bool option"

fun breaker_step :: "string \<Rightarrow> breaker \<Rightarrow> sched_event \<Rightarrow> breaker" where
  "breaker_step wid (n, up) (Register w tier tot free) = (n, if w = wid then Some True else up)"
| "breaker_step wid (n, up) (Unregister w) = (n, if w = wid then None else up)"
| "breaker_step wid (n, up) (SetHealthy w b) =
     (if w = wid \<and> up \<noteq> None then (if b then 0 else n, Some b) else (n, up))"
| "breaker_step wid (n, up) (NoteFailure w k) =
     (if w = wid then (n + 1, if n + 1 \<ge> k then map_option (\<lambda>_. False) up else up) else (n, up))"
| "breaker_step wid (n, up) (NoteSuccess w) = (if w = wid then 0 else n, up)"
| "breaker_step wid (n, up) (Feedback w e2e tokens ok t) = (if w = wid \<and> ok then 0 else n, up)"
| "breaker_step wid (n, up) ResetStats = (0, up)"
| "breaker_step wid (n, up) _ = (n, up)"

definition breaker_of :: "string \<Rightarrow> sched \<Rightarrow> breaker" where
  "breaker_of wid s = (get_streak s wid, map_option n_healthy (map_of (s_predictors s) wid))"

lemma breaker_of_pick:
  assumes "sched_inv s"
  shows "breaker_of wid (fst (pick h s prompt tier tokens allowed)) = breaker_of wid s"
proof (cases "pick h s prompt tier tokens allowed")
  case (Pair s' r)
  show ?thesis
  proof (cases r)
    case (Inl e)
    then have "s' = s\<lparr>s_admission := s_admission s'\<rparr>"
      using Pair pick_reject(1) [OF assms] by (simp add: rejects_def)
    moreover have "breaker_of wid (s\<lparr>s_admission := a\<rparr>) = breaker_of wid s" for a
      by (simp add: breaker_of_def get_streak_def)
    ultimately show ?thesis using Pair by (metis fst_conv)
  next
    case (Inr x)
    then have "admits s (fst x) (snd x) s'" using Pair pick_admit(2) [OF assms] by (cases x) auto
    then show ?thesis using Pair
      by (auto simp: admits_def breaker_of_def get_streak_def mark_admitted_map_of option.map_comp comp_def)
  qed
qed

lemma breaker_of_with_predictor:
  assumes "\<And>p. n_healthy (f p) = n_healthy p"
  shows "breaker_of wid (with_predictor s w f) = breaker_of wid s"
  by (cases "map_of (s_predictors s) wid") (auto simp: assms breaker_of_def get_streak_def)

lemma breaker_of_release [simp]: "breaker_of wid (release s w) = breaker_of wid s"
  unfolding release_def by (rule breaker_of_with_predictor) simp

lemma breaker_of_pop [simp]: "breaker_of wid (fst (pop_inflight s w)) = breaker_of wid s"
  unfolding pop_inflight_eq by (rule breaker_of_with_predictor) simp

lemma breaker_of_learn [simp]: "breaker_of wid (feedback_learn s w y n k t) = breaker_of wid s"
  by (cases "map_of (s_predictors s) wid") (auto simp: breaker_of_def get_streak_def)

lemma breaker_of_feedback:
  "breaker_of wid (feedback s w y n ok t) =
     (if w = wid \<and> ok then (0, snd (breaker_of wid s)) else breaker_of wid s)"
proof -
  have count: "breaker_of wid (feedback_count s w y) =
      (if w = wid then (0, snd (breaker_of wid s)) else breaker_of wid s)" for s w
    by (simp add: breaker_of_def get_streak_def feedback_count_def Let_def)
  have bump: "breaker_of wid (bump_admission f s) = breaker_of wid s" for f s
    by (simp add: breaker_of_def get_streak_def bump_admission_def)
  show ?thesis by (simp add: feedback_def Let_def split_beta count bump)
qed

lemma breaker_of_registry:
  "breaker_of wid (register s w tier tot free) =
     (fst (breaker_of wid s), if w = wid then Some True else snd (breaker_of wid s))"
  "breaker_of wid (unregister s w) =
     (fst (breaker_of wid s), if w = wid then None else snd (breaker_of wid s))"
  by (auto simp: breaker_of_def get_streak_def register_def unregister_def nlms_init_def Let_def
      split: option.split)

lemma breaker_of_vram: "breaker_of wid (set_vram s w x) = breaker_of wid s"
  unfolding set_vram_def by (rule breaker_of_with_predictor) simp

lemma breaker_of_engine: "breaker_of wid (set_engine_metrics s w snap) = breaker_of wid s"
proof -
  have snap: "breaker_of wid (s\<lparr>s_engine_snap := e\<rparr>) = breaker_of wid s" for e
    by (simp add: breaker_of_def get_streak_def)
  show ?thesis
    by (auto simp: set_engine_metrics_def Let_def breaker_of_with_predictor snap split: option.split)
qed

text \<open>
  C4: every method of the scheduler acts on the failure streak and the health of a backend exactly as
  the contract of the breaker says, over any run of the methods: only the health probe, a
  registration and a failure whose streak reaches its threshold move a backend in or out of
  rotation, and any success, a passing probe or a reset clears the streak.
\<close>

theorem breaker_refinement:
  assumes "sched_inv s"
  shows "breaker_of wid (foldl (sched_step h) s es) = foldl (breaker_step wid) (breaker_of wid s) es"
  using assms
proof (induction es arbitrary: s)
  case Nil
  show ?case by simp
next
  case (Cons e es)
  have "breaker_of wid (sched_step h s e) = breaker_step wid (breaker_of wid s) e"
  proof (cases e)
    case (SetHealthy w b)
    then show ?thesis
      by (cases "map_of (s_predictors s) wid")
        (auto simp: breaker_of_def get_streak_def set_healthy_def Let_def)
  next
    case (NoteFailure w k)
    then show ?thesis
      by (cases "map_of (s_predictors s) wid")
        (auto simp: breaker_of_def get_streak_def note_failure_def Let_def)
  qed (cases "breaker_of wid s";
       simp add: breaker_of_pick Cons.prems breaker_of_feedback breaker_of_registry breaker_of_vram
         breaker_of_engine;
       auto simp: breaker_of_def get_streak_def note_success_def reset_stats_def)+
  with Cons.IH [OF sched.step_inv [OF Cons.prems]] show ?case by simp
qed

theorem breaker_refinement_witness:
  "breaker_of ''a'' (foldl (sched_step (\<lambda>t. 0)) (demo_pool ''nlms'' ''empirical'')
     [NoteFailure ''a'' 3, NoteFailure ''a'' 3, Pick ''x'' ''small'' None None, NoteFailure ''a'' 3]) =
   (3, Some False)"
proof -
  have "breaker_of ''a'' (demo_pool ''nlms'' ''empirical'') = (0, Some True)"
    by (simp add: breaker_of_def get_streak_def demo_eval)
  then show ?thesis by (subst breaker_refinement [OF demo_inv]) simp
qed

subsection \<open>Failed requests\<close>

text \<open>
  C18: a failed completion teaches nothing and does not count towards goodput: every estimate, the
  recursive filters, the EWMA levels and samples, the latency window, the sample history and the
  completion counters stay as they are; the failure counter moves by one and the backend gives its
  in-flight slot back.
\<close>

theorem failed_feedback_inert:
  assumes "sched_inv s" and "s' = feedback s wid e2e_ms tokens False unix_ms"
  shows "s_rls s' = s_rls s \<and> s_ewma_e2e s' = s_ewma_e2e s \<and> s_ewma_samples s' = s_ewma_samples s \<and>
    s_recent_e2e s' = s_recent_e2e s \<and> s_pred_history s' = s_pred_history s \<and>
    s_fail_streak s' = s_fail_streak s \<and>
    s_admission s' = (s_admission s)\<lparr>adm_failed_total := adm_failed_total (s_admission s) + 1\<rparr> \<and>
    (\<forall>w p. map_of (s_predictors s) w = Some p \<longrightarrow>
       (\<exists>p'. map_of (s_predictors s') w = Some p' \<and> (\<forall>n. nlms_estimate p' n = nlms_estimate p n) \<and>
          n_healthy p' = n_healthy p \<and> n_update_count p' = n_update_count p \<and>
          n_pending p' = (if w = wid then max 0 (n_pending p - 1) else n_pending p)))"
proof -
  have s': "s' = release (bump_admission (\<lambda>a. a\<lparr>adm_failed_total := adm_failed_total a + 1\<rparr>)
      (fst (pop_inflight s wid))) wid"
    using assms(2) by (simp add: feedback_def Let_def split_beta)
  have frame: "s_rls s' = s_rls s" "s_ewma_e2e s' = s_ewma_e2e s" "s_ewma_samples s' = s_ewma_samples s"
    "s_recent_e2e s' = s_recent_e2e s" "s_pred_history s' = s_pred_history s"
    "s_fail_streak s' = s_fail_streak s"
    "s_admission s' = (s_admission s)\<lparr>adm_failed_total := adm_failed_total (s_admission s) + 1\<rparr>"
    unfolding s' by (simp_all add: bump_admission_def release_def)
  have pred: "\<exists>p'. map_of (s_predictors s') w = Some p' \<and> (\<forall>n. nlms_estimate p' n = nlms_estimate p n) \<and>
      n_healthy p' = n_healthy p \<and> n_update_count p' = n_update_count p \<and>
      n_pending p' = (if w = wid then max 0 (n_pending p - 1) else n_pending p)"
    if "map_of (s_predictors s) w = Some p" for w p
  proof -
    have "0 \<le> n_pending p" using assms(1) that by (auto simp: sched_inv_def preds_inv_def pred_wf_def)
    define q where
      "q = p\<lparr>n_inflight_log := tl (n_inflight_log p), n_pending := max 0 (n_pending p - 1)\<rparr>"
    have "map_of (s_predictors s') w = Some (if w = wid then q else p)"
      using that \<open>0 \<le> n_pending p\<close> unfolding s' q_def
      by (auto simp: release_def bump_admission_def pop_inflight_eq max_def intro: nlms.equality)
    then show ?thesis
      by (intro exI [of _ "if w = wid then q else p"])
        (simp add: q_def nlms_estimate_def effective_slope_def Let_def)
  qed
  show ?thesis using frame pred by blast
qed

theorem failed_feedback_inert_witness:
  "s_ewma_e2e (feedback (demo_pool ''ewma'' ''strict'') ''a'' 9000 1 False 0) =
   s_ewma_e2e (demo_pool ''ewma'' ''strict'')"
  using failed_feedback_inert [OF demo_inv refl] by blast

subsection \<open>EWMA levels\<close>

lemma feedback_learn_ewma:
  assumes "map_of (s_predictors s) wid \<noteq> None"
  shows "s_ewma_e2e (feedback_learn s wid y n k t) = s_ewma_e2e (feedback_ewma s wid y)"
    and "s_ewma_samples (feedback_learn s wid y n k t) = s_ewma_samples (feedback_ewma s wid y)"
  using assms
  by (auto simp: feedback_learn_def Let_def split_beta feedback_ewma_def ewma_sample_count_def
      split: option.split)

lemma feedback_count_frame [simp]:
  "s_ewma_e2e (feedback_count s w y) = s_ewma_e2e s"
  "s_ewma_samples (feedback_count s w y) = s_ewma_samples s"
  "s_predictors (feedback_count s w y) = s_predictors s"
  "s_cfg (feedback_count s w y) = s_cfg s"
  by (simp_all add: feedback_count_def Let_def)

lemma feedback_success_frame:
  "s_cfg (feedback s wid y n ok t) = s_cfg s"
  "map fst (s_predictors (feedback s wid y n ok t)) = map fst (s_predictors s)"
  by (simp_all add: feedback_def Let_def split_beta release_def bump_admission_def pop_inflight_eq)

lemma registered_keys: "map_of d w \<noteq> None \<longleftrightarrow> w \<in> set (map fst d)"
  by (simp add: map_of_eq_None_iff)

lemma feedback_success_ewma:
  assumes "map_of (s_ewma_e2e s) wid = Some prev" and "map_of (s_predictors s) wid \<noteq> None"
  shows "map_of (s_ewma_e2e (feedback s wid y n True t)) wid =
      Some (if ewma_sample_count s wid \<le> 0 then y
            else c_ewma_alpha (s_cfg s) * y + (1 - c_ewma_alpha (s_cfg s)) * prev)"
    and "ewma_sample_count (feedback s wid y n True t) wid = ewma_sample_count s wid + 1"
    and "map_of (s_predictors (feedback s wid y n True t)) wid \<noteq> None"
proof -
  define s1 where "s1 = fst (pop_inflight s wid)"
  have s1: "map_of (s_predictors s1) wid \<noteq> None" "s_ewma_e2e s1 = s_ewma_e2e s"
    "ewma_sample_count s1 wid = ewma_sample_count s wid" "s_cfg s1 = s_cfg s"
    using assms(2) by (auto simp: s1_def pop_inflight_eq ewma_sample_count_def)
  have fb: "feedback s wid y n True t = release (feedback_count
      (feedback_learn s1 wid y n (snd (pop_inflight s wid)) t) wid y) wid"
    by (simp add: feedback_def s1_def Let_def split_beta)
  show "map_of (s_ewma_e2e (feedback s wid y n True t)) wid =
      Some (if ewma_sample_count s wid \<le> 0 then y
            else c_ewma_alpha (s_cfg s) * y + (1 - c_ewma_alpha (s_cfg s)) * prev)"
    using assms(1) by (simp add: fb release_def feedback_learn_ewma [OF s1(1)] feedback_ewma_def s1 Let_def)
  have "s_ewma_samples (feedback s wid y n True t) = s_ewma_samples (feedback_ewma s1 wid y)"
    by (simp add: fb release_def feedback_learn_ewma [OF s1(1)])
  then show "ewma_sample_count (feedback s wid y n True t) wid = ewma_sample_count s wid + 1"
    using assms(1) s1(2,3) by (simp add: ewma_sample_count_def feedback_ewma_def Let_def)
  show "map_of (s_predictors (feedback s wid y n True t)) wid \<noteq> None"
    using assms(2) by (simp only: registered_keys feedback_success_frame(2) not_False_eq_True)
qed

text \<open>
  The level that the EWMA strategy ranks by is an average of what was observed: after any
  non-empty run of successful completions with latencies in an interval it lies in that interval.
  The prior of a new backend leaves no trace after its first sample.
\<close>

lemma ewma_level_bounds:
  assumes "0 \<le> c_ewma_alpha (s_cfg s)" and "c_ewma_alpha (s_cfg s) \<le> 1"
    and "map_of (s_predictors s) wid \<noteq> None" and "map_of (s_ewma_e2e s) wid = Some prior"
    and "ewma_sample_count s wid = 0" and "ys \<noteq> []"
    and "\<forall>(y, n, t) \<in> set ys. lo \<le> y \<and> y \<le> hi"
  defines "s' \<equiv> foldl (\<lambda>s (y, n, t). feedback s wid y n True t) s ys"
  shows "lo \<le> ewma_of s' wid \<and> ewma_of s' wid \<le> hi \<and>
    ewma_sample_count s' wid = int (length ys)"
proof -
  let ?run = "foldl (\<lambda>s (y, n, t). feedback s wid y n True t)"
  have run: "\<exists>level. map_of (s_ewma_e2e (?run s ys)) wid = Some level \<and> lo \<le> level \<and> level \<le> hi \<and>
      ewma_sample_count (?run s ys) wid = ewma_sample_count s wid + int (length ys)"
    if "map_of (s_predictors s) wid \<noteq> None" "map_of (s_ewma_e2e s) wid = Some prev"
      "0 < ewma_sample_count s wid" "lo \<le> prev" "prev \<le> hi"
      "0 \<le> c_ewma_alpha (s_cfg s)" "c_ewma_alpha (s_cfg s) \<le> 1"
      "\<forall>(y, n, t) \<in> set ys. lo \<le> y \<and> y \<le> hi" for s prev ys
    using that
  proof (induction ys arbitrary: s prev)
    case Nil
    then show ?case by simp
  next
    case (Cons r ys)
    obtain y n t where r: "r = (y, n, t)" by (cases r)
    note step = feedback_success_ewma [OF Cons.prems(2,1), of y n t] feedback_success_frame(1)
    have "lo \<le> c_ewma_alpha (s_cfg s) * y + (1 - c_ewma_alpha (s_cfg s)) * prev"
      "c_ewma_alpha (s_cfg s) * y + (1 - c_ewma_alpha (s_cfg s)) * prev \<le> hi"
      using Cons.prems r by (auto intro!: convex_bounds)
    with Cons.IH [OF step(3), of "c_ewma_alpha (s_cfg s) * y + (1 - c_ewma_alpha (s_cfg s)) * prev"]
      Cons.prems step r show ?case by auto
  qed
  obtain r zs where ys: "ys = r # zs" using assms(6) by (cases ys) auto
  obtain y n t where r: "r = (y, n, t)" by (cases r)
  note step = feedback_success_ewma [OF assms(4,3), of y n t] feedback_success_frame(1)
  from run [OF step(3), of y zs] step assms(1,2,5,7) ys r
  show ?thesis by (auto simp: s'_def ewma_of_def)
qed

theorem ewma_level_bounds_witness:
  "ewma_of (foldl (\<lambda>s (y, n, t). feedback s ''a'' y n True t) (demo_pool ''ewma'' ''empirical'')
     [(100, 5, 0), (140, 7, 1)]) ''a'' \<le> 140"
  using ewma_level_bounds [of "demo_pool ''ewma'' ''empirical''" "''a''" 5000 "[(100, 5, 0), (140, 7, 1)]" 100 140]
  by (simp add: demo_eval ewma_sample_count_def)

subsection \<open>Reported fractions\<close>

lemma fraction_range: "a \<le> b \<Longrightarrow> 0 \<le> real a / real b \<and> real a / real b \<le> 1" for a b :: nat
  by (auto simp: divide_le_eq_1)

text \<open>
  In every reachable state the fractions that \<open>/debug/metrics\<close> and \<open>/health\<close> report, goodput,
  failure rate, disagreement of the gates and affinity hit rate, are between 0 and 1, also before
  the first request; goodput counts failed attempts against the gateway, so goodput and failure
  rate together never exceed 1.
\<close>

lemma report_ranges:
  assumes "sched_reachable h s"
  shows "0 \<le> goodput_fraction (s_admission s) \<and> 0 \<le> failure_rate (s_admission s) \<and>
    goodput_fraction (s_admission s) + failure_rate (s_admission s) \<le> 1 \<and>
    0 \<le> absolute_disagree_frac (s_admission s) \<and> absolute_disagree_frac (s_admission s) \<le> 1 \<and>
    0 \<le> affinity_hit_rate s \<and> affinity_hit_rate s \<le> 1"
proof -
  let ?a = "s_admission s"
  have wf: "adm_completed_total ?a = adm_completed_under_slo ?a + adm_completed_over_slo ?a"
    "adm_absolute_vs_active_disagree ?a \<le> adm_would_reject_absolute ?a + adm_would_admit_absolute ?a"
    "s_affinity_hits s \<le> s_affinity_decisions s"
    using reachable_inv [OF assms] by (simp_all add: sched_inv_def stats_inv_def admission_wf_def)
  have "goodput_fraction ?a + failure_rate ?a =
      (if adm_completed_total ?a + adm_failed_total ?a = 0 then 0
       else real (adm_completed_under_slo ?a + adm_failed_total ?a)
              / real (adm_completed_total ?a + adm_failed_total ?a))"
    by (simp add: goodput_fraction_def failure_rate_def Let_def add_divide_distrib)
  then have "goodput_fraction ?a + failure_rate ?a \<le> 1"
    using fraction_range [of "adm_completed_under_slo ?a + adm_failed_total ?a"
        "adm_completed_total ?a + adm_failed_total ?a"] wf(1) by simp
  moreover have "0 \<le> goodput_fraction ?a" "0 \<le> failure_rate ?a"
    by (simp_all add: goodput_fraction_def failure_rate_def Let_def)
  moreover have "0 \<le> absolute_disagree_frac ?a \<and> absolute_disagree_frac ?a \<le> 1"
    using wf(2) by (auto simp: absolute_disagree_frac_def Let_def field_simps)
  moreover have "0 \<le> affinity_hit_rate s \<and> affinity_hit_rate s \<le> 1"
    using fraction_range [OF wf(3)] by (auto simp: affinity_hit_rate_def max_def)
  ultimately show ?thesis by blast
qed

theorem report_ranges_witness:
  "\<exists>s. scheduler_init sched_default_args = Inr s \<and>
     goodput_fraction (s_admission (foldl (sched_step (\<lambda>t. 0)) s
       [Register ''a'' ''small'' 24000 None, Pick ''hello'' ''small'' None None,
        Feedback ''a'' 9000 1 True 0, Feedback ''a'' 100 1 False 0])) \<le> 1"
proof -
  obtain s where s: "scheduler_init sched_default_args = Inr s"
    by (simp add: scheduler_init_def sched_default_args_def)
  let ?s = "foldl (sched_step (\<lambda>t. 0)) s
       [Register ''a'' ''small'' 24000 None, Pick ''hello'' ''small'' None None,
        Feedback ''a'' 9000 1 True 0, Feedback ''a'' 100 1 False 0]"
  have "sched_reachable (\<lambda>t. 0) ?s" by (rule reachable_run [OF sr_init [OF s]])
  from report_ranges [OF this] have "goodput_fraction (s_admission ?s) \<le> 1" by linarith
  with s show ?thesis by blast
qed

subsection \<open>The eviction loop\<close>

text \<open>
  The loop \<open>while len(prefix_cache) > capacity: popitem(last=False)\<close> ends for every store and
  every capacity, 0 included: it removes exactly the oldest entries beyond the capacity and counts
  each of them.
\<close>

lemma eviction_loop:
  "lru_evict cap store evictions =
     (drop (length store - cap) store, evictions + (length store - cap)) \<and>
   length (fst (lru_evict cap store evictions)) = min cap (length store)"
  by (simp add: lru_evict_eq)

subsection \<open>The in-flight log\<close>

text \<open>
  C39: \<open>release\<close>, the path of a cancelled stream, gives the slot back but leaves the depth recorded at
  admission in the in-flight log: the gap between the length of the log and the in-flight count
  grows by one with every release, and the next completion still pops the oldest depth, the one of
  the cancelled request.
\<close>

lemma release_desynchronises:
  assumes "map_of (s_predictors s) wid = Some p" and "0 < n_pending p"
  shows "\<exists>p'. map_of (s_predictors (release s wid)) wid = Some p' \<and>
      int (length (n_inflight_log p')) - n_pending p' = int (length (n_inflight_log p)) - n_pending p + 1 \<and>
      snd (pop_inflight (release s wid) wid) = snd (pop_inflight s wid)"
  using assms by (simp add: release_def pop_inflight_snd)

text \<open>
  Two requests are admitted, the first is cancelled: the second, admitted at depth 2, is learned at
  depth 1, as if it had run alone.
\<close>

theorem release_desynchronises_witness:
  "snd (pop_inflight (release (mark_admitted (mark_admitted (demo_pool ''nlms'' ''empirical'') ''a'') ''a'') ''a'') ''a'') = 1"
proof -
  let ?s = "mark_admitted (mark_admitted (demo_pool ''nlms'' ''empirical'') ''a'') ''a''"
  obtain p where p: "map_of (s_predictors ?s) ''a'' = Some p" "0 < n_pending p"
    by (simp add: mark_admitted_map_of demo_eval)
  have "snd (pop_inflight ?s ''a'') = 1"
    by (simp add: pop_inflight_snd mark_admitted_map_of demo_eval deque_append_def)
  with release_desynchronises [OF p] show ?thesis by auto
qed

end
