(* ===== verification/Gateway_Inv.thy ===== *)
theory Gateway_Inv
  imports Background Streams Completion_Props
begin

text \<open>
  The gateway as a concurrent system: requests are admitted, streamed and finished in any order, the
  background tasks and the debug endpoints run in between. The in-flight counts of the scheduler are
  a ledger of the open requests; the contract that makes this work is the interface \<open>slot_pool\<close>,
  interpreted on the scheduler.
\<close>

subsection \<open>Interface: a pool of slots\<close>

text \<open>
  What the gateway relies on: an admission takes exactly one slot of the chosen worker or none, a
  completion of an admitted request gives exactly one slot back.
\<close>

locale slot_pool =
  fixes ok :: "'s \<Rightarrow> bool" and inflight :: "'s \<Rightarrow> 'w \<Rightarrow> int"
    and admit :: "'s \<Rightarrow> 'r \<Rightarrow> 's \<times> 'w option" and finish :: "'s \<Rightarrow> 'w \<Rightarrow> 'c \<Rightarrow> 's"
  assumes admit_takes:
      "ok s \<Longrightarrow> admit s r = (s', Some w) \<Longrightarrow> ok s' \<and> (\<forall>v. inflight s' v = inflight s v + of_bool (v = w))"
    and admit_keeps: "ok s \<Longrightarrow> admit s r = (s', None) \<Longrightarrow> ok s' \<and> inflight s' = inflight s"
    and finish_gives:
      "ok s \<Longrightarrow> 0 < inflight s w \<Longrightarrow>
       ok (finish s w c) \<and> (\<forall>v. inflight (finish s w c) v = inflight s v - of_bool (v = w))"
begin

text \<open>The state accounts for the open requests: as many slots per worker as open requests on it.\<close>

definition accounts :: "'s \<Rightarrow> 'w list \<Rightarrow> bool" where
  "accounts s ws \<longleftrightarrow> ok s \<and> (\<forall>v. inflight s v = int (count_list ws v))"

lemma accounts_admit: "accounts s ws \<Longrightarrow> admit s r = (s', Some w) \<Longrightarrow> accounts s' (w # ws)"
  using admit_takes by (auto simp: accounts_def)

lemma accounts_refuse: "accounts s ws \<Longrightarrow> admit s r = (s', None) \<Longrightarrow> accounts s' ws"
  using admit_keeps by (auto simp: accounts_def)

lemma accounts_finish: "accounts s (xs @ w # ys) \<Longrightarrow> accounts (finish s w c) (xs @ ys)"
  using finish_gives [of s w c] by (auto simp: accounts_def)

end

subsection \<open>The scheduler as a pool of slots\<close>

datatype completion = ByFeedback real int bool int | ByRelease

fun complete :: "sched \<Rightarrow> string \<Rightarrow> completion \<Rightarrow> sched" where
  "complete s w (ByFeedback y n ok t) = feedback s w y n ok t"
| "complete s w ByRelease = release s w"

text \<open>A pick as an admission: the request is the argument tuple of \<open>pick\<close>.\<close>

definition admission ::
  "(string \<Rightarrow> nat) \<Rightarrow> sched \<Rightarrow> string \<times> string \<times> int option \<times> string list option \<Rightarrow> sched \<times> string option" where
  "admission h s r =
     (case r of (prompt, tier, tokens, allowed) \<Rightarrow>
        case pick h s prompt tier tokens allowed of
          (s', Inl e) \<Rightarrow> (s', None)
        | (s', Inr (w, dec)) \<Rightarrow> (s', Some w))"

lemma pending_of_with_predictor:
  "(\<And>p. n_pending (f p) = n_pending p) \<Longrightarrow> pending_of (with_predictor s w f) v = pending_of s v"
  by (simp add: pending_of_def split: option.split)

lemma pending_of_release:
  "pending_of (release s w) v =
     (if v = w \<and> 0 < pending_of s v then pending_of s v - 1 else pending_of s v)"
  by (auto simp: pending_of_def release_def split: option.split)

lemma pending_of_same: "s_predictors s' = s_predictors s \<Longrightarrow> pending_of s' v = pending_of s v"
  by (simp add: pending_of_def)

lemma pending_of_pop [simp]: "pending_of (fst (pop_inflight s w)) v = pending_of s v"
  unfolding pop_inflight_eq by (rule pending_of_with_predictor) simp

lemma pending_of_learn [simp]: "pending_of (feedback_learn s w y n k t) v = pending_of s v"
  by (simp add: pending_of_def split: option.split)

lemma pending_of_feedback:
  "pending_of (feedback s w y n ok t) v =
     (if v = w \<and> 0 < pending_of s v then pending_of s v - 1 else pending_of s v)"
proof -
  have "pending_of (feedback_count s w y) v = pending_of s v" for s y v
    by (rule pending_of_same) simp
  moreover have "pending_of (bump_admission f s) v = pending_of s v" for f s v
    by (rule pending_of_same) (simp add: bump_admission_def)
  ultimately show ?thesis by (simp add: feedback_def Let_def split_beta pending_of_release)
qed

lemma pick_reject_predictors:
  assumes "sched_inv s" and "pick h s prompt tier tokens allowed = (s', Inl e)"
  shows "s_predictors s' = s_predictors s"
proof -
  have "s' = s\<lparr>s_admission := s_admission s'\<rparr>" using pick_reject(1) [OF assms] by (simp add: rejects_def)
  then show ?thesis by (metis sched.select_convs(2) sched.surjective sched.update_convs(16))
qed

interpretation slots: slot_pool sched_inv pending_of "admission h" complete for h
proof unfold_locales
  fix s r s' w
  assume inv: "sched_inv s" and a: "admission h s r = (s', Some w)"
  obtain prompt tier tokens allowed where r: "r = (prompt, tier, tokens, allowed)" by (cases r)
  from a obtain dec where p: "pick h s prompt tier tokens allowed = (s', Inr (w, dec))"
    by (auto simp: admission_def r split: prod.splits sum.splits)
  then have "sched_inv s'" using pick_inv [OF inv, of h prompt tier tokens allowed] by simp
  with pick_pending [OF inv p] show "sched_inv s' \<and> (\<forall>v. pending_of s' v = pending_of s v + of_bool (v = w))"
    by simp
next
  fix s r s'
  assume inv: "sched_inv s" and a: "admission h s r = (s', None)"
  obtain prompt tier tokens allowed where r: "r = (prompt, tier, tokens, allowed)" by (cases r)
  from a obtain e where p: "pick h s prompt tier tokens allowed = (s', Inl e)"
    by (auto simp: admission_def r split: prod.splits sum.splits)
  then have "sched_inv s'" using pick_inv [OF inv, of h prompt tier tokens allowed] by simp
  then show "sched_inv s' \<and> pending_of s' = pending_of s"
    using pick_reject_predictors [OF inv p] by (auto intro: pending_of_same)
next
  fix s w c
  assume "sched_inv s" and "0 < pending_of s w"
  then show "sched_inv (complete s w c) \<and> (\<forall>v. pending_of (complete s w c) v = pending_of s v - of_bool (v = w))"
    by (cases c) (auto simp: pending_of_feedback pending_of_release feedback_inv release_inv)
qed

subsection \<open>The invariant of the gateway\<close>

text \<open>
  Pool and scheduler know the same backends in the same order, under their own ids, and the
  in-flight counts are those of the open tickets.
\<close>

definition pool_wf :: "gateway \<Rightarrow> bool" where
  "pool_wf g \<longleftrightarrow>
     map fst (gw_pool g) = map fst (s_predictors (gw_sched g)) \<and>
     list_all (\<lambda>(k, b). be_id b = k) (gw_pool g)"

definition gateway_inv :: "gateway \<Rightarrow> ticket list \<Rightarrow> bool" where
  "gateway_inv g opn \<longleftrightarrow>
     pool_wf g \<and> slots.accounts (gw_sched g) (map tk_worker opn)"

text \<open>Operations that keep the registry and the counts.\<close>

definition neutral :: "(sched \<Rightarrow> sched) \<Rightarrow> bool" where
  "neutral f \<longleftrightarrow>
     (\<forall>s. sched_inv s \<longrightarrow> sched_inv (f s) \<and> map fst (s_predictors (f s)) = map fst (s_predictors s) \<and>
        pending_of (f s) = pending_of s)"

lemma neutral_with_predictor:
  assumes "\<And>p. pred_wf p \<Longrightarrow> pred_wf (f p)" and "\<And>p. n_pending (f p) = n_pending p"
  shows "neutral (\<lambda>s. with_predictor s w f)"
  using assms by (auto simp: neutral_def with_predictor_inv pending_of_with_predictor)

lemma neutral_set_vram: "neutral (\<lambda>s. set_vram s w x)"
  unfolding set_vram_def by (rule neutral_with_predictor) simp_all

lemma neutral_fields:
  assumes "\<And>s. sched_inv s \<Longrightarrow> sched_inv (f s)" and "\<And>s. s_predictors (f s) = s_predictors s"
  shows "neutral f"
  using assms by (auto simp: neutral_def intro: pending_of_same)

lemma neutral_comp: "neutral f \<Longrightarrow> neutral g \<Longrightarrow> neutral (\<lambda>s. g (f s))"
  by (simp add: neutral_def)

lemma neutral_note_failure: "neutral (\<lambda>s. fst (note_failure s w k))"
proof -
  have n1: "neutral (\<lambda>s. s\<lparr>s_fail_streak := AList.update w (get_streak s w + 1) (s_fail_streak s)\<rparr>)"
    by (rule neutral_fields) simp_all
  have n2: "neutral (\<lambda>s. with_predictor s w (\<lambda>p. p\<lparr>n_healthy := False\<rparr>))"
    by (rule neutral_with_predictor) simp_all
  show ?thesis using n1 neutral_comp [OF n1 n2] by (auto simp: neutral_def note_failure_def Let_def)
qed

lemma neutral_set_healthy: "neutral (\<lambda>s. set_healthy s w b)"
proof -
  have n1: "neutral (\<lambda>s. with_predictor s w (\<lambda>p. p\<lparr>n_healthy := b\<rparr>))"
    by (rule neutral_with_predictor) simp_all
  have n2: "neutral (\<lambda>s. s\<lparr>s_fail_streak := AList.update w 0 (s_fail_streak s)\<rparr>)"
    by (rule neutral_fields) simp_all
  show ?thesis using n1 neutral_comp [OF n1 n2] by (auto simp: neutral_def set_healthy_def Let_def)
qed

lemma neutral_set_engine_metrics: "neutral (\<lambda>s. set_engine_metrics s w snap)"
proof -
  have n1: "neutral (\<lambda>s. s\<lparr>s_engine_snap := AList.update w d (s_engine_snap s)\<rparr>)" for d
    by (rule neutral_fields) simp_all
  have n2: "neutral (\<lambda>s. with_predictor s w
      (\<lambda>p. let kv = opt0 x; tot = n_total_vram_mb p
           in if tot > 0 \<and> kv \<ge> 0 then p\<lparr>n_free_vram_mb := max 0 (tot * (1 - kv))\<rparr> else p))" for x
    by (rule neutral_with_predictor) (simp_all add: Let_def)
  show ?thesis
    using n1 neutral_comp [OF n1 n2] by (auto simp: neutral_def set_engine_metrics_def Let_def split: option.split)
qed

lemma neutral_reset: "neutral reset_stats"
  by (rule neutral_fields) (simp_all add: reset_stats_inv, simp add: reset_stats_def)

lemma gateway_inv_neutral:
  assumes "gateway_inv g opn" and "neutral f"
  shows "gateway_inv (g\<lparr>gw_sched := f (gw_sched g)\<rparr>) opn"
  using assms by (simp add: gateway_inv_def pool_wf_def slots.accounts_def neutral_def)

lemma complete_keys: "map fst (s_predictors (complete s w c)) = map fst (s_predictors s)"
  by (cases c) (simp_all add: feedback_success_frame release_def)

text \<open>A completion closes one ticket; neutral operations may surround it.\<close>

lemma gateway_inv_complete:
  assumes "gateway_inv g (xs @ tk # ys)" and "neutral f" and "neutral k"
  shows "gateway_inv (g\<lparr>gw_sched := k (complete (f (gw_sched g)) (tk_worker tk) c)\<rparr>) (xs @ ys)"
proof -
  let ?g1 = "g\<lparr>gw_sched := f (gw_sched g)\<rparr>"
  let ?g2 = "?g1\<lparr>gw_sched := complete (gw_sched ?g1) (tk_worker tk) c\<rparr>"
  have "gateway_inv ?g1 (xs @ tk # ys)" by (rule gateway_inv_neutral [OF assms(1,2)])
  then have "gateway_inv ?g2 (xs @ ys)"
    using slots.accounts_finish [of "gw_sched ?g1" "map tk_worker xs" "tk_worker tk" "map tk_worker ys" c]
    by (simp add: gateway_inv_def pool_wf_def complete_keys)
  from gateway_inv_neutral [OF this assms(3)] show ?thesis by simp
qed

lemma gateway_inv_known:
  assumes "gateway_inv g (xs @ tk # ys)"
  shows "\<exists>b. pool_get (gw_pool g) (tk_worker tk) = Inr b"
proof -
  have "0 < pending_of (gw_sched g) (tk_worker tk)"
    using assms by (auto simp: gateway_inv_def slots.accounts_def)
  then have "map_of (s_predictors (gw_sched g)) (tk_worker tk) \<noteq> None"
    by (auto simp: pending_of_def split: option.splits)
  then have "map_of (gw_pool g) (tk_worker tk) \<noteq> None"
    using assms by (simp only: registered_keys gateway_inv_def pool_wf_def)
  then show ?thesis by (auto simp: pool_get_def)
qed

subsection \<open>Steps of the gateway\<close>

lemma admit_request_inv:
  assumes "gateway_inv g opn" and "admit_request h t g body path tier allowed = (g', r)"
  shows "gateway_inv g' (case r of Inl e \<Rightarrow> opn | Inr tk \<Rightarrow> tk # opn)"
proof -
  have inv: "sched_inv (gw_sched g)" and acc: "slots.accounts (gw_sched g) (map tk_worker opn)"
    and wf: "pool_wf g"
    using assms(1) by (simp_all add: gateway_inv_def slots.accounts_def)
  show ?thesis
  proof (cases "py_bind (extract_prompt t body) (\<lambda>prompt.
           py_bind (feature_tokens t (gw_tok g) (cf_token_feature_cap (gw_config g)) prompt body)
             (\<lambda>tokens. Inr (prompt, tokens)))")
    case (Inl e)
    with assms show ?thesis by (auto simp: admit_request_def)
  next
    case (Inr x)
    obtain prompt tokens where x: "x = (prompt, tokens)" by (cases x)
    let ?pick = "pick h (gw_sched g) prompt tier (Some tokens) allowed"
    obtain s o1 where p: "?pick = (s, o1)" by (cases ?pick)
    have keys: "map fst (s_predictors s) = map fst (s_predictors (gw_sched g))"
    proof (cases o1)
      case (Inl e)
      with p pick_reject_predictors [OF inv] show ?thesis by simp
    next
      case (Inr y)
      with p pick_admit(2) [OF inv] show ?thesis by (cases y) (auto simp: admits_def mark_admitted_def)
    qed
    show ?thesis
    proof (cases o1)
      case (Inl e)
      then have "admission h (gw_sched g) (prompt, tier, Some tokens, allowed) = (s, None)"
        using p by (simp add: admission_def)
      from slots.accounts_refuse [OF acc this] assms(2) Inr x p Inl keys wf show ?thesis
        by (cases e) (auto simp: admit_request_def gateway_inv_def pool_wf_def)
    next
      case (Inr y)
      obtain w dec where y: "y = (w, dec)" by (cases y)
      then have "admission h (gw_sched g) (prompt, tier, Some tokens, allowed) = (s, Some w)"
        using p Inr by (simp add: admission_def)
      from slots.accounts_admit [OF acc this] assms(2) \<open>_ = Inr x\<close> x p Inr y keys wf show ?thesis
        by (auto simp: admit_request_def gateway_inv_def pool_wf_def)
    qed
  qed
qed

end
