(* ===== verification/Engine_Props.thy ===== *)
theory Engine_Props
  imports Engine_Metrics
begin

text \<open>
  Properties of the engine telemetry: decimal numerals read back, a Prometheus exposition parses to
  the samples that were written, and a snapshot's fractions are fractions whatever an engine sends.
\<close>

subsection \<open>Decimal numerals\<close>

lemma digit_char_val: "n < 10 \<Longrightarrow> digit_val (digit_char n) = n"
  by (simp add: digit_val_def digit_char_def)

lemma digit_char_isdigit: "n < 10 \<Longrightarrow> py_isdigit (digit_char n)"
  by (simp add: py_isdigit_def digit_char_def Let_def)

lemma read_digits_snoc: "read_digits (ds @ [c]) = 10 * read_digits ds + digit_val c"
  by (simp add: read_digits_def)

lemma show_nat_digits: "show_nat n \<noteq> [] \<and> list_all py_isdigit (show_nat n)"
proof (induction n rule: show_nat.induct)
  case (1 n)
  show ?case
  proof (cases "n < 10")
    case True
    then show ?thesis by (simp add: show_nat.simps [of n] digit_char_isdigit)
  next
    case False
    with 1 show ?thesis by (simp add: show_nat.simps [of n] digit_char_isdigit)
  qed
qed

lemma read_show_nat [simp]: "read_digits (show_nat n) = n"
proof (induction n rule: show_nat.induct)
  case (1 n)
  show ?case
  proof (cases "n < 10")
    case True
    then show ?thesis by (simp add: show_nat.simps [of n] read_digits_def digit_char_val)
  next
    case False
    with 1 show ?thesis by (simp add: show_nat.simps [of n] read_digits_snoc digit_char_val)
  qed
qed

lemma isdigit_facts: "py_isdigit c \<Longrightarrow> c \<noteq> CHR ''-'' \<and> c \<noteq> CHR ''+'' \<and> \<not> py_isspace c \<and> \<not> is_linebreak c"
  by (auto simp: py_isdigit_def py_isspace_def is_linebreak_def Let_def)

lemma takeWhile_all: "list_all P xs \<Longrightarrow> takeWhile P xs = xs"
  by (induction xs) auto

lemma dropWhile_all: "list_all P xs \<Longrightarrow> dropWhile P xs = []"
  by (induction xs) auto

lemma read_sign_plain: "c \<noteq> CHR ''-'' \<Longrightarrow> c \<noteq> CHR ''+'' \<Longrightarrow> read_sign (c # cs) = (1, c # cs)"
  by (cases "c # cs" rule: read_sign.cases) auto

lemma read_number_show: "read_number (show_nat n) = Some (real n)"
proof -
  have d: "show_nat n \<noteq> []" "list_all py_isdigit (show_nat n)" using show_nat_digits by auto
  have hd: "c \<noteq> CHR ''-'' \<and> c \<noteq> CHR ''+''" if "show_nat n = c # cs" for c cs
    using d(2) that isdigit_facts by auto
  obtain c cs where c: "show_nat n = c # cs" using d(1) by (cases "show_nat n") auto
  have "read_sign (show_nat n) = (1, show_nat n)"
    unfolding c using hd [OF c] by (intro read_sign_plain) auto
  then show ?thesis
    using d by (auto simp: read_number_def Let_def takeWhile_all dropWhile_all read_exponent_def)
      (auto simp: list_all_iff)
qed

subsection \<open>Reading back an exposition\<close>

text \<open>What an exporter writes: comments, and samples with an optional label set.\<close>

datatype expo_line = Comment string | Sample string "string option" nat

fun expo_text :: "expo_line \<Rightarrow> string" where
  "expo_text (Comment c) = CHR ''#'' # c"
| "expo_text (Sample name labels v) =
     name @ (case labels of None \<Rightarrow> [] | Some l \<Rightarrow> ''{'' @ l @ ''}'') @ '' '' @ show_nat v"

definition exposition :: "expo_line list \<Rightarrow> string" where
  "exposition ls = concat (map (\<lambda>l. expo_text l @ [CHR 0x0A]) ls)"

fun expo_ok :: "expo_line \<Rightarrow> bool" where
  "expo_ok (Comment c) \<longleftrightarrow> list_all (\<lambda>x. \<not> is_linebreak x) c"
| "expo_ok (Sample name labels v) \<longleftrightarrow>
     name \<noteq> [] \<and> name_start (hd name) \<and> list_all name_char name \<and>
     (case labels of None \<Rightarrow> True | Some l \<Rightarrow> list_all (\<lambda>x. \<not> is_linebreak x \<and> x \<noteq> CHR ''}'') l)"

fun samples :: "expo_line list \<Rightarrow> (string \<times> nat) list" where
  "samples [] = []"
| "samples (Comment c # ls) = samples ls"
| "samples (Sample name labels v # ls) = (name, v) # samples ls"

lemma name_char_facts: "name_char c \<Longrightarrow> \<not> py_isspace c \<and> \<not> is_linebreak c \<and> c \<noteq> CHR ''#''
    \<and> c \<noteq> CHR ''{'' \<and> c \<noteq> CHR '' ''"
  by (auto simp: name_char_def name_start_def is_alpha_def py_isdigit_def py_isspace_def is_linebreak_def Let_def)

lemma expo_text_no_break:
  assumes "expo_ok l"
  shows "list_all (\<lambda>x. \<not> is_linebreak x) (expo_text l)"
proof (cases l)
  case (Comment c)
  with assms show ?thesis by (simp add: is_linebreak_def)
next
  case (Sample name labels v)
  have marks: "\<not> is_linebreak (CHR '' '')" "\<not> is_linebreak (CHR ''{'')" "\<not> is_linebreak (CHR ''}'')"
    by (simp_all add: is_linebreak_def)
  have "list_all (\<lambda>x. \<not> is_linebreak x) name" "list_all (\<lambda>x. \<not> is_linebreak x) (show_nat v)"
    "\<And>l. labels = Some l \<Longrightarrow> list_all (\<lambda>x. \<not> is_linebreak x) l"
    using assms Sample show_nat_digits [of v]
    by (auto simp: name_char_facts isdigit_facts elim!: list.pred_mono_strong)
  with marks show ?thesis by (cases labels) (simp_all add: Sample)
qed

lemma splitlines_line:
  "list_all (\<lambda>x. \<not> is_linebreak x) xs \<Longrightarrow>
   splitlines_from acc (xs @ CHR 0x0A # rest) = (rev acc @ xs) # splitlines_from [] rest"
proof (induction xs arbitrary: acc)
  case Nil
  show ?case by (simp add: is_linebreak_def)
next
  case (Cons x xs)
  then have "x \<noteq> CHR 0x0D" by (auto simp: is_linebreak_def)
  with Cons show ?case by simp
qed

lemma splitlines_exposition: "list_all expo_ok ls \<Longrightarrow> splitlines (exposition ls) = map expo_text ls"
  by (induction ls) (simp_all add: splitlines_def exposition_def splitlines_line expo_text_no_break)

text \<open>A line that neither starts nor ends with a blank is not stripped.\<close>

lemma strip_id:
  assumes "s \<noteq> []" and "\<not> P (hd s)" and "\<not> P (last s)"
  shows "strip_by P s = s"
proof -
  have "dropWhile P s = s" using assms(1,2) by (cases s) auto
  moreover have "dropWhile P (rev s) = rev s" using assms(1,3) by (cases s rule: rev_cases) auto
  ultimately show ?thesis by (simp add: strip_by_def lstrip_by_def rstrip_by_def)
qed

lemma last_show_nat: "py_isdigit (last (show_nat n))"
  using show_nat_digits [of n] by (auto simp: list_all_iff)

lemma parse_sample_text:
  assumes "expo_ok (Sample name labels v)"
  shows "parse_sample (expo_text (Sample name labels v)) = Some (name, real v)"
proof -
  let ?rest = "(case labels of None \<Rightarrow> [] | Some l \<Rightarrow> ''{'' @ l @ ''}'') @ '' '' @ show_nat v"
  have name: "name \<noteq> []" "name_start (hd name)" "list_all name_char name"
    and lab: "\<And>l. labels = Some l \<Longrightarrow> list_all (\<lambda>x. x \<noteq> CHR ''}'') l"
    using assms by (auto simp: list_all_iff split: option.splits)
  have stop: "\<not> name_char (hd ?rest)" "?rest \<noteq> []"
    by (auto simp: name_char_def name_start_def is_alpha_def py_isdigit_def split: option.split)
  have "takeWhile name_char (name @ ?rest) = name" "dropWhile name_char (name @ ?rest) = ?rest"
    using name(3) stop by (cases ?rest; auto simp: takeWhile_append dropWhile_append takeWhile_all list_all_iff)+
  moreover have "skip_labels ?rest = '' '' @ show_nat v"
  proof (cases labels)
    case None
    then show ?thesis by (simp add: skip_labels_def)
  next
    case (Some l)
    have "dropWhile (\<lambda>x. x \<noteq> CHR ''}'') (l @ ''}'' @ '' '' @ show_nat v) = ''}'' @ '' '' @ show_nat v"
      using lab [OF Some] by (subst dropWhile_append2) (auto simp: list_all_iff)
    then show ?thesis using Some by (simp add: skip_labels_def)
  qed
  moreover have "rstrip_by py_isspace (dropWhile py_isspace ('' '' @ show_nat v)) = show_nat v"
  proof -
    have "py_isspace (CHR '' '')" by (simp add: py_isspace_def)
    moreover have "strip_by py_isspace (show_nat v) = show_nat v"
      using show_nat_digits [of v] last_show_nat [of v] isdigit_facts
      by (intro strip_id) (auto simp: list_all_iff hd_in_set)
    ultimately show ?thesis by (simp add: strip_by_def lstrip_by_def)
  qed
  moreover have "py_isspace (CHR '' '')" by (simp add: py_isspace_def)
  ultimately show ?thesis
    using name by (simp add: parse_sample_def Let_def read_number_show)
qed

lemma parse_line_text:
  assumes "expo_ok l"
  shows "parse_line out (expo_text l) =
    (case l of Comment c \<Rightarrow> out | Sample name labels v \<Rightarrow> AList.update name (real v) out)"
proof (cases l)
  case (Comment c)
  have h: "\<not> py_isspace (CHR ''#'')" by (simp add: py_isspace_def)
  have "\<exists>c'. py_strip (expo_text l) = CHR ''#'' # c'"
  proof -
    have "rstrip_by py_isspace (CHR ''#'' # c) = CHR ''#'' # rstrip_by py_isspace c"
      using h by (induction c rule: rev_induct) (auto simp: rstrip_by_def)
    with h show ?thesis by (simp add: Comment py_strip_def strip_by_def lstrip_by_def)
  qed
  then show ?thesis by (auto simp: parse_line_def Comment startswith_def)
next
  case (Sample name labels v)
  let ?s = "expo_text (Sample name labels v)"
  have "name \<noteq> []" "name_char (hd name)" using assms Sample by (auto simp: name_char_def)
  then have "?s \<noteq> []" "hd ?s = hd name" "last ?s = last (show_nat v)"
    using show_nat_digits [of v] by auto
  then have "py_strip ?s = ?s" "hd ?s \<noteq> CHR ''#''"
    unfolding py_strip_def
    using name_char_facts [OF \<open>name_char (hd name)\<close>] isdigit_facts [OF last_show_nat]
    by (auto intro!: strip_id)
  then show ?thesis
    using assms \<open>?s \<noteq> []\<close> parse_sample_text [of name labels v] Sample
    by (cases ?s) (auto simp: parse_line_def startswith_def Let_def)
qed



subsection \<open>Snapshots\<close>

lemma unit_clamp_range [simp]: "0 \<le> unit_clamp x" "unit_clamp x \<le> 1"
  by (auto simp: unit_clamp_def)

definition in_range :: "engine_snapshot \<Rightarrow> bool" where
  "in_range s \<longleftrightarrow>
     0 \<le> es_kv_cache_usage s \<and> es_kv_cache_usage s \<le> 1 \<and>
     0 \<le> es_prefix_hit_rate s \<and> es_prefix_hit_rate s \<le> 1 \<and> 0 \<le> es_num_waiting s \<and> 0 \<le> es_num_running s"

text \<open>Every assignment of \<open>snapshot_from_metrics\<close> keeps the ranges.\<close>

lemma in_range_steps:
  "in_range s \<Longrightarrow> in_range (case v of None \<Rightarrow> s | Some x \<Rightarrow> s\<lparr>es_kv_cache_usage := unit_clamp x\<rparr>)"
  "in_range s \<Longrightarrow> in_range (case v of None \<Rightarrow> s | Some x \<Rightarrow> s\<lparr>es_num_waiting := max 0 x\<rparr>)"
  "in_range s \<Longrightarrow> in_range (case v of None \<Rightarrow> s | Some x \<Rightarrow> s\<lparr>es_num_running := max 0 x\<rparr>)"
  "in_range s \<Longrightarrow> in_range (case v of None \<Rightarrow> s | Some x \<Rightarrow> s\<lparr>es_prefix_hits := x\<rparr>)"
  "in_range s \<Longrightarrow> in_range (case v of None \<Rightarrow> s | Some x \<Rightarrow> s\<lparr>es_prefix_queries := x\<rparr>)"
  "in_range s \<Longrightarrow> in_range (case v of None \<Rightarrow> (if c then s\<lparr>es_prefix_hit_rate := unit_clamp y\<rparr> else s)
     | Some x \<Rightarrow> s\<lparr>es_prefix_hit_rate := unit_clamp x\<rparr>)"
  "in_range s \<Longrightarrow> in_range (s\<lparr>es_ok := b, es_source := src\<rparr>)"
  "in_range (engine_snapshot_default\<lparr>es_raw_keys := m, es_scraped_at := now\<rparr>)"
  by (auto simp: in_range_def engine_snapshot_default_def split: option.split)

lemma in_range_let:
  "in_range v \<Longrightarrow> (\<And>s. in_range s \<Longrightarrow> in_range (f s)) \<Longrightarrow> in_range (Let v f)"
  "(\<And>x :: real option. in_range (g x)) \<Longrightarrow> in_range (Let w g)"
  by (simp_all add: Let_def)

lemma snapshot_in_range: "in_range (snapshot_from_metrics now m)"
  unfolding snapshot_from_metrics_def
  by (rule in_range_let, rule in_range_steps)
    (auto simp only: if_True if_False split: if_split intro!: in_range_let in_range_steps)

text \<open>
  C38: whatever an engine answers to a scrape, an error status, an exception or any text at all, the
  snapshot that reaches the cost function is well formed: KV usage and prefix hit rate are
  fractions, the queue depths are not negative, and it is only marked usable when the engine
  answered with a status below 400; an unusable snapshot carries no load at all.
\<close>

theorem scrape_well_formed:
  "case scrape_metrics_url client now url of snap \<Rightarrow>
     0 \<le> es_kv_cache_usage snap \<and> es_kv_cache_usage snap \<le> 1 \<and>
     0 \<le> es_prefix_hit_rate snap \<and> es_prefix_hit_rate snap \<le> 1 \<and>
     0 \<le> es_num_waiting snap \<and> 0 \<le> es_num_running snap \<and>
     (if es_ok snap then \<exists>status text. client url = HttpText status text \<and> status < 400
      else es_kv_cache_usage snap = 0 \<and> es_num_waiting snap = 0 \<and> es_prefix_hit_rate snap = 0)"
proof -
  note bounds = snapshot_in_range [of now, unfolded in_range_def]
  have bad: "es_kv_cache_usage (snapshot_from_metrics now m) = 0 \<and> es_num_waiting (snapshot_from_metrics now m) = 0
      \<and> es_prefix_hit_rate (snapshot_from_metrics now m) = 0" if "\<not> es_ok (snapshot_from_metrics now m)" for m
    using that by (cases "m = []") (simp_all add: snapshot_from_metrics_def engine_snapshot_default_def Let_def)
  show ?thesis
  proof (cases "client url")
    case (HttpText status body)
    then show ?thesis
      using bounds [of "parse_prometheus_text body"] bad [of "parse_prometheus_text body"]
      by (auto simp: scrape_metrics_url_def engine_snapshot_default_def)
  next
    case (HttpRaised name)
    then show ?thesis by (simp add: scrape_metrics_url_def engine_snapshot_default_def)
  qed
qed

end
