(* ===== verification/Gateway_Props.thy ===== *)
theory Gateway_Props
  imports Gateway_Inv Engine_Props
begin

text \<open>
  Properties of the running gateway: no slot leaks over any interleaving of requests, streams,
  background tasks and debug calls, what the end of a request does, and who may pass the guard.
\<close>

subsection \<open>The gateway as a transition system\<close>

text \<open>
  A state is the gateway with the tickets of the admitted requests that have not ended. A hot
  registration is a step when its id is new: registering an id again resets its in-flight count.
\<close>

type_synonym gw_state = "gateway \<times> ticket list"

inductive gw_step :: "(string \<Rightarrow> nat) \<Rightarrow> py_text \<Rightarrow> gw_state \<Rightarrow> gw_state \<Rightarrow> bool" for h t where
  start_json: "json_start h t g body path tier allowed = (g', Inr tk) \<Longrightarrow> gw_step h t (g, opn) (g', tk # opn)"
| refuse_json: "json_start h t g body path tier allowed = (g', Inl r) \<Longrightarrow> gw_step h t (g, opn) (g', opn)"
| start_relay: "relay_start h t g body path tier allowed = (g', Inr tk) \<Longrightarrow> gw_step h t (g, opn) (g', tk # opn)"
| refuse_relay: "relay_start h t g body path tier allowed = (g', Inl r) \<Longrightarrow> gw_step h t (g, opn) (g', opn)"
| start_ollama: "ollama_start h t g body path tier allowed = (g', Inr tk) \<Longrightarrow> gw_step h t (g, opn) (g', tk # opn)"
| refuse_ollama: "ollama_start h t g body path tier allowed = (g', Inl r) \<Longrightarrow> gw_step h t (g, opn) (g', opn)"
| finish_json: "json_finish t g tk reply e2e_ms now = (g', r) \<Longrightarrow> gw_step h t (g, xs @ tk # ys) (g', xs @ ys)"
| open_fails: "stream_open g tk o1 e2e_ms now err = (g', Inl r) \<Longrightarrow> gw_step h t (g, xs @ tk # ys) (g', xs @ ys)"
| open_works: "stream_open g tk o1 e2e_ms now err = (g', Inr hs) \<Longrightarrow>
    gw_step h t (g, xs @ tk # ys) (g', xs @ tk # ys)"
| close: "gw_step h t (g, xs @ tk # ys) (stream_close g tk outcome e2e_ms now, xs @ ys)"
| hot_add: "be_id b \<notin> fst ` set (gw_pool g) \<Longrightarrow> gw_step h t (g, opn) (add_backend g b, opn)"
| chaos: "gw_step h t (g, opn) (fst (chaos_vram t g body), opn)"
| reset: "gw_step h t (g, opn) (fst (debug_reset g), opn)"
| scrape: "gw_step h t (g, opn) (g\<lparr>gw_sched := scrape_backend client now (gw_sched g) b\<rparr>, opn)"
| probe: "gw_step h t (g, opn) (g\<lparr>gw_sched := set_healthy (gw_sched g) w ok\<rparr>, opn)"

inductive gw_reachable :: "(string \<Rightarrow> nat) \<Rightarrow> py_text \<Rightarrow> gw_state \<Rightarrow> bool" for h t where
  gw_start: "gateway_init load backends cfg model_map = Inr g \<Longrightarrow> gw_reachable h t (g, [])"
| gw_next: "gw_reachable h t st \<Longrightarrow> gw_step h t st st' \<Longrightarrow> gw_reachable h t st'"

subsection \<open>The constructor\<close>

lemma map_fst_update:
  "map fst (AList.update k v d) = (if k \<in> fst ` set d then map fst d else map fst d @ [k])"
  by (induction d) auto

definition push_key :: "string list \<Rightarrow> string \<Rightarrow> string list" where
  "push_key ks k = (if k \<in> set ks then ks else ks @ [k])"

lemma register_backend_keys:
  "map fst (s_predictors (register_backend s b)) = push_key (map fst (s_predictors s)) (be_id b)"
  by (simp add: register_backend_def register_def Let_def map_fst_update push_key_def)

lemma register_all_keys:
  "map fst (s_predictors (foldl register_backend s bs)) = foldl push_key (map fst (s_predictors s)) (map be_id bs)"
  by (induction bs arbitrary: s) (simp_all add: register_backend_keys)

lemma push_distinct: "distinct (ks @ xs) \<Longrightarrow> foldl push_key ks xs = ks @ xs"
  by (induction xs arbitrary: ks) (auto simp: push_key_def)

lemma pending_of_register_backend:
  "pending_of (register_backend s b) v = (if v = be_id b then 0 else pending_of s v)"
  by (auto simp: pending_of_def register_backend_def register_def nlms_init_def Let_def)

lemma register_all:
  "sched_inv s \<Longrightarrow> (\<forall>v. pending_of s v = 0) \<Longrightarrow>
   sched_inv (foldl register_backend s bs) \<and> (\<forall>v. pending_of (foldl register_backend s bs) v = 0)"
proof (induction bs arbitrary: s)
  case (Cons b bs)
  have "sched_inv (register_backend s b)"
    using Cons.prems(1) by (simp add: register_backend_def register_inv)
  with Cons show ?case by (simp add: pending_of_register_backend)
qed simp

lemma list_all_update:
  "list_all P d \<Longrightarrow> P (k, v) \<Longrightarrow> list_all P (AList.update k v d)"
  by (induction d) auto

lemma pool_init_wf:
  "distinct (map fst (pool_init bs)) \<and> list_all (\<lambda>(k, b). be_id b = k) (pool_init bs)"
proof -
  have "distinct (map fst (foldl pool_add p bs)) \<and> list_all (\<lambda>(k, b). be_id b = k) (foldl pool_add p bs)"
    if "distinct (map fst p)" "list_all (\<lambda>(k, b). be_id b = k) p" for p
    using that by (induction bs arbitrary: p) (simp_all add: pool_add_def list_all_update)
  from this [of "[]"] show ?thesis by (simp add: pool_init_def)
qed

lemma pool_ids: "list_all (\<lambda>(k, b). be_id b = k) p \<Longrightarrow> map be_id (pool_list p) = map fst p"
  by (induction p) (auto simp: pool_list_def)

lemma gateway_init_inv:
  assumes "gateway_init load bs cfg mm = Inr g"
  shows "gateway_inv g []"
proof -
  obtain s where s: "scheduler_init (scheduler_args cfg) = Inr s"
    and g: "gw_pool g = pool_init bs" "gw_sched g = foldl register_backend s (pool_list (pool_init bs))"
    using assms by (auto simp: gateway_init_def py_bind_Inr Let_def split_beta)
  note wf = pool_init_wf [of bs]
  have empty: "s_predictors s = []" using s by (auto simp: scheduler_init_def split: if_splits)
  have ids: "map be_id (pool_list (pool_init bs)) = map fst (pool_init bs)"
    using wf by (intro pool_ids) auto
  have "map fst (s_predictors (gw_sched g)) = map fst (gw_pool g)"
    using wf by (simp add: g register_all_keys empty ids push_distinct)
  moreover have "sched_inv (gw_sched g) \<and> (\<forall>v. pending_of (gw_sched g) v = 0)"
    unfolding g by (rule register_all [OF init_inv [OF s]]) (simp add: pending_of_def empty)
  ultimately show ?thesis
    using wf g by (simp add: gateway_inv_def pool_wf_def slots.accounts_def)
qed

subsection \<open>Every step keeps the ledger\<close>

lemma json_start_inv:
  assumes "gateway_inv g opn" and "json_start h t g body path tier allowed = (g', r)"
  shows "gateway_inv g' (case r of Inl e \<Rightarrow> opn | Inr tk \<Rightarrow> tk # opn)"
  using admit_request_inv [OF assms(1)] assms(2)
  by (cases "admit_request h t g body path tier allowed")
    (fastforce simp: json_start_def split: sum.splits refusal.splits)

lemma stream_start_inv:
  assumes "gateway_inv g opn" and "stream_start h t g body path tier allowed media refusal = (g', r)"
  shows "gateway_inv g' (case r of Inl e \<Rightarrow> opn | Inr tk \<Rightarrow> tk # opn)"
  using admit_request_inv [OF assms(1)] assms(2)
  by (cases "admit_request h t g body path tier allowed")
    (fastforce simp: stream_start_def split: sum.splits refusal.splits)

lemma neutral_id: "neutral (\<lambda>s. s)"
  by (simp add: neutral_def)

text \<open>The completions of the three ways in which a request ends.\<close>

lemma settle_inv:
  assumes "gateway_inv g (xs @ tk # ys)"
  shows "gateway_inv (g\<lparr>gw_sched := settle (gw_sched g) tk status e2e_ms now\<rparr>) (xs @ ys)"
  using gateway_inv_complete [OF assms neutral_note_failure neutral_id,
      of "tk_worker tk" 3 "ByFeedback e2e_ms (tk_tokens tk) (status < 400) now"]
    gateway_inv_complete [OF assms neutral_id neutral_id,
      of "ByFeedback e2e_ms (tk_tokens tk) (status < 400) now"]
  by (cases "500 \<le> status") (simp_all add: settle_def)

lemma settle_refused_inv:
  assumes "gateway_inv g (xs @ tk # ys)"
  shows "gateway_inv (g\<lparr>gw_sched := settle_refused (gw_sched g) tk status e2e_ms now\<rparr>) (xs @ ys)"
  using gateway_inv_complete [OF assms neutral_id neutral_note_failure,
      of "ByFeedback e2e_ms (tk_tokens tk) False now" "tk_worker tk" 3]
    gateway_inv_complete [OF assms neutral_id neutral_id, of "ByFeedback e2e_ms (tk_tokens tk) False now"]
  by (simp add: settle_refused_def Let_def)

lemma release_ticket_inv:
  assumes "gateway_inv g (xs @ tk # ys)"
  shows "gateway_inv (g\<lparr>gw_sched := release (gw_sched g) (tk_worker tk)\<rparr>) (xs @ ys)"
  using gateway_inv_complete [OF assms neutral_id neutral_id, of ByRelease] by simp

lemma stream_close_inv:
  assumes "gateway_inv g (xs @ tk # ys)"
  shows "gateway_inv (stream_close g tk outcome e2e_ms now) (xs @ ys)"
proof (cases outcome)
  case (StreamBroke msg)
  then show ?thesis
    using gateway_inv_complete [OF assms neutral_note_failure neutral_id,
        of "tk_worker tk" 3 "ByFeedback e2e_ms (tk_tokens tk) False now"]
    by (simp add: stream_close_def stream_settle_def Let_def)
next
  case ClientGone
  then show ?thesis
    using release_ticket_inv [OF assms] by (simp add: stream_close_def stream_settle_def Let_def)
next
  case StreamDone
  then show ?thesis
    using gateway_inv_complete [OF assms neutral_id neutral_id, of "ByFeedback e2e_ms (tk_tokens tk) True now"]
    by (simp add: stream_close_def stream_settle_def Let_def)
next
  case StreamClosed
  then show ?thesis
    using gateway_inv_complete [OF assms neutral_id neutral_id, of "ByFeedback e2e_ms (tk_tokens tk) False now"]
    by (simp add: stream_close_def stream_settle_def Let_def)
qed

lemma json_finish_inv:
  assumes "gateway_inv g (xs @ tk # ys)" and "json_finish t g tk reply e2e_ms now = (g', r)"
  shows "gateway_inv g' (xs @ ys)"
proof -
  obtain b where b: "pool_get (gw_pool g) (tk_worker tk) = Inr b" using gateway_inv_known [OF assms(1)] ..
  show ?thesis
  proof (cases reply)
    case (Reply status body reply_text)
    with assms(2) b have "g' = g\<lparr>gw_sched := settle (gw_sched g) tk status e2e_ms now\<rparr>"
      by (auto simp: json_finish_def Let_def split: prod.splits if_splits)
    then show ?thesis using settle_inv [OF assms(1)] by simp
  next
    case (ReplyFailed msg)
    with assms(2) show ?thesis using release_ticket_inv [OF assms(1)] by (auto simp: json_finish_def)
  qed
qed

lemma stream_open_inv:
  assumes "gateway_inv g (xs @ tk # ys)" and "stream_open g tk o1 e2e_ms now err = (g', r)"
  shows "gateway_inv g' (case r of Inl e \<Rightarrow> xs @ ys | Inr hs \<Rightarrow> xs @ tk # ys)"
  using assms(2) release_ticket_inv [OF assms(1)] settle_refused_inv [OF assms(1)] assms(1)
  by (auto simp: stream_open_def split: opened.splits if_splits)

lemma hot_add_inv:
  assumes "gateway_inv g opn" and "be_id b \<notin> fst ` set (gw_pool g)"
  shows "gateway_inv (add_backend g b) opn"
proof -
  have keys: "map fst (gw_pool g) = map fst (s_predictors (gw_sched g))"
    and inv: "sched_inv (gw_sched g)"
    and cnt: "\<forall>v. pending_of (gw_sched g) v = int (count_list (map tk_worker opn) v)"
    using assms(1) by (simp_all add: gateway_inv_def pool_wf_def slots.accounts_def)
  have "be_id b \<notin> set (map fst (s_predictors (gw_sched g)))"
    using assms(2) unfolding keys [symmetric] by simp
  then have "pending_of (gw_sched g) (be_id b) = 0"
    by (simp add: pending_of_def map_of_eq_None_iff [THEN iffD2])
  with cnt have zero: "count_list (map tk_worker opn) (be_id b) = 0" by simp
  have "map fst (gw_pool (add_backend g b)) = map fst (s_predictors (gw_sched (add_backend g b)))"
    using keys by (simp add: add_backend_def pool_add_def map_fst_update register_backend_keys push_key_def
        flip: set_map)
  moreover have "sched_inv (gw_sched (add_backend g b))"
    using inv by (simp add: add_backend_def register_backend_def register_inv)
  ultimately show ?thesis
    using assms(1) cnt zero
    by (simp add: gateway_inv_def pool_wf_def slots.accounts_def add_backend_def pool_add_def
        pending_of_register_backend list_all_update)
qed

lemma list_all_map_of: "list_all P d \<Longrightarrow> map_of d k = Some v \<Longrightarrow> P (k, v)"
  by (metis list.pred_set map_of_SomeD)

lemma set_pool_vram_wf:
  "map fst (set_pool_vram p w x) = map fst p"
  "list_all (\<lambda>(k, b). be_id b = k) p \<Longrightarrow> list_all (\<lambda>(k, b). be_id b = k) (set_pool_vram p w x)"
  by (auto simp: set_pool_vram_def map_of_eq_Some_keys list_all_map_of intro!: list_all_update
      dest: list_all_map_of split: option.split)

lemma gateway_inv_pool:
  assumes "gateway_inv g opn"
  shows "gateway_inv (g\<lparr>gw_pool := set_pool_vram (gw_pool g) w x\<rparr>) opn"
  using assms set_pool_vram_wf by (simp add: gateway_inv_def pool_wf_def)

lemma chaos_vram_inv:
  assumes "gateway_inv g opn"
  shows "gateway_inv (fst (chaos_vram t g body)) opn"
proof (cases "py_bind (jget_def body ''worker_id'' JNull) (\<lambda>wid.
    py_bind (jget_def body ''free_vram_mb'' (JInt 1500)) (\<lambda>f.
    py_bind (py_float t f) (\<lambda>free. Inr (wid, free))))")
  case (Inl e)
  with assms show ?thesis by (simp add: chaos_vram_def)
next
  case (Inr x)
  obtain wid free where x: "x = (wid, free)" by (cases x)
  have ok: "gateway_inv (g\<lparr>gw_sched := set_vram (gw_sched g) w f, gw_pool := set_pool_vram (gw_pool g) w f\<rparr>) opn"
    for w f
    using gateway_inv_pool [OF gateway_inv_neutral [OF assms neutral_set_vram]] by simp
  show ?thesis
    unfolding chaos_vram_def Inr x by (cases wid) (simp_all only: sum.case prod.case json.case Let_def
        fst_conv if_distrib [of fst] if_distrib [of "\<lambda>g. gateway_inv g opn"] ok assms if_cancel)
qed

lemma scrape_inv: "gateway_inv g opn \<Longrightarrow>
   gateway_inv (g\<lparr>gw_sched := scrape_backend client now (gw_sched g) b\<rparr>) opn"
  using gateway_inv_neutral [OF _ neutral_set_engine_metrics, of g opn]
    gateway_inv_neutral [OF _ neutral_id, of g opn]
  by (auto simp: scrape_backend_def Let_def split: option.split)

lemma gw_step_inv: "gw_step h t st st' \<Longrightarrow> gateway_inv (fst st) (snd st) \<Longrightarrow> gateway_inv (fst st') (snd st')"
proof (induction rule: gw_step.induct)
  case (start_json g body path tier allowed g' tk opn)
  then show ?case using json_start_inv by fastforce
next
  case (refuse_json g body path tier allowed g' r opn)
  then show ?case using json_start_inv by fastforce
next
  case (start_relay g body path tier allowed g' tk opn)
  then show ?case using stream_start_inv by (fastforce simp: relay_start_def)
next
  case (refuse_relay g body path tier allowed g' r opn)
  then show ?case using stream_start_inv by (fastforce simp: relay_start_def)
next
  case (start_ollama g body path tier allowed g' tk opn)
  then show ?case using stream_start_inv by (fastforce simp: ollama_start_def)
next
  case (refuse_ollama g body path tier allowed g' r opn)
  then show ?case using stream_start_inv by (fastforce simp: ollama_start_def)
next
  case (finish_json g tk reply e2e_ms now g' r xs ys)
  then show ?case using json_finish_inv by simp
next
  case (open_fails g tk o1 e2e_ms now err g' r xs ys)
  then show ?case using stream_open_inv by fastforce
next
  case (open_works g tk o1 e2e_ms now err g' hs xs ys)
  then show ?case using stream_open_inv by fastforce
qed (simp_all add: stream_close_inv hot_add_inv chaos_vram_inv scrape_inv debug_reset_def
      gateway_inv_neutral [OF _ neutral_set_healthy] gateway_inv_neutral [OF _ neutral_reset])

lemma gw_reachable_inv: "gw_reachable h t st \<Longrightarrow> gateway_inv (fst st) (snd st)"
  by (induction rule: gw_reachable.induct) (auto intro: gateway_init_inv gw_step_inv)


text \<open>A gateway with one backend, and one request on it.\<close>

definition demo_gateway :: gateway where
  "demo_gateway =
     (case gateway_init (\<lambda>n. None) [backend_default ''a'' ''http://h'']
        (dio_config_default\<lparr>cf_strategy := ''round_robin''\<rparr>) [] of Inr g \<Rightarrow> g)"

definition demo_text :: py_text where
  "demo_text = \<lparr>pt_repr_float = (\<lambda>x. ''0.0''), pt_read_float = (\<lambda>s. None), pt_read_int = (\<lambda>s. None)\<rparr>"

lemma demo_gateway_init:
  "gateway_init (\<lambda>n. None) [backend_default ''a'' ''http://h'']
     (dio_config_default\<lparr>cf_strategy := ''round_robin''\<rparr>) [] = Inr demo_gateway"
proof -
  have "\<exists>s. scheduler_init (scheduler_args (dio_config_default\<lparr>cf_strategy := ''round_robin''\<rparr>)) = Inr s"
    by (simp add: scheduler_init_def scheduler_args_def dio_config_default_def Let_def)
  then show ?thesis
    by (auto simp: demo_gateway_def gateway_init_def Let_def split_beta)
qed

lemma demo_gateway_reachable: "gw_reachable h t (demo_gateway, [])"
  using demo_gateway_init by (rule gw_start)


subsection \<open>The end of a JSON request\<close>

lemma failed_total_settle:
  "adm_failed_total (s_admission (settle s tk status y now)) =
     adm_failed_total (s_admission s) + of_bool (400 \<le> status)"
  "adm_completed_total (s_admission (settle s tk status y now)) =
     adm_completed_total (s_admission s) + of_bool (status < 400)"
  by (auto simp: settle_def feedback_def Let_def split_beta bump_admission_def feedback_count_def
      note_failure_def)

lemma breaker_of_settle:
  "breaker_of w (settle s tk status y now) =
     (if w \<noteq> tk_worker tk then breaker_of w s
      else if 500 \<le> status then breaker_step w (breaker_of w s) (NoteFailure w 3)
      else if 400 \<le> status then breaker_of w s
      else (0, snd (breaker_of w s)))"
proof -
  have "breaker_of w (fst (note_failure s v 3)) = breaker_step w (breaker_of w s) (NoteFailure v 3)" for v w
    by (cases "map_of (s_predictors s) w") (auto simp: breaker_of_def get_streak_def note_failure_def Let_def)
  then show ?thesis
    by (cases "breaker_of w s") (simp add: settle_def breaker_of_feedback)
qed

text \<open>
  C12: how a forwarded JSON request ends. An exception of the exchange becomes a 502 and only gives
  the slot back. An engine error is passed on with its status, counts as a failed request and never
  trains; a 5xx also counts against the circuit breaker of the engine, a 4xx does not. Any other
  answer is a 200 that names the backend, counts as completed and clears the failure streak.
\<close>

theorem json_finish_outcomes:
  assumes "json_finish t g tk reply e2e_ms now = (g', r)"
    and "pool_get (gw_pool g) (tk_worker tk) = Inr b"
  shows "case reply of
      ReplyFailed msg \<Rightarrow>
        (\<exists>detail. r = Inl (RaisedHttp 502 detail)) \<and>
        gw_sched g' = release (gw_sched g) (tk_worker tk)
    | Reply status body reply_text \<Rightarrow>
        (\<exists>resp. r = Inr resp \<and> rs_status resp = (if 400 \<le> status then status else 200) \<and>
           (status < 400 \<longrightarrow> map_of (rs_headers resp) ''X-DIO-Backend'' = Some (tk_worker tk))) \<and>
        adm_failed_total (s_admission (gw_sched g')) =
          adm_failed_total (s_admission (gw_sched g)) + of_bool (400 \<le> status) \<and>
        adm_completed_total (s_admission (gw_sched g')) =
          adm_completed_total (s_admission (gw_sched g)) + of_bool (status < 400) \<and>
        (\<forall>w. breaker_of w (gw_sched g') =
          (if w \<noteq> tk_worker tk then breaker_of w (gw_sched g)
           else if 500 \<le> status then breaker_step w (breaker_of w (gw_sched g)) (NoteFailure w 3)
           else if 400 \<le> status then breaker_of w (gw_sched g)
           else (0, snd (breaker_of w (gw_sched g)))))"
proof (cases reply)
  case (ReplyFailed msg)
  with assms(1) show ?thesis by (auto simp: json_finish_def)
next
  case (Reply status body reply_text)
  from assms Reply have g': "gw_sched g' = settle (gw_sched g) tk status e2e_ms now"
    by (auto simp: json_finish_def Let_def split_beta split: if_splits)
  have "\<exists>resp. r = Inr resp \<and> rs_status resp = (if 400 \<le> status then status else 200) \<and>
      (status < 400 \<longrightarrow> map_of (rs_headers resp) ''X-DIO-Backend'' = Some (tk_worker tk))"
    using assms Reply by (auto simp: json_finish_def Let_def split_beta json_response_def split: if_splits)
  then show ?thesis
    by (simp only: Reply engine_reply.case g' failed_total_settle breaker_of_settle simp_thms)
qed

definition demo_ticket :: ticket where
  "demo_ticket =
     \<lparr>tk_worker = ''a'', tk_tokens = 10, tk_prompt = ''hi'', tk_body = [], tk_path = ''chat'',
      tk_decision = plain_decision ''a'' 0 0 0 10 ''round_robin''\<rparr>"

lemma gateway_init_pool: "gateway_init load bs cfg mm = Inr g \<Longrightarrow> gw_pool g = pool_init bs"
  by (auto simp: gateway_init_def py_bind_Inr Let_def split_beta)

lemma demo_gateway_pool: "pool_get (gw_pool demo_gateway) ''a'' = Inr (backend_default ''a'' ''http://h'')"
  using gateway_init_pool [OF demo_gateway_init]
  by (simp add: pool_get_def pool_init_def pool_add_def backend_default_def)

theorem json_finish_outcomes_witness:
  "adm_failed_total (s_admission (gw_sched (fst (json_finish demo_text demo_gateway demo_ticket
     (Reply 503 None ''busy'') 20 0)))) =
   adm_failed_total (s_admission (gw_sched demo_gateway)) + 1"
proof -
  have b: "pool_get (gw_pool demo_gateway) (tk_worker demo_ticket) = Inr (backend_default ''a'' ''http://h'')"
    using demo_gateway_pool by (simp add: demo_ticket_def)
  obtain g' r where f: "json_finish demo_text demo_gateway demo_ticket (Reply 503 None ''busy'') 20 0 = (g', r)"
    by (cases "json_finish demo_text demo_gateway demo_ticket (Reply 503 None ''busy'') 20 0")
  from json_finish_outcomes [OF f b] show ?thesis by (simp add: f)
qed

subsection \<open>The guard\<close>

text \<open>
  C5: with an API key configured, a request that passes the guard on a protected path, \<open>/debug\<close> and
  its subtree when \<open>protect_debug\<close> is set and the inference routes when \<open>data_plane_auth\<close> is set,
  carried exactly that key; and a request on any path that passes declares no body over the cap.
\<close>

theorem guard_protects:
  assumes "request_guard cfg meth path hs = Inr None"
  shows "(given (cf_api_key cfg) \<and>
      (cf_protect_debug cfg \<and> (path = ''/debug'' \<or> startswith path ''/debug/'') \<or>
       cf_data_plane_auth cfg \<and> (startswith path ''/v1/'' \<or> startswith path ''/api/'')) \<longrightarrow>
      supplied_api_key hs = cf_api_key cfg) \<and>
    (\<forall>n. meth = ''POST'' \<and> 0 < cf_body_size_cap_bytes cfg \<and>
       map_of hs ''content-length'' = Some (show_nat n) \<longrightarrow> int n \<le> cf_body_size_cap_bytes cfg)"
proof -
  have key: "supplied_api_key hs = cf_api_key cfg"
    if sc: "guard_scope cfg path = Some scope" and gv: "given (cf_api_key cfg)" for scope
  proof -
    have "key_accepted cfg hs = Inr True"
      using assms sc by (auto simp: request_guard_def py_bind_Inr split: if_splits)
    then obtain k where "supplied_api_key hs = Some k" "compare_digest k (the (cf_api_key cfg)) = Inr True"
      using gv by (auto simp: key_accepted_def given_def split: option.splits if_splits)
    moreover obtain k' where "cf_api_key cfg = Some k'" using gv by (auto simp: given_def split: option.splits)
    ultimately show ?thesis by (auto simp: compare_digest_def split: if_splits)
  qed
  have scope: "\<exists>scope. guard_scope cfg path = Some scope"
    if "given (cf_api_key cfg)"
      "cf_protect_debug cfg \<and> (path = ''/debug'' \<or> startswith path ''/debug/'') \<or>
       cf_data_plane_auth cfg \<and> (startswith path ''/v1/'' \<or> startswith path ''/api/'')"
    using that by (auto simp: guard_scope_def is_admin_path_def is_data_plane_path_def)
  have size: "oversized cfg meth path hs = Inr None"
    using assms by (auto simp: request_guard_def py_bind_Inr split: option.splits if_splits)
  have "int n \<le> cf_body_size_cap_bytes cfg"
    if "meth = ''POST''" "0 < cf_body_size_cap_bytes cfg" "map_of hs ''content-length'' = Some (show_nat n)" for n
    using size that show_nat_digits [of n]
    by (auto simp: oversized_def Let_def str_isdigit_def int_of_digits_def list_all_iff py_bind_Inr
        split: if_splits)
  with key scope show ?thesis by blast
qed

theorem guard_protects_witness:
  "request_guard (dio_config_default\<lparr>cf_api_key := Some ''k9''\<rparr>) ''GET'' ''/debug/workers''
     [(''authorization'', ''Bearer k9'')] = Inr None \<and>
   supplied_api_key [(''authorization'', ''Bearer k9'')] = Some ''k9''"
proof -
  have p: "request_guard (dio_config_default\<lparr>cf_api_key := Some ''k9''\<rparr>) ''GET'' ''/debug/workers''
     [(''authorization'', ''Bearer k9'')] = Inr None"
    by code_simp
  have c: "given (cf_api_key (dio_config_default\<lparr>cf_api_key := Some ''k9''\<rparr>))"
      "cf_protect_debug (dio_config_default\<lparr>cf_api_key := Some ''k9''\<rparr>)"
      "startswith ''/debug/workers'' ''/debug/''"
    by (simp_all add: given_def dio_config_default_def startswith_def)
  from conjunct1 [OF guard_protects [OF p]] c p show ?thesis by simp
qed

end
