(* ===== verification/Request_Props.thy ===== *)
theory Request_Props
  imports Streams Engine_Props Demo_Pool
begin

text \<open>
  Properties of the request path before and after the scheduler: what validation admits, the token
  feature, and which backends a model name reaches.
\<close>

subsection \<open>Validation\<close>

text \<open>The documented contract of a request body.\<close>

definition token_limit_ok :: "int \<Rightarrow> json \<Rightarrow> bool" where
  "token_limit_ok cap v \<longleftrightarrow> v = JNull \<or> (\<exists>n. v = JInt n \<and> 0 < n \<and> (cap \<noteq> 0 \<longrightarrow> n \<le> cap))"

lemma token_key_problem_None:
  "token_key_problem t d cap k = None \<longleftrightarrow> token_limit_ok cap (dget d k)"
  by (cases "dget d k") (auto simp: token_key_problem_def token_limit_ok_def)

lemma first_problem_None: "first_problem f xs = None \<longleftrightarrow> (\<forall>x \<in> set xs. f x = None)"
  by (induction xs) (auto split: option.split)

lemma token_keys_None:
  "first_problem (token_key_problem t d cap) token_keys = None \<longleftrightarrow>
   (\<forall>k \<in> {''max_tokens'', ''max_completion_tokens'', ''max_new_tokens''}. token_limit_ok cap (dget d k))"
  by (simp only: first_problem_None token_key_problem_None) (simp add: token_keys_def)

text \<open>
  C10: validation lets through exactly the bodies that are objects, whose messages are a non-empty
  list (chat) or whose prompt is present and not a blank string (completions), and whose three
  token limits are each absent, null or a positive integer within the cap: no boolean, no float and
  no numeral in a string passes.
\<close>

theorem validation_exact:
  "validate_openai_body t body path cap = None \<longleftrightarrow>
   (\<exists>d. body = JObj d \<and>
      (if path = ''chat'' then \<exists>m ms. dget d ''messages'' = JArr (m # ms)
       else dget d ''prompt'' \<noteq> JNull \<and> (\<forall>s. dget d ''prompt'' = JStr s \<longrightarrow> py_strip s \<noteq> [])) \<and>
      (\<forall>k \<in> {''max_tokens'', ''max_completion_tokens'', ''max_new_tokens''}. token_limit_ok cap (dget d k)))"
proof (cases body)
  case (JObj d)
  have v: "validate_openai_body t body path cap = None \<longleftrightarrow>
      shape_problem d path = None \<and> first_problem (token_key_problem t d cap) token_keys = None"
    by (simp add: validate_openai_body_def JObj split: option.split)
  have shape: "shape_problem d path = None \<longleftrightarrow>
      (if path = ''chat'' then \<exists>m ms. dget d ''messages'' = JArr (m # ms)
       else dget d ''prompt'' \<noteq> JNull \<and> (\<forall>s. dget d ''prompt'' = JStr s \<longrightarrow> py_strip s \<noteq> []))"
    by (auto simp: shape_problem_def split: json.splits list.splits)
  show ?thesis by (simp only: v [unfolded JObj] shape token_keys_None JObj json.inject simp_thms)
qed (simp_all add: validate_openai_body_def)

theorem validation_exact_witness:
  "validate_openai_body \<lparr>pt_repr_float = (\<lambda>x. []), pt_read_float = (\<lambda>s. None), pt_read_int = (\<lambda>s. None)\<rparr>
     (JObj [(''prompt'', JStr ''hi''), (''max_tokens'', JInt 9)]) ''completions'' 100 = None"
proof -
  have "py_strip ''hi'' \<noteq> []" by code_simp
  then show ?thesis
    by (subst validation_exact) (simp add: token_limit_ok_def)
qed



subsection \<open>Model routing\<close>

text \<open>
  C11: a model constraint fails closed. When a name is resolved to backends, they are exactly those of
  one entry of the alias table, whose key is the name itself, or, for names of at least three
  characters, equal to it up to case as a whole or in its last path segment, or in a prefix relation
  with that segment; an exact entry always wins.
\<close>

theorem resolution_sound:
  assumes "resolve_model_backends table (JStr name) = Inr (Some ids)" and "ids \<noteq> []"
  shows "\<exists>key. (key, ids) \<in> set table \<and>
    (case map_of table name of
       Some exact \<Rightarrow> ids = exact \<and> key = name
     | None \<Rightarrow>
         (let lower = py_strip (py_lower name)
          in 3 \<le> length lower \<and>
             (lower = py_lower key \<or> lower = tail_of key \<or> startswith (tail_of key) lower \<or>
              startswith lower (tail_of key))))"
proof -
  have r: "resolve_name table name = ids"
    using assms(1) by (auto simp: resolve_model_backends_def split: if_splits)
  show ?thesis
  proof (cases "map_of table name")
    case (Some exact)
    with r show ?thesis by (auto simp: resolve_name_def dest: map_of_SomeD)
  next
    case None
    then show ?thesis
      using r assms(2)
      by (auto simp: resolve_name_def Let_def split: if_splits option.splits dest!: find_SomeD)
  qed
qed

theorem resolution_sound_witness:
  "resolve_model_backends [(''meta-llama/Llama-3'', [''gpu'']), (''mistral-7b'', [''cpu''])] (JStr ''Mistral'') =
     Inr (Some [''cpu'']) \<and>
   (\<exists>key. (key, [''cpu'']) \<in> set [(''meta-llama/Llama-3'', [''gpu'']), (''mistral-7b'', [''cpu''])])"
proof -
  have p: "resolve_model_backends [(''meta-llama/Llama-3'', [''gpu'']), (''mistral-7b'', [''cpu''])] (JStr ''Mistral'') =
     Inr (Some [''cpu''])"
    by code_simp
  from resolution_sound [OF p] p show ?thesis by blast
qed

text \<open>What building the alias table keeps: the names of the operator and the models of the backends.\<close>

lemma map_of_add_alias:
  "map_of (add_alias n i table) k =
     (if k = n then Some (case map_of table n of None \<Rightarrow> [i] | Some ids \<Rightarrow> if i \<in> set ids then ids else ids @ [i])
      else map_of table k)"
  by (simp add: add_alias_def split: option.split)

lemma aliases_of_backends:
  fixes b :: backend
  assumes "b \<in> set bs" and "be_model b = Some m" and "m \<noteq> []"
  shows "\<exists>ids. map_of (foldl (\<lambda>t b. if given (be_model b) then add_alias (the (be_model b)) (be_id b) t else t)
      table bs) m = Some ids \<and> be_id b \<in> set ids"
proof -
  let ?f = "\<lambda>t b. if given (be_model b) then add_alias (the (be_model b)) (be_id b) t else t"
  have keep: "\<exists>ids'. map_of (foldl ?f table bs) k = Some ids' \<and> set ids \<subseteq> set ids'"
    if "map_of table k = Some ids" for table ids k and bs :: "backend list"
    using that
  proof (induction bs arbitrary: table ids)
    case Nil
    then show ?case by simp
  next
    case (Cons c bs)
    have "\<exists>ids'. map_of (?f table c) k = Some ids' \<and> set ids \<subseteq> set ids'"
      using Cons.prems by (auto simp: map_of_add_alias)
    then obtain ids' where "map_of (?f table c) k = Some ids'" "set ids \<subseteq> set ids'" by blast
    with Cons.IH [of "?f table c" ids'] show ?case by auto
  qed
  have hit: "\<exists>ids. map_of (?f table b) m = Some ids \<and> be_id b \<in> set ids" for table
    using assms(2,3) by (auto simp: given_def map_of_add_alias split: option.split)
  from split_list [OF assms(1)] obtain ys zs where bs: "bs = ys @ b # zs" by blast
  obtain ids where ids: "map_of (?f (foldl ?f table ys) b) m = Some ids" "be_id b \<in> set ids" using hit by blast
  obtain ids' where "map_of (foldl ?f (?f (foldl ?f table ys) b) zs) m = Some ids'" "set ids \<subseteq> set ids'"
    using keep [OF ids(1), of zs] by auto
  with ids(2) show ?thesis by (auto simp: bs)
qed

text \<open>
  What a backend declares is routable: when a backend of the pool declares a model, a request for
  exactly that name (other than the two generic ones) is routed to a set of backends that contains
  it, whatever the operator's model map says.
\<close>

lemma declared_models_route:
  assumes "b \<in> set (pool_list (gw_pool g))" and "be_model b = Some m" and "m \<noteq> []"
    and "m \<noteq> ''default''" and "m \<noteq> ''dio-default''"
  shows "\<exists>ids. gateway_resolve g (JStr m) = Inr (Some ids) \<and> be_id b \<in> set ids"
proof -
  obtain ids where ids: "map_of (gateway_aliases g) m = Some ids" "be_id b \<in> set ids"
    using aliases_of_backends [OF assms(1-3)] by (auto simp: gateway_aliases_def model_aliases_def Let_def)
  moreover have "gateway_aliases g \<noteq> []" using ids(1) by auto
  ultimately show ?thesis
    using assms(3-5) by (auto simp: gateway_resolve_def resolve_model_backends_def resolve_name_def)
qed

definition named_backend :: "string \<Rightarrow> string \<Rightarrow> backend" where
  "named_backend bid m = (backend_default bid ''http://h'')\<lparr>be_model := Some m\<rparr>"

definition named_gateway :: gateway where
  "named_gateway =
     \<lparr>gw_config = dio_config_default, gw_pool = [(''x'', named_backend ''x'' ''qwen'')], gw_model_map = [(''gpt'', [''y''])],
      gw_sched = demo_pool ''nlms'' ''empirical'', gw_tok = None, gw_tok_mode = ''heuristic''\<rparr>"

theorem declared_models_route_witness:
  "\<exists>ids. gateway_resolve named_gateway (JStr ''qwen'') = Inr (Some ids) \<and> ''x'' \<in> set ids"
proof -
  have "named_backend ''x'' ''qwen'' \<in> set (pool_list (gw_pool named_gateway))"
    by (simp add: named_gateway_def pool_list_def)
  from declared_models_route [OF this, of "''qwen''"] show ?thesis
    by (simp add: named_backend_def backend_default_def)
qed

text \<open>
  What an engine reports is advertised but need not be routable: \<open>/v1/models\<close> and \<open>/api/tags\<close> list
  the names of the engines' own model lists, while routing reads the declared names only. A backend
  that declares one model and reports another yields a listed name whose requests are answered 404.
\<close>

lemma advertised_may_not_route:
  "(let p = [(''x'', named_backend ''x'' ''qwen'')];
        client = (\<lambda>b. Some (200, Some (JObj [(''data'', JArr [JObj [(''id'', JStr ''llama'')]])])));
        t = \<lparr>pt_repr_float = (\<lambda>x. []), pt_read_float = (\<lambda>s. None), pt_read_int = (\<lambda>s. None)\<rparr>;
        listed = collect_model_names t client [] p
    in map_of listed ''llama'' = Some [''x''] \<and>
       resolve_model_backends (model_aliases [] p) (JStr ''llama'') = Inr (Some []))"
  by (simp add: collect_model_names_def model_aliases_def pool_list_def named_backend_def given_def
      backend_default_def add_alias_def collect_from_def or_else_def resolve_model_backends_def
      resolve_name_def Let_def) code_simp

end
