(* ===== verification/Backend_Props.thy ===== *)
theory Backend_Props
  imports Backends
begin

text \<open>
  A vetted backend URL confines the gateway's own requests: whatever the paths of a backend are, every
  URL it builds has the scheme and the network location of the vetted base.
\<close>

text \<open>What vetting guarantees of a URL.\<close>

definition url_vetted :: "(string \<Rightarrow> bool) \<Rightarrow> string \<Rightarrow> bool" where
  "url_vetted bracket_ok url \<longleftrightarrow>
     \<not> list_ex py_isspace url \<and>
     (\<exists>scheme netloc host. urlsplit bracket_ok url = Inr (scheme, netloc) \<and> scheme \<in> {''http'', ''https''} \<and>
        hostname_of netloc = Some host \<and> host \<notin> blocked_backend_hosts)"

lemma vet_url_Inr: "vet_url bracket_ok v shown = Inr url \<Longrightarrow> url_vetted bracket_ok url"
  by (auto simp: vet_url_def url_vetted_def Let_def split: json.splits if_splits sum.splits option.splits prod.splits)

lemma backend_post_init_vetted:
  "backend_post_init bracket_ok b0 = Inr b \<Longrightarrow> url_vetted bracket_ok (be_base_url b)"
  by (auto simp: backend_post_init_def validate_backend_url_def py_bind_Inr dest: vet_url_Inr)

subsection \<open>Appending a path\<close>

lemma takeWhile_append_stop: "\<forall>x \<in> set xs. P x \<Longrightarrow> \<not> P y \<Longrightarrow> takeWhile P (xs @ y # ys) = xs"
  by (induction xs) auto

lemma rstrip_append:
  assumes "\<exists>x \<in> set v. \<not> P x"
  shows "rstrip_by P (u @ v) = u @ rstrip_by P v"
  using assms by (simp add: rstrip_by_def dropWhile_append1 [of _ "rev v"] dropWhile_append del: dropWhile_append1)
    (metis dropWhile_eq_Nil_conv set_rev)

lemma rstrip_ends:
  "\<exists>w. v = rstrip_by P v @ w \<and> (\<forall>x \<in> set w. P x)"
proof -
  have "rev v = takeWhile P (rev v) @ dropWhile P (rev v)" by simp
  then have "v = rev (dropWhile P (rev v)) @ rev (takeWhile P (rev v))" by (metis rev_append rev_rev_ident)
  then show ?thesis unfolding rstrip_by_def by (metis set_rev set_takeWhileD)
qed

definition url_end :: "char \<Rightarrow> bool" where
  "url_end c \<longleftrightarrow> c \<in> {CHR ''/'', CHR ''?'', CHR ''#''}"

definition line_char :: "char \<Rightarrow> bool" where
  "line_char c \<longleftrightarrow> (of_char c :: nat) \<in> {9, 10, 13}"

text \<open>A URL with its parts apart; \<open>urlsplit\<close> reads the parts back whatever follows them.\<close>

definition parted :: "string \<Rightarrow> string \<Rightarrow> string \<Rightarrow> bool" where
  "parted lead a netloc \<longleftrightarrow>
     (\<forall>c \<in> set lead. (of_char c :: nat) \<le> 32) \<and> a \<noteq> [] \<and> is_alpha (hd a) \<and> list_all scheme_char a \<and>
     (\<forall>c \<in> set netloc. \<not> url_end c \<and> \<not> line_char c)"

lemma scheme_char_facts: "scheme_char c \<Longrightarrow> c \<noteq> CHR '':'' \<and> \<not> line_char c \<and> \<not> (of_char c :: nat) \<le> 32"
  by (auto simp: scheme_char_def line_char_def is_alpha_def py_isdigit_def Let_def)

lemma takeWhile_netloc:
  assumes "\<forall>c \<in> set netloc. \<not> url_end c" and "z = [] \<or> url_end (hd z)"
  shows "takeWhile (\<lambda>c. c \<notin> {CHR ''/'', CHR ''?'', CHR ''#''}) (netloc @ z) = netloc"
  using assms by (cases z) (induction netloc; auto simp: url_end_def)+

lemma split_scheme_parted:
  "CHR '':'' \<notin> set a \<Longrightarrow> a \<noteq> [] \<Longrightarrow> is_alpha (hd a) \<Longrightarrow> list_all scheme_char a \<Longrightarrow>
   split_scheme (a @ CHR '':'' # r) = (py_lower a, r)"
  by (simp add: split_scheme_def partition_no_sep)

lemma urlsplit_parted:
  assumes "parted lead a netloc" and "z = [] \<or> url_end (hd z)"
  shows "urlsplit bracket_ok (lead @ a @ ''://'' @ netloc @ z) =
    (if (CHR ''['' \<in> set netloc) \<noteq> (CHR '']'' \<in> set netloc) then Inl (ValueError ''Invalid IPv6 URL'')
     else if CHR ''['' \<in> set netloc \<and> \<not> bracket_ok netloc then Inl (ValueError ''Invalid IPv6 URL'')
     else Inr (py_lower a, netloc))"
proof -
  let ?keep = "filter (\<lambda>c. (of_char c :: nat) \<notin> {9, 10, 13})"
  obtain c cs where a: "a = c # cs" using assms(1) by (cases a) (auto simp: parted_def)
  have sch: "\<forall>x \<in> set a. scheme_char x" using assms(1) by (simp add: parted_def list_all_iff)
  have lead: "dropWhile (\<lambda>c. (of_char c :: nat) \<le> 32) (lead @ a @ ''://'' @ netloc @ z) = a @ ''://'' @ netloc @ z"
    using assms(1) scheme_char_facts sch by (subst dropWhile_append2) (auto simp: parted_def a)
  have keep_a: "?keep a = a" using sch scheme_char_facts by (auto simp: filter_id_conv line_char_def)
  have keep_n: "?keep netloc = netloc" using assms(1) by (auto simp: filter_id_conv parted_def line_char_def)
  have z: "?keep z = [] \<or> url_end (hd (?keep z))"
    using assms(2) by (cases z) (auto simp: url_end_def)
  have keep: "?keep (a @ ''://'' @ netloc @ z) = a @ CHR '':'' # ''//'' @ netloc @ ?keep z"
    using keep_a keep_n by simp
  have "CHR '':'' \<notin> set a" using sch scheme_char_facts by blast
  then have split: "split_scheme (a @ CHR '':'' # ''//'' @ netloc @ ?keep z) = (py_lower a, ''//'' @ netloc @ ?keep z)"
    using assms(1) by (intro split_scheme_parted) (auto simp: parted_def)
  have "takeWhile (\<lambda>c. c \<notin> {CHR ''/'', CHR ''?'', CHR ''#''}) (drop 2 (''//'' @ netloc @ ?keep z)) = netloc"
    using takeWhile_netloc [OF _ z, of netloc] assms(1) by (auto simp: parted_def)
  moreover have "startswith (''//'' @ netloc @ ?keep z) ''//''" by (simp add: startswith_def)
  ultimately show ?thesis
    unfolding urlsplit_def Let_def lead keep split prod.case by (simp only: if_True)
qed

lemma vetted_parts:
  assumes "url_vetted bracket_ok url"
  shows "\<exists>lead a netloc z. url = lead @ a @ ''://'' @ netloc @ z \<and> parted lead a netloc \<and> netloc \<noteq> [] \<and>
    (z = [] \<or> url_end (hd z))"
proof -
  let ?P = "\<lambda>c. (of_char c :: nat) \<le> 32" and ?stop = "\<lambda>c. c \<notin> {CHR ''/'', CHR ''?'', CHR ''#''}"
  let ?u = "dropWhile ?P url"
  from assms obtain scheme netloc host where sp: "urlsplit bracket_ok url = Inr (scheme, netloc)"
    and sc: "scheme \<in> {''http'', ''https''}" and host: "hostname_of netloc = Some host"
    and ws: "\<not> list_ex py_isspace url"
    by (auto simp: url_vetted_def)
  have nl: "netloc \<noteq> []" using host by (auto simp: hostname_of_def last_segment_def Let_def)
  have line: "\<not> line_char c" if "c \<in> set url" for c
    using ws that by (auto simp: list_ex_iff py_isspace_def line_char_def Let_def)
  have keep: "filter (\<lambda>c. (of_char c :: nat) \<notin> {9, 10, 13}) ?u = ?u"
    using line by (auto simp: filter_id_conv line_char_def dest: set_dropWhileD)
  obtain a found b where p: "partition_at (CHR '':'') ?u = (a, found, b)" by (cases "partition_at (CHR '':'') ?u")
  have "split_scheme ?u = (scheme, snd (split_scheme ?u)) \<and>
      netloc = (if startswith (snd (split_scheme ?u)) ''//'' then takeWhile ?stop (drop 2 (snd (split_scheme ?u))) else [])"
    using sp unfolding urlsplit_def Let_def keep by (auto split: prod.splits if_splits)
  then have b: "found" "a \<noteq> []" "is_alpha (hd a)" "list_all scheme_char a" "startswith b ''//''"
    "netloc = takeWhile ?stop (drop 2 b)"
    using sc nl p by (auto simp: split_scheme_def split: if_splits)
  then obtain r where r: "b = ''//'' @ r" by (auto simp: startswith_iff)
  let ?z = "dropWhile ?stop r"
  have u: "?u = a @ ''://'' @ netloc @ ?z" using partition_at_found [of "CHR '':''" ?u a b] p b(1,6) r by simp
  have "url = takeWhile ?P url @ a @ ''://'' @ netloc @ ?z" using u by (metis takeWhile_dropWhile_id)
  moreover have "parted (takeWhile ?P url) a netloc"
  proof -
    have "set netloc \<subseteq> set ?u" by (subst u) auto
    then have "\<forall>c \<in> set netloc. \<not> line_char c" using line by (auto dest: set_dropWhileD)
    moreover have "\<forall>c \<in> set netloc. \<not> url_end c" using b(6) r by (auto simp: url_end_def dest: set_takeWhileD)
    moreover have "\<forall>c \<in> set (takeWhile ?P url). ?P c" by (auto dest: set_takeWhileD)
    ultimately show ?thesis using b(2,3,4) by (simp add: parted_def)
  qed
  moreover have "?z = [] \<or> url_end (hd ?z)"
    using hd_dropWhile [of ?stop r] by (auto simp: url_end_def)
  ultimately show ?thesis using nl by blast
qed

lemma suffix_after:
  assumes "u @ v = r @ w" and "\<forall>x \<in> set u. \<not> P x" and "\<forall>x \<in> set w. P x"
  shows "\<exists>v'. r = u @ v' \<and> v = v' @ w"
proof -
  from assms(1) obtain us where "u @ us = r \<and> v = us @ w \<or> u = r @ us \<and> us @ v = w"
    by (auto simp: append_eq_append_conv2)
  then show ?thesis
  proof
    assume us: "u = r @ us \<and> us @ v = w"
    then have "us = []" using assms(2,3) by (cases us) auto
    with us show ?thesis by auto
  qed auto
qed

lemma backend_url_host:
  assumes "url_vetted bracket_ok (be_base_url b)"
  shows "urlsplit bracket_ok (backend_url b path) = urlsplit bracket_ok (be_base_url b)"
proof -
  from vetted_parts [OF assms] obtain lead a netloc z where base: "be_base_url b = lead @ a @ ''://'' @ netloc @ z"
    and parts: "parted lead a netloc" "netloc \<noteq> []" and z: "z = [] \<or> url_end (hd z)"
    by blast
  let ?P = "\<lambda>c. c = CHR ''/''"
  have "\<exists>p. (if startswith path ''/'' then path else ''/'' @ path) = CHR ''/'' # p"
    by (cases path) (simp_all add: startswith_def)
  then obtain p where path: "(if startswith path ''/'' then path else ''/'' @ path) = CHR ''/'' # p" ..
  have slash: "CHR ''/'' \<notin> set netloc" using parts(1) by (auto simp: parted_def url_end_def)
  then have some: "\<exists>x \<in> set (netloc @ z). \<not> ?P x" using parts(2) by (cases netloc) auto
  obtain w where w: "netloc @ z = rstrip_by ?P (netloc @ z) @ w" "\<forall>x \<in> set w. ?P x"
    using rstrip_ends by blast
  have "\<forall>x \<in> set netloc. \<not> ?P x" using slash by auto
  from suffix_after [OF w(1) this w(2)]
  have "\<exists>z'. rstrip_by ?P (netloc @ z) = netloc @ z' \<and> z = z' @ w" .
  then obtain z' where z': "rstrip_by ?P (netloc @ z) = netloc @ z'" "z = z' @ w" by blast
  have "rstrip_by ?P (be_base_url b) = lead @ a @ ''://'' @ netloc @ z'"
    using rstrip_append [OF some, of "lead @ a @ ''://''"] z' by (simp only: base append_assoc)
  then have url: "backend_url b path = lead @ a @ ''://'' @ netloc @ (z' @ CHR ''/'' # p)"
    unfolding backend_url_def path by (simp only: append_assoc)
  have "z' @ CHR ''/'' # p = [] \<or> url_end (hd (z' @ CHR ''/'' # p))"
    using z z'(2) by (cases z') (auto simp: url_end_def)
  from urlsplit_parted [OF parts(1) this] urlsplit_parted [OF parts(1) z] show ?thesis
    by (simp only: url base)
qed

text \<open>
  C8: the gateway's own requests stay on the vetted host: for a backend that was constructed, every
  URL it is asked on, chat, completions, models, health and metrics, whatever its configured paths
  are, has the scheme and the network location of its base URL, which is http or https and not a
  blocked metadata host.
\<close>

theorem backend_requests_confined:
  assumes "backend_post_init bracket_ok b0 = Inr b"
    and "url \<in> {chat_url b, completions_url b, models_url b, health_url b, metrics_url b}"
  shows "\<exists>scheme netloc host. urlsplit bracket_ok url = Inr (scheme, netloc) \<and>
    urlsplit bracket_ok (be_base_url b) = Inr (scheme, netloc) \<and> scheme \<in> {''http'', ''https''} \<and>
    hostname_of netloc = Some host \<and> host \<notin> blocked_backend_hosts"
proof -
  have v: "url_vetted bracket_ok (be_base_url b)" by (rule backend_post_init_vetted [OF assms(1)])
  have "urlsplit bracket_ok url = urlsplit bracket_ok (be_base_url b)"
    using assms(2) backend_url_host [OF v]
    by (auto simp: chat_url_def completions_url_def models_url_def health_url_def metrics_url_def)
  with v show ?thesis by (auto simp: url_vetted_def)
qed

theorem backend_requests_confined_witness:
  "\<exists>b. backend_post_init (\<lambda>n. True) (backend_default ''a'' ''http://10.0.0.5:8000/'') = Inr b \<and>
     urlsplit (\<lambda>n. True) (metrics_url b) = Inr (''http'', ''10.0.0.5:8000'')"
proof -
  let ?b = "backend_default ''a'' ''http://10.0.0.5:8000/''"
  have "vet_url (\<lambda>n. True) (JStr ''http://10.0.0.5:8000/'') (py_quote ''a'') = Inr ''http://10.0.0.5:8000/''"
    by code_simp
  then have init: "backend_post_init (\<lambda>n. True) ?b = Inr ?b"
    by (simp only: backend_post_init_def validate_backend_url_def backend_default_def backend.simps py_bind.simps)
  have base: "urlsplit (\<lambda>n. True) ''http://10.0.0.5:8000/'' = Inr (''http'', ''10.0.0.5:8000'')" by code_simp
  have "be_base_url ?b = ''http://10.0.0.5:8000/''" by (simp only: backend_default_def backend.simps)
  with backend_requests_confined [OF init, of "metrics_url ?b"] base
  have "urlsplit (\<lambda>n. True) (metrics_url ?b) = Inr (''http'', ''10.0.0.5:8000'')" by auto
  with init show ?thesis by blast
qed

end
