(* ===== verification/Config_File.thy ===== *)
theory Config_File
  imports Backends Config
begin

text \<open>
  \<open>config_file.py\<close>: finding and reading \<open>dio.yaml\<close>, turning it into backends, settings and the model
  map, and writing a starter file from the engines found on the local machine. The file system, the
  YAML and JSON parsers, the settings class of pydantic and the HTTP client are parameters.
\<close>

text \<open>
  What reading a configuration can raise: \<open>ConfigError\<close>, a missing or unreadable file, a document that
  does not parse, another Python exception, or the validation error of the settings class.
\<close>

datatype load_error =
    ConfigError string
  | FileMissing string
  | FileUnreadable
  | BadYaml
  | BadJson
  | Raised py_exc
  | BadSettings

type_synonym 'a loaded = "load_error + 'a"

record config_world =
  cw_read :: "string \<Rightarrow> string loaded"
  cw_yaml :: "(string \<Rightarrow> json option) option"
  cw_loads :: "string \<Rightarrow> json option"
  cw_settings :: "(string \<times> json) list \<Rightarrow> dio_config option"
  cw_bracket_ok :: "string \<Rightarrow> bool"
  cw_text :: py_text
  cw_is_file :: "string list \<Rightarrow> bool"
  cw_cwd :: "string list"

fun raising :: "'a py \<Rightarrow> 'a loaded" where
  "raising (Inl e) = Inl (Raised e)"
| "raising (Inr x) = Inr x"

subsection \<open>Reading the file\<close>

text \<open>\<open>Path.suffix\<close>: from the last dot of the file name, unless it starts or ends the name.\<close>

definition path_suffix :: "string \<Rightarrow> string" where
  "path_suffix p =
     (let name = last_segment (CHR ''/'') p; ext = last_segment (CHR ''.'') name
      in if CHR ''.'' \<in> set name \<and> ext \<noteq> [] \<and> length ext + 1 < length name then CHR ''.'' # ext else [])"

text \<open>\<open>s.replace(c, "", 1)\<close>\<close>

definition drop_first :: "char \<Rightarrow> string \<Rightarrow> string" where
  "drop_first c s = (case partition_at c s of (a, found, b) \<Rightarrow> if found then a @ b else s)"

definition unquote :: "string \<Rightarrow> string" where
  "unquote s = strip_by (\<lambda>c. c = CHR 0x27 \<or> c = CHR 0x22) s"

text \<open>The value of one \<open>key: value\<close> line of the fallback parser.\<close>

definition minimal_value :: "py_text \<Rightarrow> string \<Rightarrow> json py" where
  "minimal_value t val =
     (if startswith val ''['' \<and> endswith val '']''
      then Inr (JArr (map JStr (filter (\<lambda>i. i \<noteq> [])
             (map (\<lambda>v. unquote (py_strip v)) (split_on (CHR '','') (butlast (tl val)))))))
      else if py_lower val \<in> {''true'', ''yes''} then Inr (JBool True)
      else if py_lower val \<in> {''false'', ''no''} then Inr (JBool False)
      else if str_isdigit (drop_first (CHR ''-'') (drop_first (CHR ''.'') val))
      then (if CHR ''.'' \<in> set val then py_bind (py_float t (JStr val)) (\<lambda>x. Inr (JFloat x))
            else py_bind (py_int t (JStr val)) (\<lambda>i. Inr (JInt i)))
      else if val = [] then Inr JNull else Inr (JStr (unquote val)))"

definition minimal_line :: "py_text \<Rightarrow> string \<Rightarrow> (string \<times> json) list \<Rightarrow> (string \<times> json) list py" where
  "minimal_line t line0 result =
     (let line = py_strip line0
      in if line = [] \<or> startswith line ''#'' then Inr result
         else case partition_at (CHR '':'') line of
                (key, found, val) \<Rightarrow>
                  if found
                  then py_bind (minimal_value t (py_strip val)) (\<lambda>v. Inr (AList.update (py_strip key) v result))
                  else Inr result)"

fun minimal_lines :: "py_text \<Rightarrow> string list \<Rightarrow> (string \<times> json) list \<Rightarrow> (string \<times> json) list py" where
  "minimal_lines t [] result = Inr result"
| "minimal_lines t (l # ls) result = py_bind (minimal_line t l result) (minimal_lines t ls)"

definition minimal_yaml_parse :: "py_text \<Rightarrow> string \<Rightarrow> (string \<times> json) list py" where
  "minimal_yaml_parse t txt = minimal_lines t (splitlines txt) []"

definition load_yaml :: "config_world \<Rightarrow> string \<Rightarrow> json loaded" where
  "load_yaml w path =
     py_bind (cw_read w path) (\<lambda>txt.
     if path_suffix path = ''.json''
     then (case cw_loads w txt of None \<Rightarrow> Inl BadJson | Some v \<Rightarrow> Inr v)
     else case cw_yaml w of
            Some safe_load \<Rightarrow>
              (case safe_load txt of None \<Rightarrow> Inl BadYaml | Some v \<Rightarrow> Inr (or_else v (JObj [])))
          | None \<Rightarrow>
              py_bind (raising (minimal_yaml_parse (cw_text w) txt)) (\<lambda>parsed.
              if map_of parsed ''backends'' = None
              then Inl (ConfigError (''PyYAML is required to read this config; the built-in fallback parser ''
                         @ ''cannot represent nested backend lists. Install it with: pip install pyyaml''))
              else Inr (JObj parsed)))"

definition config_names :: "string list" where
  "config_names = [''dio.yaml'', ''dio.yml'', ''dio.json'', ''.dio.yaml'', ''.dio.yml'']"

text \<open>A resolved directory is the list of its components; the root is its own parent.\<close>

fun discover_from :: "(string list \<Rightarrow> bool) \<Rightarrow> nat \<Rightarrow> string list \<Rightarrow> string list option" where
  "discover_from is_file 0 d = None"
| "discover_from is_file (Suc n) d =
     (case List.find is_file (map (\<lambda>name. d @ [name]) config_names) of
        Some candidate \<Rightarrow> Some candidate
      | None \<Rightarrow> if d = [] then None else discover_from is_file n (butlast d))"

definition discover_config :: "(string list \<Rightarrow> bool) \<Rightarrow> string list \<Rightarrow> string list option" where
  "discover_config is_file start = discover_from is_file 10 start"

definition path_text :: "string list \<Rightarrow> string" where
  "path_text d = ''/'' @ join_with ''/'' d"

subsection \<open>Backend entries\<close>

text \<open>
  The \<open>Backend\<close> of an entry: fields that the code copies without looking at them keep the type the
  document gave them.
\<close>

record file_backend =
  fb_id :: json
  fb_base_url :: string
  fb_tier :: json
  fb_model :: json
  fb_total_vram_mb :: real
  fb_free_vram_mb :: real
  fb_api_style :: string
  fb_api_key :: json
  fb_health_path :: json
  fb_metrics_path :: json
  fb_labels :: headers

definition entry_models :: "(string \<times> json) list \<Rightarrow> json" where
  "entry_models d =
     (case or_else (dget d ''models'') (dget d ''model'') of JStr s \<Rightarrow> JArr [JStr s] | v \<Rightarrow> v)"

text \<open>\<open>models[0] if models else None\<close> and \<open>",".join(models)\<close>\<close>

definition primary_model :: "json \<Rightarrow> json py" where
  "primary_model models =
     (if \<not> truthy models then Inr JNull
      else case models of
             JArr (x # xs) \<Rightarrow> Inr x
           | JObj d \<Rightarrow> Inl (KeyError ''0'')
           | _ \<Rightarrow> Inl (TypeError ''object is not subscriptable''))"

fun str_item :: "json \<Rightarrow> string py" where
  "str_item (JStr s) = Inr s"
| "str_item v = Inl (TypeError ''sequence item: expected str instance'')"

definition join_models :: "json \<Rightarrow> string py" where
  "join_models models =
     py_bind (case models of JArr xs \<Rightarrow> Inr xs | JObj d \<Rightarrow> Inr (map (\<lambda>(k, v). JStr k) d)
                | _ \<Rightarrow> Inl (TypeError ''can only join an iterable'')) (\<lambda>xs.
     py_bind (py_map str_item xs) (\<lambda>names. Inr (join_with '','' names)))"

fun lower_of :: "json \<Rightarrow> string py" where
  "lower_of (JStr s) = Inr (py_lower s)"
| "lower_of v = Inl (AttributeError ''lower'')"

fun rstrip_slash :: "json \<Rightarrow> string py" where
  "rstrip_slash (JStr s) = Inr (rstrip_by (\<lambda>c. c = CHR ''/'') s)"
| "rstrip_slash v = Inl (AttributeError ''rstrip'')"

definition engine_style :: "string \<Rightarrow> string" where
  "engine_style engine =
     (if engine = ''ollama'' then ''openai''
      else if engine \<in> {''tgi'', ''text-generation-inference''} then ''tgi_generate'' else ''openai'')"

definition vram_of :: "py_text \<Rightarrow> (string \<times> json) list \<Rightarrow> string \<Rightarrow> real py" where
  "vram_of t d key = py_float t (or_else (dget d key) (dget_def d ''vram'' (JInt 24000)))"

definition build_backend ::
  "(string \<Rightarrow> bool) \<Rightarrow> py_text \<Rightarrow> (string \<times> json) list \<Rightarrow> json \<Rightarrow> json \<Rightarrow> string \<Rightarrow> file_backend py" where
  "build_backend bracket_ok t d bid url engine =
     (let models = (case entry_models d of JNull \<Rightarrow> JArr [] | v \<Rightarrow> v)
      in py_bind (rstrip_slash url) (\<lambda>base.
         py_bind (primary_model models) (\<lambda>model.
         py_bind (vram_of t d ''total_vram_mb'') (\<lambda>total.
         py_bind (vram_of t d ''free_vram_mb'') (\<lambda>free.
         py_bind (join_models models) (\<lambda>names.
         py_bind (vet_url bracket_ok (JStr base) (py_repr t bid)) (\<lambda>vetted.
         Inr \<lparr>fb_id = bid, fb_base_url = vetted, fb_tier = dget_def d ''tier'' (JStr ''small''),
              fb_model = model, fb_total_vram_mb = total, fb_free_vram_mb = free,
              fb_api_style = engine_style engine, fb_api_key = dget d ''api_key'',
              fb_health_path = dget_def d ''health_path'' (JStr ''/health''),
              fb_metrics_path = dget_def d ''metrics_path'' (JStr ''/metrics''),
              fb_labels = [(''engine'', engine), (''models'', names)]\<rparr>)))))))"

definition parse_backend :: "(string \<Rightarrow> bool) \<Rightarrow> py_text \<Rightarrow> json \<Rightarrow> nat \<Rightarrow> file_backend py" where
  "parse_backend bracket_ok t raw index =
     (case raw of
        JObj d \<Rightarrow>
          (let bid = or_else (or_else (dget d ''id'') (dget d ''name'')) (JStr (''backend-'' @ show_nat index));
               url = or_else (or_else (dget d ''url'') (dget d ''base_url'')) (dget_def d ''address'' (JStr []))
           in if \<not> truthy url
              then Inl (ValueError (''Backend '' @ [CHR 0x27] @ py_str t bid @ [CHR 0x27] @ '' missing ''
                         @ [CHR 0x27] @ ''url'' @ [CHR 0x27] @ '' field''))
              else py_bind (lower_of (or_else (or_else (dget d ''engine'') (dget d ''type'')) (JStr ''openai'')))
                     (build_backend bracket_ok t d bid url))
      | _ \<Rightarrow> Inl (AttributeError ''get''))"

text \<open>The entry as a typed \<open>Backend\<close>, when the copied fields have the annotated types.\<close>

fun opt_str :: "json \<Rightarrow> string option option" where
  "opt_str JNull = Some None"
| "opt_str (JStr s) = Some (Some s)"
| "opt_str v = None"

definition as_backend :: "file_backend \<Rightarrow> backend option" where
  "as_backend f =
     (case (fb_id f, fb_tier f, fb_health_path f, fb_metrics_path f, opt_str (fb_model f), opt_str (fb_api_key f)) of
        (JStr bid, JStr tier, JStr health, JStr metrics, Some model, Some key) \<Rightarrow>
          Some ((backend_default bid (fb_base_url f))
                  \<lparr>be_tier := tier, be_model := model, be_total_vram_mb := fb_total_vram_mb f,
                   be_free_vram_mb := fb_free_vram_mb f, be_api_style := fb_api_style f, be_api_key := key,
                   be_health_path := health, be_metrics_path := metrics, be_labels := fb_labels f\<rparr>)
      | _ \<Rightarrow> None)"

subsection \<open>Loading\<close>

fun type_name :: "json \<Rightarrow> string" where
  "type_name JNull = ''NoneType''"
| "type_name (JBool b) = ''bool''"
| "type_name (JInt i) = ''int''"
| "type_name (JFloat x) = ''float''"
| "type_name (JStr s) = ''str''"
| "type_name (JArr xs) = ''list''"
| "type_name (JObj d) = ''dict''"

text \<open>The list of entries, with the \<open>{id: url}\<close> shorthand expanded.\<close>

definition raw_entries :: "string \<Rightarrow> (string \<times> json) list \<Rightarrow> json list loaded" where
  "raw_entries p data =
     (let raw = or_else (or_else (dget data ''backends'') (dget data ''backend'')) (JArr [])
      in case raw of
           JArr xs \<Rightarrow> Inr xs
         | JObj d \<Rightarrow> Inr (map (\<lambda>(k, v). JObj [(''id'', JStr k), (''url'', v)]) d)
         | v \<Rightarrow> Inl (ConfigError (p @ '': '' @ [CHR 0x27] @ ''backends'' @ [CHR 0x27]
                      @ '' must be a list of backend entries, got '' @ type_name v @ ''.'')))"

definition entry_of :: "json \<Rightarrow> nat \<Rightarrow> json" where
  "entry_of raw i =
     (case raw of JStr s \<Rightarrow> JObj [(''url'', JStr s), (''id'', JStr (''b'' @ show_nat i))] | v \<Rightarrow> v)"

type_synonym model_map = "json list dict"

text \<open>\<open>model_map.setdefault(model_name, []).append(b.id)\<close>\<close>

definition bind_model :: "json \<Rightarrow> string \<Rightarrow> model_map \<Rightarrow> model_map" where
  "bind_model bid name mm =
     AList.update name ((case map_of mm name of None \<Rightarrow> [] | Some ids \<Rightarrow> ids) @ [bid]) mm"

text \<open>The names an entry binds: \<open>for model_name in models or []\<close> after the entry was parsed.\<close>

definition bound_models :: "json \<Rightarrow> string list" where
  "bound_models raw =
     (case raw of
        JObj d \<Rightarrow> (case entry_models d of
                     JArr xs \<Rightarrow> concat (map (\<lambda>v. case v of JStr s \<Rightarrow> [s] | _ \<Rightarrow> []) xs)
                   | _ \<Rightarrow> [])
      | _ \<Rightarrow> [])"

fun load_entries ::
  "config_world \<Rightarrow> string \<Rightarrow> nat \<Rightarrow> json list \<Rightarrow> file_backend list \<Rightarrow> model_map \<Rightarrow>
   (file_backend list \<times> model_map) loaded" where
  "load_entries w p i [] backends mm = Inr (backends, mm)"
| "load_entries w p i (raw # raws) backends mm =
     (let entry = entry_of raw i
      in case parse_backend (cw_bracket_ok w) (cw_text w) entry i of
           Inl (ValueError e) \<Rightarrow> Inl (ConfigError (p @ '': '' @ e))
         | Inl e \<Rightarrow> Inl (Raised e)
         | Inr b \<Rightarrow>
             load_entries w p (i + 1) raws (backends @ [b])
               (fold (bind_model (fb_id b)) (bound_models entry) mm))"

text \<open>The two patterns of the settings: copied when truthy, converted when not None.\<close>

type_synonym kwargs_step = "(string \<times> json) list \<Rightarrow> (string \<times> json) list py"

definition put_truthy :: "json \<Rightarrow> string \<Rightarrow> string \<Rightarrow> kwargs_step" where
  "put_truthy sec key target kw =
     py_bind (jget_def sec key JNull) (\<lambda>v. Inr (if truthy v then AList.update target v kw else kw))"

definition put_given :: "(json \<Rightarrow> json py) \<Rightarrow> json \<Rightarrow> string \<Rightarrow> string \<Rightarrow> kwargs_step" where
  "put_given conv sec key target kw =
     py_bind (jget_def sec key JNull) (\<lambda>v.
     if v = JNull then Inr kw else py_bind (conv v) (\<lambda>x. Inr (AList.update target x kw)))"

definition as_float :: "py_text \<Rightarrow> json \<Rightarrow> json py" where
  "as_float t v = py_bind (py_float t v) (\<lambda>x. Inr (JFloat x))"

definition as_int :: "py_text \<Rightarrow> json \<Rightarrow> json py" where
  "as_int t v = py_bind (py_int t v) (\<lambda>i. Inr (JInt i))"

definition as_bool :: "json \<Rightarrow> json py" where
  "as_bool v = Inr (JBool (truthy v))"

fun run_steps :: "kwargs_step list \<Rightarrow> kwargs_step" where
  "run_steps [] kw = Inr kw"
| "run_steps (f # fs) kw = py_bind (f kw) (run_steps fs)"

text \<open>The latency budget of the admission section, else the one of the scheduler section.\<close>

definition put_slo :: "py_text \<Rightarrow> json \<Rightarrow> json \<Rightarrow> kwargs_step" where
  "put_slo t admission sched kw =
     py_bind (jget_def admission ''slo_ms'' JNull) (\<lambda>v.
     put_given (as_float t) (if v = JNull then sched else admission) ''slo_ms'' ''slo_ms'' kw)"

definition put_admission_off :: "json \<Rightarrow> kwargs_step" where
  "put_admission_off admission kw =
     py_bind (jget_def admission ''off'' JNull) (\<lambda>off.
     py_bind (jget_def admission ''disabled'' JNull) (\<lambda>disabled.
     Inr (if truthy (or_else off disabled) then AList.update ''admission_off'' (JBool True) kw else kw)))"

definition put_tokenizer :: "json \<Rightarrow> kwargs_step" where
  "put_tokenizer sched kw =
     py_bind (jget_def sched ''tokenizer'' JNull) (\<lambda>v.
     Inr (if truthy v then AList.update ''use_tokenizer'' (JBool True) (AList.update ''tokenizer_name'' v kw)
          else kw))"

definition config_kwargs :: "py_text \<Rightarrow> (string \<times> json) list \<Rightarrow> (string \<times> json) list py" where
  "config_kwargs t data =
     (let section = (\<lambda>k. or_else (dget data k) (JObj []));
          sched = section ''scheduler''; admission = section ''admission''; server = section ''server'';
          security = section ''security''
      in run_steps
           [put_truthy sched ''strategy'' ''strategy'',
            put_truthy sched ''nlms_mode'' ''nlms_mode'',
            put_truthy sched ''ablation'' ''ablation'',
            put_given (as_float t) sched ''cache_bonus_ms'' ''cache_bonus_ms'',
            put_given (as_int t) sched ''affinity_cache_size'' ''affinity_cache_size'',
            put_given as_bool sched ''learner_robust'' ''learner_robust'',
            put_truthy admission ''mode'' ''admission_mode'',
            put_slo t admission sched,
            put_given (as_float t) admission ''percentile'' ''admission_percentile'',
            put_admission_off admission,
            put_given as_bool sched ''engine_metrics'' ''engine_metrics'',
            put_truthy server ''host'' ''host'',
            put_given (as_int t) server ''port'' ''port'',
            put_given (as_float t) server ''timeout'' ''request_timeout_s'',
            put_given (as_int t) server ''body_size_cap_bytes'' ''body_size_cap_bytes'',
            put_given (as_int t) server ''prompt_chars_cap'' ''prompt_chars_cap'',
            put_truthy security ''api_key'' ''api_key'',
            put_given as_bool security ''protect_debug'' ''protect_debug'',
            put_given as_bool security ''data_plane_auth'' ''data_plane_auth'',
            put_tokenizer sched] [])"

definition load_config_file ::
  "config_world \<Rightarrow> string option \<Rightarrow> (file_backend list \<times> dio_config \<times> model_map) loaded" where
  "load_config_file w path =
     py_bind (if given path then Inr (the path)
              else case discover_config (cw_is_file w) (cw_cwd w) of
                     None \<Rightarrow> Inl (FileMissing ''No dio.yaml found. Create one with: dio init'')
                   | Some c \<Rightarrow> Inr (path_text c)) (\<lambda>p.
     py_bind (load_yaml w p) (\<lambda>doc.
     case doc of
       JObj data \<Rightarrow>
         py_bind (raw_entries p data) (\<lambda>raws.
         py_bind (load_entries w p 0 raws [] []) (\<lambda>(backends, mm).
         py_bind (raising (config_kwargs (cw_text w) data)) (\<lambda>kw.
         case cw_settings w kw of
           None \<Rightarrow> Inl BadSettings
         | Some cfg \<Rightarrow> Inr (backends, cfg, mm))))
     | v \<Rightarrow> Inl (ConfigError (p @ '': expected a mapping at the top level but found '' @ type_name v
                  @ ''. See dio.example.yaml for the expected shape.''))))"

subsection \<open>Detecting local engines\<close>

record found_engine =
  fe_id :: string
  fe_url :: string
  fe_tier :: string
  fe_engine :: string
  fe_models :: "json list"

text \<open>A probe of one port: the engine it stands for, its listing, and how a listed model is named.\<close>

record probe =
  pb_found :: found_engine
  pb_path :: string
  pb_key :: string
  pb_name :: "json \<Rightarrow> json py"

definition tag_name :: "json \<Rightarrow> json py" where
  "tag_name m =
     py_bind (jget_def m ''name'' JNull) (\<lambda>n.
     if truthy n then Inr n else jget_def m ''model'' JNull)"

definition openai_probe :: "string \<Rightarrow> string \<Rightarrow> string \<Rightarrow> probe" where
  "openai_probe bid url engine =
     \<lparr>pb_found = \<lparr>fe_id = bid, fe_url = url, fe_tier = ''large'', fe_engine = engine,
                  fe_models = [JStr ''default'']\<rparr>,
      pb_path = ''/v1/models'', pb_key = ''data'', pb_name = (\<lambda>m. jget_def m ''id'' JNull)\<rparr>"

definition local_probes :: "probe list" where
  "local_probes =
     [\<lparr>pb_found = \<lparr>fe_id = ''ollama-local'', fe_url = ''http://127.0.0.1:11434'', fe_tier = ''small'',
                   fe_engine = ''ollama'', fe_models = [JStr ''llama3'']\<rparr>,
       pb_path = ''/api/tags'', pb_key = ''models'', pb_name = tag_name\<rparr>,
      openai_probe ''vllm-primary'' ''http://127.0.0.1:8000'' ''vllm'',
      openai_probe ''vllm-secondary'' ''http://127.0.0.1:8001'' ''vllm'',
      openai_probe ''sglang-local'' ''http://127.0.0.1:30000'' ''sglang'']"

text \<open>
  One probe: an exception, of the client or of the reading of the answer, finds nothing; an engine
  that lists no usable name keeps the default model of its entry.
\<close>

definition run_probe :: "(string \<Rightarrow> (int \<times> json option) option) \<Rightarrow> probe \<Rightarrow> found_engine list" where
  "run_probe fetch pb =
     (case fetch (fe_url (pb_found pb) @ pb_path pb) of
        Some (status, Some data) \<Rightarrow>
          (if status \<noteq> 200 then []
           else case py_bind (jget_def data (pb_key pb) (JArr [])) (\<lambda>v.
                     py_bind (py_iter v) (py_map (pb_name pb))) of
                  Inl e \<Rightarrow> []
                | Inr models \<Rightarrow>
                    (let named = filter truthy models
                     in [if named = [] then pb_found pb else (pb_found pb)\<lparr>fe_models := named\<rparr>]))
      | _ \<Rightarrow> [])"

definition detect_local_backends :: "(string \<Rightarrow> (int \<times> json option) option) \<Rightarrow> found_engine list" where
  "detect_local_backends fetch = concat (map (run_probe fetch) local_probes)"

subsection \<open>Starter files\<close>

definition example_lines :: "string list" where
  "example_lines =
     [''# DIO Configuration - Distributed Inference Orchestrator'',
      ''# Docs: https://github.com/nisaral/DIO'',
      [],
      ''backends:'',
      ''  # Local vLLM instance'',
      ''  - id: local-gpu'',
      ''    url: http://localhost:8000'',
      ''    tier: large'',
      ''    engine: vllm'',
      ''    models:'',
      ''      - meta-llama/Llama-3.2-3B-Instruct'',
      [],
      ''  # Second GPU / remote server'',
      ''  # - id: remote-a100'',
      ''  #   url: http://10.0.1.5:8000'',
      ''  #   tier: large'',
      ''  #   engine: vllm'',
      ''  #   vram: 81920'',
      ''  #   models:'',
      ''  #     - meta-llama/Llama-3.1-70B-Instruct'',
      [],
      ''  # Ollama (local CPU/GPU)'',
      ''  # - id: ollama'',
      ''  #   url: http://localhost:11434'',
      ''  #   tier: small'',
      ''  #   engine: ollama'',
      ''  #   models:'',
      ''  #     - llama3'',
      ''  #     - codellama'',
      ''  #     - mistral'',
      [],
      ''scheduler:'',
      ''  strategy: nlms        # nlms | rls | ewma | static | round_robin | least_loaded'',
      ''  nlms_mode: dual       # dual | single'',
      ''  engine_metrics: true  # scrape vLLM /metrics for KV-cache-aware routing'',
      ''  cache_bonus_ms: 200   # session affinity bonus for multi-turn'',
      ''  affinity_cache_size: 2048  # how many session prefixes stay pinned in the LRU'',
      [],
      ''admission:'',
      ''  mode: empirical       # empirical | strict | rank_only | absolute'',
      ''  slo_ms: 30000         # max acceptable e2e latency (ms)'',
      ''  percentile: 95        # for empirical / strict mode'',
      [],
      ''server:'',
      ''  host: 0.0.0.0'',
      ''  port: 8085'',
      ''  timeout: 300          # request timeout (s)'']"

definition generate_example_config :: string where
  "generate_example_config = join_with [CHR 0x0A] example_lines @ [CHR 0x0A]"

definition engine_lines :: "py_text \<Rightarrow> found_engine \<Rightarrow> string list" where
  "engine_lines t b =
     [''  - id: '' @ fe_id b, ''    url: '' @ fe_url b, ''    tier: '' @ fe_tier b, ''    engine: '' @ fe_engine b]
     @ (if fe_models b = [] then []
        else ''    models:'' # map (\<lambda>m. ''      - '' @ py_str t m) (fe_models b))
     @ [[]]"

definition detected_head :: "string list" where
  "detected_head =
     [''# DIO Configuration - Auto-discovered Local Backends'',
      ''# Generated by: dio init'',
      ''# Docs: https://github.com/nisaral/DIO'',
      [],
      ''backends:'']"

definition detected_tail :: "string list" where
  "detected_tail =
     [''scheduler:'',
      ''  strategy: nlms        # nlms | rls | ewma | static | round_robin | least_loaded'',
      ''  nlms_mode: dual       # dual | single'',
      ''  engine_metrics: true  # scrape vLLM /metrics for KV-cache-aware routing'',
      ''  cache_bonus_ms: 200   # session affinity bonus for multi-turn'',
      ''  affinity_cache_size: 2048  # pinned session prefixes in the LRU'',
      [],
      ''admission:'',
      ''  mode: empirical       # empirical | strict | rank_only | absolute'',
      ''  slo_ms: 30000         # max acceptable e2e latency (ms)'',
      ''  percentile: 95        # for empirical / strict mode'',
      [],
      ''server:'',
      ''  host: 0.0.0.0'',
      ''  port: 8085'',
      ''  timeout: 300          # request timeout (s)'',
      []]"

definition generate_detected_config :: "py_text \<Rightarrow> found_engine list \<Rightarrow> string" where
  "generate_detected_config t discovered =
     (if discovered = [] then generate_example_config
      else join_with [CHR 0x0A] (detected_head @ concat (map (engine_lines t) discovered) @ detected_tail))"

end
