(* ===== verification/Cli.thy ===== *)
theory Cli
  imports Config_File
begin

text \<open>
  The decisions of \<open>cli.py\<close>: how backend flags are read, which configuration \<open>dio serve\<close> starts
  with, what \<open>dio init\<close> writes, and the exit codes of the commands that load a file. Printing, the
  web server and the option parser are not modelled.
\<close>

subsection \<open>Backend flags\<close>

text \<open>\<open>s.split(sep, 1)\<close> at the first occurrence of a non-empty separator, None without one.\<close>

fun split_once :: "string \<Rightarrow> string \<Rightarrow> (string \<times> string) option" where
  "split_once sep [] = None"
| "split_once sep (c # cs) =
     (if startswith (c # cs) sep then Some ([], drop (length sep) (c # cs))
      else case split_once sep cs of None \<Rightarrow> None | Some (a, b) \<Rightarrow> Some (c # a, b))"

definition flag_backend ::
  "(string \<Rightarrow> bool) \<Rightarrow> string list \<Rightarrow> real list \<Rightarrow> nat \<times> string \<Rightarrow> backend py" where
  "flag_backend bracket_ok tiers vrams entry =
     (case entry of (i, raw) \<Rightarrow>
       (let tier0 = (if i < length tiers then tiers ! i else ''small'');
            vram = (if i < length vrams then vrams ! i else 24000);
            (bid, url0) = (if CHR ''='' \<in> set raw \<and> \<not> startswith raw ''http''
                           then (case partition_at (CHR ''='') raw of (a, _, b) \<Rightarrow> (a, b))
                           else (''b'' @ show_nat i, raw));
            (url, tier) = (case split_once '';tier='' url0 of Some (u, t) \<Rightarrow> (u, t) | None \<Rightarrow> (url0, tier0))
        in backend_post_init bracket_ok
             ((backend_default (py_strip bid) (py_strip url))
                \<lparr>be_tier := py_strip tier, be_total_vram_mb := vram, be_free_vram_mb := vram\<rparr>)))"

definition parse_backends ::
  "(string \<Rightarrow> bool) \<Rightarrow> string list \<Rightarrow> string list \<Rightarrow> real list \<Rightarrow> backend list py" where
  "parse_backends bracket_ok values tiers vrams =
     py_map (flag_backend bracket_ok tiers vrams) (zip [0..<length values] values)"

subsection \<open>dio serve\<close>

record serve_args =
  sa_backend :: "string list"
  sa_config_file :: "string option"
  sa_host :: string
  sa_port :: int
  sa_strategy :: string
  sa_nlms_mode :: string
  sa_slo_ms :: real
  sa_admission_off :: bool
  sa_admission_mode :: string
  sa_tokenizer :: string
  sa_engine_metrics :: bool
  sa_cache_bonus_ms :: real
  sa_ablation :: string
  sa_tier :: "string list"
  sa_vram :: "real list"

definition serve_defaults :: serve_args where
  "serve_defaults =
     \<lparr>sa_backend = [], sa_config_file = None, sa_host = ''0.0.0.0'', sa_port = 8085, sa_strategy = ''nlms'',
      sa_nlms_mode = ''dual'', sa_slo_ms = 5000, sa_admission_off = False, sa_admission_mode = ''empirical'',
      sa_tokenizer = [], sa_engine_metrics = True, sa_cache_bonus_ms = 200, sa_ablation = ''full'',
      sa_tier = [], sa_vram = []\<rparr>"

definition flag_kwargs :: "serve_args \<Rightarrow> (string \<times> json) list" where
  "flag_kwargs a =
     [(''host'', JStr (sa_host a)), (''port'', JInt (sa_port a)), (''strategy'', JStr (sa_strategy a)),
      (''nlms_mode'', JStr (sa_nlms_mode a)), (''slo_ms'', JFloat (sa_slo_ms a)),
      (''admission_off'', JBool (sa_admission_off a)), (''admission_mode'', JStr (sa_admission_mode a)),
      (''tokenizer_name'', if sa_tokenizer a = [] then JNull else JStr (sa_tokenizer a)),
      (''use_tokenizer'', JBool (sa_tokenizer a \<noteq> [])), (''engine_metrics'', JBool (sa_engine_metrics a)),
      (''cache_bonus_ms'', JFloat (sa_cache_bonus_ms a)), (''ablation'', JStr (sa_ablation a))]"

text \<open>How a command ends: an exit code, an exception that is not caught, or what it goes on with.\<close>

datatype 'a command = Exit int | Crash load_error | Runs 'a

text \<open>The pool to serve: from the file or from the flags, with the settings and the model map.\<close>

type_synonym stack = "(file_backend list + backend list) \<times> dio_config \<times> model_map"

definition from_flags :: "config_world \<Rightarrow> serve_args \<Rightarrow> stack command" where
  "from_flags w a =
     (case parse_backends (cw_bracket_ok w) (sa_backend a) (sa_tier a) (sa_vram a) of
        Inl e \<Rightarrow> Crash (Raised e)
      | Inr bs \<Rightarrow>
          (case cw_settings w (flag_kwargs a) of
             None \<Rightarrow> Crash BadSettings
           | Some cfg \<Rightarrow> Runs (Inr bs, cfg, [])))"

definition override_listen :: "serve_args \<Rightarrow> dio_config \<Rightarrow> dio_config" where
  "override_listen a cfg =
     (let c1 = (if sa_host a \<noteq> ''0.0.0.0'' \<or> cf_host cfg = [] then cfg\<lparr>cf_host := sa_host a\<rparr> else cfg)
      in if sa_port a \<noteq> 8085 then c1\<lparr>cf_port := sa_port a\<rparr> else c1)"

definition serve :: "config_world \<Rightarrow> serve_args \<Rightarrow> stack command" where
  "serve w a =
     (if given (sa_config_file a) \<or>
         (sa_backend a = [] \<and> discover_config (cw_is_file w) (cw_cwd w) \<noteq> None)
      then case load_config_file w (sa_config_file a) of
             Inl (ConfigError e) \<Rightarrow> Exit 2
           | Inl (FileMissing e) \<Rightarrow> if sa_backend a = [] then Exit 1 else from_flags w a
           | Inl e \<Rightarrow> Crash e
           | Inr (file_backends, cfg, mm) \<Rightarrow>
               (if sa_backend a = [] then Runs (Inl file_backends, override_listen a cfg, mm)
                else case parse_backends (cw_bracket_ok w) (sa_backend a) (sa_tier a) (sa_vram a) of
                       Inl e \<Rightarrow> Crash (Raised e)
                     | Inr bs \<Rightarrow> Runs (Inr bs, override_listen a cfg, mm))
      else if sa_backend a = [] then Exit 1 else from_flags w a)"

text \<open>The host of the URL that is shown to the user.\<close>

definition client_host :: "dio_config \<Rightarrow> string" where
  "client_host cfg = (if cf_host cfg \<in> {''0.0.0.0'', ''::'', []} then ''127.0.0.1'' else cf_host cfg)"

subsection \<open>dio init, dio config, dio check-config\<close>

text \<open>\<open>detected\<close> is None when the detection raised.\<close>

definition init_command ::
  "py_text \<Rightarrow> (string \<Rightarrow> bool) \<Rightarrow> string \<Rightarrow> bool \<Rightarrow> bool \<Rightarrow> found_engine list option \<Rightarrow> string command" where
  "init_command t exists output detect force detected =
     (if exists output \<and> \<not> force then Exit 1
      else let discovered = (if detect then (case detected of None \<Rightarrow> [] | Some xs \<Rightarrow> xs) else [])
           in Runs (if discovered \<noteq> [] then generate_detected_config t discovered
                    else generate_example_config))"

definition config_show :: "config_world \<Rightarrow> string option \<Rightarrow> (file_backend list \<times> dio_config \<times> model_map) command" where
  "config_show w path =
     (case load_config_file w path of
        Inl (ConfigError e) \<Rightarrow> Exit 2
      | Inl (FileMissing e) \<Rightarrow> Exit 1
      | Inl e \<Rightarrow> Crash e
      | Inr r \<Rightarrow> Runs r)"

text \<open>\<open>check-config\<close> imports PyYAML itself, which is therefore present.\<close>

definition check_config :: "config_world \<Rightarrow> string \<Rightarrow> (file_backend list \<times> dio_config \<times> model_map) command" where
  "check_config w file =
     (case load_config_file w (Some file) of
        Inl (FileMissing e) \<Rightarrow> Exit 1
      | Inl FileUnreadable \<Rightarrow> Exit 1
      | Inl (ConfigError e) \<Rightarrow> Exit 2
      | Inl BadYaml \<Rightarrow> Exit 2
      | Inl BadJson \<Rightarrow> Exit 2
      | Inl e \<Rightarrow> Crash e
      | Inr r \<Rightarrow> Runs r)"

subsection \<open>bench-smoke\<close>

text \<open>The summary of one strategy: requests answered with 200, median and 99th percentile.\<close>

definition bench_row :: "int list \<Rightarrow> real list \<Rightarrow> nat \<times> real option \<times> real option" where
  "bench_row codes lats =
     (let xs = sort lats
      in (length (filter (\<lambda>c. c = 200) codes),
          if xs = [] then None else Some (xs ! (length xs div 2)),
          if xs = [] then None else Some (xs ! nat (py_trunc (0.99 * of_nat (length xs - 1))))))"

end
