(* ===== verification/Mcp.thy ===== *)
theory Mcp
  imports Config_File Gateway_Requests
begin

text \<open>
  \<open>mcp.py\<close>: the Model Context Protocol server, a JSON-RPC 2.0 loop over lines whose four tools ask
  the gateway over HTTP. The client is a parameter that answers a request or raises with a text; so
  is the text of a Python exception. One message is one function, from the request to its reply or
  to silence.
\<close>

subsection \<open>The world of one request\<close>

record http_reply =
  hr_status :: int
  hr_json :: "string + json"
  hr_text :: string
  hr_headers :: headers

record mcp_env =
  me_text :: py_text
  me_exc :: "py_exc \<Rightarrow> string"
  me_get :: "string \<Rightarrow> string + http_reply"
  me_post :: "string \<Rightarrow> json \<Rightarrow> string + http_reply"
  me_world :: config_world
  me_gateway_url :: string

text \<open>A computation that may raise, with the text of the exception.\<close>

fun told :: "mcp_env \<Rightarrow> 'a py \<Rightarrow> string + 'a" where
  "told env (Inl e) = Inl (me_exc env e)"
| "told env (Inr x) = Inr x"

definition mcp_gateway_url :: "string \<Rightarrow> string" where
  "mcp_gateway_url url = rstrip_by (\<lambda>c. c = CHR ''/'') url"

definition json_or :: "json \<Rightarrow> http_reply \<Rightarrow> string + json" where
  "json_or v r = (if hr_status r = 200 then hr_json r else Inr v)"

subsection \<open>The tools\<close>

definition online_models :: "mcp_env \<Rightarrow> string + json" where
  "online_models env =
     py_bind (me_get env (me_gateway_url env @ ''/v1/models'')) (\<lambda>r.
     py_bind (me_get env (me_gateway_url env @ ''/health'')) (\<lambda>h.
     py_bind (if hr_status r = 200
              then py_bind (hr_json r) (\<lambda>v. told env (jget_def v ''data'' (JArr []))) else Inr (JArr [])) (\<lambda>models.
     py_bind (json_or (JObj []) h) (\<lambda>health.
     py_bind (told env (py_bind (py_iter models) (py_map (\<lambda>m. jget_def m ''id'' JNull)))) (\<lambda>ids.
     Inr (JObj [(''status'', JStr ''online''), (''gateway_url'', JStr (me_gateway_url env)),
                (''models'', JArr ids), (''model_details'', models), (''cluster_health'', health)]))))))"

text \<open>The answer from a local \<open>dio.yaml\<close>, when there is one that loads.\<close>

definition local_models :: "mcp_env \<Rightarrow> json option" where
  "local_models env =
     (case discover_config (cw_is_file (me_world env)) (cw_cwd (me_world env)) of
        None \<Rightarrow> None
      | Some path \<Rightarrow>
          (case load_config_file (me_world env) (Some (path_text path)) of
             Inl e \<Rightarrow> None
           | Inr (backends, cfg, mm) \<Rightarrow>
               Some (JObj [(''status'', JStr ''gateway_offline (loaded from local dio.yaml)''),
                 (''gateway_url'', JStr (me_gateway_url env)), (''config_file'', JStr (path_text path)),
                 (''models'', or_else (JArr (map (\<lambda>(k, ids). JStr k) mm))
                                (JArr (filter truthy (map fb_model backends)))),
                 (''backends'', JArr (map (\<lambda>b. JObj [(''id'', fb_id b), (''url'', JStr (fb_base_url b)),
                                                  (''tier'', fb_tier b)]) backends)),
                 (''strategy'', JStr (cf_strategy cfg))])))"

definition get_models :: "mcp_env \<Rightarrow> json" where
  "get_models env =
     (case online_models env of
        Inr v \<Rightarrow> v
      | Inl e \<Rightarrow>
          (case local_models env of
             Some v \<Rightarrow> v
           | None \<Rightarrow> JObj [(''status'', JStr ''offline''), (''gateway_url'', JStr (me_gateway_url env)),
               (''error'', JStr (''Could not connect to DIO gateway at '' @ me_gateway_url env @ '': '' @ e)),
               (''hint'', JStr ''Start the gateway with: dio serve'')]))"

text \<open>A value in arithmetic, and \<open>round(x, n)\<close>.\<close>

fun py_num :: "json \<Rightarrow> real py" where
  "py_num (JBool b) = Inr (if b then 1 else 0)"
| "py_num (JInt i) = Inr (of_int i)"
| "py_num (JFloat x) = Inr x"
| "py_num v = Inl (TypeError ''unsupported operand type(s)'')"

definition float_or :: "py_text \<Rightarrow> json \<Rightarrow> string \<Rightarrow> real \<Rightarrow> real py" where
  "float_or t w key d = py_bind (jget_def w key JNull) (\<lambda>v. py_float t (or_else v (JFloat d)))"

text \<open>One candidate: its id, its score and the entry that is reported.\<close>

record candidate =
  cd_id :: string
  cd_score :: real
  cd_entry :: json

definition predict_entry :: "py_text \<Rightarrow> json \<Rightarrow> string \<times> json \<Rightarrow> candidate py" where
  "predict_entry t est entry =
     (case entry of (wid, w) \<Rightarrow>
     py_bind (float_or t w ''fast_slope'' 4) (\<lambda>fast_s.
     py_bind (float_or t w ''slow_slope'' 4) (\<lambda>slow_s.
     py_bind (float_or t w ''alpha'' 0.8) (\<lambda>alpha.
     let eff_slope = alpha * fast_s + (1 - alpha) * slow_s
     in py_bind (float_or t w ''intercept'' 100) (\<lambda>intercept.
        py_bind (py_bind (jget_def w ''pending'' JNull) (\<lambda>v. py_int t (or_else v (JInt 0)))) (\<lambda>pending.
        py_bind (py_num est) (\<lambda>n.
        let y_hat = eff_slope * n + intercept;
            wait_ms = of_int pending * max 10 (y_hat * 0.25)
        in py_bind (float_or t w ''tier_cost'' 0) (\<lambda>tier_cost.
           py_bind (jget_def w ''healthy'' (JBool True)) (\<lambda>healthy.
           let score = round_to 1 (wait_ms + y_hat + tier_cost)
           in Inr \<lparr>cd_id = wid, cd_score = score,
                   cd_entry = JObj [(''backend_id'', JStr wid),
                     (''predicted_execution_ms'', JFloat (round_to 1 y_hat)),
                     (''queue_wait_ms'', JFloat (round_to 1 wait_ms)), (''total_score'', JFloat score),
                     (''pending_requests'', JInt pending),
                     (''learned_slope_ms_per_token'', JFloat (round_to 2 eff_slope)),
                     (''healthy'', healthy)]\<rparr>)))))))))"

fun py_items :: "json \<Rightarrow> (string \<times> json) list py" where
  "py_items (JObj d) = Inr d"
| "py_items v = Inl (AttributeError ''items'')"

definition predict_report :: "json \<Rightarrow> json \<Rightarrow> real \<Rightarrow> candidate list \<Rightarrow> json" where
  "predict_report est model slo_ms candidates =
     (let predictions = sort_key cd_score candidates
      in JObj [(''status'', JStr ''online''), (''estimated_tokens'', est),
           (''model'', or_else model (JStr ''default'')),
           (''recommended_backend'', case predictions of [] \<Rightarrow> JNull | best # _ \<Rightarrow> JStr (cd_id best)),
           (''predicted_latency_ms'', case predictions of [] \<Rightarrow> JNull | best # _ \<Rightarrow> JFloat (cd_score best)),
           (''slo_ms'', JFloat slo_ms),
           (''admissible'', JBool (case predictions of [] \<Rightarrow> False | best # _ \<Rightarrow> cd_score best \<le> slo_ms)),
           (''candidate_backends'', JArr (map cd_entry predictions))])"

definition online_prediction :: "mcp_env \<Rightarrow> json \<Rightarrow> json \<Rightarrow> string + json" where
  "online_prediction env est model =
     py_bind (me_get env (me_gateway_url env @ ''/debug/metrics'')) (\<lambda>r.
     if hr_status r \<noteq> 200
     then Inr (JObj [(''error'', JStr (''Gateway returned status '' @ show_int (hr_status r)))])
     else py_bind (hr_json r) (\<lambda>metrics. told env (
       py_bind (jget_def metrics ''workers'' (JObj [])) (\<lambda>workers.
       py_bind (jget_def metrics ''admission'' (JObj [])) (\<lambda>admission.
       py_bind (py_bind (jget_def admission ''slo_ms'' (JFloat 30000)) (py_float (me_text env))) (\<lambda>slo_ms.
       py_bind (py_items workers) (\<lambda>ws.
       py_bind (py_map (predict_entry (me_text env) est) ws) (\<lambda>candidates.
       Inr (predict_report est model slo_ms candidates)))))))))"

definition estimated_tokens :: "string \<Rightarrow> json \<Rightarrow> json" where
  "estimated_tokens prompt tokens =
     (if tokens = JNull then JInt (max 1 (int (length prompt) div 4)) else tokens)"

definition predict_latency :: "mcp_env \<Rightarrow> string \<Rightarrow> json \<Rightarrow> json \<Rightarrow> string + json" where
  "predict_latency env prompt model tokens =
     (let est = estimated_tokens prompt tokens
      in case online_prediction env est model of
           Inr v \<Rightarrow> Inr v
         | Inl e \<Rightarrow>
             py_bind (told env (py_num est)) (\<lambda>n.
             Inr (JObj [(''status'', JStr ''gateway_offline''), (''estimated_tokens'', est),
               (''model'', or_else model (JStr ''default'')),
               (''predicted_latency_ms'', JFloat (round_to 1 (n * 15 + 100))),
               (''note'', JStr (''Estimated via heuristic (DIO gateway at '' @ me_gateway_url env
                              @ '' is offline: '' @ e @ '')''))])))"

definition route_payload :: "string \<Rightarrow> json \<Rightarrow> int \<Rightarrow> real \<Rightarrow> json" where
  "route_payload prompt model max_tokens temperature =
     JObj ([(''messages'', JArr [JObj [(''role'', JStr ''user''), (''content'', JStr prompt)]]),
            (''max_tokens'', JInt max_tokens), (''temperature'', JFloat temperature)]
           @ (if truthy model then [(''model'', model)] else []))"

text \<open>Header names are compared without case.\<close>

definition header_def :: "headers \<Rightarrow> string \<Rightarrow> string \<Rightarrow> string" where
  "header_def hs name d =
     (case List.find (\<lambda>kv. py_lower (fst kv) = py_lower name) hs of None \<Rightarrow> d | Some kv \<Rightarrow> snd kv)"

definition routed :: "mcp_env \<Rightarrow> json \<Rightarrow> http_reply \<Rightarrow> json \<Rightarrow> json py" where
  "routed env model resp data =
     py_bind (jget_def data ''choices'' JNull) (\<lambda>choices0.
     let choices = or_else choices0 (JArr [])
     in py_bind (if truthy choices
                 then py_bind (py_first choices) (\<lambda>c.
                      py_bind (py_getitem c ''message'') (\<lambda>m. py_getitem m ''content''))
                 else Inr (JStr [])) (\<lambda>content.
        py_bind (py_float (me_text env) (JStr (header_def (hr_headers resp) ''X-DIO-E2E-Ms'' ''0.0''))) (\<lambda>e2e.
        py_bind (jget_def data ''model'' model) (\<lambda>used.
        py_bind (jget_def data ''usage'' (JObj [])) (\<lambda>usage.
        Inr (JObj [(''content'', content),
          (''backend_used'', JStr (header_def (hr_headers resp) ''X-DIO-Backend'' ''unknown'')),
          (''latency_ms'', JFloat e2e), (''model'', used), (''usage'', usage)]))))))"

definition route_prompt :: "mcp_env \<Rightarrow> string \<Rightarrow> json \<Rightarrow> int \<Rightarrow> real \<Rightarrow> json" where
  "route_prompt env prompt model max_tokens temperature =
     (case py_bind (me_post env (me_gateway_url env @ ''/v1/chat/completions'')
                      (route_payload prompt model max_tokens temperature)) (\<lambda>resp.
           if hr_status resp \<noteq> 200
           then Inr (JObj [(''error'', JStr (''Gateway error '' @ show_int (hr_status resp))),
                           (''details'', JStr (hr_text resp))])
           else py_bind (hr_json resp) (\<lambda>data. told env (routed env model resp data))) of
        Inr v \<Rightarrow> v
      | Inl e \<Rightarrow> JObj [(''error'', JStr (''Failed to route prompt: '' @ e))])"

definition cluster_status :: "mcp_env \<Rightarrow> json" where
  "cluster_status env =
     (case py_bind (me_get env (me_gateway_url env @ ''/debug/metrics'')) (\<lambda>m.
           py_bind (me_get env (me_gateway_url env @ ''/debug/engine'')) (\<lambda>eng.
           py_bind (me_get env (me_gateway_url env @ ''/health'')) (\<lambda>h.
           py_bind (json_or (JObj []) h) (\<lambda>gateway.
           py_bind (json_or (JObj []) m) (\<lambda>scheduler.
           py_bind (json_or (JObj []) eng) (\<lambda>engines.
           Inr (JObj [(''status'', JStr ''online''), (''gateway'', gateway), (''scheduler'', scheduler),
                      (''engine_metrics'', engines)]))))))) of
        Inr v \<Rightarrow> v
      | Inl e \<Rightarrow> JObj [(''status'', JStr ''offline''),
          (''error'', JStr (''Could not fetch cluster status: '' @ e))])"

subsection \<open>JSON-RPC\<close>

text \<open>\<open>json.dumps(v, indent=2)\<close>; the level is the number of blanks before an item.\<close>

fun dumps_indent :: "py_text \<Rightarrow> nat \<Rightarrow> json \<Rightarrow> string" where
  "dumps_indent t n (JArr xs) =
     (if xs = [] then ''[]''
      else ''['' @ [CHR 0x0A] @ replicate (n + 2) (CHR '' '')
           @ join_with ('','' @ [CHR 0x0A] @ replicate (n + 2) (CHR '' '')) (map (dumps_indent t (n + 2)) xs)
           @ [CHR 0x0A] @ replicate n (CHR '' '') @ '']'')"
| "dumps_indent t n (JObj d) =
     (if d = [] then ''{}''
      else ''{'' @ [CHR 0x0A] @ replicate (n + 2) (CHR '' '')
           @ join_with ('','' @ [CHR 0x0A] @ replicate (n + 2) (CHR '' ''))
               (map (\<lambda>kv. dumps_str (fst kv) @ '': '' @ dumps_indent t (n + 2) (snd kv)) d)
           @ [CHR 0x0A] @ replicate n (CHR '' '') @ ''}'')"
| "dumps_indent t n v = json_dumps t v"

definition rpc_result :: "json \<Rightarrow> json \<Rightarrow> json" where
  "rpc_result msg_id result = JObj [(''jsonrpc'', JStr ''2.0''), (''id'', msg_id), (''result'', result)]"

definition rpc_error :: "json \<Rightarrow> int \<Rightarrow> string \<Rightarrow> json" where
  "rpc_error msg_id code message =
     JObj [(''jsonrpc'', JStr ''2.0''), (''id'', msg_id),
           (''error'', JObj [(''code'', JInt code), (''message'', JStr message)])]"

definition invalid_request :: json where
  "invalid_request = rpc_error JNull (- 32600) ''Invalid Request''"

definition negotiate :: "py_text \<Rightarrow> (string \<times> json) list \<Rightarrow> string" where
  "negotiate t params =
     (let requested = py_strip (py_str t (or_else (dget params ''protocolVersion'') (JStr [])))
      in if requested \<in> {''2025-06-18'', ''2024-11-05''} then requested else ''2024-11-05'')"

definition server_version :: string where
  "server_version = ''0.4.2''"

definition initialize_result :: "py_text \<Rightarrow> (string \<times> json) list \<Rightarrow> json" where
  "initialize_result t params =
     JObj [(''protocolVersion'', JStr (negotiate t params)), (''capabilities'', JObj [(''tools'', JObj [])]),
           (''serverInfo'', JObj [(''name'', JStr ''dio-mcp''), (''version'', JStr server_version)])]"

definition tool_get_models :: json where
  "tool_get_models =
     JObj [(''name'', JStr ''dio_get_models''),
       (''description'', JStr ''Query DIO gateway for available LLM models, active backends, and cluster health.''),
       (''inputSchema'', JObj ([(''type'', JStr ''object''), (''properties'', JObj [])]))]"

definition tool_predict_latency :: json where
  "tool_predict_latency =
     JObj [(''name'', JStr ''dio_predict_latency''),
       (''description'', JStr (''Get latency and cost predictions before sending requests. Predicts queue delay, execution latency, and optimal backend using DIO'' @ [CHR 0x27] @ ''s dual-timescale NLMS filter.'')),
       (''inputSchema'', JObj ([(''type'', JStr ''object''), (''properties'', JObj [
        (''prompt'', JObj [(''type'', JStr ''string''), (''description'', JStr ''The prompt text or query to estimate'')]),
         (''model'', JObj [(''type'', JStr ''string''), (''description'', JStr ''Target model name (optional)'')]),
         (''tokens'', JObj [(''type'', JStr ''integer''), (''description'', JStr ''Estimated token count (optional)'')])])] @ [(''required'', JArr [JStr ''prompt''])]))]"

definition tool_route_prompt :: json where
  "tool_route_prompt =
     JObj [(''name'', JStr ''dio_route_prompt''),
       (''description'', JStr (''Route a prompt through DIO'' @ [CHR 0x27] @ ''s intelligent NLMS scheduler to the optimal backend and return the completion.'')),
       (''inputSchema'', JObj ([(''type'', JStr ''object''), (''properties'', JObj [
        (''prompt'', JObj [(''type'', JStr ''string''), (''description'', JStr ''Prompt text to send'')]),
         (''model'', JObj [(''type'', JStr ''string''), (''description'', JStr ''Target model name (optional)'')]),
         (''max_tokens'', JObj [(''type'', JStr ''integer''), (''description'', JStr ''Maximum tokens to generate (default: 256)'')]),
         (''temperature'', JObj [(''type'', JStr ''number''), (''description'', JStr ''Sampling temperature (default: 0.7)'')])])] @ [(''required'', JArr [JStr ''prompt''])]))]"

definition tool_cluster_status :: json where
  "tool_cluster_status =
     JObj [(''name'', JStr ''dio_cluster_status''),
       (''description'', JStr ''Get live telemetry from the DIO cluster, including learned worker slopes, KV-cache pressure, and admission goodput statistics.''),
       (''inputSchema'', JObj ([(''type'', JStr ''object''), (''properties'', JObj [])]))]"

definition tool_list :: json where
  "tool_list = JObj [(''tools'', JArr [tool_get_models, tool_predict_latency, tool_route_prompt, tool_cluster_status])]"

text \<open>The answer of a known tool, or None for an unknown one.\<close>

definition run_tool :: "mcp_env \<Rightarrow> json \<Rightarrow> json \<Rightarrow> (string + json) option" where
  "run_tool env tool args =
     (let t = me_text env;
          arg = (\<lambda>k d. told env (jget_def args k d))
      in if tool = JStr ''dio_get_models'' then Some (Inr (get_models env))
         else if tool = JStr ''dio_predict_latency''
         then Some (py_bind (arg ''prompt'' (JStr [])) (\<lambda>prompt.
                    py_bind (arg ''model'' JNull) (\<lambda>model.
                    py_bind (arg ''tokens'' JNull) (\<lambda>tokens.
                    predict_latency env (py_str t prompt) model tokens))))
         else if tool = JStr ''dio_route_prompt''
         then Some (py_bind (arg ''prompt'' (JStr [])) (\<lambda>prompt.
                    py_bind (arg ''model'' JNull) (\<lambda>model.
                    py_bind (arg ''max_tokens'' (JInt 256)) (\<lambda>mt.
                    py_bind (told env (py_int t mt)) (\<lambda>max_tokens.
                    py_bind (arg ''temperature'' (JFloat 0.7)) (\<lambda>temp.
                    py_bind (told env (py_float t temp)) (\<lambda>temperature.
                    Inr (route_prompt env (py_str t prompt) model max_tokens temperature))))))))
         else if tool = JStr ''dio_cluster_status'' then Some (Inr (cluster_status env))
         else None)"

definition tool_text :: "string \<Rightarrow> bool \<Rightarrow> json" where
  "tool_text s is_error =
     JObj [(''content'', JArr [JObj [(''type'', JStr ''text''), (''text'', JStr s)]]), (''isError'', JBool is_error)]"

fun has_key :: "string \<Rightarrow> json \<Rightarrow> bool" where
  "has_key k (JObj d) = (map_of d k \<noteq> None)"
| "has_key k v = False"

definition tools_call :: "mcp_env \<Rightarrow> json \<Rightarrow> (string \<times> json) list \<Rightarrow> json" where
  "tools_call env msg_id params =
     (let tool = dget params ''name''; args = or_else (dget params ''arguments'') (JObj [])
      in case run_tool env tool args of
           None \<Rightarrow> rpc_error msg_id (- 32601)
                     (''Unknown tool '' @ [CHR 0x27] @ py_str (me_text env) tool @ [CHR 0x27])
         | Some (Inr res) \<Rightarrow> rpc_result msg_id (tool_text (dumps_indent (me_text env) 0 res) (has_key ''error'' res))
         | Some (Inl e) \<Rightarrow> rpc_result msg_id (tool_text (''Tool execution failed: '' @ e) True))"

definition handle_request :: "mcp_env \<Rightarrow> json \<Rightarrow> json option" where
  "handle_request env req =
     (case req of
        JObj d \<Rightarrow>
          (let meth = dget d ''method''; msg_id = dget d ''id'';
               params = (case dget d ''params'' of JObj p \<Rightarrow> p | _ \<Rightarrow> [])
           in if map_of d ''id'' = None then None
              else if meth = JStr ''initialize'' then Some (rpc_result msg_id (initialize_result (me_text env) params))
              else if meth \<in> {JStr ''notifications/initialized'', JStr ''initialized''} then None
              else if meth = JStr ''ping'' then Some (rpc_result msg_id (JObj []))
              else if meth = JStr ''tools/list'' then Some (rpc_result msg_id tool_list)
              else if meth = JStr ''tools/call'' then Some (tools_call env msg_id params)
              else Some (rpc_error msg_id (- 32601)
                     (''Method '' @ [CHR 0x27] @ py_str (me_text env) meth @ [CHR 0x27] @ '' not supported'')))
      | _ \<Rightarrow> Some invalid_request)"

text \<open>The replies of a batch, in order; the world of the \<open>i\<close>-th item is \<open>envs i\<close>.\<close>

fun handle_items :: "(nat \<Rightarrow> mcp_env) \<Rightarrow> nat \<Rightarrow> json list \<Rightarrow> json list" where
  "handle_items envs i [] = []"
| "handle_items envs i (item # items) =
     (case handle_request (envs i) item of
        None \<Rightarrow> handle_items envs (i + 1) items
      | Some reply \<Rightarrow> reply # handle_items envs (i + 1) items)"

definition handle_message :: "(nat \<Rightarrow> mcp_env) \<Rightarrow> json \<Rightarrow> json option" where
  "handle_message envs msg =
     (case msg of
        JArr [] \<Rightarrow> Some invalid_request
      | JArr items \<Rightarrow>
          (let replies = handle_items envs 0 items in if replies = [] then None else Some (JArr replies))
      | v \<Rightarrow> handle_request (envs 0) v)"

subsection \<open>The stdio loop\<close>

definition stdio_line :: "(string \<Rightarrow> json option) \<Rightarrow> (nat \<Rightarrow> mcp_env) \<Rightarrow> string \<Rightarrow> string list" where
  "stdio_line loads envs line0 =
     (let line = py_strip line0; t = me_text (envs 0)
      in if line = [] then []
         else case loads line of
                None \<Rightarrow> [json_dumps t (rpc_error JNull (- 32700) ''Parse error'') @ [CHR 0x0A]]
              | Some req \<Rightarrow>
                  (case handle_message envs req of
                     None \<Rightarrow> []
                   | Some resp \<Rightarrow> [json_dumps t resp @ [CHR 0x0A]]))"

text \<open>The loop reads lines until the empty one of the end of the input; it writes the concatenation.\<close>

fun run_stdio :: "(string \<Rightarrow> json option) \<Rightarrow> (nat \<Rightarrow> nat \<Rightarrow> mcp_env) \<Rightarrow> nat \<Rightarrow> string list \<Rightarrow> string list" where
  "run_stdio loads envs k [] = []"
| "run_stdio loads envs k (line # lines) =
     (if line = [] then [] else stdio_line loads (envs k) line @ run_stdio loads envs (k + 1) lines)"

end
