(* ===== verification/Mock_Backend.thy ===== *)
theory Mock_Backend
  imports Backends
begin

text \<open>
  \<open>MockBackendServer\<close> of \<open>backends.py\<close>, the in-process engine of the tests and demos: what its two
  inference handlers answer, streamed and not, with the waits they take. A handler is a function of
  the body and of one clock reading (milliseconds); a stream is the list of its waits and events.
\<close>

record mock_server =
  mk_host :: string
  mk_port :: int
  mk_latency_mult :: real
  mk_decode_ms :: real
  mk_name :: string

definition mock_server_default :: mock_server where
  "mock_server_default =
     \<lparr>mk_host = ''127.0.0.1'', mk_port = 9001, mk_latency_mult = 1, mk_decode_ms = 12, mk_name = ''mock''\<rparr>"

definition mock_base_url :: "mock_server \<Rightarrow> string" where
  "mock_base_url m = ''http://'' @ mk_host m @ '':'' @ show_int (mk_port m)"

definition mock_health :: "mock_server \<Rightarrow> json" where
  "mock_health m = JObj [(''status'', JStr ''ok''), (''backend'', JStr (mk_name m))]"

definition mock_models :: json where
  "mock_models =
     JObj [(''object'', JStr ''list''),
           (''data'', JArr [JObj [(''id'', JStr ''mock-model''), (''object'', JStr ''model''),
                                  (''owned_by'', JStr ''dio'')]])]"

text \<open>A wait of \<open>asyncio.sleep\<close> in seconds, one server-sent event, or an exception that ends the stream.\<close>

datatype sse = Wait real | Event string | Broken py_exc

definition sse_json :: "py_text \<Rightarrow> json \<Rightarrow> sse" where
  "sse_json t v = Event (''data: '' @ json_dumps t v @ [CHR 0x0A, CHR 0x0A])"

definition sse_done :: sse where
  "sse_done = Event (''data: [DONE]'' @ [CHR 0x0A, CHR 0x0A])"

datatype mock_reply = MockJson real json | MockStream "sse list"

text \<open>\<open>v[-1]\<close>\<close>

fun py_last :: "json \<Rightarrow> json py" where
  "py_last (JArr (x # xs)) = Inr (last (x # xs))"
| "py_last (JStr (c # cs)) = Inr (JStr [last (c # cs)])"
| "py_last (JArr []) = Inl (ValueError ''list index out of range'')"
| "py_last (JStr []) = Inl (ValueError ''string index out of range'')"
| "py_last (JObj d) = Inl (KeyError ''-1'')"
| "py_last v = Inl (TypeError ''object is not subscriptable'')"

definition mock_content :: "(string \<times> json) list \<Rightarrow> json py" where
  "mock_content body =
     (let messages = or_else (dget body ''messages'') (JArr [])
      in if truthy messages then py_bind (py_last messages) (\<lambda>m. py_getitem m ''content'')
         else Inr (JStr []))"

definition mock_max_tokens :: "py_text \<Rightarrow> (string \<times> json) list \<Rightarrow> int py" where
  "mock_max_tokens t body = py_int t (or_else (dget body ''max_tokens'') (JInt 64))"

text \<open>The part of the reply text within the token budget, and why generation stopped.\<close>

definition mock_words :: "string \<Rightarrow> int \<Rightarrow> string list" where
  "mock_words text max_tokens = py_take max_tokens (split_on (CHR 0x20) text)"

definition mock_truncated :: "string \<Rightarrow> int \<Rightarrow> bool" where
  "mock_truncated text max_tokens \<longleftrightarrow> int (length (split_on (CHR 0x20) text)) > max_tokens"

definition mock_finish :: "string \<Rightarrow> int \<Rightarrow> string" where
  "mock_finish text max_tokens = (if mock_truncated text max_tokens then ''length'' else ''stop'')"

definition mock_chunk :: "string \<Rightarrow> string \<Rightarrow> int \<Rightarrow> json \<Rightarrow> json list \<Rightarrow> (string \<times> json) list \<Rightarrow> json" where
  "mock_chunk cid obj created model choices extra =
     JObj ([(''id'', JStr cid), (''object'', JStr obj), (''created'', JInt created), (''model'', model),
            (''choices'', JArr choices)] @ extra)"

text \<open>The word chunks: every word but the last is followed by a blank.\<close>

fun mock_word_texts :: "string list \<Rightarrow> string list" where
  "mock_word_texts [] = []"
| "mock_word_texts [w] = [w]"
| "mock_word_texts (w # v # ws) = (w @ '' '') # mock_word_texts (v # ws)"

definition mock_usage :: "int \<Rightarrow> int \<Rightarrow> json" where
  "mock_usage tokens_in generated =
     JObj [(''prompt_tokens'', JInt tokens_in), (''completion_tokens'', JInt generated),
           (''total_tokens'', JInt (tokens_in + generated))]"

definition wants_usage :: "(string \<times> json) list \<Rightarrow> bool py" where
  "wants_usage body =
     py_bind (jget_def (or_else (dget body ''stream_options'') (JObj [])) ''include_usage'' JNull)
       (\<lambda>v. Inr (truthy v))"

text \<open>The stream shared by both handlers; \<open>choice\<close> builds the choice of a piece of text.\<close>

definition mock_stream ::
  "py_text \<Rightarrow> mock_server \<Rightarrow> string \<Rightarrow> string \<Rightarrow> int \<Rightarrow> json \<Rightarrow> json list \<Rightarrow> (string \<Rightarrow> json) \<Rightarrow>
   (string \<Rightarrow> json) \<Rightarrow> string \<Rightarrow> int \<Rightarrow> int \<Rightarrow> bool py \<Rightarrow> sse list" where
  "mock_stream t m cid obj created model first choice stop text max_tokens tokens_in usage =
     (let words = mock_words text max_tokens;
          chunk = (\<lambda>choices extra. sse_json t (mock_chunk cid obj created model choices extra))
      in [Wait (max 0.01 ((40 * mk_latency_mult m) / 1000))]
         @ map (\<lambda>c. chunk [c] []) first
         @ concat (map (\<lambda>w. [chunk [choice w] [], Wait (max 0.005 ((mk_decode_ms m * mk_latency_mult m) / 1000))])
                      (mock_word_texts words))
         @ [chunk [stop (mock_finish text max_tokens)] []]
         @ (case usage of
              Inl e \<Rightarrow> [Broken e]
            | Inr wanted \<Rightarrow>
                (if wanted then [chunk [] [(''usage'', mock_usage tokens_in (int (length words)))]] else [])
                @ [sse_done]))"

definition mock_sleep_s :: "mock_server \<Rightarrow> int \<Rightarrow> real" where
  "mock_sleep_s m max_tokens =
     ((80 + mk_decode_ms m * of_int (min max_tokens 4096)) * mk_latency_mult m) / 1000"

text \<open>The text of a reply that is not streamed, cut to the budget.\<close>

definition mock_text :: "string \<Rightarrow> int \<Rightarrow> string" where
  "mock_text text max_tokens =
     (if mock_truncated text max_tokens then join_with '' '' (mock_words text max_tokens) else text)"

definition mock_generated :: "string \<Rightarrow> int \<Rightarrow> int" where
  "mock_generated text max_tokens = min max_tokens (int (length (split_on (CHR 0x20) text)))"

definition mock_chat :: "py_text \<Rightarrow> mock_server \<Rightarrow> int \<Rightarrow> (string \<times> json) list \<Rightarrow> mock_reply py" where
  "mock_chat t m now_ms body =
     py_bind (mock_content body) (\<lambda>content.
     py_bind (mock_max_tokens t body) (\<lambda>max_tokens.
     let tokens_in = max 1 (int (length (py_str t content)) div 4);
         model = or_else (dget body ''model'') (JStr ''mock-model'');
         cid = ''chatcmpl-mock-'' @ show_int now_ms;
         created = now_ms div 1000;
         text = ''['' @ mk_name m @ ''] echo: '' @ take 80 (py_str t content);
         delta_choice = (\<lambda>delta finish. JObj [(''index'', JInt 0), (''delta'', JObj delta), (''finish_reason'', finish)])
     in if truthy (dget body ''stream'')
        then Inr (MockStream (mock_stream t m cid ''chat.completion.chunk'' created model
               [delta_choice [(''role'', JStr ''assistant''), (''content'', JStr [])] JNull]
               (\<lambda>w. delta_choice [(''content'', JStr w)] JNull)
               (\<lambda>finish. delta_choice [] (JStr finish)) text max_tokens tokens_in
               (wants_usage body)))
        else Inr (MockJson (mock_sleep_s m max_tokens)
               (mock_chunk cid ''chat.completion'' created model
                 [JObj [(''index'', JInt 0),
                        (''message'', JObj [(''role'', JStr ''assistant''),
                                          (''content'', JStr (mock_text text max_tokens))]),
                        (''finish_reason'', JStr (mock_finish text max_tokens))]]
                 [(''usage'', mock_usage tokens_in (mock_generated text max_tokens))]))))"

definition mock_completions :: "py_text \<Rightarrow> mock_server \<Rightarrow> int \<Rightarrow> (string \<times> json) list \<Rightarrow> mock_reply py" where
  "mock_completions t m now_ms body =
     (let prompt = or_else (dget body ''prompt'') (JStr [])
      in py_bind (mock_max_tokens t body) (\<lambda>max_tokens.
     let tokens_in = max 1 (int (length (py_str t prompt)) div 4);
         model = or_else (dget body ''model'') (JStr ''mock-model'');
         cid = ''cmpl-mock-'' @ show_int now_ms;
         created = now_ms div 1000;
         text = ''['' @ mk_name m @ ''] '' @ take 40 (py_str t prompt);
         choice = (\<lambda>w finish. JObj [(''text'', JStr w), (''index'', JInt 0), (''finish_reason'', finish)])
     in if truthy (dget body ''stream'')
        then Inr (MockStream (mock_stream t m cid ''text_completion'' created model []
               (\<lambda>w. choice w JNull) (\<lambda>finish. choice [] (JStr finish)) text max_tokens tokens_in
               (wants_usage body)))
        else Inr (MockJson (mock_sleep_s m max_tokens)
               (mock_chunk cid ''text_completion'' created model
                 [choice (mock_text text max_tokens) (JStr (mock_finish text max_tokens))]
                 [(''usage'', mock_usage tokens_in (mock_generated text max_tokens))]))))"

text \<open>\<open>start\<close> polls the health route: up to fifty attempts, a wait after each failed one.\<close>

fun mock_wait_up :: "(nat \<Rightarrow> int option) \<Rightarrow> nat \<Rightarrow> nat \<Rightarrow> bool" where
  "mock_wait_up probe i 0 = False"
| "mock_wait_up probe i (Suc n) =
     (if probe i = Some 200 then True else mock_wait_up probe (i + 1) n)"

definition mock_start :: "(nat \<Rightarrow> int option) \<Rightarrow> bool" where
  "mock_start probe = mock_wait_up probe 0 50"

subsection \<open>Lemmas\<close>

lemma concat_mock_word_texts: "concat (mock_word_texts ws) = join_with '' '' ws"
  by (induction ws rule: mock_word_texts.induct) simp_all

lemma length_mock_word_texts [simp]: "length (mock_word_texts ws) = length ws"
  by (induction ws rule: mock_word_texts.induct) simp_all

lemma mock_text_eq: "0 \<le> n \<Longrightarrow> join_with '' '' (mock_words text n) = mock_text text n"
  by (auto simp: mock_text_def mock_words_def mock_truncated_def py_take_def join_split)

lemma mock_words_generated: "0 \<le> n \<Longrightarrow> int (length (mock_words text n)) = mock_generated text n"
  by (auto simp: mock_words_def mock_generated_def py_take_def)

end
