(* ===== verification/Stream_Props.thy ===== *)
theory Stream_Props
  imports Streams Mock_Backend
begin

text \<open>
  Properties of the streaming translation: it does not depend on how the network cuts the stream,
  every counted token is a line the client received, and the translation of a mock engine's stream
  says the same as the engine's unstreamed reply.
\<close>

subsection \<open>Chunk boundaries\<close>


subsection \<open>Every counted token is a line\<close>

text \<open>Every emitted line is counted; documents do not end the stream, only \<open>[DONE]\<close> does.\<close>

definition lines_counted :: "bool \<Rightarrow> translator \<Rightarrow> bool" where
  "lines_counted b st \<longleftrightarrow> tr_gen_tokens st = length (tr_out st) \<and> tr_finished st = b"

definition keeps :: "bool \<Rightarrow> tr_step \<Rightarrow> bool" where
  "keeps b f \<longleftrightarrow> (\<forall>st. lines_counted b st \<longrightarrow> lines_counted b (snd (f st)))"

lemma keeps_and_then: "keeps e f \<Longrightarrow> keeps e k \<Longrightarrow> keeps e (and_then f k)"
  by (auto simp: keeps_def and_then_def split: prod.splits bool.splits)

lemma keeps_guarded: "(\<And>x. keeps e (k x)) \<Longrightarrow> keeps e (guarded m k)"
  by (auto simp: keeps_def guarded_def split: sum.split)

lemma keeps_pure: "(\<And>st. lines_counted e st \<Longrightarrow> lines_counted e (f st)) \<Longrightarrow> keeps e (\<lambda>st. (b st, f st))"
  by (simp add: keeps_def)

lemma lines_counted_emit: "lines_counted e st \<Longrightarrow> lines_counted e (emit_line env es st)"
  by (simp add: lines_counted_def emit_line_def)

lemma lines_counted_fields [simp]:
  "lines_counted e (st\<lparr>tr_reported_prompt := x\<rparr>) = lines_counted e st"
  "lines_counted e (st\<lparr>tr_reported_gen := x\<rparr>) = lines_counted e st"
  "lines_counted e (st\<lparr>tr_finish := v\<rparr>) = lines_counted e st"
  "lines_counted e (with_slot idx f st) = lines_counted e st"
  by (simp_all add: lines_counted_def with_slot_def Let_def)

lemma keeps_usage: "keeps e (usage_step env usage)"
  by (cases usage) (auto simp: keeps_def usage_step_def and_then_def guarded_def split: sum.splits prod.splits bool.splits)

lemma keeps_tool: "keeps e (tool_step env frag)"
  by (auto simp: keeps_def tool_step_def guarded_def Let_def lines_counted_emit split: sum.splits)

lemma keeps_tools: "keeps e (tool_steps env fs)"
proof (induction fs)
  case Nil
  show ?case by (simp add: keeps_def)
next
  case (Cons f fs)
  from keeps_and_then [OF keeps_tool Cons.IH] show ?case by (simp add: keeps_def)
qed

lemma keeps_text: "keeps e (text_step env es v)"
  by (simp add: keeps_def text_step_def lines_counted_emit)

lemma keeps_choice: "keeps e (choice_step env choice)"
  unfolding choice_step_def Let_def
  by (intro keeps_and_then keeps_guarded) (auto intro!: keeps_pure keeps_guarded keeps_and_then keeps_text keeps_tools)

lemma keeps_chunk: "keeps e (chunk_step env chunk)"
  unfolding chunk_step_def Let_def
  by (intro keeps_guarded keeps_and_then keeps_usage) (auto intro!: keeps_pure keeps_guarded keeps_choice)

lemma lines_counted_line: "lines_counted e st \<Longrightarrow> \<exists>e'. lines_counted e' (line_step env line st)"
  using keeps_chunk [of e env] by (fastforce simp: line_step_def Let_def keeps_def lines_counted_def split: option.split)

lemma lines_counted_buffer: "lines_counted e st \<Longrightarrow> \<exists>e'. lines_counted e' (fst (translate_buffer env buf st))"
proof (induction env buf st arbitrary: e rule: translate_buffer.induct)
  case (1 env buf st)
  obtain line found rest where p: "partition_at (CHR 0x0A) buf = (line, found, rest)"
    by (cases "partition_at (CHR 0x0A) buf")
  obtain e' where e': "lines_counted e' (line_step env line st)" using lines_counted_line [OF 1(2)] by blast
  show ?case
  proof (cases "found \<and> \<not> tr_finished (line_step env line st)")
    case True
    then have f: found and nf: "\<not> tr_finished (line_step env line st)" by simp_all
    from 1(1) [OF p [symmetric] refl f refl nf e'] show ?thesis
      using p f nf by (subst translate_buffer.simps) (simp add: Let_def)
  next
    case False
    then show ?thesis using p e' 1(2) by (subst translate_buffer.simps) (auto simp: Let_def)
  qed
qed

lemma lines_counted_chunks: "lines_counted e st \<Longrightarrow> \<exists>e'. lines_counted e' (translate_chunks env cs buf st)"
proof (induction cs arbitrary: e buf st)
  case Nil
  then show ?case by auto
next
  case (Cons c cs)
  obtain e' where "lines_counted e' (fst (translate_buffer env (buf @ c) st))"
    using lines_counted_buffer [OF Cons.prems] by blast
  with Cons.IH show ?case by (auto split: prod.split)
qed

lemma chunk_not_finished:
  assumes "lines_counted False st"
  shows "lines_counted False (snd (chunk_step env v st))"
  using keeps_chunk [of False env v] assms by (simp add: keeps_def)

text \<open>
  The fallback token count that closes an Ollama stream is honest: whatever the engine sent and
  however it was cut, the counter equals the number of lines the client received before the last one.
\<close>

lemma ollama_lines_counted:
  "tr_gen_tokens (translate_chunks env chunks [] translator_init) =
   length (tr_out (translate_chunks env chunks [] translator_init))"
proof -
  have "lines_counted False translator_init" by (simp add: lines_counted_def translator_init_def)
  from lines_counted_chunks [OF this] show ?thesis by (auto simp: lines_counted_def)
qed

subsection \<open>The text of JSON documents\<close>

text \<open>No float inside: the text does not depend on the float formatter.\<close>

fun no_floats :: "json \<Rightarrow> bool" where
  "no_floats (JFloat x) = False"
| "no_floats (JArr xs) = list_all no_floats xs"
| "no_floats (JObj d) = list_all (\<lambda>kv. no_floats (snd kv)) d"
| "no_floats v = True"

lemma hex_char_no_newline: "n < 16 \<Longrightarrow> hex_char n \<noteq> CHR 0x0A"
  by (auto simp: hex_char_def char_of_eq_iff take_bit_eq_mod split: if_splits)

lemma dumps_char_no_newline: "CHR 0x0A \<notin> set (dumps_char c)"
proof -
  have n: "(of_char c :: nat) < 256" by simp
  have "CHR 0x0A \<noteq> c" if "(of_char c :: nat) \<noteq> 10" using that by auto
  then show ?thesis
    using less_mult_imp_div_less [of "of_char c" 16 16] n hex_char_no_newline [of "of_char c div 16"] hex_char_no_newline [of "of_char c mod 16"]
    by (auto simp: dumps_char_def Let_def)
qed

lemma dumps_str_no_newline: "CHR 0x0A \<notin> set (dumps_str s)"
  using dumps_char_no_newline by (auto simp: dumps_str_def)

lemma join_no_newline:
  "CHR 0x0A \<notin> set sep \<Longrightarrow> (\<forall>x \<in> set xs. CHR 0x0A \<notin> set x) \<Longrightarrow> CHR 0x0A \<notin> set (join_with sep xs)"
  by (induction sep xs rule: join_with.induct) auto

lemma show_int_no_newline: "CHR 0x0A \<notin> set (show_int i)"
proof -
  have "CHR 0x0A \<notin> set (show_nat n)" for n
  proof (induction n rule: show_nat.induct)
    case (1 n)
    have "digit_char (n mod 10) \<noteq> CHR 0x0A" "n < 10 \<Longrightarrow> digit_char n \<noteq> CHR 0x0A"
      by (auto simp: digit_char_def char_of_eq_iff take_bit_eq_mod)
    with 1 show ?case by (cases "n < 10") (simp_all add: show_nat.simps [of n])
  qed
  then show ?thesis by (simp add: show_int_def)
qed

lemma dumps_one_line:
  assumes "no_floats v \<or> (\<forall>x. CHR 0x0A \<notin> set (pt_repr_float t x))"
  shows "CHR 0x0A \<notin> set (json_dumps t v)"
  using assms
proof (induction v)
  case (JInt i)
  then show ?case by (simp add: show_int_no_newline)
next
  case (JStr s)
  then show ?case by (simp add: dumps_str_no_newline)
next
  case (JArr xs)
  then have "\<forall>x \<in> set (map (json_dumps t) xs). CHR 0x0A \<notin> set x" by (auto simp: list_all_iff)
  then show ?case using join_no_newline [of "'', ''" "map (json_dumps t) xs"] by simp
next
  case (JObj d)
  have "CHR 0x0A \<notin> set (json_dumps t (snd kv))" if "kv \<in> set d" for kv
    using JObj that by (cases kv) (force simp: list_all_iff)
  then have "\<forall>x \<in> set (map (\<lambda>kv. dumps_str (fst kv) @ '': '' @ json_dumps t (snd kv)) d). CHR 0x0A \<notin> set x"
    by (auto simp: dumps_str_no_newline)
  then show ?case
    using join_no_newline [of "'', ''" "map (\<lambda>kv. dumps_str (fst kv) @ '': '' @ json_dumps t (snd kv)) d"] by simp
qed auto

lemma dumps_obj_ends: "\<exists>s. json_dumps t (JObj d) = ''{'' @ s @ ''}''"
  by auto

subsection \<open>One event\<close>

lemma strip_marked:
  assumes "\<not> P a" and "\<not> P z"
  shows "strip_by P (a # s @ [z]) = a # s @ [z]"
  using assms by (simp add: strip_by_def lstrip_by_def rstrip_by_def)

text \<open>An event of a well-formed stream is one translated document.\<close>

lemma translate_event:
  assumes "no_floats (JObj d)" and "se_loads env (json_dumps t (JObj d)) = Some (JObj d)"
    and "\<not> tr_finished (snd (chunk_step env (JObj d) st))"
  shows "translate_buffer env (''data: '' @ json_dumps t (JObj d) @ [CHR 0x0A, CHR 0x0A] @ rest) st =
    translate_buffer env rest (snd (chunk_step env (JObj d) st))"
proof -
  obtain body where J: "json_dumps t (JObj d) = ''{'' @ body @ ''}''" using dumps_obj_ends by blast
  have sp: "\<not> py_isspace (CHR ''d'')" "\<not> py_isspace (CHR ''{'')" "\<not> py_isspace (CHR ''}'')" "py_isspace (CHR '' '')"
    by (simp_all add: py_isspace_def)
  let ?line = "''data: '' @ json_dumps t (JObj d)"
  have no: "CHR 0x0A \<notin> set ?line" using dumps_one_line [of "JObj d" t] assms(1) by simp
  have s1: "py_strip ?line = ?line"
    unfolding J py_strip_def using strip_marked [OF sp(1,3), of "''ata: {'' @ body"] by simp
  have "py_strip (drop 5 ?line) = json_dumps t (JObj d)"
    unfolding J py_strip_def using strip_marked [OF sp(2,3), of body] sp(4)
    by (simp add: strip_by_def lstrip_by_def)
  then have line: "line_step env ?line st = snd (chunk_step env (JObj d) st)"
    using assms(2) s1 by (simp add: line_step_def startswith_def J)
  have empty: "line_step env [] s = s" for s by (simp add: line_step_def py_strip_def strip_by_def lstrip_by_def rstrip_by_def)
  have "translate_buffer env (?line @ CHR 0x0A # CHR 0x0A # rest) st =
      translate_buffer env (CHR 0x0A # rest) (snd (chunk_step env (JObj d) st))"
    using partition_no_sep [OF no] line assms(3)
    by (subst translate_buffer.simps) (simp add: Let_def)
  also have "\<dots> = translate_buffer env rest (snd (chunk_step env (JObj d) st))"
    using assms(3) by (subst translate_buffer.simps) (simp add: empty Let_def)
  finally show ?thesis by simp
qed

lemma translate_done:
  "translate_buffer env (''data: [DONE]'' @ [CHR 0x0A, CHR 0x0A] @ rest) st = (st\<lparr>tr_finished := True\<rparr>, CHR 0x0A # rest)"
proof -
  have "line_step env ''data: [DONE]'' st = st\<lparr>tr_finished := True\<rparr>"
    by (simp add: line_step_def startswith_def py_strip_def strip_by_def lstrip_by_def rstrip_by_def py_isspace_def)
  moreover have "partition_at (CHR 0x0A) (''data: [DONE]'' @ CHR 0x0A # CHR 0x0A # rest) =
      (''data: [DONE]'', True, CHR 0x0A # rest)"
    by (rule partition_no_sep) simp
  ultimately show ?thesis by (subst translate_buffer.simps) (simp add: Let_def)
qed

subsection \<open>A whole stream of documents\<close>

definition run_docs :: "stream_env \<Rightarrow> json list \<Rightarrow> translator \<Rightarrow> translator" where
  "run_docs env ds st = fold (\<lambda>v s. snd (chunk_step env v s)) ds st"

lemma run_docs_simps [simp]:
  "run_docs env [] st = st"
  "run_docs env (v # ds) st = run_docs env ds (snd (chunk_step env v st))"
  "run_docs env (ds @ es) st = run_docs env es (run_docs env ds st)"
  by (simp_all add: run_docs_def)

definition readable :: "stream_env \<Rightarrow> json \<Rightarrow> bool" where
  "readable env v \<longleftrightarrow> is_obj v \<and> no_floats v \<and> se_loads env (json_dumps (se_text env) v) = Some v"

lemma translate_docs:
  assumes "\<forall>v \<in> set ds. readable env v" and "lines_counted False st"
  shows "translate_buffer env (concat (map (sse_text (se_text env)) ds) @ done_text) st =
    ((run_docs env ds st)\<lparr>tr_finished := True\<rparr>, [CHR 0x0A])"
  using assms
proof (induction ds arbitrary: st)
  case Nil
  show ?case using translate_done [of env "[]" st] by (simp add: done_text_def)
next
  case (Cons v ds)
  from Cons.prems(1) obtain d where v: "v = JObj d" by (cases v) (auto simp: readable_def)
  have nf: "no_floats (JObj d)" and ld: "se_loads env (json_dumps (se_text env) (JObj d)) = Some (JObj d)"
    using Cons.prems(1) by (auto simp only: readable_def v list.set ball_simps)
  note cnt = chunk_not_finished [OF Cons.prems(2), of env "JObj d"]
  then have fin: "\<not> tr_finished (snd (chunk_step env (JObj d) st))" by (simp add: lines_counted_def)
  let ?rest = "concat (map (sse_text (se_text env)) ds) @ done_text"
  have "translate_buffer env (sse_text (se_text env) v @ ?rest) st =
      translate_buffer env ?rest (snd (chunk_step env (JObj d) st))"
    using translate_event [OF nf ld fin, of "?rest"] by (simp only: sse_text_def v append_assoc)
  also have "\<dots> = ((run_docs env ds (snd (chunk_step env (JObj d) st)))\<lparr>tr_finished := True\<rparr>, [CHR 0x0A])"
    using Cons.prems(1) by (intro Cons.IH cnt) simp
  finally show ?case by (simp add: v)
qed

text \<open>The effect of each document of the mock engine's chat stream.\<close>

definition chat_choice :: "(string \<times> json) list \<Rightarrow> json \<Rightarrow> json" where
  "chat_choice delta finish = JObj [(''index'', JInt 0), (''delta'', JObj delta), (''finish_reason'', finish)]"

definition content_line :: "stream_env \<Rightarrow> string \<Rightarrow> (string \<times> json) list" where
  "content_line env w = [(''message'', JObj [(''role'', JStr ''assistant''), (''content'', JStr w)])]"

lemma chunk_choice:
  "chunk_step env (mock_chunk cid obj created model [c] []) st = choice_step env c st"
  by (simp add: chunk_step_def mock_chunk_def guarded_def and_then_def usage_step_def or_else_def)

lemma chunk_usage:
  "chunk_step env (mock_chunk cid obj created model [] [(''usage'', mock_usage a b)]) st =
   (False, st\<lparr>tr_reported_prompt := Some a, tr_reported_gen := Some b\<rparr>)"
  by (simp add: chunk_step_def mock_chunk_def mock_usage_def guarded_def and_then_def usage_step_def or_else_def)

lemma choice_word:
  assumes "se_chat env" and "\<forall>k. k = ''tool_calls'' \<longrightarrow> map_of delta k = None"
    and "dget delta ''content'' = JStr w"
  shows "choice_step env (chat_choice delta JNull) st = (True, if w = [] then st else emit_line env (content_line env w) st)"
  using assms
  by (cases "delta = []")
    (simp_all add: choice_step_def chat_choice_def guarded_def and_then_def text_step_def or_else_def content_line_def
      dget_def_def [of delta "''tool_calls''"])

lemma choice_stop:
  assumes "se_chat env" and "f \<noteq> []"
  shows "choice_step env (chat_choice [] (JStr f)) st = (True, st\<lparr>tr_finish := JStr f\<rparr>)"
  using assms by (simp add: choice_step_def chat_choice_def guarded_def and_then_def text_step_def or_else_def)

text \<open>The documents of a streamed chat reply, and the texts the server writes.\<close>

definition chat_docs :: "py_text \<Rightarrow> mock_server \<Rightarrow> int \<Rightarrow> (string \<times> json) list \<Rightarrow> json \<Rightarrow> int \<Rightarrow> json list" where
  "chat_docs t m now_ms body content n =
     (let text = ''['' @ mk_name m @ ''] echo: '' @ take 80 (py_str t content);
          model = or_else (dget body ''model'') (JStr ''mock-model'');
          chunk = mock_chunk (''chatcmpl-mock-'' @ show_int now_ms) ''chat.completion.chunk'' (now_ms div 1000) model
      in [chunk [chat_choice [(''role'', JStr ''assistant''), (''content'', JStr [])] JNull] []]
         @ map (\<lambda>w. chunk [chat_choice [(''content'', JStr w)] JNull] []) (mock_word_texts (mock_words text n))
         @ [chunk [chat_choice [] (JStr (mock_finish text n))] []]
         @ [chunk [] [(''usage'', mock_usage (max 1 (int (length (py_str t content)) div 4))
                                   (int (length (mock_words text n))))]])"

fun stream_text :: "sse list \<Rightarrow> string" where
  "stream_text [] = []"
| "stream_text (Event s # es) = s @ stream_text es"
| "stream_text (e # es) = stream_text es"

lemma stream_text_append [simp]: "stream_text (xs @ ys) = stream_text xs @ stream_text ys"
  by (induction xs rule: stream_text.induct) simp_all

lemma stream_text_words:
  "stream_text (concat (map (\<lambda>w. [sse_json t (f w), Wait r]) ws)) = concat (map (sse_text t) (map f ws))"
  by (induction ws) (simp_all add: sse_json_def sse_text_def)

lemma stream_text_sse [simp]: "stream_text (sse_json t v # es) = sse_text t v @ stream_text es"
  by (simp add: sse_json_def sse_text_def)

lemma stream_text_docs: "stream_text (map (\<lambda>c. sse_json t (f c)) cs) = concat (map (sse_text t) (map f cs))"
  by (induction cs) simp_all

lemma stream_text_mock:
  "stream_text (mock_stream t m cid obj created model first choice stop text n tokens_in (Inr True)) =
   concat (map (sse_text t)
     (map (\<lambda>c. mock_chunk cid obj created model [c] []) first
      @ map (\<lambda>w. mock_chunk cid obj created model [choice w] []) (mock_word_texts (mock_words text n))
      @ [mock_chunk cid obj created model [stop (mock_finish text n)] []]
      @ [mock_chunk cid obj created model [] [(''usage'', mock_usage tokens_in (int (length (mock_words text n))))]]))
   @ done_text"
  unfolding mock_stream_def Let_def
  by (simp only: stream_text_append stream_text_words stream_text_docs stream_text_sse stream_text.simps
      sse_done_def done_text_def map_append concat_append sum.case if_True list.map concat.simps append_Nil append_assoc
      append_Cons append_Nil2)

lemma mock_chat_streams:
  assumes "mock_content body = Inr content" and "mock_max_tokens t body = Inr n"
    and "truthy (dget body ''stream'')" and "wants_usage body = Inr True"
  shows "\<exists>evs. mock_chat t m now_ms body = Inr (MockStream evs) \<and>
    stream_text evs = concat (map (sse_text t) (chat_docs t m now_ms body content n)) @ done_text"
  using assms(3)
  by (simp only: mock_chat_def assms(1,2,4) py_bind.simps Let_def if_True stream_text_mock chat_docs_def chat_choice_def
      sum.inject mock_reply.inject ex_simps simp_thms list.map)

lemma run_words:
  assumes "se_chat env"
  shows "run_docs env (map (\<lambda>w. mock_chunk cid obj created model [chat_choice [(''content'', JStr w)] JNull] []) ws) st =
    fold (\<lambda>w. emit_line env (content_line env w)) (filter (\<lambda>w. w \<noteq> []) ws) st"
  using assms by (induction ws arbitrary: st) (simp_all add: chunk_choice choice_word)

text \<open>The line an Ollama client receives for a piece of text.\<close>

definition text_line :: "stream_env \<Rightarrow> string \<Rightarrow> string" where
  "text_line env w =
     json_dumps (se_text env)
       (JObj [(''model'', se_model env), (''created_at'', JStr (se_now_iso env)),
              (''message'', JObj [(''role'', JStr ''assistant''), (''content'', JStr w)]),
              (''done'', JBool False)]) @ [CHR 0x0A]"

lemma emit_content: "emit_line env (content_line env w) st =
    st\<lparr>tr_out := tr_out st @ [text_line env w], tr_gen_tokens := tr_gen_tokens st + 1\<rparr>"
  by (simp add: emit_line_def content_line_def text_line_def)

lemma fold_emit:
  "fold (\<lambda>w. emit_line env (content_line env w)) ws st =
   st\<lparr>tr_out := tr_out st @ map (text_line env) ws, tr_gen_tokens := tr_gen_tokens st + length ws\<rparr>"
  by (induction ws arbitrary: st) (simp_all add: emit_content)

lemma concat_nonempty_words: "concat (filter (\<lambda>w. w \<noteq> []) ws) = concat ws"
  by (induction ws) auto

lemma chat_docs_readable:
  assumes "no_floats (dget body ''model'')"
    and "v \<in> set (chat_docs t m now_ms body content n)"
  shows "is_obj v \<and> no_floats v"
proof -
  have "no_floats (or_else (dget body ''model'') (JStr ''mock-model''))"
    using assms(1) by (simp add: or_else_def)
  then have c: "is_obj (mock_chunk cid obj created (or_else (dget body ''model'') (JStr ''mock-model'')) choices extra) \<and>
      no_floats (mock_chunk cid obj created (or_else (dget body ''model'') (JStr ''mock-model'')) choices extra)"
    if "list_all no_floats choices" "list_all (\<lambda>kv. no_floats (snd kv)) extra" for cid obj created choices extra
    using that by (simp add: mock_chunk_def)
  have "no_floats (chat_choice [(''role'', JStr ''assistant''), (''content'', JStr [])] JNull)"
    "no_floats (chat_choice [(''content'', JStr w)] JNull)" "no_floats (chat_choice [] (JStr w))"
    "no_floats (mock_usage a b)" for w a b
    by (simp_all add: chat_choice_def mock_usage_def)
  then show ?thesis
    using assms(2) unfolding chat_docs_def Let_def by (auto intro!: c [THEN conjunct1] c [THEN conjunct2])
qed

lemma run_chat_docs:
  assumes "se_chat env"
  shows "run_docs env (chat_docs t m now_ms body content n) translator_init =
    translator_init
      \<lparr>tr_out := map (text_line env) (filter (\<lambda>w. w \<noteq> []) (mock_word_texts
                  (mock_words (''['' @ mk_name m @ ''] echo: '' @ take 80 (py_str t content)) n))),
       tr_gen_tokens := length (filter (\<lambda>w. w \<noteq> []) (mock_word_texts
                  (mock_words (''['' @ mk_name m @ ''] echo: '' @ take 80 (py_str t content)) n))),
       tr_finish := JStr (mock_finish (''['' @ mk_name m @ ''] echo: '' @ take 80 (py_str t content)) n),
       tr_reported_prompt := Some (max 1 (int (length (py_str t content)) div 4)),
       tr_reported_gen := Some (int (length
                  (mock_words (''['' @ mk_name m @ ''] echo: '' @ take 80 (py_str t content)) n)))\<rparr>"
proof -
  have w: "choice_step env (chat_choice [(''role'', JStr ''assistant''), (''content'', JStr [])] JNull) st = (True, st)" for st
    using choice_word [OF assms, of "[(''role'', JStr ''assistant''), (''content'', JStr [])]" "[]" st] by simp
  have f: "mock_finish s n \<noteq> []" for s by (simp add: mock_finish_def)
  show ?thesis
    unfolding chat_docs_def Let_def
    by (simp only: run_docs_simps chunk_choice w snd_conv run_words [OF assms] fold_emit choice_stop [OF assms f] chunk_usage)
      (simp add: translator_init_def)
qed

lemma mock_chat_plain:
  assumes "mock_content (AList.update ''stream'' (JBool False) body) = Inr content"
    and "mock_max_tokens t (AList.update ''stream'' (JBool False) body) = Inr n"
  shows "mock_chat t m now_ms (AList.update ''stream'' (JBool False) body) =
    Inr (MockJson (mock_sleep_s m n) (JObj
      ([(''id'', JStr (''chatcmpl-mock-'' @ show_int now_ms)), (''object'', JStr ''chat.completion''),
        (''created'', JInt (now_ms div 1000)), (''model'', or_else (dget body ''model'') (JStr ''mock-model''))]
       @ [(''choices'', JArr [JObj [(''index'', JInt 0),
             (''message'', JObj [(''role'', JStr ''assistant''),
                (''content'', JStr (mock_text (''['' @ mk_name m @ ''] echo: '' @ take 80 (py_str t content)) n))]),
             (''finish_reason'', JStr (mock_finish (''['' @ mk_name m @ ''] echo: '' @ take 80 (py_str t content)) n))]]),
          (''usage'', mock_usage (max 1 (int (length (py_str t content)) div 4))
             (mock_generated (''['' @ mk_name m @ ''] echo: '' @ take 80 (py_str t content)) n))])))"
  using assms by (simp add: mock_chat_def mock_chunk_def Let_def)

text \<open>
  C6: an Ollama client of a streaming chat receives what the engine answers without streaming: for
  the in-process engine, with usage requested and any cut of its bytes, the content lines carry
  pieces whose concatenation is the unstreamed message, and the finish reason and both token counts
  that close the stream are those of the unstreamed reply, truncated replies included.
\<close>

theorem ollama_stream_same_reply:
  assumes "mock_content body = Inr content" and "mock_max_tokens t body = Inr n" and "0 < n"
    and "truthy (dget body ''stream'')" and "wants_usage body = Inr True" and "no_floats (dget body ''model'')"
    and "se_text env = t" and "se_chat env"
    and "\<forall>v \<in> set (chat_docs t m now_ms body content n). se_loads env (json_dumps t v) = Some v"
    and "mock_chat t m now_ms body = Inr (MockStream evs)" and "concat chunks = stream_text evs"
  shows "\<exists>ws p g wait meta. let st = translate_chunks env chunks [] translator_init in
    tr_out st = map (text_line env) ws \<and> tr_reported_prompt st = Some p \<and> tr_reported_gen st = Some g \<and>
    mock_chat t m now_ms (AList.update ''stream'' (JBool False) body) =
      Inr (MockJson wait (JObj (meta @
        [(''choices'', JArr [JObj [(''index'', JInt 0),
            (''message'', JObj [(''role'', JStr ''assistant''), (''content'', JStr (concat ws))]),
            (''finish_reason'', tr_finish st)]]),
         (''usage'', mock_usage p g)])))"
proof -
  let ?docs = "chat_docs t m now_ms body content n"
  let ?words = "mock_words (''['' @ mk_name m @ ''] echo: '' @ take 80 (py_str t content)) n"
  from mock_chat_streams [OF assms(1,2,4,5), of m now_ms] assms(10)
  have "stream_text evs = concat (map (sse_text t) ?docs) @ done_text" by auto
  moreover have "translate_chunks env chunks [] translator_init = translate_chunks env [concat chunks] [] translator_init"
    using translate_chunks_append [of translator_init env "hd chunks" "tl chunks" "[]"]
    by (cases chunks) (simp_all add: translator_init_def translate_buffer.simps [of env "[]"])
  moreover have "\<forall>v \<in> set ?docs. readable env v"
    using assms(7,9) chat_docs_readable [OF assms(6)] by (auto simp: readable_def)
  moreover have "lines_counted False translator_init" by (simp add: lines_counted_def translator_init_def)
  ultimately have st: "translate_chunks env chunks [] translator_init =
      (run_docs env ?docs translator_init)\<lparr>tr_finished := True\<rparr>"
    using translate_docs [of ?docs env translator_init] assms(7,11) by simp
  have joined: "concat (filter (\<lambda>w. w \<noteq> []) (mock_word_texts ?words)) =
      mock_text (''['' @ mk_name m @ ''] echo: '' @ take 80 (py_str t content)) n"
    using assms(3) by (simp only: concat_nonempty_words concat_mock_word_texts mock_text_eq less_imp_le)
  have gen: "int (length ?words) = mock_generated (''['' @ mk_name m @ ''] echo: '' @ take 80 (py_str t content)) n"
    using assms(3) by (intro mock_words_generated) simp
  have "mock_content (AList.update ''stream'' (JBool False) body) = Inr content"
    "mock_max_tokens t (AList.update ''stream'' (JBool False) body) = Inr n"
    using assms(1,2) by (simp_all add: mock_content_def mock_max_tokens_def)
  note plain = mock_chat_plain [OF this, of m now_ms, folded joined gen]
  let ?st = "translate_chunks env chunks [] translator_init"
  have fields: "tr_out ?st = map (text_line env) (filter (\<lambda>w. w \<noteq> []) (mock_word_texts ?words))"
    "tr_reported_prompt ?st = Some (max 1 (int (length (py_str t content)) div 4))"
    "tr_reported_gen ?st = Some (int (length ?words))"
    and finish: "tr_finish ?st = JStr (mock_finish (''['' @ mk_name m @ ''] echo: '' @ take 80 (py_str t content)) n)"
    unfolding st run_chat_docs [OF assms(8)] by simp_all
  show ?thesis
    unfolding Let_def by (intro exI conjI) (rule fields plain [folded finish])+
qed

text \<open>A reader that knows the documents of one stream, for closed instances.\<close>

lemma find_distinct:
  "distinct (map f xs) \<Longrightarrow> \<forall>x \<in> set xs. List.find (\<lambda>y. f y = f x) xs = Some x"
  by (induction xs) auto

definition demo_body :: "(string \<times> json) list" where
  "demo_body =
     [(''model'', JStr ''m''), (''messages'', JArr [JObj [(''role'', JStr ''user''), (''content'', JStr ''hi'')]]),
      (''max_tokens'', JInt 1), (''stream'', JBool True),
      (''stream_options'', JObj [(''include_usage'', JBool True)])]"

definition demo_py_text :: py_text where
  "demo_py_text = \<lparr>pt_repr_float = (\<lambda>x. []), pt_read_float = (\<lambda>s. None), pt_read_int = (\<lambda>s. None)\<rparr>"

definition demo_env :: stream_env where
  "demo_env =
     \<lparr>se_text = demo_py_text,
      se_loads = (\<lambda>s. List.find (\<lambda>v. json_dumps demo_py_text v = s)
                    (chat_docs demo_py_text mock_server_default 5000 demo_body (JStr ''hi'') 1)),
      se_now_iso = ''now'', se_model = JStr ''m'', se_chat = True\<rparr>"

lemma demo_body_runs:
  "mock_content demo_body = Inr (JStr ''hi'')" "mock_max_tokens demo_py_text demo_body = Inr 1"
  "truthy (dget demo_body ''stream'')" "wants_usage demo_body = Inr True" "no_floats (dget demo_body ''model'')"
  by (simp_all add: demo_body_def mock_content_def mock_max_tokens_def wants_usage_def or_else_def Let_def)

lemma demo_loads:
  "\<forall>v \<in> set (chat_docs demo_py_text mock_server_default 5000 demo_body (JStr ''hi'') 1).
     se_loads demo_env (json_dumps demo_py_text v) = Some v"
proof -
  have words: "mock_words (''['' @ mk_name mock_server_default @ ''] echo: '' @ take 80 (py_str demo_py_text (JStr ''hi''))) 1 = [''[mock]'']"
    by (simp add: mock_words_def mock_server_default_def py_take_def)
  have "mock_finish (''['' @ mk_name mock_server_default @ ''] echo: '' @ take 80 (py_str demo_py_text (JStr ''hi''))) 1 = ''length''"
    by (simp add: mock_finish_def mock_truncated_def mock_server_default_def)
  then have "distinct (map (json_dumps demo_py_text) (chat_docs demo_py_text mock_server_default 5000 demo_body (JStr ''hi'') 1))"
    unfolding chat_docs_def Let_def words
    by (simp add: mock_chunk_def chat_choice_def mock_usage_def) (simp add: dumps_str_def dumps_char_def)
  from find_distinct [OF this] show ?thesis by (simp only: demo_env_def stream_env.simps)
qed

theorem ollama_stream_same_reply_witness:
  "\<exists>evs ws. mock_chat demo_py_text mock_server_default 5000 demo_body = Inr (MockStream evs) \<and>
     tr_out (translate_chunks demo_env [stream_text evs] [] translator_init) = map (text_line demo_env) ws"
proof -
  obtain evs where evs: "mock_chat demo_py_text mock_server_default 5000 demo_body = Inr (MockStream evs)"
    using mock_chat_streams [OF demo_body_runs(1,2,3,4)] by blast
  have "concat [stream_text evs] = stream_text evs" "se_text demo_env = demo_py_text" "se_chat demo_env" "0 < (1::int)"
    by (simp_all add: demo_env_def)
  from ollama_stream_same_reply [OF demo_body_runs(1,2) this(4) demo_body_runs(3,4,5) this(2,3) demo_loads evs this(1)]
  show ?thesis using evs unfolding Let_def by blast
qed

end
