(* ===== verification/Frontend_Props.thy ===== *)
theory Frontend_Props
  imports Backend_Props Cli Mcp Stream_Props
begin

text \<open>
  Properties of the front ends: what a configuration file can produce, where it is looked for, how
  the commands that load it end, and the discipline of the MCP server on the wire.
\<close>

subsection \<open>Configuration files\<close>

lemma build_backend_facts:
  assumes "build_backend bracket_ok t d bid url engine = Inr b"
  shows "fb_id b = bid \<and> url_vetted bracket_ok (fb_base_url b) \<and>
    (\<forall>m. fb_model b = JStr m \<longrightarrow> m \<in> set (bound_models (JObj d)))"
  using assms
  by (auto simp: build_backend_def primary_model_def bound_models_def py_bind_Inr Let_def
      dest!: vet_url_Inr split: json.splits list.splits if_splits)

lemma parse_backend_facts:
  assumes "parse_backend bracket_ok t raw i = Inr b"
  shows "url_vetted bracket_ok (fb_base_url b) \<and> (\<forall>m. fb_model b = JStr m \<longrightarrow> m \<in> set (bound_models raw))"
  using assms
  by (auto simp: parse_backend_def py_bind_Inr Let_def dest!: build_backend_facts split: json.splits if_splits)

text \<open>Backends and model map agree: every binding names a backend, every primary model is bound.\<close>

definition stack_agrees :: "(string \<Rightarrow> bool) \<Rightarrow> file_backend list \<Rightarrow> model_map \<Rightarrow> bool" where
  "stack_agrees bracket_ok bs mm \<longleftrightarrow>
     (\<forall>b \<in> set bs. url_vetted bracket_ok (fb_base_url b) \<and>
        (\<forall>m. fb_model b = JStr m \<longrightarrow> (\<exists>ids. map_of mm m = Some ids \<and> fb_id b \<in> set ids))) \<and>
     (\<forall>m ids. map_of mm m = Some ids \<longrightarrow> ids \<noteq> [] \<and> set ids \<subseteq> fb_id ` set bs)"

lemma bind_model_lookup:
  "map_of (bind_model bid name mm) m =
     (if m = name then Some ((case map_of mm name of None \<Rightarrow> [] | Some ids \<Rightarrow> ids) @ [bid]) else map_of mm m)"
  by (simp add: bind_model_def)

lemma fold_bind_keeps:
  "map_of mm m = Some ids \<Longrightarrow> \<exists>ids'. map_of (fold (bind_model bid) names mm) m = Some ids' \<and> set ids \<subseteq> set ids'"
proof (induction names arbitrary: mm ids)
  case (Cons n ns)
  have "\<exists>ids'. map_of (bind_model bid n mm) m = Some ids' \<and> set ids \<subseteq> set ids'"
    using Cons.prems by (auto simp: bind_model_lookup)
  then show ?case using Cons.IH by fastforce
qed auto

lemma fold_bind_adds:
  "m \<in> set names \<Longrightarrow> \<exists>ids. map_of (fold (bind_model bid) names mm) m = Some ids \<and> bid \<in> set ids"
proof (induction names arbitrary: mm)
  case (Cons n ns)
  show ?case
  proof (cases "m \<in> set ns")
    case True
    then show ?thesis using Cons.IH by simp
  next
    case False
    then have "map_of (bind_model bid n mm) m = Some ((case map_of mm m of None \<Rightarrow> [] | Some ids \<Rightarrow> ids) @ [bid])"
      using Cons.prems by (simp add: bind_model_lookup)
    from fold_bind_keeps [OF this, of bid ns] show ?thesis by auto
  qed
qed simp

lemma fold_bind_only:
  assumes "map_of (fold (bind_model bid) names mm) m = Some ids"
  shows "ids \<noteq> [] \<and> set ids \<subseteq> insert bid (case map_of mm m of None \<Rightarrow> {} | Some old \<Rightarrow> set old) \<or> map_of mm m = Some ids"
  using assms
proof (induction names arbitrary: mm)
  case (Cons n ns)
  from Cons.IH [of "bind_model bid n mm"] Cons.prems show ?case
    by (auto simp: bind_model_lookup split: if_splits option.splits)
qed auto

lemma stack_agrees_step:
  assumes "stack_agrees bracket_ok bs mm" and "url_vetted bracket_ok (fb_base_url b)"
    and "\<forall>m. fb_model b = JStr m \<longrightarrow> m \<in> set names"
  shows "stack_agrees bracket_ok (bs @ [b]) (fold (bind_model (fb_id b)) names mm)"
  unfolding stack_agrees_def
proof (intro conjI ballI allI impI)
  fix c m
  assume c: "c \<in> set (bs @ [b])"
  show "url_vetted bracket_ok (fb_base_url c)" using c assms by (auto simp: stack_agrees_def)
  assume m: "fb_model c = JStr m"
  show "\<exists>ids. map_of (fold (bind_model (fb_id b)) names mm) m = Some ids \<and> fb_id c \<in> set ids"
  proof (cases "c = b")
    case True
    with m assms(3) fold_bind_adds [of m names "fb_id b" mm] show ?thesis by auto
  next
    case False
    with c have "c \<in> set bs" by auto
    with m assms(1) obtain ids where "map_of mm m = Some ids" "fb_id c \<in> set ids"
      unfolding stack_agrees_def by blast
    with fold_bind_keeps [of mm m ids "fb_id b" names] show ?thesis by auto
  qed
next
  fix m ids
  assume "map_of (fold (bind_model (fb_id b)) names mm) m = Some ids"
  from fold_bind_only [OF this] assms(1) show "ids \<noteq> []" and "set ids \<subseteq> fb_id ` set (bs @ [b])"
    by (fastforce simp: stack_agrees_def split: option.splits)+
qed

lemma load_entries_agrees:
  assumes "load_entries w p i raws bs mm = Inr (bs', mm')" and "stack_agrees (cw_bracket_ok w) bs mm"
  shows "stack_agrees (cw_bracket_ok w) bs' mm'"
  using assms
proof (induction w p i raws bs mm rule: load_entries.induct)
  case (2 w p i raw raws bs mm)
  then obtain b where b: "parse_backend (cw_bracket_ok w) (cw_text w) (entry_of raw i) i = Inr b"
    by (auto simp: Let_def split: sum.splits py_exc.splits)
  from parse_backend_facts [OF b] 2(3)
  have "stack_agrees (cw_bracket_ok w) (bs @ [b]) (fold (bind_model (fb_id b)) (bound_models (entry_of raw i)) mm)"
    by (intro stack_agrees_step) auto
  with 2(1) [OF refl b] 2(2) b show ?case by (simp add: Let_def)
qed simp


definition demo_document :: json where
  "demo_document =
     JObj [(''backends'', JArr [JObj [(''id'', JStr ''gpu''), (''url'', JStr ''http://h:8000''),
                                    (''models'', JArr [JStr ''llama'', JStr ''qwen''])]])]"

definition demo_world :: config_world where
  "demo_world =
     \<lparr>cw_read = (\<lambda>p. Inr ''doc''), cw_yaml = Some (\<lambda>s. Some demo_document), cw_loads = (\<lambda>s. None),
      cw_settings = (\<lambda>kw. Some dio_config_default), cw_bracket_ok = (\<lambda>n. True), cw_text = demo_py_text,
      cw_is_file = (\<lambda>p. False), cw_cwd = []\<rparr>"

definition demo_file_backend :: file_backend where
  "demo_file_backend =
     \<lparr>fb_id = JStr ''gpu'', fb_base_url = ''http://h:8000'', fb_tier = JStr ''small'', fb_model = JStr ''llama'',
      fb_total_vram_mb = 24000, fb_free_vram_mb = 24000, fb_api_style = ''openai'', fb_api_key = JNull,
      fb_health_path = JStr ''/health'', fb_metrics_path = JStr ''/metrics'',
      fb_labels = [(''engine'', ''openai''), (''models'', ''llama,qwen'')]\<rparr>"

lemma demo_load_settings:
  "load_config_file (demo_world\<lparr>cw_settings := settings\<rparr>) (Some ''dio.yaml'') =
   (case settings [] of
      None \<Rightarrow> Inl BadSettings
    | Some cfg \<Rightarrow> Inr ([demo_file_backend], cfg, [(''llama'', [JStr ''gpu'']), (''qwen'', [JStr ''gpu''])]))"
proof -
  have suffix: "path_suffix ''dio.yaml'' = ''.yaml''" by code_simp
  have vet: "vet_url (\<lambda>n. True) (JStr ''http://h:8000'') (py_quote ''gpu'') = Inr ''http://h:8000''"
    by code_simp
  have strip: "rstrip_by (\<lambda>c. c = CHR ''/'') ''http://h:8000'' = ''http://h:8000''" by code_simp
  have lower: "py_lower ''openai'' = ''openai''" by code_simp
  show ?thesis
    unfolding load_config_file_def load_yaml_def demo_world_def config_world.simps
    by (simp add: given_def suffix demo_document_def or_else_def raw_entries_def entry_of_def parse_backend_def
        build_backend_def entry_models_def primary_model_def vram_of_def join_models_def vet strip lower
        engine_style_def demo_file_backend_def bound_models_def bind_model_def config_kwargs_def put_truthy_def
        put_given_def put_slo_def put_admission_off_def put_tokenizer_def Let_def split: option.split)
qed

lemma demo_load:
  "load_config_file demo_world (Some ''dio.yaml'') =
   Inr ([demo_file_backend], dio_config_default, [(''llama'', [JStr ''gpu'']), (''qwen'', [JStr ''gpu''])])"
proof -
  have "demo_world = demo_world\<lparr>cw_settings := \<lambda>kw. Some dio_config_default\<rparr>" by (simp add: demo_world_def)
  then show ?thesis using demo_load_settings [of "\<lambda>kw. Some dio_config_default"] by simp
qed

text \<open>A document whose settings are rejected ends \<open>check-config\<close> with an exception, not with exit code 2.\<close>

lemma check_config_rejected_settings:
  "check_config (demo_world\<lparr>cw_settings := \<lambda>kw. None\<rparr>) ''dio.yaml'' = Crash BadSettings"
  by (simp add: check_config_def demo_load_settings)


text \<open>
  With backends on the command line the model map of a configuration file is kept although the
  backends it names are not served.
\<close>

lemma flags_keep_file_map:
  "\<exists>bs cfg mm. serve demo_world (serve_defaults\<lparr>sa_backend := [''http://x:1''], sa_config_file := Some ''dio.yaml''\<rparr>) =
     Runs (Inr bs, cfg, mm) \<and> map_of mm ''llama'' = Some [JStr ''gpu''] \<and> ''gpu'' \<notin> be_id ` set bs"
proof -
  have "flag_backend (\<lambda>n. True) [] [] (0, ''http://x:1'') = Inr (backend_default ''b0'' ''http://x:1'')"
  proof -
    have "vet_url (\<lambda>n. True) (JStr ''http://x:1'') (py_quote ''b0'') = Inr ''http://x:1''" by code_simp
    moreover have "split_once '';tier='' ''http://x:1'' = None" "py_strip ''http://x:1'' = ''http://x:1''"
      "py_strip ''b0'' = ''b0''" "py_strip ''small'' = ''small''" "''b'' @ show_nat 0 = ''b0''"
      by code_simp+
    ultimately show ?thesis
      by (simp add: flag_backend_def backend_post_init_def validate_backend_url_def backend_default_def)
  qed
  then show ?thesis
    by (simp add: serve_def serve_defaults_def given_def demo_load parse_backends_def)
      (simp add: demo_world_def backend_default_def)
qed

subsection \<open>Where the configuration is looked for\<close>

text \<open>The nearest of ten directories wins, and in it the first of the names.\<close>

lemma discover_nearest:
  "discover_from is_file n d = Some c \<Longrightarrow>
   \<exists>k name. k < n \<and> k \<le> length d \<and> name \<in> set config_names \<and> c = take (length d - k) d @ [name] \<and> is_file c \<and>
     (\<forall>j < k. \<forall>other \<in> set config_names. \<not> is_file (take (length d - j) d @ [other]))"
proof (induction is_file n d rule: discover_from.induct)
  case (2 is_file n d)
  show ?case
  proof (cases "List.find is_file (map (\<lambda>name. d @ [name]) config_names)")
    case (Some c')
    with 2(2) have "c' = c" by simp
    with Some have "is_file c" "c \<in> (\<lambda>name. d @ [name]) ` set config_names"
      by (auto dest!: find_SomeD)
    then show ?thesis by (intro exI [of _ 0]) auto
  next
    case None
    then have here: "\<forall>other \<in> set config_names. \<not> is_file (d @ [other])" by (auto simp: find_None_iff)
    from None 2(2) have "d \<noteq> []" and up: "discover_from is_file n (butlast d) = Some c" by (auto split: if_splits)
    from 2(1) [OF None \<open>d \<noteq> []\<close> up] obtain k name where k: "k < n" "k \<le> length (butlast d)" "name \<in> set config_names"
      "c = take (length (butlast d) - k) (butlast d) @ [name]" "is_file c"
      "\<forall>j < k. \<forall>other \<in> set config_names. \<not> is_file (take (length (butlast d) - j) (butlast d) @ [other])"
      by blast
    have shift: "take (length (butlast d) - j) (butlast d) = take (length d - Suc j) d" if "j \<le> length (butlast d)" for j
      using \<open>d \<noteq> []\<close> that by (simp add: butlast_conv_take)
    have "\<not> is_file (take (length d - j) d @ [other])" if "j < Suc k" "other \<in> set config_names" for j other
      using that here k(2,6) shift by (cases j) auto
    moreover have "Suc k \<le> length d" using k(2) \<open>d \<noteq> []\<close> by (cases d) (simp_all only: length_butlast list.size)
    ultimately show ?thesis
      using k(1,3,4,5) shift [OF k(2)] by (intro exI [of _ "Suc k"] exI [of _ name]) auto
  qed
qed simp

subsection \<open>The MCP server\<close>

text \<open>A reply of JSON-RPC 2.0: version, echoed id, and exactly one of result and error.\<close>

definition rpc_reply :: "json \<Rightarrow> json \<Rightarrow> bool" where
  "rpc_reply msg_id v \<longleftrightarrow>
     (\<exists>k body. v = JObj [(''jsonrpc'', JStr ''2.0''), (''id'', msg_id), (k, body)] \<and> k \<in> {''result'', ''error''})"

definition request_id :: "json \<Rightarrow> json" where
  "request_id req = (case req of JObj d \<Rightarrow> dget d ''id'' | _ \<Rightarrow> JNull)"

text \<open>What is not answered: notifications, and two methods whatever their id.\<close>

definition unanswered :: "json \<Rightarrow> bool" where
  "unanswered req \<longleftrightarrow>
     (\<exists>d. req = JObj d \<and>
        (map_of d ''id'' = None \<or> dget d ''method'' \<in> {JStr ''notifications/initialized'', JStr ''initialized''}))"

lemma rpc_reply_intros [intro]:
  "rpc_reply i (rpc_result i v)" "rpc_reply i (rpc_error i c s)"
  by (auto simp: rpc_reply_def rpc_result_def rpc_error_def)

lemma rpc_reply_tools_call [intro]: "rpc_reply i (tools_call env i params)"
  by (auto simp: tools_call_def Let_def split: option.split sum.split)


lemma handle_items_filter:
  "handle_items envs i items =
   concat (map (\<lambda>(k, item). case handle_request (envs k) item of None \<Rightarrow> [] | Some r \<Rightarrow> [r])
     (zip [i..<i + length items] items))"
proof (induction items arbitrary: i)
  case (Cons x xs)
  have "[i..<i + length (x # xs)] = i # [Suc i..<Suc i + length xs]" by (simp add: upt_conv_Cons del: upt_Suc)
  then show ?case using Cons.IH [of "Suc i"] by (simp del: upt_Suc split: option.split)
qed simp

lemma reply_is_obj: "handle_request env req = Some r \<Longrightarrow> is_obj r"
  by (auto simp: handle_request_def tools_call_def rpc_result_def rpc_error_def invalid_request_def Let_def
      split: json.splits if_splits option.splits sum.splits)

text \<open>A batch is never answered by an empty array.\<close>

lemma batch_not_empty: "handle_message envs msg \<noteq> Some (JArr [])"
proof -
  have "handle_request env req \<noteq> Some (JArr [])" for env req
    using reply_is_obj [of env req "JArr []"] by auto
  then show ?thesis
    by (auto simp: handle_message_def Let_def invalid_request_def rpc_error_def split: json.split list.split)
qed

subsection \<open>The wire\<close>

text \<open>
  C31: standard output carries one frame per line: for any input the loop writes only complete lines,
  at most one for each line it reads, and no frame contains a line end, however the texts and ids in
  it were chosen, as long as the text of a float has none.
\<close>

theorem mcp_stdio_frames:
  assumes "\<forall>k x. CHR 0x0A \<notin> set (pt_repr_float (me_text (envs k 0)) x)"
  shows "length (run_stdio loads envs k lines) \<le> length lines \<and>
    (\<forall>out \<in> set (run_stdio loads envs k lines). \<exists>frame. out = frame @ [CHR 0x0A] \<and> CHR 0x0A \<notin> set frame)"
proof (induction lines arbitrary: k)
  case (Cons line lines)
  have clean: "CHR 0x0A \<notin> set (json_dumps (me_text (envs k 0)) v)" for v
    using assms by (intro dumps_one_line) blast
  have "length (stdio_line loads (envs k) line) \<le> 1"
    by (simp add: stdio_line_def Let_def split: option.split)
  moreover have "\<exists>frame. out = frame @ [CHR 0x0A] \<and> CHR 0x0A \<notin> set frame"
    if "out \<in> set (stdio_line loads (envs k) line)" for out
    using that clean by (auto simp: stdio_line_def Let_def simp del: json_dumps.simps split: if_splits option.splits)
  ultimately show ?case using Cons.IH [of "k + 1"] by auto
qed simp

definition demo_mcp :: mcp_env where
  "demo_mcp =
     \<lparr>me_text = demo_py_text, me_exc = (\<lambda>e. ''boom''), me_get = (\<lambda>url. Inl ''refused''),
      me_post = (\<lambda>url v. Inl ''refused''), me_world = demo_world, me_gateway_url = ''http://127.0.0.1:8085''\<rparr>"

theorem mcp_stdio_frames_witness:
  "length (run_stdio (\<lambda>s. Some (JObj [(''id'', JStr s), (''method'', JStr ''ping'')])) (\<lambda>k i. demo_mcp) 0 [''a'', ''b'']) \<le> 2"
proof -
  have "\<forall>k x. CHR 0x0A \<notin> set (pt_repr_float (me_text ((\<lambda>k i. demo_mcp) (k::nat) 0)) x)"
    by (simp add: demo_mcp_def demo_py_text_def)
  from mcp_stdio_frames [OF this, of "\<lambda>s. Some (JObj [(''id'', JStr s), (''method'', JStr ''ping'')])" 0 "[''a'', ''b'']"]
  show ?thesis by simp
qed

subsection \<open>Latency predictions\<close>

text \<open>The recommended backend is one of least score; health plays no part in it.\<close>

lemma sort_key_hd: "xs \<noteq> [] \<Longrightarrow> \<forall>x \<in> set xs. f (hd (sort_key f xs)) \<le> f x"
proof
  fix x assume "xs \<noteq> []" "x \<in> set xs"
  moreover obtain y ys where ys: "sort_key f xs = y # ys"
    using \<open>xs \<noteq> []\<close> by (metis length_0_conv length_sort list.exhaust)
  ultimately have "x \<in> set (y # ys)" by (metis set_sort)
  moreover have "sorted (map f (y # ys))" using sorted_sort_key [of f xs] ys by simp
  ultimately show "f (hd (sort_key f xs)) \<le> f x" using ys by auto
qed

lemma recommendation_least:
  assumes "cs \<noteq> []"
  shows "\<exists>c \<in> set cs. \<exists>d. predict_report est model slo_ms cs = JObj d \<and>
    dget d ''recommended_backend'' = JStr (cd_id c) \<and> (\<forall>c' \<in> set cs. cd_score c \<le> cd_score c')"
proof -
  obtain c rest where c: "sort_key cd_score cs = c # rest"
    using assms by (metis length_0_conv length_sort list.exhaust)
  then have "c \<in> set cs" by (metis list.set_intros(1) set_sort)
  moreover have "\<forall>c' \<in> set cs. cd_score c \<le> cd_score c'" using sort_key_hd [OF assms, of cd_score] c by simp
  moreover have "\<exists>d. predict_report est model slo_ms cs = JObj d \<and> dget d ''recommended_backend'' = JStr (cd_id c)"
    by (simp add: predict_report_def c Let_def)
  ultimately show ?thesis by blast
qed

end
