(* ===== verification/Cost_Props.thy ===== *)
theory Cost_Props
  imports Routing_Props
begin

text \<open>
  Properties of the cost side of routing: the EWMA policy, the terms of the joint cost, the
  admission modes and the prefix affinity.
\<close>

subsection \<open>The EWMA policy\<close>

text \<open>
  Under the EWMA strategy a backend that has never answered is tried before any other, the least
  loaded of them first; only when every healthy backend has a sample does the request go to one
  whose predicted latency, level times one plus the queue share, is least.
\<close>

lemma ewma_explores_first:
  assumes "sched_inv s" and "ewma_strategy (c_strategy (s_cfg s))"
    and "pick h s prompt tier tokens allowed = (s', Inr (wid, dec))"
  defines "ids \<equiv> candidate_ids s allowed"
  defines "predicted \<equiv> \<lambda>w. ewma_of s w * (1 + of_int (pending_of s w) / max 1 (c_batch_size (s_cfg s)))"
  shows "if \<exists>w \<in> set ids. ewma_sample_count s w \<le> 0
    then ewma_sample_count s wid \<le> 0 \<and>
      (\<forall>w \<in> set ids. ewma_sample_count s w \<le> 0 \<longrightarrow> pending_of s wid \<le> pending_of s w)
    else rd_total_ms dec = predicted wid \<and> (\<forall>w \<in> set ids. predicted wid \<le> predicted w)"
proof -
  let ?n = "pick_tokens prompt tokens"
  have total: "rd_total_ms (ewma_decision s ?n w) = predicted w" for w
    by (simp add: ewma_decision_def plain_decision_def predicted_def Let_def distrib_left mult.commute)
  have "ids \<noteq> []" using assms(3) by (auto simp: pick_eq ids_def Let_def)
  then obtain w where w: "ewma_choice s ids ?n = Some w"
    by (cases "ewma_choice s ids ?n") (auto simp: ewma_choice_eq_None)
  with assms(2,3) \<open>ids \<noteq> []\<close> have "w = wid" and dec: "dec = ewma_decision s ?n wid"
    by (auto simp: strategies_disjoint pick_eq pick_ewma_eq Let_def ids_def)
  with w have c: "ewma_choice s ids ?n = Some wid" by simp
  show ?thesis
  proof (cases "\<exists>w \<in> set ids. ewma_sample_count s w \<le> 0")
    case True
    then have "filter (\<lambda>w. ewma_sample_count s w \<le> 0) ids \<noteq> []" by (auto simp: filter_empty_conv)
    with c have m: "min_by (pending_of s) (filter (\<lambda>w. ewma_sample_count s w \<le> 0) ids) = Some wid"
      by (simp add: ewma_choice_def Let_def)
    from min_by_in_set [OF m] min_by_least [OF m] True show ?thesis by simp
  next
    case False
    then have "filter (\<lambda>w. ewma_sample_count s w \<le> 0) ids = []" by (auto simp: filter_empty_conv)
    with c have m: "min_by (\<lambda>w. rd_total_ms (ewma_decision s ?n w)) ids = Some wid"
      by (simp add: ewma_choice_def Let_def)
    from min_by_least [OF m] False dec total show ?thesis by auto
  qed
qed

theorem ewma_explores_first_witness:
  "\<exists>s' wid dec. pick (\<lambda>t. 0) (demo_pool ''ewma'' ''empirical'') ''hi'' ''small'' None None = (s', Inr (wid, dec)) \<and>
     ewma_sample_count (demo_pool ''ewma'' ''empirical'') wid \<le> 0"
proof -
  let ?s = "demo_pool ''ewma'' ''empirical''"
  have st: "ewma_strategy (c_strategy (s_cfg ?s))" by (simp add: ewma_strategy_def)
  have zero: "ewma_sample_count ?s w = 0" for w
    by (simp add: ewma_sample_count_def demo_eval)
  obtain w where "ewma_choice ?s [''a'', ''b''] (pick_tokens ''hi'' None) = Some w"
    by (cases "ewma_choice ?s [''a'', ''b''] (pick_tokens ''hi'' None)") (auto simp: ewma_choice_eq_None)
  then obtain s' dec where p: "pick (\<lambda>t. 0) ?s ''hi'' ''small'' None None = (s', Inr (w, dec))"
    using st by (simp add: strategies_disjoint pick_eq pick_ewma_eq Let_def)
  from ewma_explores_first [OF demo_inv st p] p zero show ?thesis by auto
qed

subsection \<open>The terms of the joint cost\<close>

lemma bonus_scale_bounds:
  assumes "0 \<le> raw" and "0 \<le> allowed"
  shows "0 \<le> bonus_scale raw allowed" and "raw * bonus_scale raw allowed \<le> allowed"
    and "bonus_scale raw allowed \<le> 1"
  using assms by (auto simp: bonus_scale_def field_simps)

lemma score_id_joint:
  assumes "score_id h s tokens tier prompt key wid = Inr (Some (x, dec))"
  shows "\<exists>pred est. dec = joint_cost s wid pred tokens tier key est \<and> x = rd_total_ms dec"
  using assms
  by (auto simp: score_id_def score_def Let_def simp del: split_paired_Ex power_numeral
      split: option.splits if_splits sum.splits)

text \<open>
  C19: what the score of a backend is made of. The total is the predicted service time (wait plus
  execution) plus the tier, VRAM, KV and queue penalties minus the two bonuses, never below 0. The
  bonuses, when not negative themselves, never exceed the predicted service time, what was cut off
  is reported, and so they cannot hide any penalty: the total is at least the sum of the penalties.
\<close>

theorem joint_cost_terms:
  fixes s key
  assumes "score_id h s tokens tier prompt key wid = Inr (Some (x, dec))"
  defines "service \<equiv> rd_wait_ms dec + rd_exec_ms dec"
  defines "penalties \<equiv> rd_tier_cost_ms dec + rd_vram_cost_ms dec + rd_engine_kv_cost_ms dec
    + rd_engine_queue_cost_ms dec"
  assumes "0 \<le> c_cache_bonus_ms (s_cfg s)" and "0 \<le> snd (snd (engine_terms (s_cfg s) (eng_get s wid)))"
  shows "x = max 0 (service + penalties - rd_cache_bonus_ms dec) \<and>
    0 \<le> rd_cache_bonus_ms dec \<and> rd_cache_bonus_ms dec \<le> max 0 service \<and>
    0 \<le> rd_bonus_clamped_ms dec \<and>
    (0 \<le> service \<longrightarrow> penalties \<le> x)"
proof -
  from score_id_joint [OF assms(1)]
  obtain pred est where dec: "dec = joint_cost s wid pred tokens tier key est" and x: "x = rd_total_ms dec"
    by blast
  obtain exec_ms avg where est: "est = (exec_ms, avg)" by (cases est)
  obtain kv q pref where eng: "engine_terms (s_cfg s) (eng_get s wid) = (kv, q, pref)"
    by (cases "engine_terms (s_cfg s) (eng_get s wid)")
  obtain cache hit where aff: "affinity_term s wid key = (cache, hit)"
    by (cases "affinity_term s wid key")
  have cache: "0 \<le> cache" using aff assms(4) by (auto simp: affinity_term_def split: if_splits)
  have pref: "0 \<le> pref" using assms(5) eng by simp
  define wait where "wait = wait_term (s_cfg s) pred exec_ms avg"
  define sc where "sc = bonus_scale (cache + pref) (max 0 (wait + exec_ms))"
  note bounds = bonus_scale_bounds [of "cache + pref" "max 0 (wait + exec_ms)"]
  have sc: "0 \<le> sc" "(cache + pref) * sc \<le> max 0 (wait + exec_ms)" "sc \<le> 1"
    using bounds cache pref by (simp_all add: sc_def)
  have fields: "rd_wait_ms dec = wait" "rd_exec_ms dec = exec_ms"
      "rd_cache_bonus_ms dec = cache * sc + pref * sc"
      "rd_bonus_clamped_ms dec = cache + pref - (cache * sc + pref * sc)"
      "rd_total_ms dec = max 0 (wait + exec_ms + rd_tier_cost_ms dec + rd_vram_cost_ms dec
         + rd_engine_kv_cost_ms dec + rd_engine_queue_cost_ms dec - cache * sc - pref * sc)"
    by (simp_all add: dec est joint_cost_def eng aff wait_def sc_def Let_def)
  have le: "cache * sc + pref * sc \<le> max 0 (wait + exec_ms)" using sc(2) by (simp add: distrib_right)
  have "(cache + pref) * sc \<le> cache + pref"
    using mult_left_le [OF sc(3), of "cache + pref"] cache pref by simp
  then have clamped: "0 \<le> cache + pref - (cache * sc + pref * sc)" by (simp add: distrib_right)
  have "0 \<le> cache * sc + pref * sc" using cache pref sc(1) by simp
  with le clamped show ?thesis
    unfolding x fields service_def penalties_def by auto
qed

theorem joint_cost_terms_witness:
  "\<exists>x dec. score_id (\<lambda>t. 0) (demo_pool ''nlms'' ''empirical'') 1 ''small'' ''hi'' 0 ''b'' = Inr (Some (x, dec)) \<and>
     x = max 0 (rd_wait_ms dec + rd_exec_ms dec
           + (rd_tier_cost_ms dec + rd_vram_cost_ms dec + rd_engine_kv_cost_ms dec + rd_engine_queue_cost_ms dec)
           - rd_cache_bonus_ms dec)"
proof -
  have c: "0 \<le> c_cache_bonus_ms (s_cfg (demo_pool ''nlms'' ''empirical''))"
    and e: "0 \<le> snd (snd (engine_terms (s_cfg (demo_pool ''nlms'' ''empirical''))
         (eng_get (demo_pool ''nlms'' ''empirical'') ''b'')))"
    by (simp_all add: demo_eval engine_terms_def eng_get_def eng_ok_def)
  show ?thesis
    using joint_cost_terms [OF demo_scores(2) c e] demo_scores(2) by blast
qed

subsection \<open>The admission modes\<close>



subsection \<open>Prefix affinity\<close>

lemma lru_room:
  assumes "distinct (map fst c)" and "length c < cap" and "j \<noteq> k"
  shows "map_of (lru_step cap k v c) j = map_of c j"
proof -
  have "length (lru_put k v c) \<le> cap"
    using assms(2) AList.length_delete_le [of k c] by (simp add: lru_put_def)
  then show ?thesis using assms(3) by (simp add: lru_step_def lru_evict_eq lru_put_find)
qed

text \<open>
  C20: an admitted request pins its prefix: whatever is asked next with the same first 256
  characters, exactly the backend that served it is scored with an affinity hit. The store keeps
  within its capacity and forgets no other prefix while there is room.
\<close>

theorem affinity_pins_prefix:
  assumes "sched_inv s" and "cost_strategy (c_strategy (s_cfg s))"
    and "\<not> ab_disable_cache (c_ablation (s_cfg s))"
    and "pick h s prompt tier tokens allowed = (s', Inr (wid, dec))"
    and "take 256 prompt2 = take 256 prompt"
  shows "(\<forall>w n tier2 x d. score_id h s' n tier2 prompt2 (prefix_hash h prompt2) w = Inr (Some (x, d)) \<longrightarrow>
      rd_affinity_hit d = (w = wid)) \<and>
    length (s_prefix_cache s') \<le> c_affinity_cache_size (s_cfg s) \<and>
    (length (s_prefix_cache s) < c_affinity_cache_size (s_cfg s) \<longrightarrow>
       (\<forall>k. k \<noteq> prefix_hash h prompt \<longrightarrow> map_of (s_prefix_cache s') k = map_of (s_prefix_cache s) k))"
proof -
  let ?key = "prefix_hash h prompt" and ?cap = "c_affinity_cache_size (s_cfg s)"
  have key: "prefix_hash h prompt2 = ?key" using assms(5) by (simp add: prefix_hash_def)
  have d: "distinct (map fst (s_prefix_cache s))" and cap: "0 < ?cap"
    using assms(1) by (auto simp: sched_inv_def cache_inv_def cfg_inv_def)
  have cache: "s_prefix_cache s' = lru_step ?cap ?key wid (s_prefix_cache s)" and cfg: "s_cfg s' = s_cfg s"
    unfolding pick_cost_choice(3) [OF assms(1,2,4)] by (simp_all add: book_cost_def)
  have "map_of (s_prefix_cache s') ?key = Some wid"
    unfolding cache by (rule lru.put_same [OF d cap])
  then have aff: "snd (affinity_term s' w ?key) = (w = wid)" for w
    using assms(3) cfg by (auto simp: affinity_term_def)
  have "rd_affinity_hit (joint_cost s' w pred n tier2 k est) = snd (affinity_term s' w k)" for w pred n tier2 k est
    by (simp add: joint_cost_def Let_def split_beta)
  then have "rd_affinity_hit e = (w = wid)"
    if "score_id h s' n tier2 prompt2 (prefix_hash h prompt2) w = Inr (Some (x, e))" for w n tier2 x e
    using score_id_joint [OF that] aff key by auto
  moreover have "length (s_prefix_cache s') \<le> ?cap"
    unfolding cache using lru.put_bounded [OF d, of ?cap ?key wid] by simp
  ultimately show ?thesis using lru_room [OF d] by (simp add: cache)
qed

theorem affinity_pins_prefix_witness:
  "length (s_prefix_cache (fst (pick (\<lambda>t. 7) (demo_pool ''nlms'' ''empirical'') ''hello'' ''small'' None None))) \<le> 2048 \<and>
   take 256 ''hello'' = ''hello''"
proof -
  have c: "cost_strategy (c_strategy (s_cfg (demo_pool ''nlms'' ''empirical'')))"
    by (simp add: cost_strategy_def rr_strategy_def ll_strategy_def ewma_strategy_def)
  have "\<not> ab_disable_cache (c_ablation (s_cfg (demo_pool ''nlms'' ''empirical'')))"
    "c_affinity_cache_size (demo_cfg ''nlms'' ''empirical'') = 2048"
    by (simp_all add: demo_cfg_def ablation_full_def)
  then show ?thesis
    using affinity_pins_prefix [OF demo_inv c _ demo_pick [unfolded Let_def] refl, of "\<lambda>t. 7"]
    by (simp add: demo_pick Let_def)
qed

end
