(* ===== verification/Worker_Proxy.thy ===== *)
theory Worker_Proxy
  imports Py_Values
begin

text \<open>
  \<open>worker_proxy.py\<close>, the sidecar between the gRPC control plane and a vLLM engine: the streaming and
  the plain completion of \<open>VLLMClient\<close>, the \<open>Predict\<close> handler with its counters, the registration
  with its retries, the heartbeat and the wait for the engine. HTTP, gRPC, NVML, \<open>json.loads\<close>, the
  clock and the text of an exception are parameters.
\<close>

subsection \<open>GPU telemetry\<close>

text \<open>NVML readings in bytes, None when the library or the call fails.\<close>

record gpu_telemetry =
  gt_handle :: bool
  gt_total_vram_mb :: int

definition gpu_init :: "int option \<Rightarrow> gpu_telemetry" where
  "gpu_init total_bytes =
     (case total_bytes of
        None \<Rightarrow> \<lparr>gt_handle = False, gt_total_vram_mb = 0\<rparr>
      | Some n \<Rightarrow> \<lparr>gt_handle = True, gt_total_vram_mb = n div (1024 * 1024)\<rparr>)"

definition get_free_vram_mb :: "gpu_telemetry \<Rightarrow> int option \<Rightarrow> int" where
  "get_free_vram_mb g free_bytes =
     (if gt_handle g then (case free_bytes of Some n \<Rightarrow> n div (1024 * 1024) | None \<Rightarrow> 19200) else 19200)"

definition get_total_vram_mb :: "gpu_telemetry \<Rightarrow> int" where
  "get_total_vram_mb g = (if gt_total_vram_mb g > 0 then gt_total_vram_mb g else 24576)"

definition get_reading :: "gpu_telemetry \<Rightarrow> real option \<Rightarrow> real" where
  "get_reading g reading = (if gt_handle g then (case reading of Some x \<Rightarrow> x | None \<Rightarrow> 0) else 0)"

subsection \<open>The client of the engine\<close>

record vllm_client =
  vc_base_url :: string
  vc_model_id :: string
  vc_timeout :: int

definition vllm_client_init :: "string \<Rightarrow> string \<Rightarrow> int \<Rightarrow> vllm_client" where
  "vllm_client_init base_url model_id timeout =
     \<lparr>vc_base_url = rstrip_by (\<lambda>c. c = CHR ''/'') base_url, vc_model_id = model_id, vc_timeout = timeout\<rparr>"

text \<open>A GET answers with a status or raises; the second route is asked only when the first raised.\<close>

definition health_check :: "(string \<Rightarrow> int option) \<Rightarrow> vllm_client \<Rightarrow> bool" where
  "health_check get c =
     (case get (vc_base_url c @ ''/health'') of
        Some status \<Rightarrow> status = 200
      | None \<Rightarrow>
          (case get (vc_base_url c @ ''/v1/models'') of Some status \<Rightarrow> status = 200 | None \<Rightarrow> False))"

definition vllm_payload :: "vllm_client \<Rightarrow> string \<Rightarrow> int \<Rightarrow> real \<Rightarrow> bool \<Rightarrow> json" where
  "vllm_payload c prompt max_tokens temperature stream =
     JObj [(''model'', JStr (vc_model_id c)), (''prompt'', JStr prompt), (''max_tokens'', JInt max_tokens),
           (''temperature'', JFloat temperature), (''stream'', JBool stream)]"

record gen_result =
  gr_output :: json
  gr_latency_ms :: real
  gr_ttft_ms :: real
  gr_prompt_tokens :: json
  gr_completion_tokens :: json
  gr_total_tokens :: json

definition failed_result :: "string \<Rightarrow> real \<Rightarrow> gen_result" where
  "failed_result message elapsed =
     \<lparr>gr_output = JStr message, gr_latency_ms = elapsed, gr_ttft_ms = elapsed, gr_prompt_tokens = JInt 0,
      gr_completion_tokens = JInt 0, gr_total_tokens = JInt 0\<rparr>"

text \<open>\<open>a + b\<close> on numbers.\<close>

fun as_number :: "json \<Rightarrow> json py" where
  "as_number (JBool b) = Inr (JInt (if b then 1 else 0))"
| "as_number (JInt i) = Inr (JInt i)"
| "as_number (JFloat x) = Inr (JFloat x)"
| "as_number v = Inl (TypeError ''unsupported operand type(s) for +'')"

fun num_add :: "json \<Rightarrow> json \<Rightarrow> json" where
  "num_add (JInt a) (JInt b) = JInt (a + b)"
| "num_add (JInt a) (JFloat y) = JFloat (of_int a + y)"
| "num_add (JFloat x) (JInt b) = JFloat (x + of_int b)"
| "num_add (JFloat x) (JFloat y) = JFloat (x + y)"
| "num_add a b = JNull"

definition py_plus :: "json \<Rightarrow> json \<Rightarrow> json py" where
  "py_plus a b = py_bind (as_number a) (\<lambda>x. py_bind (as_number b) (\<lambda>y. Inr (num_add x y)))"

text \<open>The loop over the lines of the stream, each with the time at which it is read.\<close>

record stream_acc =
  sa_ttft_ms :: real
  sa_first :: bool
  sa_chunks :: "json list"
  sa_completion :: json

definition stream_acc_init :: stream_acc where
  "stream_acc_init = \<lparr>sa_ttft_ms = 0, sa_first = False, sa_chunks = [], sa_completion = JInt 0\<rparr>"

definition first_text :: "json \<Rightarrow> json py" where
  "first_text choices =
     (case choices of
        JArr (c # cs) \<Rightarrow> jget_def c ''text'' (JStr [])
      | JObj d \<Rightarrow> Inl (KeyError ''0'')
      | JStr s \<Rightarrow> Inl (AttributeError ''get'')
      | _ \<Rightarrow> Inl (TypeError ''object is not subscriptable''))"

text \<open>
  One document: the time of the first text, the text, and the usage when it is given. The counter is
  approximate, one per chunk, until the engine reports it.
\<close>

definition take_chunk :: "real \<Rightarrow> json \<Rightarrow> stream_acc \<Rightarrow> stream_acc py" where
  "take_chunk now chunk acc =
     py_bind (jget_def chunk ''choices'' (JArr [])) (\<lambda>choices.
     py_bind (if truthy choices then first_text choices else Inr JNull) (\<lambda>txt.
     let a1 = (if \<not> sa_first acc \<and> truthy txt then acc\<lparr>sa_ttft_ms := now, sa_first := True\<rparr> else acc)
     in py_bind (if truthy txt then py_bind (py_plus (sa_completion a1) (JInt 1)) (\<lambda>n.
                   Inr (a1\<lparr>sa_chunks := sa_chunks a1 @ [txt], sa_completion := n\<rparr>)) else Inr a1) (\<lambda>a2.
        py_bind (jget_def chunk ''usage'' JNull) (\<lambda>usage.
        if truthy usage
        then py_bind (jget_def usage ''completion_tokens'' (sa_completion a2)) (\<lambda>n. Inr (a2\<lparr>sa_completion := n\<rparr>))
        else Inr a2))))"

fun take_lines ::
  "(string \<Rightarrow> json option) \<Rightarrow> (string \<times> real) list \<Rightarrow> stream_acc \<Rightarrow> (bool \<times> stream_acc) py" where
  "take_lines loads [] acc = Inr (False, acc)"
| "take_lines loads ((line, now) # lines) acc =
     (if \<not> startswith line ''data: '' then take_lines loads lines acc
      else let data_str = drop 6 line
           in if py_strip data_str = ''[DONE]'' then Inr (True, acc)
              else case loads data_str of
                     None \<Rightarrow> take_lines loads lines acc
                   | Some chunk \<Rightarrow> py_bind (take_chunk now chunk acc) (take_lines loads lines))"

fun chunk_text :: "json \<Rightarrow> string py" where
  "chunk_text (JStr s) = Inr s"
| "chunk_text v = Inl (TypeError ''sequence item: expected str instance'')"

text \<open>How the request ends after the lines that arrived: normally, by a timeout, or by another exception.\<close>

datatype http_end = Finished | TimedOut | Errored string

definition generate_streaming ::
  "(py_exc \<Rightarrow> string) \<Rightarrow> (string \<Rightarrow> json option) \<Rightarrow> string \<Rightarrow> (string \<times> real) list \<Rightarrow> http_end \<Rightarrow> real \<Rightarrow> gen_result" where
  "generate_streaming exc loads prompt lines ending elapsed =
     (case take_lines loads lines stream_acc_init of
        Inl e \<Rightarrow> failed_result (''ERROR: '' @ exc e) elapsed
      | Inr (stopped, acc) \<Rightarrow>
          (case (if stopped then Finished else ending) of
             TimedOut \<Rightarrow> failed_result ''ERROR: vLLM timeout'' elapsed
           | Errored e \<Rightarrow> failed_result (''ERROR: '' @ e) elapsed
           | Finished \<Rightarrow>
               (let prompt_tokens = max (int (length prompt) div 4) 1;
                    ttft = (if sa_ttft_ms acc = 0 then elapsed * 0.15 else sa_ttft_ms acc)
                in case py_bind (py_map chunk_text (sa_chunks acc)) (\<lambda>texts.
                        py_bind (py_plus (JInt prompt_tokens) (sa_completion acc)) (\<lambda>tot. Inr (texts, tot))) of
                     Inl e \<Rightarrow> failed_result (''ERROR: '' @ exc e) elapsed
                   | Inr (texts, tot) \<Rightarrow>
                       \<lparr>gr_output = JStr (concat texts), gr_latency_ms = elapsed, gr_ttft_ms = ttft,
                        gr_prompt_tokens = JInt prompt_tokens, gr_completion_tokens = sa_completion acc,
                        gr_total_tokens = tot\<rparr>)))"

text \<open>The plain completion; \<open>answer\<close> is the decoded body, or the text of the exception.\<close>

definition sync_fields :: "json \<Rightarrow> (json \<times> json \<times> json \<times> json) py" where
  "sync_fields data =
     py_bind (jget_def data ''usage'' (JObj [])) (\<lambda>usage.
     py_bind (jget_def data ''choices'' (JArr [JObj []])) (\<lambda>choices.
     py_bind (if truthy choices then first_text choices else Inr (JStr [])) (\<lambda>output.
     py_bind (jget_def usage ''prompt_tokens'' (JInt 0)) (\<lambda>p.
     py_bind (jget_def usage ''completion_tokens'' (JInt 0)) (\<lambda>c.
     py_bind (jget_def usage ''total_tokens'' (JInt 0)) (\<lambda>tot. Inr (output, p, c, tot)))))))"

definition generate_sync :: "(py_exc \<Rightarrow> string) \<Rightarrow> string + json \<Rightarrow> real \<Rightarrow> gen_result" where
  "generate_sync exc answer elapsed =
     (case answer of
        Inl e \<Rightarrow> failed_result (''ERROR: '' @ e) elapsed
      | Inr data \<Rightarrow>
          (case sync_fields data of
             Inl e \<Rightarrow> failed_result (''ERROR: '' @ exc e) elapsed
           | Inr (output, p, c, tot) \<Rightarrow>
               \<lparr>gr_output = output, gr_latency_ms = elapsed, gr_ttft_ms = elapsed * 0.15, gr_prompt_tokens = p,
                gr_completion_tokens = c, gr_total_tokens = tot\<rparr>))"

subsection \<open>The gRPC worker\<close>

record worker_proxy =
  wp_latency_mult :: real
  wp_request_count :: nat
  wp_total_tokens :: json

record inference_response =
  ir_output :: string
  ir_latency_ms :: real
  ir_tokens_used :: int
  ir_ttft_ms :: real
  ir_prompt_tokens :: int
  ir_completion_tokens :: int

fun encoded :: "json \<Rightarrow> string py" where
  "encoded (JStr s) = Inr s"
| "encoded v = Inl (AttributeError ''encode'')"

text \<open>
  \<open>Predict\<close> after the engine answered: the extra wait in milliseconds, then the counters, then the
  response. An exception ends the call as an error of gRPC and keeps the counters reached so far.
\<close>

definition extra_sleep_ms :: "worker_proxy \<Rightarrow> gen_result \<Rightarrow> real" where
  "extra_sleep_ms w r =
     (if wp_latency_mult w > 1 then max 0 (gr_latency_ms r * wp_latency_mult w - gr_latency_ms r) else 0)"

definition build_response :: "py_text \<Rightarrow> worker_proxy \<Rightarrow> gen_result \<Rightarrow> inference_response py" where
  "build_response t w r =
     py_bind (encoded (gr_output r)) (\<lambda>output.
     py_bind (py_int t (gr_total_tokens r)) (\<lambda>tot.
     py_bind (py_int t (gr_prompt_tokens r)) (\<lambda>p.
     py_bind (py_int t (gr_completion_tokens r)) (\<lambda>c.
     Inr \<lparr>ir_output = output, ir_latency_ms = gr_latency_ms r * wp_latency_mult w, ir_tokens_used = tot,
          ir_ttft_ms = gr_ttft_ms r * wp_latency_mult w, ir_prompt_tokens = p, ir_completion_tokens = c\<rparr>))))"

definition predict :: "py_text \<Rightarrow> worker_proxy \<Rightarrow> gen_result \<Rightarrow> worker_proxy \<times> inference_response py" where
  "predict t w0 r =
     (let w = w0\<lparr>wp_request_count := wp_request_count w0 + 1\<rparr>
      in case py_plus (wp_total_tokens w) (gr_total_tokens r) of
           Inl e \<Rightarrow> (w, Inl e)
         | Inr tot \<Rightarrow> (w\<lparr>wp_total_tokens := tot\<rparr>, build_response t w r))"

text \<open>\<open>CheckHealth\<close>: the empty answer, with the status UNAVAILABLE when the engine is down.\<close>

definition check_health :: "(string \<Rightarrow> int option) \<Rightarrow> vllm_client \<Rightarrow> string option" where
  "check_health get c = (if health_check get c then None else Some ''vLLM engine is not responding'')"

subsection \<open>Registration, heartbeat, start-up\<close>

record register_request =
  rg_worker_id :: string
  rg_address :: string
  rg_tier :: string
  rg_vram_gb :: int
  rg_engine_type :: string
  rg_free_vram_mb :: int

definition registration ::
  "string \<Rightarrow> string \<Rightarrow> string \<Rightarrow> gpu_telemetry \<Rightarrow> int option \<Rightarrow> register_request" where
  "registration worker_id address tier g free_bytes =
     \<lparr>rg_worker_id = worker_id, rg_address = address, rg_tier = tier, rg_vram_gb = get_total_vram_mb g,
      rg_engine_type = ''vllm'', rg_free_vram_mb = get_free_vram_mb g free_bytes\<rparr>"

definition heartbeat ::
  "string \<Rightarrow> string \<Rightarrow> string \<Rightarrow> gpu_telemetry \<Rightarrow> int option \<Rightarrow> register_request" where
  "heartbeat worker_id address tier g free_bytes =
     \<lparr>rg_worker_id = worker_id, rg_address = address, rg_tier = tier,
      rg_vram_gb = get_free_vram_mb g free_bytes,
      rg_engine_type = ''vllm'', rg_free_vram_mb = get_free_vram_mb g free_bytes\<rparr>"

text \<open>
  The manager accepts, rejects, or the call raises (None), which is tried again: the result and the
  seconds slept between the attempts.
\<close>

fun register_attempts :: "(nat \<Rightarrow> bool option) \<Rightarrow> nat \<Rightarrow> nat \<Rightarrow> bool \<times> nat" where
  "register_attempts call i 0 = (False, 0)"
| "register_attempts call i (Suc n) =
     (case call i of
        Some success \<Rightarrow> (success, 0)
      | None \<Rightarrow>
          (case register_attempts call (i + 1) n of
             (ok, slept) \<Rightarrow> (ok, slept + (if n = 0 then 0 else 3))))"

definition register_with_manager :: "(nat \<Rightarrow> bool option) \<Rightarrow> bool \<times> nat" where
  "register_with_manager call = register_attempts call 0 10"

text \<open>The wait for the engine: \<open>clock i\<close> is the elapsed time at the \<open>i\<close>-th test of the loop.\<close>

partial_function (option) wait_from :: "(nat \<Rightarrow> real) \<Rightarrow> (nat \<Rightarrow> bool) \<Rightarrow> real \<Rightarrow> nat \<Rightarrow> bool option" where
  "wait_from clock healthy timeout i =
     (if clock i < timeout
      then (if healthy i then Some True else wait_from clock healthy timeout (i + 1))
      else Some False)"

definition wait_for_vllm :: "(nat \<Rightarrow> real) \<Rightarrow> (nat \<Rightarrow> bool) \<Rightarrow> real \<Rightarrow> bool option" where
  "wait_for_vllm clock healthy timeout = wait_from clock healthy timeout 0"

subsection \<open>Properties\<close>

text \<open>As every round sleeps two seconds, the wait ends; it succeeds when the engine answers in time.\<close>

lemma wait_from_ends:
  assumes "mono clock" and "\<forall>i. 2 * of_nat i \<le> clock i"
  shows "timeout \<le> 2 * of_nat (i + k) \<Longrightarrow>
    wait_from clock healthy timeout i = Some (\<exists>j \<ge> i. clock j < timeout \<and> healthy j)"
proof (induction k arbitrary: i)
  case 0
  have late: "timeout \<le> clock j" if "i \<le> j" for j
    using assms(2) 0 monoD [OF assms(1) that] by (metis add.right_neutral order.trans)
  have "\<not> clock i < timeout" using late [of i] by simp
  then have "wait_from clock healthy timeout i = Some False" by (subst wait_from.simps) simp
  with late show ?case by (auto simp: not_less [symmetric])
next
  case (Suc k)
  then have "timeout \<le> 2 * of_nat ((i + 1) + k)" by simp
  note rest = Suc.IH [OF this]
  have split: "(\<exists>j \<ge> i. P j) \<longleftrightarrow> P i \<or> (\<exists>j \<ge> i + 1. P j)" for P :: "nat \<Rightarrow> bool"
    by (metis Suc_eq_plus1 le_antisym not_less_eq_eq order.refl le_SucI)
  have "\<not> clock i < timeout \<Longrightarrow> \<not> (\<exists>j \<ge> i. clock j < timeout \<and> healthy j)"
    using monoD [OF assms(1)] by (meson not_less order.trans)
  with rest show ?case
    by (subst wait_from.simps) (auto simp: split [of "\<lambda>j. clock j < timeout \<and> healthy j"])
qed



text \<open>A registration makes at most ten calls and sleeps at most 27 seconds.\<close>

lemma register_attempts_slept: "snd (register_attempts call i n) \<le> 3 * (n - 1)"
proof (induction call i n rule: register_attempts.induct)
  case (2 call i n)
  then show ?case by (cases n) (auto split: option.split prod.split)
qed simp

lemma register_with_manager_slept: "snd (register_with_manager call) \<le> 27"
  using register_attempts_slept [of call 0 10] by (simp add: register_with_manager_def)

lemma register_succeeds:
  "fst (register_attempts call i n) \<longleftrightarrow> (\<exists>k < n. call (i + k) = Some True \<and> (\<forall>j < k. call (i + j) = None))"
proof (induction call i n rule: register_attempts.induct)
  case (2 call i n)
  show ?case
  proof (cases "call i")
    case None
    then have "fst (register_attempts call i (Suc n)) = fst (register_attempts call (i + 1) n)"
      by (simp split: prod.split)
    moreover have "(\<exists>k < Suc n. call (i + k) = Some True \<and> (\<forall>j < k. call (i + j) = None)) \<longleftrightarrow>
        (\<exists>k < n. call (i + 1 + k) = Some True \<and> (\<forall>j < k. call (i + 1 + j) = None))"
      using None by (auto simp: Ex_less_Suc2 All_less_Suc2)
    ultimately show ?thesis using 2 None by simp
  next
    case (Some b)
    then show ?thesis by (auto simp: Ex_less_Suc2 All_less_Suc2)
  qed
qed simp

text \<open>A failed completion is reported with the whole elapsed time and no tokens, so it never adds to the counter.\<close>

lemma predict_failed_counts:
  "wp_total_tokens w = JInt n \<Longrightarrow>
   wp_total_tokens (fst (predict t w (failed_result msg elapsed))) = JInt n \<and>
   wp_request_count (fst (predict t w (failed_result msg elapsed))) = wp_request_count w + 1"
  by (simp add: predict_def failed_result_def py_plus_def Let_def)

end
