(* ===== verification/Mock_Vllm.thy ===== *)
theory Mock_Vllm
  imports Py_Values
begin

text \<open>
  The two test servers of \<open>scripts\<close> that stand in for engines: \<open>mock_vllm_server.py\<close>, whose
  \<open>EngineState\<close> counts running and waiting requests, and \<open>latency_delay_proxy.py\<close>. A request of the
  mock engine runs \<open>admit\<close>, then spins in \<open>start_service\<close>, then \<open>release\<close>s; each of these holds
  the lock and is one step, so the engine is a transition system over its counters and the requests.
  The hash of a prefix and the texts of floats are parameters.
\<close>

subsection \<open>EngineState\<close>

record engine_state =
  eg_max :: int
  eg_kv_per_request :: real
  eg_running :: int
  eg_waiting :: int
  eg_prefix_hits :: nat
  eg_prefix_queries :: nat
  eg_seen :: "string list"
  eg_peak_running :: int
  eg_peak_waiting :: int

definition engine_init :: "int \<Rightarrow> real \<Rightarrow> engine_state" where
  "engine_init max_concurrency kv_per_request =
     \<lparr>eg_max = max_concurrency, eg_kv_per_request = kv_per_request, eg_running = 0, eg_waiting = 0,
      eg_prefix_hits = 0, eg_prefix_queries = 0, eg_seen = [], eg_peak_running = 0, eg_peak_waiting = 0\<rparr>"

definition admit :: "string \<Rightarrow> engine_state \<Rightarrow> engine_state \<times> bool" where
  "admit prefix_key e =
     (let hit = (prefix_key \<in> set (eg_seen e));
          e1 = e\<lparr>eg_prefix_queries := eg_prefix_queries e + 1\<rparr>;
          e2 = (if hit then e1\<lparr>eg_prefix_hits := eg_prefix_hits e1 + 1\<rparr>
                else e1\<lparr>eg_seen := prefix_key # eg_seen e1\<rparr>)
      in (if eg_running e2 \<ge> eg_max e2
          then e2\<lparr>eg_waiting := eg_waiting e2 + 1, eg_peak_waiting := max (eg_peak_waiting e2) (eg_waiting e2 + 1)\<rparr>
          else e2\<lparr>eg_running := eg_running e2 + 1, eg_peak_running := max (eg_peak_running e2) (eg_running e2 + 1)\<rparr>,
          hit))"

text \<open>One round of the loop of \<open>start_service\<close>: the state in which it returns, or None to sleep and retry.\<close>

definition start_service :: "engine_state \<Rightarrow> engine_state option" where
  "start_service e =
     (if eg_running e < eg_max e \<and> eg_waiting e > 0
      then Some (e\<lparr>eg_waiting := eg_waiting e - 1, eg_running := eg_running e + 1,
                    eg_peak_running := max (eg_peak_running e) (eg_running e + 1)\<rparr>)
      else if eg_running e \<le> eg_max e \<and> eg_waiting e = 0 then Some e
      else None)"

definition release_slot :: "engine_state \<Rightarrow> engine_state" where
  "release_slot e = e\<lparr>eg_running := max 0 (eg_running e - 1)\<rparr>"

definition kv_usage :: "engine_state \<Rightarrow> real" where
  "kv_usage e = min 1 (of_int (eg_running e) * eg_kv_per_request e)"

definition engine_snapshot_json :: "engine_state \<Rightarrow> json" where
  "engine_snapshot_json e =
     JObj [(''running'', JFloat (of_int (eg_running e))), (''waiting'', JFloat (of_int (eg_waiting e))),
           (''hits'', JFloat (of_nat (eg_prefix_hits e))), (''queries'', JFloat (of_nat (eg_prefix_queries e))),
           (''kv'', JFloat (kv_usage e)), (''peak_running'', JFloat (of_int (eg_peak_running e))),
           (''peak_waiting'', JFloat (of_int (eg_peak_waiting e)))]"

definition engine_reset :: "engine_state \<Rightarrow> engine_state" where
  "engine_reset e =
     e\<lparr>eg_prefix_hits := 0, eg_prefix_queries := 0, eg_seen := [], eg_peak_running := 0, eg_peak_waiting := 0\<rparr>"

subsection \<open>The routes\<close>

definition gauge_line :: "string \<Rightarrow> string \<Rightarrow> string \<Rightarrow> string" where
  "gauge_line name model v = name @ ''{model_name='' @ [CHR 0x22] @ model @ [CHR 0x22] @ ''} '' @ v"

text \<open>\<open>fmt6\<close> is the format specification \<open>.6f\<close>.\<close>

definition metrics_text :: "py_text \<Rightarrow> (real \<Rightarrow> string) \<Rightarrow> string \<Rightarrow> engine_state \<Rightarrow> string" where
  "metrics_text t fmt6 model e =
     join_with [CHR 0x0A]
       [''# TYPE vllm:num_requests_running gauge'',
        gauge_line ''vllm:num_requests_running'' model (pt_repr_float t (of_int (eg_running e))),
        ''# TYPE vllm:num_requests_waiting gauge'',
        gauge_line ''vllm:num_requests_waiting'' model (pt_repr_float t (of_int (eg_waiting e))),
        ''# TYPE vllm:gpu_cache_usage_perc gauge'',
        gauge_line ''vllm:gpu_cache_usage_perc'' model (fmt6 (kv_usage e)),
        ''# TYPE vllm:prefix_cache_hits counter'',
        gauge_line ''vllm:prefix_cache_hits'' model (pt_repr_float t (of_nat (eg_prefix_hits e))),
        ''# TYPE vllm:prefix_cache_queries counter'',
        gauge_line ''vllm:prefix_cache_queries'' model (pt_repr_float t (of_nat (eg_prefix_queries e))),
        []]"

definition mock_prompt :: "py_text \<Rightarrow> (string \<times> json) list \<Rightarrow> string py" where
  "mock_prompt t body =
     py_bind (py_iter (or_else (dget body ''messages'') (JArr []))) (\<lambda>msgs.
     py_bind (py_map (\<lambda>m. py_bind (jget_def m ''content'' (JStr [])) (\<lambda>c. Inr (py_str t c))) msgs) (\<lambda>parts.
     Inr (concat parts)))"

definition prefix_of_prompt :: "string \<Rightarrow> string" where
  "prefix_of_prompt prompt = take 256 prompt"

definition service_seconds :: "real \<Rightarrow> bool \<Rightarrow> int \<Rightarrow> real" where
  "service_seconds latency_ms hit max_tokens =
     ((if hit then 0 else latency_ms * 0.5) + latency_ms * 0.01 * of_int max_tokens) / 1000"

definition mock_vllm_max_tokens :: "py_text \<Rightarrow> (string \<times> json) list \<Rightarrow> int py" where
  "mock_vllm_max_tokens t body = py_int t (or_else (dget body ''max_tokens'') (JInt 16))"

definition mock_vllm_reply :: "string \<Rightarrow> string \<Rightarrow> int \<Rightarrow> json" where
  "mock_vllm_reply model prompt max_tokens =
     (let p = max 1 (int (length prompt) div 4)
      in JObj [(''id'', JStr ''mock''), (''object'', JStr ''chat.completion''), (''model'', JStr model),
           (''choices'', JArr [JObj [(''index'', JInt 0),
              (''message'', JObj [(''role'', JStr ''assistant''), (''content'', JStr ''ok'')]),
              (''finish_reason'', JStr ''stop'')]]),
           (''usage'', JObj [(''prompt_tokens'', JInt p), (''completion_tokens'', JInt max_tokens),
                             (''total_tokens'', JInt (p + max_tokens))])])"

subsection \<open>Interleaved requests\<close>

text \<open>The requests that were admitted and still spin, and those in service.\<close>

record engine_run =
  er_state :: engine_state
  er_starting :: nat
  er_serving :: nat

inductive engine_step :: "engine_run \<Rightarrow> engine_run \<Rightarrow> bool" where
  arrive: "engine_step r (r\<lparr>er_state := fst (admit key (er_state r)), er_starting := er_starting r + 1\<rparr>)"
| start: "er_starting r > 0 \<Longrightarrow> start_service (er_state r) = Some e \<Longrightarrow>
    engine_step r (r\<lparr>er_state := e, er_starting := er_starting r - 1, er_serving := er_serving r + 1\<rparr>)"
| finish: "er_serving r > 0 \<Longrightarrow>
    engine_step r (r\<lparr>er_state := release_slot (er_state r), er_serving := er_serving r - 1\<rparr>)"
| reset: "engine_step r (r\<lparr>er_state := engine_reset (er_state r)\<rparr>)"

inductive engine_reachable :: "int \<Rightarrow> real \<Rightarrow> engine_run \<Rightarrow> bool" for n kv where
  initial: "engine_reachable n kv \<lparr>er_state = engine_init n kv, er_starting = 0, er_serving = 0\<rparr>"
| step: "engine_reachable n kv r \<Longrightarrow> engine_step r r' \<Longrightarrow> engine_reachable n kv r'"

definition engine_inv :: "int \<Rightarrow> engine_run \<Rightarrow> bool" where
  "engine_inv n r \<longleftrightarrow>
     eg_max (er_state r) = n \<and> 0 \<le> eg_waiting (er_state r) \<and> eg_running (er_state r) \<le> n \<and>
     eg_running (er_state r) + eg_waiting (er_state r) = int (er_starting r + er_serving r) \<and>
     eg_waiting (er_state r) \<le> int (er_starting r)"

lemma engine_inv_admit:
  "engine_inv n r \<Longrightarrow> engine_inv n (r\<lparr>er_state := fst (admit key (er_state r)), er_starting := er_starting r + 1\<rparr>)"
  by (auto simp: engine_inv_def admit_def Let_def)

lemma engine_step_inv: "engine_step r r' \<Longrightarrow> engine_inv n r \<Longrightarrow> engine_inv n r'"
proof (induction rule: engine_step.induct)
  case (arrive r key)
  then show ?case by (rule engine_inv_admit)
next
  case (start r e)
  then show ?case by (auto simp: engine_inv_def start_service_def split: if_splits)
next
  case (finish r)
  then show ?case by (auto simp: engine_inv_def release_slot_def)
next
  case (reset r)
  then show ?case by (simp add: engine_inv_def engine_reset_def)
qed

lemma engine_reachable_inv:
  "engine_reachable n kv r \<Longrightarrow> 0 \<le> n \<Longrightarrow> engine_inv n r"
proof (induction rule: engine_reachable.induct)
  case initial
  then show ?case by (simp add: engine_inv_def engine_init_def)
next
  case (step r r')
  then show ?case using engine_step_inv by blast
qed

lemma two_arrivals:
  "\<exists>r. engine_reachable 1 kv r \<and> er_starting r = 2 \<and> er_serving r = 0 \<and>
     eg_running (er_state r) = eg_max (er_state r) \<and> eg_waiting (er_state r) > 0"
proof -
  let ?r0 = "\<lparr>er_state = engine_init 1 kv, er_starting = 0, er_serving = 0\<rparr>"
  let ?next = "\<lambda>r. r\<lparr>er_state := fst (admit ''a'' (er_state r)), er_starting := er_starting r + 1\<rparr>"
  have "engine_reachable 1 kv (?next ?r0)" by (rule engine_reachable.step [OF engine_reachable.initial arrive])
  then have "engine_reachable 1 kv (?next (?next ?r0))" by (rule engine_reachable.step [OF _ arrive])
  then show ?thesis
    by (intro exI [of _ "?next (?next ?r0)"]) (simp add: admit_def engine_init_def Let_def)
qed

text \<open>
  C32: the gauges that the gateway scrapes from the mock engine are truthful. Over any interleaving of
  arrivals, starts, releases and resets, the running count stays between 0 and the limit, the waiting
  count is never negative, and the two together count exactly the requests that are open.
\<close>

theorem engine_gauges:
  assumes "engine_reachable n kv r" and "0 \<le> n"
  shows "eg_running (er_state r) \<le> n \<and> 0 \<le> eg_waiting (er_state r) \<and> eg_waiting (er_state r) \<le> int (er_starting r) \<and>
    int (er_serving r) \<le> eg_running (er_state r) \<and>
    eg_running (er_state r) + eg_waiting (er_state r) = int (er_starting r + er_serving r)"
  using engine_reachable_inv [OF assms] by (auto simp: engine_inv_def)

theorem engine_gauges_witness:
  "\<exists>r. engine_reachable 1 (1 / 8) r \<and> er_starting r = 2 \<and>
     eg_running (er_state r) + eg_waiting (er_state r) = int (er_starting r + er_serving r)"
  using engine_gauges [of 1 "1 / 8"] two_arrivals [of "1 / 8"] by (metis zero_le_one)

text \<open>
  But the loop can lock up: when a full engine admits one more request before the requests that took
  the slots have passed \<open>start_service\<close>, all of them wait for a release that none of them can reach.
\<close>

lemma engine_stuck:
  assumes "er_serving r = 0" and "eg_running (er_state r) = eg_max (er_state r)" and "eg_waiting (er_state r) > 0"
    and "engine_step r r'"
  shows "er_serving r' = 0 \<and> eg_running (er_state r') = eg_max (er_state r') \<and> eg_waiting (er_state r') > 0"
  using assms(4,1-3)
  by cases (auto simp: admit_def start_service_def engine_reset_def Let_def)

lemma engine_stuck_forever:
  assumes "engine_step\<^sup>*\<^sup>* r r'"
    and "er_serving r = 0" and "eg_running (er_state r) = eg_max (er_state r)" and "eg_waiting (er_state r) > 0"
  shows "er_serving r' = 0 \<and> eg_running (er_state r') = eg_max (er_state r') \<and> eg_waiting (er_state r') > 0"
  using assms(1)
proof (induction rule: rtranclp_induct)
  case base
  show ?case using assms(2-4) by blast
next
  case (step r1 r2)
  then show ?case using engine_stuck [of r1 r2] by blast
qed

text \<open>
  C33: the lock-up is reachable and permanent. With a limit of one, two arrivals are enough, and from
  there on no run of the engine, whatever arrives later, serves a request.
\<close>

theorem engine_deadlock:
  "\<exists>r. engine_reachable 1 kv r \<and> er_starting r = 2 \<and>
     (\<nexists>r'. engine_step\<^sup>*\<^sup>* r r' \<and> er_serving r' > 0)"
proof -
  obtain r where r: "engine_reachable 1 kv r" "er_starting r = 2" "er_serving r = 0"
    "eg_running (er_state r) = eg_max (er_state r)" "eg_waiting (er_state r) > 0"
    using two_arrivals by blast
  then have "\<nexists>r'. engine_step\<^sup>*\<^sup>* r r' \<and> er_serving r' > 0"
    using engine_stuck_forever [of r] by (metis less_irrefl)
  with r show ?thesis by blast
qed

subsection \<open>The delay proxy\<close>

record delay_proxy =
  dp_upstream :: string
  dp_mult :: real

definition delay_proxy_init :: "string \<Rightarrow> real \<Rightarrow> delay_proxy" where
  "delay_proxy_init upstream latency_mult =
     \<lparr>dp_upstream = rstrip_by (\<lambda>c. c = CHR ''/'') upstream, dp_mult = max 1 latency_mult\<rparr>"

definition drop_headers :: "string list \<Rightarrow> (string \<times> string) list \<Rightarrow> (string \<times> string) list" where
  "drop_headers names hs = filter (\<lambda>kv. py_lower (fst kv) \<notin> set names) hs"

definition forwarded_headers :: "(string \<times> string) list \<Rightarrow> (string \<times> string) list" where
  "forwarded_headers hs = drop_headers [''host'', ''content-length'', ''transfer-encoding''] hs"

definition returned_headers :: "(real \<Rightarrow> string) \<Rightarrow> (real \<Rightarrow> string) \<Rightarrow> delay_proxy \<Rightarrow> real \<Rightarrow>
    (string \<times> string) list \<Rightarrow> (string \<times> string) list" where
  "returned_headers repr_float fmt2 d elapsed hs =
     AList.update ''X-DIO-Upstream-Ms'' (fmt2 (elapsed * 1000))
       (AList.update ''X-DIO-Delay-Mult'' (repr_float (dp_mult d))
         (drop_headers [''content-encoding'', ''transfer-encoding'', ''content-length'', ''connection''] hs))"

definition delay_seconds :: "delay_proxy \<Rightarrow> real \<Rightarrow> real" where
  "delay_seconds d elapsed = (if dp_mult d > 1 then elapsed * (dp_mult d - 1) else 0)"

definition upstream_url :: "delay_proxy \<Rightarrow> string \<Rightarrow> string" where
  "upstream_url d path = dp_upstream d @ (if path = [] then ''/'' else ''/'' @ path)"

text \<open>The client sees the upstream time multiplied, and never less than it.\<close>

lemma delay_total:
  "d = delay_proxy_init upstream mult \<Longrightarrow> elapsed + delay_seconds d elapsed = elapsed * max 1 mult"
  by (auto simp: delay_proxy_init_def delay_seconds_def algebra_simps max_def)

end
