(* ===== verification/Experiment_Stats.thy ===== *)
theory Experiment_Stats
  imports Admission
begin

text \<open>
  The statistics behind the reported experiments (\<open>dio-serve/scripts\<close>): means and deviations over seeds,
  the nearest-rank and the interpolated percentile, the least-squares line of \<open>run_regime_d_hetero.py\<close>,
  and the exact signed-rank test of \<open>audit_g1_confound.py\<close>. The lemmas show that the line is optimal and
  its coefficient of determination a fraction, and that the test is a probability that does not
  depend on which of the two arms is called the treatment.
\<close>

subsection \<open>Route counts\<close>

text \<open>\<open>routes[wid] = routes.get(wid, 0) + 1\<close>\<close>

definition count_route :: "string \<Rightarrow> nat dict \<Rightarrow> nat dict" where
  "count_route wid routes =
     AList.update wid ((case map_of routes wid of None \<Rightarrow> 0 | Some n \<Rightarrow> n) + 1) routes"

lemma count_route_sum: "sum_list (map snd (count_route w routes)) = sum_list (map snd routes) + 1"
  unfolding count_route_def by (induction routes) auto

subsection \<open>Means and percentiles\<close>

text \<open>\<open>statistics.mean\<close> and \<open>statistics.stdev\<close>; the sources call them on enough samples only.\<close>

definition stats_mean :: "real list \<Rightarrow> real" where
  "stats_mean xs = sum_list xs / real (length xs)"

definition stats_stdev :: "real list \<Rightarrow> real" where
  "stats_stdev xs = sqrt (sum_list (map (\<lambda>x. (x - stats_mean xs) ^ 2) xs) / real (length xs - 1))"

text \<open>The summary of one measured field over the seeds; None where the source has no value.\<close>

record seed_stats =
  ss_mean :: "real option"
  ss_std :: "real option"
  ss_n :: nat

definition mean_std :: "real option list \<Rightarrow> seed_stats" where
  "mean_std xs =
     (let vals = List.map_filter id xs
      in if vals = [] then \<lparr>ss_mean = None, ss_std = None, ss_n = 0\<rparr>
         else \<lparr>ss_mean = Some (stats_mean vals),
               ss_std = Some (if length vals > 1 then stats_stdev vals else 0), ss_n = length vals\<rparr>)"

text \<open>The summary with the half-width of a normal 95 percent interval.\<close>

definition half_width :: "real list \<Rightarrow> real" where
  "half_width xs = (if length xs > 1 then 1.96 * stats_stdev xs / sqrt (real (length xs)) else 0)"

definition nearest_pct :: "real list \<Rightarrow> real \<Rightarrow> real option" where
  "nearest_pct xs p =
     (if xs = [] then None
      else let s = sort xs;
               i = min (int (length s) - 1) (max 0 (py_round ((p / 100) * real (length s - 1))))
           in Some (s ! nat i))"

definition pct_interpolated :: "real list \<Rightarrow> real \<Rightarrow> real option" where
  "pct_interpolated xs p =
     (if xs = [] then None
      else let ys = sort xs
           in if length ys = 1 then Some (ys ! 0)
              else let k = (max 0 (min 100 p) / 100) * real (length ys - 1);
                       lo = py_trunc k; hi = min (int (length ys) - 1) (py_trunc k + 1)
                   in if lo = hi then Some (ys ! nat lo)
                      else let t = k - of_int lo
                           in Some (ys ! nat lo * (1 - t) + ys ! nat hi * t))"

subsection \<open>Least squares\<close>

record ols_line =
  ol_slope :: "real option"
  ol_intercept :: "real option"
  ol_n :: nat
  ol_r2 :: "real option"
  ol_degenerate :: bool
  ol_spread :: "(real \<times> real \<times> real) option"

text \<open>The fit is refused below three points and when the tokens do not vary (\<open>ol_degenerate\<close>).\<close>

definition ols_points :: "(real \<times> real) list \<Rightarrow> (real \<times> real) list" where
  "ols_points pairs = filter (\<lambda>(x, y). x > 0) pairs"

definition sum_over :: "('a \<Rightarrow> real) \<Rightarrow> 'a list \<Rightarrow> real" where
  "sum_over f xs = sum_list (map f xs)"

definition residual :: "(real \<times> real) list \<Rightarrow> real \<Rightarrow> real \<Rightarrow> real" where
  "residual pts slope intercept = sum_over (\<lambda>(x, y). (y - (slope * x + intercept)) ^ 2) pts"

definition ols_fit :: "(real \<times> real) list \<Rightarrow> ols_line" where
  "ols_fit pairs =
     (let pts = ols_points pairs; n = length pts
      in if n < 3
         then \<lparr>ol_slope = None, ol_intercept = None, ol_n = n, ol_r2 = None, ol_degenerate = False,
               ol_spread = None\<rparr>
         else let mx = stats_mean (map fst pts); my = stats_mean (map snd pts);
                  sxx = sum_over (\<lambda>(x, y). (x - mx) ^ 2) pts
              in if sxx \<le> 1 / 10 ^ 12
                 then \<lparr>ol_slope = None, ol_intercept = None, ol_n = n, ol_r2 = None, ol_degenerate = True,
                       ol_spread = None\<rparr>
                 else let sxy = sum_over (\<lambda>(x, y). (x - mx) * (y - my)) pts;
                          slope = sxy / sxx;
                          intercept = my - slope * mx;
                          ss_tot = sum_over (\<lambda>(x, y). (y - my) ^ 2) pts;
                          ss_res = residual pts slope intercept
                      in \<lparr>ol_slope = Some slope, ol_intercept = Some intercept, ol_n = n,
                          ol_r2 = (if ss_tot > 1 / 10 ^ 12 then Some (1 - ss_res / ss_tot) else None),
                          ol_degenerate = False,
                          ol_spread = Some (Min (fst ` set pts), Max (fst ` set pts), stats_stdev (map fst pts))\<rparr>)"

subsection \<open>The signed-rank test\<close>

text \<open>\<open>product((0, 1), repeat=n)\<close>.\<close>

fun sign_vectors :: "nat \<Rightarrow> bool list list" where
  "sign_vectors 0 = [[]]"
| "sign_vectors (Suc n) = map (Cons False) (sign_vectors n) @ map (Cons True) (sign_vectors n)"

definition signed_ranks :: "real list \<Rightarrow> real list" where
  "signed_ranks nz =
     foldl (\<lambda>ranks (r, i). ranks[i := real r]) (replicate (length nz) 0)
       (enumerate 1 (sort_key (\<lambda>i. \<bar>nz ! i\<bar>) [0..<length nz]))"

definition rank_sum :: "real list \<Rightarrow> bool list \<Rightarrow> real" where
  "rank_sum ranks signs = sum_list (map (\<lambda>(r, s). if s then r else 0) (zip ranks signs))"

record wilcoxon =
  wx_n :: nat
  wx_plus :: real
  wx_minus :: real
  wx_w :: real
  wx_p :: real

definition exact_wilcoxon :: "real list \<Rightarrow> wilcoxon" where
  "exact_wilcoxon ds =
     (let nz = filter (\<lambda>d. d \<noteq> 0) ds; n = length nz;
          ranks = signed_ranks nz;
          w_plus = sum_list (map (\<lambda>i. ranks ! i) (filter (\<lambda>i. nz ! i > 0) [0..<n]));
          w_minus = sum_list (map (\<lambda>i. ranks ! i) (filter (\<lambda>i. nz ! i < 0) [0..<n]));
          w = min w_plus w_minus;
          tot = real n * (real n + 1) / 2;
          count = length (filter (\<lambda>signs. min (rank_sum ranks signs) (tot - rank_sum ranks signs) \<le> w)
                            (sign_vectors n))
      in \<lparr>wx_n = n, wx_plus = w_plus, wx_minus = w_minus, wx_w = w, wx_p = real count / 2 ^ n\<rparr>)"

subsection \<open>The two percentiles\<close>

text \<open>The interpolated percentile of the reports is the one that the admission gate computes.\<close>

lemma pct_interpolated_eq: "pct_interpolated xs p = (if xs = [] then None else Some (percentile xs p))"
proof (cases "length xs \<le> 1")
  case True
  then show ?thesis by (auto simp: pct_interpolated_def percentile_def Let_def le_Suc_eq)
next
  case False
  let ?k = "rank_of xs p" and ?n = "int (length xs)"
  have k: "0 \<le> ?k" "?k \<le> real (length xs - 1)" by (rule rank_of_bounds)+
  have trunc: "py_trunc ?k = \<lfloor>?k\<rfloor>" using k(1) by (simp add: py_trunc_def)
  have top: "\<lceil>?k\<rceil> \<le> ?n - 1"
  proof -
    have "?k \<le> of_int (?n - 1)" using k(2) False by simp
    then show ?thesis by (simp only: ceiling_le_iff)
  qed
  let ?low = "sort xs ! nat \<lfloor>?k\<rfloor>" and ?t = "?k - of_int \<lfloor>?k\<rfloor>" and ?hi = "min (?n - 1) (\<lfloor>?k\<rfloor> + 1)"
  have ne: "sort xs \<noteq> []" "xs \<noteq> []" "length xs \<noteq> 1" using False by auto
  have same: "rank_of (sort xs) p = ?k" by (simp add: rank_of_def)
  have a: "pct_interpolated xs p =
      (if \<lfloor>?k\<rfloor> = ?hi then Some ?low else Some (?low * (1 - ?t) + sort xs ! nat ?hi * ?t))"
    using ne by (simp only: pct_interpolated_def Let_def rank_of_def [symmetric] length_sort if_False trunc same)
  have b: "percentile xs p =
      (if \<lfloor>?k\<rfloor> = \<lceil>?k\<rceil> then ?low else ?low * (1 - ?t) + sort xs ! nat \<lceil>?k\<rceil> * ?t)"
    using ne by (simp only: percentile_def Let_def rank_of_def [symmetric] length_sort if_False same)
  show ?thesis
  proof (cases "?t = 0")
    case True
    then have "\<lfloor>?k\<rfloor> = \<lceil>?k\<rceil>" by (metis ceiling_of_int eq_iff_diff_eq_0)
    with True ne show ?thesis unfolding a b by simp
  next
    case False
    then have "\<lceil>?k\<rceil> = \<lfloor>?k\<rfloor> + 1" by (intro frac_ceiling) (simp add: frac_def)
    with top have "?hi = \<lceil>?k\<rceil>" by simp
    with ne show ?thesis unfolding a b by simp
  qed
qed

lemma nearest_pct_in:
  assumes "nearest_pct xs p = Some y"
  shows "y \<in> set xs"
proof -
  let ?i = "min (int (length (sort xs)) - 1) (max 0 (py_round ((p / 100) * real (length (sort xs) - 1))))"
  have "xs \<noteq> []" and y: "y = sort xs ! nat ?i"
    using assms by (auto simp: nearest_pct_def Let_def split: if_splits)
  then have "nat ?i < length (sort xs)" by (cases xs) auto
  then show "y \<in> set xs" unfolding y by (metis nth_mem set_sort)
qed

subsection \<open>The least-squares line\<close>

lemma sum_over_simps [simp]: "sum_over f [] = 0" "sum_over f (x # xs) = f x + sum_over f xs"
  by (simp_all add: sum_over_def)

lemma residual_expand:
  "residual pts a b =
   sum_over (\<lambda>(x, y). y ^ 2) pts - 2 * a * sum_over (\<lambda>(x, y). x * y) pts - 2 * b * sum_over (\<lambda>(x, y). y) pts
   + a ^ 2 * sum_over (\<lambda>(x, y). x ^ 2) pts + 2 * a * b * sum_over (\<lambda>(x, y). x) pts
   + real (length pts) * b ^ 2"
  unfolding residual_def by (induction pts) (auto simp: algebra_simps power2_eq_square)

lemma centred_sums:
  "sum_over (\<lambda>(x, y). (x - m) ^ 2) pts =
   sum_over (\<lambda>(x, y). x ^ 2) pts - 2 * m * sum_over (\<lambda>(x, y). x) pts + real (length pts) * m ^ 2"
  "sum_over (\<lambda>(x, y). (y - k) ^ 2) pts =
   sum_over (\<lambda>(x, y). y ^ 2) pts - 2 * k * sum_over (\<lambda>(x, y). y) pts + real (length pts) * k ^ 2"
  "sum_over (\<lambda>(x, y). (x - m) * (y - k)) pts =
   sum_over (\<lambda>(x, y). x * y) pts - k * sum_over (\<lambda>(x, y). x) pts - m * sum_over (\<lambda>(x, y). y) pts
   + real (length pts) * m * k"
  by (induction pts) (auto simp: algebra_simps power2_eq_square)

lemma mean_sums:
  "pts \<noteq> [] \<Longrightarrow> sum_over (\<lambda>(x, y). x) pts = real (length pts) * stats_mean (map fst pts)"
  "pts \<noteq> [] \<Longrightarrow> sum_over (\<lambda>(x, y). y) pts = real (length pts) * stats_mean (map snd pts)"
  by (simp_all add: stats_mean_def sum_over_def split_def)

text \<open>Completing the square: the residual of any line, from the centred sums.\<close>

lemma residual_square:
  assumes "pts \<noteq> []"
  defines "mx \<equiv> stats_mean (map fst pts)" and "my \<equiv> stats_mean (map snd pts)"
  defines "sxx \<equiv> sum_over (\<lambda>(x, y). (x - mx) ^ 2) pts" and "sxy \<equiv> sum_over (\<lambda>(x, y). (x - mx) * (y - my)) pts"
    and "syy \<equiv> sum_over (\<lambda>(x, y). (y - my) ^ 2) pts"
  assumes "sxx > 0"
  shows "residual pts a b =
    syy - sxy ^ 2 / sxx + sxx * (a - sxy / sxx) ^ 2 + real (length pts) * (my - a * mx - b) ^ 2"
proof -
  have "residual pts a b = syy - 2 * a * sxy + a ^ 2 * sxx + real (length pts) * (my - a * mx - b) ^ 2"
    unfolding residual_expand sxx_def sxy_def syy_def centred_sums
    using mean_sums [OF assms(1)]
    by (simp add: mx_def my_def algebra_simps power2_eq_square)
  also have "syy - 2 * a * sxy + a ^ 2 * sxx = syy - sxy ^ 2 / sxx + sxx * (a - sxy / sxx) ^ 2"
    using assms(7) by (simp add: field_simps power2_eq_square)
  finally show ?thesis .
qed

lemma sum_over_nonneg: "(\<And>x. 0 \<le> f x) \<Longrightarrow> 0 \<le> sum_over f xs"
  by (induction xs) auto

lemma ols_fit_line:
  assumes "ol_slope (ols_fit pairs) = Some s"
  defines "pts \<equiv> ols_points pairs"
  defines "mx \<equiv> stats_mean (map fst pts)" and "my \<equiv> stats_mean (map snd pts)"
  defines "sxx \<equiv> sum_over (\<lambda>(x, y). (x - mx) ^ 2) pts" and "sxy \<equiv> sum_over (\<lambda>(x, y). (x - mx) * (y - my)) pts"
    and "syy \<equiv> sum_over (\<lambda>(x, y). (y - my) ^ 2) pts"
  shows "3 \<le> length pts" and "1 / 10 ^ 12 < sxx" and "s = sxy / sxx"
    and "ol_intercept (ols_fit pairs) = Some (my - s * mx)"
    and "ol_r2 (ols_fit pairs) = (if syy > 1 / 10 ^ 12 then Some (1 - residual pts s (my - s * mx) / syy) else None)"
  using assms(1) unfolding sxx_def sxy_def syy_def mx_def my_def pts_def ols_fit_def Let_def
  by (auto split: if_splits)

text \<open>
  C35: when the reports quote a fitted slope, the line is the unique least-squares line of the points
  with a positive token count: every other line has a larger residual. The intercept comes with it,
  and the coefficient of determination, where it is given, is a fraction.
\<close>

theorem ols_fit_optimal:
  assumes "ol_slope (ols_fit pairs) = Some s"
  shows "\<exists>b. ol_intercept (ols_fit pairs) = Some b \<and>
    (\<forall>s' b'. (s', b') = (s, b) \<or> residual (ols_points pairs) s b < residual (ols_points pairs) s' b') \<and>
    (\<forall>r. ol_r2 (ols_fit pairs) = Some r \<longrightarrow> 0 \<le> r \<and> r \<le> 1)"
proof -
  let ?pts = "ols_points pairs"
  let ?mx = "stats_mean (map fst ?pts)" and ?my = "stats_mean (map snd ?pts)"
  let ?sxx = "sum_over (\<lambda>(x, y). (x - ?mx) ^ 2) ?pts" and ?sxy = "sum_over (\<lambda>(x, y). (x - ?mx) * (y - ?my)) ?pts"
    and ?syy = "sum_over (\<lambda>(x, y). (y - ?my) ^ 2) ?pts" and ?b = "?my - s * ?mx"
  note line = ols_fit_line [OF assms]
  have ne: "?pts \<noteq> []" and pos: "0 < ?sxx" using line(1,2) by (auto intro: less_trans [of 0 "1 / 10 ^ 12"])
  note square = residual_square [OF ne pos, folded line(3)]
  have best: "residual ?pts s ?b = ?syy - ?sxy ^ 2 / ?sxx" by (simp add: square)
  have "residual ?pts s ?b < residual ?pts s' b'" if "(s', b') \<noteq> (s, ?b)" for s' b'
  proof (cases "s' = s")
    case True
    with that have "0 < (?my - s' * ?mx - b') ^ 2" by auto
    with ne True show ?thesis by (simp add: best square)
  next
    case False
    then have "0 < ?sxx * (s' - s) ^ 2" using pos by simp
    then show ?thesis by (simp add: best square add_pos_nonneg)
  qed
  moreover have "0 \<le> r \<and> r \<le> 1" if r: "ol_r2 (ols_fit pairs) = Some r" for r
  proof -
    from r line(5) have big: "1 / 10 ^ 12 < ?syy" and r: "r = 1 - residual ?pts s ?b / ?syy" by (auto split: if_splits)
    have "0 < ?syy" using big by (auto intro: less_trans [of 0 "1 / 10 ^ 12"])
    moreover have "0 \<le> residual ?pts s ?b" unfolding residual_def by (rule sum_over_nonneg) auto
    moreover have "residual ?pts s ?b \<le> ?syy" using pos by (simp add: best)
    ultimately show ?thesis by (simp add: r)
  qed
  ultimately show ?thesis using line(4) by blast
qed

theorem ols_fit_optimal_witness:
  "\<exists>b. ol_intercept (ols_fit [(1, 3), (2, 5), (3, 7)]) = Some b \<and>
     residual [(1, 3), (2, 5), (3, 7)] 2 b < residual [(1, 3), (2, 5), (3, 7)] 3 0"
proof -
  have "ol_slope (ols_fit [(1, 3), (2, 5), (3, 7)]) = Some 2"
    by (simp add: ols_fit_def ols_points_def stats_mean_def)
  from ols_fit_optimal [OF this] obtain b where b: "ol_intercept (ols_fit [(1, 3), (2, 5), (3, 7)]) = Some b"
      "(3 :: real, 0) = (2, b) \<or> residual (ols_points [(1, 3), (2, 5), (3, 7)]) 2 b < residual (ols_points [(1, 3), (2, 5), (3, 7)]) 3 0"
    by blast
  moreover have "ols_points [(1, 3), (2, 5), (3, 7)] = [(1, 3), (2, 5), (3, 7)]" by (simp add: ols_points_def)
  ultimately show ?thesis by auto
qed

subsection \<open>The signed-rank test: ranks\<close>

lemma sign_vectors_length [simp]: "length (sign_vectors n) = 2 ^ n"
  by (induction n) auto

lemma set_sign_vectors: "set (sign_vectors n) = {signs. length signs = n}"
proof (induction n)
  case (Suc n)
  show ?case
  proof (intro set_eqI iffI)
    fix signs :: "bool list"
    assume "signs \<in> {signs. length signs = Suc n}"
    then obtain b rest where "signs = b # rest" "length rest = n" by (cases signs) auto
    with Suc show "signs \<in> set (sign_vectors (Suc n))" by (cases b) auto
  qed (use Suc in auto)
qed auto

lemma foldl_updates:
  assumes "distinct order" and "set order \<subseteq> {..<length rs}" and "k < length order"
  shows "foldl (\<lambda>ranks (r, i). ranks[i := real r]) rs (enumerate m order) ! (order ! k) = real (m + k)"
  using assms
proof (induction order arbitrary: rs m k rule: rev_induct)
  case (snoc x order)
  let ?run = "foldl (\<lambda>ranks (r, i). ranks[i := real r]) rs (enumerate m order)"
  have len: "length (foldl (\<lambda>ranks (r, i). ranks[i := real r]) rs (enumerate m order)) = length rs"
    for rs :: "real list" and m and order :: "nat list"
    by (induction order arbitrary: rs m) auto
  have step: "foldl (\<lambda>ranks (r, i). ranks[i := real r]) rs (enumerate m (order @ [x])) =
      ?run[x := real (m + length order)]"
    by (simp add: enumerate_append_eq)
  show ?case
  proof (cases "k = length order")
    case True
    with snoc.prems show ?thesis unfolding step by (simp add: len)
  next
    case False
    then have k: "k < length order" using snoc.prems(3) by simp
    then have "order ! k \<noteq> x" using snoc.prems(1) by (auto simp: in_set_conv_nth)
    with k snoc show ?thesis unfolding step by (simp add: nth_append)
  qed
qed simp

lemma foldl_updates_length:
  "length (foldl (\<lambda>ranks (r, i). ranks[i := real r]) rs es) = length rs"
  by (induction es arbitrary: rs) auto

lemma signed_ranks_length [simp]: "length (signed_ranks nz) = length nz"
  by (simp add: signed_ranks_def foldl_updates_length)

text \<open>The ranks are the numbers from 1 to n in some order.\<close>

lemma count_up: "sum_list (map (\<lambda>k. real (1 + k)) [0..<n]) = real n * (real n + 1) / 2"
  by (induction n) (auto simp: field_simps)

lemma signed_ranks_sum: "sum_list (signed_ranks nz) = real (length nz) * (real (length nz) + 1) / 2"
proof -
  let ?order = "sort_key (\<lambda>i. \<bar>nz ! i\<bar>) [0..<length nz]" and ?r = "signed_ranks nz" and ?n = "length nz"
  have "sum_list ?r = sum_list (map ((!) ?r) [0..<?n])" by (metis map_nth signed_ranks_length)
  also have "\<dots> = sum_list (map ((!) ?r) ?order)"
  proof -
    have "mset (map ((!) ?r) ?order) = mset (map ((!) ?r) [0..<?n])" by (simp only: mset_map mset_sort)
    then show ?thesis by (metis sum_mset_sum_list)
  qed
  also have "map ((!) ?r) ?order = map (\<lambda>k. real (1 + k)) [0..<?n]"
  proof (rule nth_equalityI)
    fix k
    assume "k < length (map ((!) ?r) ?order)"
    then have k: "k < length ?order" by simp
    have "?r ! (?order ! k) = real (1 + k)"
      unfolding signed_ranks_def by (rule foldl_updates [OF _ _ k]) auto
    with k show "map ((!) ?r) ?order ! k = map (\<lambda>k. real (1 + k)) [0..<?n] ! k" by simp
  qed simp
  also have "sum_list \<dots> = real ?n * (real ?n + 1) / 2" by (rule count_up)
  finally show ?thesis .
qed

lemma insort_key_same: "(\<And>y. y \<in> set (x # xs) \<Longrightarrow> f y = g y) \<Longrightarrow> insort_key f x xs = insort_key g x xs"
  by (induction xs) auto

lemma sort_key_same: "(\<And>x. x \<in> set xs \<Longrightarrow> f x = g x) \<Longrightarrow> sort_key f xs = sort_key g xs"
  by (induction xs) (auto simp: sort_key_simps intro!: insort_key_same)

lemma signed_ranks_uminus: "signed_ranks (map uminus nz) = signed_ranks nz"
proof -
  have "sort_key (\<lambda>i. \<bar>map uminus nz ! i\<bar>) [0..<length nz] = sort_key (\<lambda>i. \<bar>nz ! i\<bar>) [0..<length nz]"
    by (rule sort_key_same) simp
  then show ?thesis by (simp add: signed_ranks_def)
qed

subsection \<open>The signed-rank test: the distribution\<close>

text \<open>The sum of the ranks on one side, as the rank sum of a vector of signs.\<close>

lemma side_sum:
  assumes "length ranks = length nz"
  shows "sum_list (map (\<lambda>i. ranks ! i) (filter (\<lambda>i. P (nz ! i)) [0..<length nz])) = rank_sum ranks (map P nz)"
proof -
  have "map (\<lambda>(r, s). if s then r else 0) (zip ranks (map P nz)) =
      map (\<lambda>i. if P (nz ! i) then ranks ! i else 0) [0..<length nz]"
    by (rule nth_equalityI) (use assms in auto)
  then show ?thesis by (simp add: rank_sum_def sum_list_map_filter')
qed

lemma rank_sum_split:
  "length signs = length ranks \<Longrightarrow> rank_sum ranks signs + rank_sum ranks (map Not signs) = sum_list ranks"
  unfolding rank_sum_def by (induction ranks signs rule: list_induct2') auto

definition wilcoxon_count :: "real list \<Rightarrow> real \<Rightarrow> nat" where
  "wilcoxon_count ranks w =
     length (filter (\<lambda>signs. min (rank_sum ranks signs) (sum_list ranks - rank_sum ranks signs) \<le> w)
               (sign_vectors (length ranks)))"

lemma exact_wilcoxon_eq:
  fixes ds :: "real list"
  defines "nz \<equiv> filter (\<lambda>d. d \<noteq> 0) ds"
  defines "ranks \<equiv> signed_ranks nz"
  defines "up \<equiv> rank_sum ranks (map (\<lambda>d. d > 0) nz)" and "down \<equiv> rank_sum ranks (map (\<lambda>d. d < 0) nz)"
  shows "exact_wilcoxon ds =
    \<lparr>wx_n = length nz, wx_plus = up, wx_minus = down, wx_w = min up down,
     wx_p = real (wilcoxon_count ranks (min up down)) / 2 ^ length nz\<rparr>"
proof -
  have len: "length ranks = length nz" by (simp add: ranks_def)
  have tot: "real (length nz) * (real (length nz) + 1) / 2 = sum_list ranks"
    by (simp add: ranks_def signed_ranks_sum)
  show ?thesis
    unfolding exact_wilcoxon_def Let_def nz_def [symmetric] ranks_def [symmetric] tot
      side_sum [OF len, of "\<lambda>d. d > 0"] side_sum [OF len, of "\<lambda>d. d < 0"] up_def down_def wilcoxon_count_def len ..
qed

lemma up_plus_down:
  assumes "\<forall>d \<in> set nz. d \<noteq> (0 :: real)" and "length ranks = length nz"
  shows "rank_sum ranks (map (\<lambda>d. d > 0) nz) + rank_sum ranks (map (\<lambda>d. d < 0) nz) = sum_list ranks"
proof -
  have "map (\<lambda>d. d < 0) nz = map Not (map (\<lambda>d. d > 0) nz)" using assms(1) by (auto simp: not_less order.order_iff_strict)
  with rank_sum_split [of "map (\<lambda>d. d > 0) nz" ranks] assms(2) show ?thesis by (simp only: length_map)
qed

lemma wilcoxon_count_pos:
  assumes "length signs = length ranks"
  shows "0 < wilcoxon_count ranks (min (rank_sum ranks signs) (sum_list ranks - rank_sum ranks signs))"
proof -
  have "signs \<in> set (sign_vectors (length ranks))" using assms by (simp add: set_sign_vectors)
  then have "signs \<in> set (filter (\<lambda>s. min (rank_sum ranks s) (sum_list ranks - rank_sum ranks s)
      \<le> min (rank_sum ranks signs) (sum_list ranks - rank_sum ranks signs)) (sign_vectors (length ranks)))"
    by simp
  then show ?thesis unfolding wilcoxon_count_def by (rule length_pos_if_in_set)
qed

lemma wilcoxon_count_le: "wilcoxon_count ranks w \<le> 2 ^ length ranks"
  unfolding wilcoxon_count_def by (rule order.trans [OF length_filter_le]) simp

text \<open>
  The signed-rank test of the audit is sound as a computation: the two rank sums share out the sum
  of the ranks, the p-value is a probability and never 0 (the observed signs are among the counted
  ones), and it does not depend on which arm is called the treatment.
\<close>

lemma wilcoxon_sound:
  "0 < wx_p (exact_wilcoxon ds) \<and> wx_p (exact_wilcoxon ds) \<le> 1 \<and>
   wx_plus (exact_wilcoxon ds) + wx_minus (exact_wilcoxon ds) =
     real (wx_n (exact_wilcoxon ds)) * (real (wx_n (exact_wilcoxon ds)) + 1) / 2 \<and>
   wx_p (exact_wilcoxon (map uminus ds)) = wx_p (exact_wilcoxon ds)"
proof -
  let ?nz = "filter (\<lambda>d. d \<noteq> 0) ds"
  let ?r = "signed_ranks ?nz"
  let ?up = "rank_sum ?r (map (\<lambda>d. d > 0) ?nz)" and ?down = "rank_sum ?r (map (\<lambda>d. d < 0) ?nz)"
  note eq = exact_wilcoxon_eq [of ds]
  have split: "?up + ?down = sum_list ?r" by (rule up_plus_down) simp_all
  then have "?down = sum_list ?r - ?up" by simp
  then have pos: "0 < wilcoxon_count ?r (min ?up ?down)"
    using wilcoxon_count_pos [of "map (\<lambda>d. d > 0) ?nz" ?r] by (simp only: length_map signed_ranks_length)
  have "real (wilcoxon_count ?r (min ?up ?down)) \<le> real (2 ^ length ?nz)"
    using wilcoxon_count_le [of ?r "min ?up ?down"] by (simp only: of_nat_le_iff signed_ranks_length)
  then have le: "real (wilcoxon_count ?r (min ?up ?down)) \<le> 2 ^ length ?nz" by simp
  have nz: "filter (\<lambda>d. d \<noteq> 0) (map uminus ds) = map uminus ?nz" by (induction ds) auto
  have sides: "map (\<lambda>d. 0 < d) (map uminus ?nz) = map (\<lambda>d. d < 0) ?nz"
    "map (\<lambda>d. d < 0) (map uminus ?nz) = map (\<lambda>d. 0 < d) ?nz" by simp_all
  have "wx_p (exact_wilcoxon (map uminus ds)) = wx_p (exact_wilcoxon ds)"
    unfolding exact_wilcoxon_eq wilcoxon.simps nz sides signed_ranks_uminus length_map min.commute [of ?down] ..
  moreover have "0 < wx_p (exact_wilcoxon ds)" "wx_p (exact_wilcoxon ds) \<le> 1"
    using pos le unfolding eq wilcoxon.simps by simp_all
  moreover have "wx_plus (exact_wilcoxon ds) + wx_minus (exact_wilcoxon ds) =
      real (wx_n (exact_wilcoxon ds)) * (real (wx_n (exact_wilcoxon ds)) + 1) / 2"
    unfolding eq wilcoxon.simps split signed_ranks_sum ..
  ultimately show ?thesis by blast
qed

end
