(* ===== verification/Simulations.thy ===== *)
theory Simulations
  imports Scheduler_Metrics Experiment_Stats
begin

text \<open>
  The in-process experiments of \<open>dio-serve/scripts\<close>: closed loops that pick a backend, draw a latency
  from a simulated engine and feed it back, run on the model of the scheduler itself. The generator
  \<open>random.Random\<close> is a pair of draw functions: the k-th call yields \<open>u k\<close> (a number of [0, 1)) or the
  standard normal \<open>z k\<close>, and the state of a run carries the number of calls made. The clock that
  \<open>feedback\<close> reads is a parameter too.
\<close>

subsection \<open>Loops\<close>

text \<open>\<open>for x in xs: ...\<close> with a body that may raise.\<close>

fun for_loop :: "('a \<Rightarrow> 's \<Rightarrow> 'e + 's) \<Rightarrow> 'a list \<Rightarrow> 's \<Rightarrow> 'e + 's" where
  "for_loop body [] s = Inr s"
| "for_loop body (x # xs) s = py_bind (body x s) (for_loop body xs)"

definition uniform :: "real \<Rightarrow> real \<Rightarrow> real \<Rightarrow> real" where
  "uniform a b u = a + (b - a) * u"

text \<open>An error of the setup inside an experiment.\<close>

fun raised :: "'a py \<Rightarrow> pick_error + 'a" where
  "raised (Inl e) = Inl (PickRaised e)"
| "raised (Inr x) = Inr x"

subsection \<open>The publishable suite\<close>

record sim_backend =
  sb_id :: string
  sb_slope :: real
  sb_bias :: real
  sb_tier :: string
  sb_free_vram :: real
  sb_total_vram :: real
  sb_jitter :: real
  sb_thermal_start :: int
  sb_thermal_ramp :: real
  sb_thermal_max :: real
  sb_n_served :: int

definition sim_backend_default :: "string \<Rightarrow> real \<Rightarrow> real \<Rightarrow> sim_backend" where
  "sim_backend_default bid slope bias =
     \<lparr>sb_id = bid, sb_slope = slope, sb_bias = bias, sb_tier = ''small'', sb_free_vram = 20000,
      sb_total_vram = 24000, sb_jitter = 0.08, sb_thermal_start = 10 ^ 9, sb_thermal_ramp = 0,
      sb_thermal_max = 1, sb_n_served = 0\<rparr>"

definition sim_serve :: "sim_backend \<Rightarrow> int \<Rightarrow> real \<Rightarrow> sim_backend \<times> real" where
  "sim_serve b tokens u =
     (let n = sb_n_served b + 1;
          th = (if n \<ge> sb_thermal_start b
                then min (sb_thermal_max b) (1 + of_int (n - sb_thermal_start b) * sb_thermal_ramp b) else 1);
          noise = 1 + uniform (- sb_jitter b) (sb_jitter b) u
      in (b\<lparr>sb_n_served := n\<rparr>, max 1 ((sb_bias b + sb_slope b * of_int tokens) * th * noise)))"

record sim_run =
  sr_sched :: sched
  sr_backends :: "sim_backend dict"
  sr_draws :: nat
  sr_lats :: "real list"
  sr_ok :: nat
  sr_fail :: nat
  sr_rej :: nat
  sr_routes :: "nat dict"

definition sim_register :: "sched \<Rightarrow> sim_backend dict \<Rightarrow> sched" where
  "sim_register s backends =
     foldl (\<lambda>s (k, b). if map_of (s_predictors s) (sb_id b) = None
              then register s (sb_id b) (sb_tier b) (sb_total_vram b) (Some (sb_free_vram b))
              else set_vram s (sb_id b) (sb_free_vram b)) s backends"

definition sim_prompt :: "int \<Rightarrow> string" where
  "sim_prompt tokens = replicate (nat (max 4 (tokens * 4))) (CHR ''x'')"

definition sim_step ::
  "(string \<Rightarrow> nat) \<Rightarrow> (nat \<Rightarrow> int) \<Rightarrow> (nat \<Rightarrow> real) \<Rightarrow> (nat \<Rightarrow> int) \<Rightarrow> (nat \<Rightarrow> string) \<Rightarrow> nat \<Rightarrow> sim_run \<Rightarrow>
   pick_error + sim_run" where
  "sim_step h clock u tokens_fn tier_fn i r =
     (let tokens = tokens_fn i
      in case pick h (sr_sched r) (sim_prompt tokens) (tier_fn i) (Some tokens) None of
           (s, Inl (AdmissionError msg retry)) \<Rightarrow>
             Inr (r\<lparr>sr_sched := s, sr_rej := sr_rej r + 1, sr_fail := sr_fail r + 1\<rparr>)
         | (s, Inl (PickRaised e)) \<Rightarrow> Inl (PickRaised e)
         | (s, Inr (wid, dec)) \<Rightarrow>
             (case map_of (sr_backends r) wid of
                None \<Rightarrow> Inl (PickRaised (KeyError wid))
              | Some b \<Rightarrow>
                  (let (b', actual) = sim_serve b tokens (u (sr_draws r));
                       s2 = feedback (set_vram s wid (sb_free_vram b')) wid actual tokens True (clock i)
                   in Inr (r\<lparr>sr_sched := s2, sr_backends := AList.update wid b' (sr_backends r),
                             sr_draws := sr_draws r + 1, sr_lats := sr_lats r @ [actual],
                             sr_ok := sr_ok r + 1, sr_routes := count_route wid (sr_routes r)\<rparr>))))"

definition sim_start :: "sched \<Rightarrow> sim_backend dict \<Rightarrow> nat \<Rightarrow> sim_run" where
  "sim_start s backends k =
     \<lparr>sr_sched = sim_register s backends, sr_backends = backends, sr_draws = k, sr_lats = [], sr_ok = 0,
      sr_fail = 0, sr_rej = 0, sr_routes = []\<rparr>"

text \<open>The loop of \<open>simulate_load\<close>, and its report with the wall time as a parameter.\<close>

definition simulate_load ::
  "(string \<Rightarrow> nat) \<Rightarrow> (nat \<Rightarrow> int) \<Rightarrow> (nat \<Rightarrow> real) \<Rightarrow> sched \<Rightarrow> sim_backend dict \<Rightarrow> nat \<Rightarrow> (nat \<Rightarrow> int) \<Rightarrow>
   (nat \<Rightarrow> string) \<Rightarrow> nat \<Rightarrow> pick_error + sim_run" where
  "simulate_load h clock u s backends n tokens_fn tier_fn k =
     for_loop (sim_step h clock u tokens_fn tier_fn) [0..<n] (sim_start s backends k)"

record sim_report =
  rp_n_ok :: nat
  rp_n_fail :: nat
  rp_n_rejected :: nat
  rp_p50_ms :: "real option"
  rp_p95_ms :: "real option"
  rp_p99_ms :: "real option"
  rp_mean_ms :: "real option"
  rp_rps :: real
  rp_goodput_under_slo_rps :: real
  rp_routes :: "nat dict"
  rp_admission :: "(string \<times> json) list"
  rp_pred_count :: nat
  rp_mae_ms :: real
  rp_mape_pct :: real
  rp_workers :: json

definition load_report :: "real \<Rightarrow> sim_run \<Rightarrow> sim_report" where
  "load_report wall r =
     (let s = sr_sched r; lats = sr_lats r; hist = s_pred_history s
      in \<lparr>rp_n_ok = sr_ok r, rp_n_fail = sr_fail r, rp_n_rejected = sr_rej r,
          rp_p50_ms = nearest_pct lats 50, rp_p95_ms = nearest_pct lats 95, rp_p99_ms = nearest_pct lats 99,
          rp_mean_ms = (if lats = [] then None else Some (stats_mean lats)),
          rp_rps = (if wall > 0 then real (sr_ok r) / wall else 0),
          rp_goodput_under_slo_rps =
            (if wall > 0 then real (adm_completed_under_slo (s_admission s)) / wall else 0),
          rp_routes = sr_routes r, rp_admission = admission_json s, rp_pred_count = length hist,
          rp_mae_ms = history_mean ui_abs_err hist, rp_mape_pct = history_mean ui_rel_err hist * 100,
          rp_workers = JObj (map (\<lambda>(wid, p). (wid, nlms_snapshot p)) (s_predictors s))\<rparr>)"

subsection \<open>The experiments of the suite\<close>

text \<open>
  One run of an experiment: a fresh scheduler, its backends, the run. The variants of an experiment run
  one after the other and share the generator.
\<close>

definition sim_experiment ::
  "(string \<Rightarrow> nat) \<Rightarrow> (nat \<Rightarrow> int) \<Rightarrow> (nat \<Rightarrow> real) \<Rightarrow> sched_args \<Rightarrow> sim_backend dict \<Rightarrow> nat \<Rightarrow> (nat \<Rightarrow> int) \<Rightarrow>
   (nat \<Rightarrow> string) \<Rightarrow> nat \<Rightarrow> pick_error + sim_run" where
  "sim_experiment h clock u a backends n tokens_fn tier_fn k =
     py_bind (raised (scheduler_init a)) (\<lambda>s. simulate_load h clock u s backends n tokens_fn tier_fn k)"

definition run_variants ::
  "(string \<Rightarrow> nat) \<Rightarrow> (nat \<Rightarrow> int) \<Rightarrow> (nat \<Rightarrow> real) \<Rightarrow> (string \<times> sched_args \<times> sim_backend dict) list \<Rightarrow> nat \<Rightarrow>
   (nat \<Rightarrow> int) \<Rightarrow> (nat \<Rightarrow> string) \<Rightarrow> nat \<Rightarrow> pick_error + (string \<times> sim_run) list \<times> nat" where
  "run_variants h clock u variants n tokens_fn tier_fn k =
     for_loop (\<lambda>(name, a, backends) (results, k).
         py_bind (sim_experiment h clock u a backends n tokens_fn tier_fn k) (\<lambda>r.
         Inr (results @ [(name, r)], sr_draws r)))
       variants ([], k)"

definition always_small :: "nat \<Rightarrow> string" where
  "always_small i = ''small''"

definition open_args :: "sched_args" where
  "open_args = sched_default_args\<lparr>g_admission_off := True, g_slo_ms := 10 ^ 9\<rparr>"

text \<open>N1: two learners on a bursty and on a heating engine.\<close>

definition n1_backends :: "sim_backend dict" where
  "n1_backends =
     [(''fast'', (sim_backend_default ''fast'' 10 50)\<lparr>sb_jitter := 0.28\<rparr>),
      (''slow'', (sim_backend_default ''slow'' 12 80)\<lparr>sb_jitter := 0.05, sb_thermal_start := 25,
                   sb_thermal_ramp := 0.03, sb_thermal_max := 2\<rparr>)]"

definition n1_args :: "bool \<Rightarrow> sched_args" where
  "n1_args dual =
     open_args\<lparr>g_dual := dual,
               g_ablation := Some (ablation_full\<lparr>ab_name := (if dual then ''full'' else ''no_dual''),
                                                 ab_single_timescale := \<not> dual\<rparr>)\<rparr>"

definition exp_N1 where
  "exp_N1 h clock u n k =
     run_variants h clock u [(''N1_DUAL'', n1_args True, n1_backends), (''N1_SINGLE'', n1_args False, n1_backends)]
       n (\<lambda>i. int (40 + (i mod 40) * 3)) always_small k"

text \<open>N2: short and long requests with and without admission.\<close>

definition n2_backends :: "sim_backend dict" where
  "n2_backends =
     [(''a'', (sim_backend_default ''a'' 5 80)\<lparr>sb_jitter := 0.03\<rparr>),
      (''b'', (sim_backend_default ''b'' 6 90)\<lparr>sb_jitter := 0.03\<rparr>)]"

definition exp_N2 where
  "exp_N2 h clock u n k =
     run_variants h clock u
       (map (\<lambda>(off, name). (name, sched_default_args\<lparr>g_admission_off := off, g_slo_ms := 700\<rparr>, n2_backends))
          [(True, ''N2_admission_off''), (False, ''N2_admission_on'')])
       n (\<lambda>i. if i mod 2 = 0 then 40 else 200) always_small k"

definition n2_goodput_fraction :: "nat \<Rightarrow> sim_run \<Rightarrow> real" where
  "n2_goodput_fraction n r = real (adm_completed_under_slo (s_admission (sr_sched r))) / real (max 1 n)"

text \<open>N3: two tiers, with the tier rules and without.\<close>

definition n3_backends :: "sim_backend dict" where
  "n3_backends =
     [(''small0'', sim_backend_default ''small0'' 6 40),
      (''large0'', (sim_backend_default ''large0'' 20 100)\<lparr>sb_tier := ''large''\<rparr>)]"

definition exp_N3 where
  "exp_N3 h clock u n k =
     run_variants h clock u
       (map (\<lambda>(off, tag). (''N3_'' @ tag,
               open_args\<lparr>g_ablation := Some (ablation_full\<lparr>ab_name := tag, ab_disable_tier := off\<rparr>)\<rparr>, n3_backends))
          [(False, ''tier_on''), (True, ''tier_off'')])
       n (\<lambda>i. int (30 + i mod 10)) (\<lambda>i. if i mod 3 = 0 then ''large'' else ''small'') k"

text \<open>N4: the ablations and the baselines.\<close>

definition n4_variants :: "(string \<times> bool \<times> ablation_flags) list" where
  "n4_variants =
     [(''nlms'', True, ablation_full),
      (''nlms'', True, ablation_full\<lparr>ab_name := ''no_queue'', ab_disable_queue := True\<rparr>),
      (''nlms'', True, ablation_full\<lparr>ab_name := ''no_vram'', ab_disable_vram_soft := True, ab_disable_vram_hard := True\<rparr>),
      (''nlms'', True, ablation_full\<lparr>ab_name := ''no_tier'', ab_disable_tier := True\<rparr>),
      (''nlms'', False, ablation_full\<lparr>ab_name := ''no_dual'', ab_single_timescale := True\<rparr>),
      (''rls'', True, ablation_full), (''static'', True, ablation_full), (''round_robin'', True, ablation_full),
      (''least_loaded'', True, ablation_full)]"

definition n4_args :: "string \<times> bool \<times> ablation_flags \<Rightarrow> sched_args" where
  "n4_args v =
     (case v of (strategy, dual, abl) \<Rightarrow>
        open_args\<lparr>g_strategy := strategy, g_dual := (dual \<and> \<not> ab_single_timescale abl), g_ablation := Some abl,
                  g_static_slope := 15, g_static_intercept := 60\<rparr>)"

definition n4_backends :: "sim_backend dict" where
  "n4_backends =
     [(''fast'', (sim_backend_default ''fast'' 8 40)\<lparr>sb_free_vram := 18000\<rparr>),
      (''slow'', (sim_backend_default ''slow'' 22 90)\<lparr>sb_free_vram := 3000, sb_thermal_start := 30,
                   sb_thermal_ramp := 0.02, sb_thermal_max := 1.5\<rparr>)]"

definition n4_tokens :: "nat \<Rightarrow> int" where
  "n4_tokens i = int (50 + (i mod 30) * 2)"

definition exp_N4 where
  "exp_N4 h clock u n k =
     run_variants h clock u
       (map (\<lambda>v. (''N4_'' @ fst v @ ''_'' @ ab_name (snd (snd v)), n4_args v, n4_backends)) n4_variants)
       n n4_tokens always_small k"

text \<open>N5: many backends. N2b: one backend below the hard memory limit.\<close>

definition n5_backends :: "nat \<Rightarrow> sim_backend dict" where
  "n5_backends n_workers =
     map (\<lambda>i. (''w'' @ show_nat i,
               (sim_backend_default (''w'' @ show_nat i) (real (5 + i mod 5)) (real (30 + i)))\<lparr>sb_jitter := 0.05\<rparr>))
       [0..<n_workers]"

definition exp_N5 where
  "exp_N5 h clock u n_workers n k =
     sim_experiment h clock u open_args (n5_backends n_workers) n (\<lambda>i. int (20 + i mod 15)) always_small k"

definition n2b_backends :: "sim_backend dict" where
  "n2b_backends =
     [(''only'', (sim_backend_default ''only'' 5 40)\<lparr>sb_free_vram := 1500, sb_total_vram := 8000\<rparr>)]"

definition exp_N2b where
  "exp_N2b h clock u n k =
     sim_experiment h clock u (sched_default_args\<lparr>g_slo_ms := 10 ^ 9\<rparr>) n2b_backends n (\<lambda>i. 1200) always_small k"

end
