(* ===== verification/Abc_Experiments.thy ===== *)
theory Abc_Experiments
  imports Simulations
begin

text \<open>
  The three experiments of \<open>run_abc_experiments.py\<close> (hybrid cost, prefix affinity, admission), the
  coefficient sweep beside them, and the two seeded comparisons \<open>run_t2_multiseed.py\<close> and
  \<open>run_rls_headtohead.py\<close>, on the model of the scheduler. A generator is the record \<open>draws\<close>: what the
  k-th call returns, for each of the functions the scripts call.
\<close>

record draws =
  dr_random :: "nat \<Rightarrow> real"
  dr_normal :: "nat \<Rightarrow> real"
  dr_int :: "nat \<Rightarrow> nat"

text \<open>\<open>rng.gauss(0, sd)\<close>\<close>

definition gauss :: "draws \<Rightarrow> real \<Rightarrow> nat \<Rightarrow> real" where
  "gauss g sd k = sd * dr_normal g k"

definition metrics_dict :: "real \<Rightarrow> real \<Rightarrow> real \<Rightarrow> eng_dict" where
  "metrics_dict kv waiting hit =
     \<lparr>ed_kv_cache_usage = Some kv, ed_num_waiting = Some waiting, ed_num_running = None,
      ed_prefix_hit_rate = Some hit, ed_prefix_hits = None, ed_prefix_queries = None,
      ed_scraped_at = None, ed_ok = Some True, ed_source = None\<rparr>"

text \<open>A worker registered with the defaults of \<open>register\<close>.\<close>

definition register_default :: "sched \<Rightarrow> string \<Rightarrow> sched" where
  "register_default s wid = register s wid ''small'' 24000 None"

text \<open>A pick whose \<open>AdmissionError\<close> the script does not catch.\<close>

definition pick_or_raise ::
  "(string \<Rightarrow> nat) \<Rightarrow> sched \<Rightarrow> string \<Rightarrow> int \<Rightarrow> pick_error + sched \<times> string \<times> routing_decision" where
  "pick_or_raise h s prompt tokens =
     (case pick h s prompt ''small'' (Some tokens) None of
        (s', Inl e) \<Rightarrow> Inl e
      | (s', Inr (wid, dec)) \<Rightarrow> Inr (s', wid, dec))"

subsection \<open>A: hybrid cost\<close>

record hybrid_run =
  hr_sched :: sched
  hr_draws :: nat
  hr_lats :: "real list"
  hr_cool :: nat

definition hybrid_true_lat :: "draws \<Rightarrow> int \<Rightarrow> nat \<Rightarrow> real" where
  "hybrid_true_lat g tokens k = 2 * of_int tokens + 100 + gauss g 15 k"

definition hybrid_args :: "string \<Rightarrow> bool \<Rightarrow> sched_args" where
  "hybrid_args strategy hybrid =
     sched_default_args\<lparr>g_strategy := strategy, g_admission_off := True, g_use_engine_metrics := hybrid,
       g_kv_cache_cost_ms := (if hybrid then 800 else 0), g_engine_queue_cost_ms := (if hybrid then 80 else 0),
       g_cache_bonus_ms := 0, g_engine_prefix_hit_bonus_ms := 0\<rparr>"

definition hybrid_setup :: "bool \<Rightarrow> sched \<Rightarrow> sched" where
  "hybrid_setup hybrid s0 =
     (let s1 = register_default (register_default s0 ''cool'') ''hot''
      in if hybrid
         then set_engine_metrics (set_engine_metrics s1 ''cool'' (SnapDict (metrics_dict 0.15 0 0)))
                ''hot'' (SnapDict (metrics_dict 0.85 8 0))
         else s1)"

text \<open>
  One request of \<open>simulate\<close>. The variable \<open>pending_hot\<close> is 0 throughout; \<open>extra\<close> reads the in-flight
  count after the pick.
\<close>

definition hybrid_step ::
  "(string \<Rightarrow> nat) \<Rightarrow> (nat \<Rightarrow> int) \<Rightarrow> draws \<Rightarrow> nat \<Rightarrow> bool \<Rightarrow> int \<Rightarrow> nat \<Rightarrow> hybrid_run \<Rightarrow> pick_error + hybrid_run" where
  "hybrid_step h clock g seed hybrid pending_hot i r =
     (let tokens = int (40 + i mod 30);
          prompt = ''req-'' @ show_nat seed @ ''-'' @ show_nat i @ '' '' @ replicate 20 (CHR ''x'');
          refresh = hybrid \<and> i mod 5 = 0;
          s = (if refresh
               then set_engine_metrics (hr_sched r) ''hot''
                      (SnapDict (metrics_dict (0.8 + 0.05 * dr_random g (hr_draws r))
                                              (of_int (6 + pending_hot div 2)) 0))
               else hr_sched r);
          k = (if refresh then hr_draws r + 1 else hr_draws r)
      in py_bind (pick_or_raise h s prompt tokens) (\<lambda>(s1, wid, dec).
           let extra = (if wid = ''hot'' then 40 * of_int (pending_of s1 wid) else 0);
               y = hybrid_true_lat g tokens k + extra
           in Inr \<lparr>hr_sched = feedback s1 wid y tokens True (clock i), hr_draws = k + 1,
                   hr_lats = hr_lats r @ [y], hr_cool = hr_cool r + (if wid = ''cool'' then 1 else 0)\<rparr>))"

definition hybrid_simulate ::
  "(string \<Rightarrow> nat) \<Rightarrow> (nat \<Rightarrow> int) \<Rightarrow> draws \<Rightarrow> nat \<Rightarrow> string \<Rightarrow> bool \<Rightarrow> nat \<Rightarrow> nat \<Rightarrow> pick_error + hybrid_run" where
  "hybrid_simulate h clock g seed strategy hybrid n_req k =
     py_bind (raised (scheduler_init (hybrid_args strategy hybrid))) (\<lambda>s0.
     for_loop (hybrid_step h clock g seed hybrid 0) [0..<n_req]
       \<lparr>hr_sched = hybrid_setup hybrid s0, hr_draws = k, hr_lats = [], hr_cool = 0\<rparr>)"

definition frac_cool :: "nat \<Rightarrow> hybrid_run \<Rightarrow> real" where
  "frac_cool n_req r = real (hr_cool r) / real (max 1 n_req)"

text \<open>The three arms of one seed share the generator; the improvement over round robin in percent.\<close>

definition hybrid_seed ::
  "(string \<Rightarrow> nat) \<Rightarrow> (nat \<Rightarrow> int) \<Rightarrow> draws \<Rightarrow> nat \<Rightarrow> nat \<Rightarrow> pick_error + hybrid_run \<times> hybrid_run \<times> hybrid_run" where
  "hybrid_seed h clock g seed n_req =
     py_bind (hybrid_simulate h clock g seed ''nlms'' True n_req 0) (\<lambda>hy.
     py_bind (hybrid_simulate h clock g seed ''nlms'' False n_req (hr_draws hy)) (\<lambda>nl.
     py_bind (hybrid_simulate h clock g seed ''round_robin'' False n_req (hr_draws nl)) (\<lambda>rr.
     Inr (hy, nl, rr))))"

definition improvement_pct :: "real option \<Rightarrow> real option \<Rightarrow> real option" where
  "improvement_pct base treat =
     (case (base, treat) of
        (Some b, Some t) \<Rightarrow> (if b > 0 then Some (100 * (b - t) / b) else None)
      | _ \<Rightarrow> None)"

subsection \<open>The coefficient sweep\<close>

definition coeff_args :: "real \<times> real \<times> real \<Rightarrow> sched_args" where
  "coeff_args scales =
     (case scales of (sk, sq, sp) \<Rightarrow>
        sched_default_args\<lparr>g_strategy := ''nlms'', g_admission_off := True, g_use_engine_metrics := True,
          g_kv_cache_cost_ms := 800 * sk, g_engine_queue_cost_ms := 50 * sq,
          g_engine_prefix_hit_bonus_ms := 150 * sp, g_cache_bonus_ms := 0\<rparr>)"

definition coeff_variants :: "(string \<times> real \<times> real \<times> real) list" where
  "coeff_variants =
     [(''default'', 1, 1, 1), (''kv_m50'', 0.5, 1, 1), (''kv_p50'', 1.5, 1, 1), (''q_m50'', 1, 0.5, 1),
      (''q_p50'', 1, 1.5, 1), (''p_m50'', 1, 1, 0.5), (''p_p50'', 1, 1, 1.5)]"

definition coeff_step ::
  "(string \<Rightarrow> nat) \<Rightarrow> (nat \<Rightarrow> int) \<Rightarrow> draws \<Rightarrow> nat \<Rightarrow> nat \<Rightarrow> hybrid_run \<Rightarrow> pick_error + hybrid_run" where
  "coeff_step h clock g seed i r =
     (let tokens = int (40 + i mod 30);
          prompt = ''sens-'' @ show_nat seed @ ''-'' @ show_nat i @ '' '' @ replicate 20 (CHR ''x'');
          refresh = (i mod 5 = 0);
          s = (if refresh
               then (let s1 = set_engine_metrics (hr_sched r) ''cool'' (SnapDict (metrics_dict 0.15 0 0))
                     in set_engine_metrics s1 ''hot''
                          (SnapDict (metrics_dict (0.8 + 0.05 * dr_random g (hr_draws r))
                                                  (of_int (6 + pending_of s1 ''hot'' div 2)) 0)))
               else hr_sched r);
          k = (if refresh then hr_draws r + 1 else hr_draws r)
      in py_bind (pick_or_raise h s prompt tokens) (\<lambda>(s1, wid, dec).
           let extra = (if wid = ''hot'' then 40 * of_int (pending_of s1 wid) else 0);
               y = hybrid_true_lat g tokens k + extra
           in Inr \<lparr>hr_sched = feedback s1 wid y tokens True (clock i), hr_draws = k + 1,
                   hr_lats = hr_lats r @ [y], hr_cool = hr_cool r + (if wid = ''cool'' then 1 else 0)\<rparr>))"

definition coeff_simulate ::
  "(string \<Rightarrow> nat) \<Rightarrow> (nat \<Rightarrow> int) \<Rightarrow> draws \<Rightarrow> nat \<Rightarrow> real \<times> real \<times> real \<Rightarrow> nat \<Rightarrow> pick_error + hybrid_run" where
  "coeff_simulate h clock g seed scales n_req =
     py_bind (raised (scheduler_init (coeff_args scales))) (\<lambda>s0.
     for_loop (coeff_step h clock g seed) [0..<n_req]
       \<lparr>hr_sched = register_default (register_default s0 ''cool'') ''hot'', hr_draws = 0, hr_lats = [], hr_cool = 0\<rparr>)"

text \<open>The largest and the mean relative change of a p99 against the default variant, in percent.\<close>

definition rel_swings :: "real \<Rightarrow> real list \<Rightarrow> real list" where
  "rel_swings d0 ms = (if d0 > 0 then map (\<lambda>m. 100 * \<bar>m - d0\<bar> / d0) ms else [])"

definition max_swing :: "real list \<Rightarrow> real" where
  "max_swing swings = (if swings = [] then 0 else Max (set swings))"

definition mean_swing :: "real list \<Rightarrow> real" where
  "mean_swing swings = (if swings = [] then 0 else stats_mean swings)"

subsection \<open>B: prefix affinity\<close>

record affinity_run =
  fr_sched :: sched
  fr_draws :: nat
  fr_home :: "(nat \<times> string) list"
  fr_last :: "(nat \<times> string) list"
  fr_sticky :: nat
  fr_turns :: nat
  fr_hits :: nat
  fr_lats :: "real list"

definition affinity_args :: "bool \<Rightarrow> string \<Rightarrow> sched_args" where
  "affinity_args use_affinity strategy =
     sched_default_args\<lparr>g_strategy := strategy, g_admission_off := True, g_use_engine_metrics := True,
       g_cache_bonus_ms := (if use_affinity then 400 else 0),
       g_engine_prefix_hit_bonus_ms := (if use_affinity then 100 else 0),
       g_kv_cache_cost_ms := 0, g_engine_queue_cost_ms := 0\<rparr>"

definition set_slopes :: "sched \<Rightarrow> string \<Rightarrow> real \<Rightarrow> sched" where
  "set_slopes s wid x = with_predictor s wid (\<lambda>p. p\<lparr>n_fast_slope := x, n_slow_slope := x\<rparr>)"

definition affinity_setup :: "sched \<Rightarrow> sched" where
  "affinity_setup s0 =
     set_slopes (set_slopes (register_default (register_default s0 ''e0'') ''e1'') ''e0'' 2) ''e1'' 2.2"

definition session_prefix :: "nat \<Rightarrow> string" where
  "session_prefix sess = ''SYSTEM: you are agent-'' @ show_nat sess @ '' '' @ concat (replicate 30 ''CONTEXT '')"

definition turn_prompt :: "nat \<Rightarrow> nat \<Rightarrow> nat \<Rightarrow> string" where
  "turn_prompt sess t q =
     session_prefix sess @ [CHR 0x0A] @ ''user turn '' @ show_nat t @ '': question '' @ show_nat q"

definition scrape_sessions :: "(nat \<times> string) list \<Rightarrow> nat \<Rightarrow> sched \<Rightarrow> sched" where
  "scrape_sessions last_worker sess s =
     foldl (\<lambda>s wid. set_engine_metrics s wid
              (SnapDict (metrics_dict 0.3 0 (if map_of last_worker sess = Some wid then 0.7 else 0.1))))
       s [''e0'', ''e1'']"

definition affinity_step ::
  "(string \<Rightarrow> nat) \<Rightarrow> (nat \<Rightarrow> int) \<Rightarrow> draws \<Rightarrow> nat \<times> nat \<Rightarrow> affinity_run \<Rightarrow> pick_error + affinity_run" where
  "affinity_step h clock g st r =
     (let (sess, t) = st;
          prompt = turn_prompt sess t (dr_int g (fr_draws r));
          tokens = int (50 + t * 5)
      in py_bind (pick_or_raise h (scrape_sessions (fr_last r) sess (fr_sched r)) prompt tokens) (\<lambda>(s1, wid, dec).
           let home = (if map_of (fr_home r) sess = None then AList.update sess wid (fr_home r) else fr_home r);
               at_home = (map_of home sess = Some wid);
               base = 2 * of_int tokens + 80;
               noise = gauss g 8 (fr_draws r + 1);
               y = (if rd_affinity_hit dec \<or> t > 0 \<and> at_home then base * 0.7 + noise else base + noise)
           in Inr \<lparr>fr_sched = feedback s1 wid y tokens True (clock (fr_turns r)), fr_draws = fr_draws r + 2,
                   fr_home = home, fr_last = AList.update sess wid (fr_last r),
                   fr_sticky = fr_sticky r + (if at_home then 1 else 0), fr_turns = fr_turns r + 1,
                   fr_hits = fr_hits r + (if map_of (fr_last r) sess = Some wid then 1 else 0),
                   fr_lats = fr_lats r @ [max 1 y]\<rparr>))"

definition affinity_run_mode ::
  "(string \<Rightarrow> nat) \<Rightarrow> (nat \<Rightarrow> int) \<Rightarrow> draws \<Rightarrow> bool \<Rightarrow> string \<Rightarrow> nat \<Rightarrow> nat \<Rightarrow> nat \<Rightarrow> pick_error + affinity_run" where
  "affinity_run_mode h clock g use_affinity strategy n_sessions turns k =
     py_bind (raised (scheduler_init (affinity_args use_affinity strategy))) (\<lambda>s0.
     for_loop (affinity_step h clock g) (List.product [0..<n_sessions] [0..<turns])
       \<lparr>fr_sched = affinity_setup s0, fr_draws = k, fr_home = [], fr_last = [], fr_sticky = 0, fr_turns = 0,
        fr_hits = 0, fr_lats = []\<rparr>)"

record affinity_outcome =
  fo_hit_rate :: real
  fo_stickiness :: real
  fo_proxy_hit :: real
  fo_p99 :: "real option"

definition affinity_summary :: "bool \<Rightarrow> nat \<Rightarrow> affinity_run \<Rightarrow> affinity_outcome" where
  "affinity_summary use_affinity n_sessions r =
     \<lparr>fo_hit_rate = (if use_affinity then affinity_hit_rate (fr_sched r) else 0),
      fo_stickiness = real (fr_sticky r) / real (max 1 (fr_turns r)),
      fo_proxy_hit = real (fr_hits r) / of_int (max 1 (int (fr_turns r) - int n_sessions)),
      fo_p99 = nearest_pct (fr_lats r) 99\<rparr>"

subsection \<open>C: admission\<close>

record gate_run =
  gt_sched :: sched
  gt_draws :: nat
  gt_admitted :: nat
  gt_rejected :: nat
  gt_under :: nat

definition gate_args :: "string \<Rightarrow> sched_args" where
  "gate_args mode =
     sched_default_args\<lparr>g_strategy := ''nlms'', g_admission_mode := mode, g_admission_off := False, g_slo_ms := 500,
       g_recent_latency_window := 32, g_admission_percentile := 95\<rparr>"

text \<open>The poisoned learner: its estimate is far above the budget.\<close>

definition gate_setup :: "sched \<Rightarrow> sched" where
  "gate_setup s0 =
     with_predictor (register_default s0 ''w0'') ''w0''
       (\<lambda>p. p\<lparr>n_fast_slope := 40, n_slow_slope := 40, n_intercept := 800\<rparr>)"

definition gate_true_lat :: "draws \<Rightarrow> nat \<Rightarrow> nat \<Rightarrow> real" where
  "gate_true_lat g i k = 120 + 1.5 * real (20 + i mod 10) + \<bar>gauss g 20 k\<bar>"

definition gate_step ::
  "(string \<Rightarrow> nat) \<Rightarrow> (nat \<Rightarrow> int) \<Rightarrow> draws \<Rightarrow> nat \<Rightarrow> gate_run \<Rightarrow> pick_error + gate_run" where
  "gate_step h clock g i r =
     (let tokens = int (20 + i mod 10);
          true_y = gate_true_lat g i (gt_draws r)
      in case pick h (gt_sched r) (''prompt '' @ show_nat i) ''small'' (Some tokens) None of
           (s, Inl (AdmissionError msg retry)) \<Rightarrow>
             Inr (r\<lparr>gt_sched := s, gt_draws := gt_draws r + 1, gt_rejected := gt_rejected r + 1\<rparr>)
         | (s, Inl (PickRaised e)) \<Rightarrow> Inl (PickRaised e)
         | (s, Inr (wid, dec)) \<Rightarrow>
             Inr (r\<lparr>gt_sched := feedback s wid true_y tokens True (clock i), gt_draws := gt_draws r + 1,
                    gt_admitted := gt_admitted r + 1,
                    gt_under := gt_under r + (if true_y \<le> 500 then 1 else 0)\<rparr>))"

definition gate_simulate ::
  "(string \<Rightarrow> nat) \<Rightarrow> (nat \<Rightarrow> int) \<Rightarrow> draws \<Rightarrow> string \<Rightarrow> nat \<Rightarrow> nat \<Rightarrow> pick_error + gate_run" where
  "gate_simulate h clock g mode n_req k =
     py_bind (raised (scheduler_init (gate_args mode))) (\<lambda>s0.
     for_loop (gate_step h clock g) [0..<n_req]
       \<lparr>gt_sched = gate_setup s0, gt_draws = k, gt_admitted = 0, gt_rejected = 0, gt_under = 0\<rparr>)"

definition reject_rate :: "gate_run \<Rightarrow> real" where
  "reject_rate r = real (gt_rejected r) / real (max 1 (gt_admitted r + gt_rejected r))"

definition gate_goodput :: "gate_run \<Rightarrow> real" where
  "gate_goodput r = (if gt_admitted r \<noteq> 0 then real (gt_under r) / real (max 1 (gt_admitted r)) else 0)"

definition gate_disagree :: "gate_run \<Rightarrow> nat" where
  "gate_disagree r = adm_absolute_vs_active_disagree (s_admission (gt_sched r))"

text \<open>The three modes of one seed, with one generator.\<close>

definition gate_seed ::
  "(string \<Rightarrow> nat) \<Rightarrow> (nat \<Rightarrow> int) \<Rightarrow> draws \<Rightarrow> nat \<Rightarrow> pick_error + (string \<times> gate_run) list \<times> nat" where
  "gate_seed h clock g n_req =
     for_loop (\<lambda>mode (rows, k).
         py_bind (gate_simulate h clock g mode n_req k) (\<lambda>r. Inr (rows @ [(mode, r)], gt_draws r)))
       [''absolute'', ''empirical'', ''rank_only''] ([], 0)"

subsection \<open>Seeded comparisons\<close>

text \<open>\<open>Sim.serve\<close> and \<open>run_seed\<close> of \<open>run_t2_multiseed.py\<close>; the p99 of no samples raises IndexError.\<close>

record seed_run =
  sd_sched :: sched
  sd_draws :: nat
  sd_lats :: "real list"
  sd_routes :: "nat dict"

definition t2_serve :: "real \<times> real \<times> real \<Rightarrow> int \<Rightarrow> real \<Rightarrow> real" where
  "t2_serve b tokens u =
     (case b of (slope, bias, jitter) \<Rightarrow> max 1 ((bias + slope * of_int tokens) * (1 + uniform (- jitter) jitter u)))"

definition t2_backends :: "(real \<times> real \<times> real) dict" where
  "t2_backends = [(''fast'', 8, 40, 0.08), (''slow'', 22, 90, 0.1)]"

definition seed_loop ::
  "(string \<Rightarrow> nat) \<Rightarrow> (nat \<Rightarrow> int) \<Rightarrow> (string \<Rightarrow> (int \<Rightarrow> nat \<Rightarrow> real) option) \<Rightarrow> (nat \<Rightarrow> int) \<Rightarrow> sched \<Rightarrow> nat \<Rightarrow> pick_error + seed_run" where
  "seed_loop h clock serve tokens_fn s n =
     for_loop (\<lambda>i r.
         py_bind (pick_or_raise h (sd_sched r) (replicate (nat (tokens_fn i * 4)) (CHR ''x'')) (tokens_fn i)) (\<lambda>(s1, wid, dec).
           case serve wid of
             None \<Rightarrow> Inl (PickRaised (KeyError wid))
           | Some lat \<Rightarrow>
               (let y = lat (tokens_fn i) (sd_draws r)
                in Inr \<lparr>sd_sched = feedback s1 wid y (tokens_fn i) True (clock i), sd_draws = sd_draws r + 1,
                        sd_lats = sd_lats r @ [y], sd_routes = count_route wid (sd_routes r)\<rparr>)))
       [0..<n] \<lparr>sd_sched = s, sd_draws = 0, sd_lats = [], sd_routes = []\<rparr>"

definition fast_share :: "seed_run \<Rightarrow> nat \<Rightarrow> real" where
  "fast_share r n = real (case map_of (sd_routes r) ''fast'' of None \<Rightarrow> 0 | Some k \<Rightarrow> k) / real n"

definition t2_p99 :: "real list \<Rightarrow> pick_error + real" where
  "t2_p99 lats =
     (if lats = [] then Inl (PickRaised (IndexError ''list index out of range''))
      else Inr (sort lats ! nat (py_trunc (0.99 * real (length lats - 1)))))"

definition t2_run_seed ::
  "(string \<Rightarrow> nat) \<Rightarrow> (nat \<Rightarrow> int) \<Rightarrow> (nat \<Rightarrow> real) \<Rightarrow> string \<Rightarrow> nat \<Rightarrow> pick_error + real \<times> real" where
  "t2_run_seed h clock u strategy n =
     py_bind (raised (scheduler_init (open_args\<lparr>g_strategy := strategy\<rparr>))) (\<lambda>s0.
     py_bind (seed_loop h clock
                (\<lambda>wid. map_option (\<lambda>b tokens k. t2_serve b tokens (u k)) (map_of t2_backends wid))
                (\<lambda>i. int (40 + (i mod 30) * 2))
                (register_default (register_default s0 ''fast'') ''slow'') n) (\<lambda>r.
     py_bind (t2_p99 (sd_lats r)) (\<lambda>p99. Inr (fast_share r n, p99))))"

text \<open>\<open>sim_seed\<close> of \<open>run_rls_headtohead.py\<close>.\<close>

definition rls_true :: "(real \<times> real) dict" where
  "rls_true = [(''fast'', 2, 40), (''slow'', 8, 90)]"

record rls_row =
  rw_frac_fast :: real
  rw_p99 :: real
  rw_mean :: real
  rw_mape :: real
  rw_routes :: "nat dict"

definition rls_sim_seed ::
  "(string \<Rightarrow> nat) \<Rightarrow> (nat \<Rightarrow> int) \<Rightarrow> (nat \<Rightarrow> real) \<Rightarrow> string \<Rightarrow> nat \<Rightarrow> pick_error + rls_row" where
  "rls_sim_seed h clock u strategy n =
     py_bind (raised (scheduler_init (open_args\<lparr>g_strategy := strategy\<rparr>))) (\<lambda>s0.
     py_bind (seed_loop h clock
                (\<lambda>wid. map_option (\<lambda>(slope, b) tokens k. (slope * of_int tokens + b) * uniform 0.92 1.08 (u k))
                   (map_of rls_true wid))
                (\<lambda>i. int (40 + i mod 60))
                (register_default (register_default s0 ''fast'') ''slow'') n) (\<lambda>r.
     case nearest_pct (sd_lats r) 99 of
       None \<Rightarrow> Inl (PickRaised (IndexError ''list index out of range''))
     | Some p99 \<Rightarrow>
         Inr \<lparr>rw_frac_fast = fast_share r (max 1 (sum_list (map snd (sd_routes r)))), rw_p99 = p99, rw_mean = stats_mean (sd_lats r),
              rw_mape = history_mean ui_rel_err (s_pred_history (sd_sched r)) * 100, rw_routes = sd_routes r\<rparr>))"

end
