(* ===== verification/Simulation_Props.thy ===== *)
theory Simulation_Props
  imports Abc_Experiments Gateway_Inv
begin

text \<open>
  Properties of the in-process experiments. All of them run a closed loop: one request at a time, each
  completed before the next is picked. The slot ledger of \<open>Gateway_Inv\<close> then says that the scheduler is
  idle whenever it picks, so no experiment of this kind exercises the queue term of the joint cost.
\<close>

subsection \<open>Loops\<close>

lemma for_loop_append: "for_loop body (xs @ ys) s = py_bind (for_loop body xs s) (for_loop body ys)"
proof (induction xs arbitrary: s)
  case (Cons x xs)
  then show ?case by (cases "body x s") auto
qed simp

lemma for_range:
  assumes "J 0 s" and "\<And>i s. i < n \<Longrightarrow> J i s \<Longrightarrow> \<exists>s'. body i s = Inr s' \<and> J (Suc i) s'"
  shows "\<exists>s'. for_loop body [0..<n] s = Inr s' \<and> J n s'"
  using assms
proof (induction n)
  case (Suc n)
  then obtain s' where "for_loop body [0..<n] s = Inr s'" "J n s'" by force
  with Suc.prems(2) [of n s'] show ?case by (auto simp: for_loop_append)
qed simp

text \<open>Two bodies that agree where the invariant holds run the same loop.\<close>

lemma for_loop_cong:
  assumes "J s" and "\<And>x s. x \<in> set xs \<Longrightarrow> J s \<Longrightarrow> body x s = body' x s"
    and "\<And>x s s'. x \<in> set xs \<Longrightarrow> J s \<Longrightarrow> body x s = Inr s' \<Longrightarrow> J s'"
  shows "for_loop body xs s = for_loop body' xs s"
  using assms
proof (induction xs arbitrary: s)
  case (Cons x xs)
  from Cons.prems have "body x s = body' x s" by simp
  moreover have "for_loop body xs s' = for_loop body' xs s'" if "body x s = Inr s'" for s'
  proof (rule Cons.IH)
    show "J s'" using Cons.prems(1,3) that by (meson list.set_intros(1))
    show "body y t = body' y t" if "y \<in> set xs" "J t" for y t using Cons.prems(2) that by simp
    show "J t'" if "y \<in> set xs" "J t" "body y t = Inr t'" for y t t' using Cons.prems(3) [of y t t'] that by simp
  qed
  ultimately show ?case by (cases "body' x s") auto
qed simp

text \<open>A relation between two runs of related bodies.\<close>

lemma for_loop_map:
  assumes "J s" and "\<And>x s. x \<in> set xs \<Longrightarrow> J s \<Longrightarrow> body' x (f s) = map_sum (\<lambda>e. e) f (body x s)"
    and "\<And>x s s'. x \<in> set xs \<Longrightarrow> J s \<Longrightarrow> body x s = Inr s' \<Longrightarrow> J s'"
  shows "for_loop body' xs (f s) = map_sum (\<lambda>e. e) f (for_loop body xs s)"
  using assms
proof (induction xs arbitrary: s)
  case (Cons x xs)
  show ?case
  proof (cases "body x s")
    case (Inl e)
    with Cons.prems show ?thesis by simp
  next
    case (Inr s')
    then have "J s'" using Cons.prems(1,3) by (meson list.set_intros(1))
    have "for_loop body' xs (f s') = map_sum (\<lambda>e. e) f (for_loop body xs s')"
    proof (rule Cons.IH [OF \<open>J s'\<close>])
      show "body' y (f t) = map_sum (\<lambda>e. e) f (body y t)" if "y \<in> set xs" "J t" for y t using Cons.prems(2) that by simp
      show "J t'" if "y \<in> set xs" "J t" "body y t = Inr t'" for y t t' using Cons.prems(3) [of y t t'] that by simp
    qed
    moreover have "body' x (f s) = Inr (f s')" using Cons.prems(1,2) Inr by simp
    ultimately show ?thesis by (simp add: Inr)
  qed
qed simp

subsection \<open>The scheduler between requests\<close>

abbreviation idle :: "sched \<Rightarrow> bool" where
  "idle s \<equiv> slots.accounts s []"

lemma accounts_neutral: "slots.accounts s ws \<Longrightarrow> neutral f \<Longrightarrow> slots.accounts (f s) ws"
  by (simp add: slots.accounts_def neutral_def)

lemma accounts_inv: "slots.accounts s ws \<Longrightarrow> sched_inv s"
  by (simp add: slots.accounts_def)

lemma idle_pending: "idle s \<Longrightarrow> pending_of s w = 0"
  by (simp add: slots.accounts_def)

lemma idle_init: "scheduler_init a = Inr s \<Longrightarrow> idle s"
  using init_inv [of a s]
  by (auto simp: slots.accounts_def pending_of_def scheduler_init_def split: if_splits)

lemma idle_register: "idle s \<Longrightarrow> idle (register s w tier tot free)"
proof -
  assume idle: "idle s"
  have "pending_of (register s w tier tot free) v = (if v = w then 0 else pending_of s v)" for v
    by (simp add: pending_of_def register_def Let_def nlms_init_def split: option.split)
  with idle show ?thesis by (simp add: slots.accounts_def register_inv)
qed

lemma accounts_pick:
  assumes "slots.accounts s ws" and "pick h s p tier n al = (s', Inr (w, dec))"
  shows "slots.accounts s' (w # ws)"
  by (rule slots.accounts_admit [OF assms(1), of h "(p, tier, n, al)"]) (simp add: admission_def assms(2))

lemma accounts_reject:
  assumes "slots.accounts s ws" and "pick h s p tier n al = (s', Inl e)"
  shows "slots.accounts s' ws"
  by (rule slots.accounts_refuse [OF assms(1), of h "(p, tier, n, al)"]) (simp add: admission_def assms(2))

lemma idle_feedback: "slots.accounts s [w] \<Longrightarrow> idle (feedback s w y n ok t)"
  using slots.accounts_finish [of s "[]" w "[]" "ByFeedback y n ok t"] by simp

lemma accounts_neutral_pick:
  assumes "idle s" and "pick h s p tier n al = (s', Inr (w, dec))" and "neutral f"
  shows "idle (feedback (f s') w y k ok t)"
  by (rule idle_feedback) (rule accounts_neutral [OF accounts_pick [OF assms(1,2)] assms(3)])

lemma accounts_neutral_id: "neutral (\<lambda>s. s)"
  by (simp add: neutral_def)

text \<open>Picks and completions keep the registry, and the request goes to a registered backend.\<close>

lemma pick_keys:
  assumes "sched_inv s" and "pick h s p tier n al = (s', r)"
  shows "map fst (s_predictors s') = map fst (s_predictors s)"
proof (cases r)
  case (Inl e)
  with pick_reject_predictors [OF assms(1)] assms(2) show ?thesis by simp
next
  case (Inr x)
  with pick_admit(2) [OF assms(1)] assms(2) show ?thesis
    by (cases x) (auto simp: admits_def mark_admitted_def)
qed

lemma pick_registered:
  assumes "sched_inv s" and "pick h s p tier n al = (s', Inr (w, dec))"
  shows "w \<in> set (map fst (s_predictors s))"
proof -
  have "distinct (map fst (s_predictors s))" using assms(1) by (simp add: sched_inv_def keys_inv_def)
  then show ?thesis
    using pick_admit(1) [OF assms] by (auto simp: candidate_ids_iff map_of_eq_Some_keys)
qed

lemma pick_never_raises:
  assumes "sched_inv s" and "pick h s p tier n al = (s', Inl e)"
  shows "\<exists>msg retry. e = AdmissionError msg retry"
  using pick_reject(1) [OF assms] by (auto simp: rejects_def)

subsection \<open>What a simulated load adds up to\<close>

lemma feedback_success_counts:
  "adm_completed_total (s_admission (feedback s w y n True t)) = adm_completed_total (s_admission s) + 1"
  "adm_admitted (s_admission (feedback s w y n True t)) = adm_admitted (s_admission s)"
  "outcome_total (s_admission (feedback s w y n True t)) = outcome_total (s_admission s)"
  by (simp_all add: feedback_def Let_def split_beta feedback_count_def outcome_total_def)

lemma set_vram_frame [simp]:
  "s_admission (set_vram s w x) = s_admission s"
  "map fst (s_predictors (set_vram s w x)) = map fst (s_predictors s)"
  "fst ` set (s_predictors (set_vram s w x)) = fst ` set (s_predictors s)"
  "s_cfg (set_vram s w x) = s_cfg s"
  by (simp_all add: set_vram_def)

definition own_ids :: "sim_backend dict \<Rightarrow> bool" where
  "own_ids backends \<longleftrightarrow> list_all (\<lambda>(k, b). sb_id b = k) backends"

definition sim_inv :: "nat \<Rightarrow> sim_run \<Rightarrow> bool" where
  "sim_inv i r \<longleftrightarrow>
     idle (sr_sched r) \<and> fst ` set (s_predictors (sr_sched r)) \<subseteq> fst ` set (sr_backends r) \<and>
     sr_ok r + sr_rej r = i \<and> sr_fail r = sr_rej r \<and> length (sr_lats r) = sr_ok r \<and>
     sum_list (map snd (sr_routes r)) = sr_ok r \<and>
     adm_admitted (s_admission (sr_sched r)) = sr_ok r \<and>
     adm_completed_total (s_admission (sr_sched r)) = sr_ok r \<and>
     outcome_total (s_admission (sr_sched r)) = i"

lemma register_frame [simp]:
  "s_admission (register s w tier tot free) = s_admission s"
  "fst ` set (s_predictors (register s w tier tot free)) = insert w (fst ` set (s_predictors s))"
  by (simp_all add: register_def Let_def dom_update)

lemma sim_register_inv:
  assumes "idle s" and "own_ids backends"
  shows "idle (sim_register s backends) \<and> s_admission (sim_register s backends) = s_admission s \<and>
    fst ` set (s_predictors (sim_register s backends)) \<subseteq> fst ` set (s_predictors s) \<union> fst ` set backends"
  using assms
proof (induction backends arbitrary: s)
  case (Cons kb backends)
  obtain k b where kb: "kb = (k, b)" by (cases kb)
  have ids: "sb_id b = k" "own_ids backends" using Cons.prems(2) by (simp_all add: kb own_ids_def)
  let ?s = "if map_of (s_predictors s) (sb_id b) = None
    then register s (sb_id b) (sb_tier b) (sb_total_vram b) (Some (sb_free_vram b))
    else set_vram s (sb_id b) (sb_free_vram b)"
  have "idle ?s" using Cons.prems(1) by (simp add: idle_register accounts_neutral [OF _ neutral_set_vram])
  from Cons.IH [OF this ids(2)] show ?case
    using ids(1) by (auto simp: sim_register_def kb split: if_splits)
qed (simp add: sim_register_def)

lemma sim_inv_start:
  assumes "scheduler_init a = Inr s" and "own_ids backends"
  shows "sim_inv 0 (sim_start s backends k)"
proof -
  have "s_predictors s = []" "s_admission s = admission_stats_init"
    using assms(1) by (auto simp: scheduler_init_def split: if_splits)
  with sim_register_inv [OF idle_init [OF assms(1)] assms(2)] show ?thesis
    by (auto simp: sim_inv_def sim_start_def admission_stats_init_def outcome_total_def)
qed

lemma pick_completed:
  assumes "sched_inv s"
  shows "adm_completed_total (s_admission (fst (pick h s p tier n al))) = adm_completed_total (s_admission s)"
  by (simp add: pick_eq pick_cost_eq [OF assms] pick_round_robin_def pick_least_loaded_def pick_ewma_def
      admit_ewma_def book_cost_def book_def log_decision_def bump_admission_def mark_admitted_def Let_def
      split: option.split)

lemma sim_inv_step:
  assumes "sim_inv j r"
  shows "\<exists>r'. sim_step h clock u tokens_fn tier_fn i r = Inr r' \<and> sim_inv (Suc j) r'"
proof -
  let ?s = "sr_sched r" and ?n = "tokens_fn i"
  have id: "idle ?s" and inv: "sched_inv ?s" using assms accounts_inv by (auto simp: sim_inv_def)
  obtain s1 res where p: "pick h ?s (sim_prompt ?n) (tier_fn i) (Some ?n) None = (s1, res)"
    by (cases "pick h ?s (sim_prompt ?n) (tier_fn i) (Some ?n) None")
  have keys: "fst ` set (s_predictors s1) = fst ` set (s_predictors ?s)"
    using pick_keys [OF inv p] by (metis set_map)
  have moved: "adm_completed_total (s_admission s1) = adm_completed_total (s_admission ?s)"
    "outcome_total (s_admission s1) = outcome_total (s_admission ?s) + 1"
    using pick_completed [OF inv] outcome_total_pick [OF inv] p by (metis fst_conv)+
  show ?thesis
  proof (cases res)
    case (Inl e)
    then obtain msg retry where e: "e = AdmissionError msg retry" using pick_never_raises [OF inv] p by blast
    have "idle s1" using accounts_reject [OF id] p Inl by blast
    moreover have "adm_admitted (s_admission s1) = adm_admitted (s_admission ?s)"
      using pick_reject(1) [OF inv] p Inl by (auto simp: rejects_def)
    ultimately show ?thesis using assms keys moved by (simp add: sim_step_def p Inl e sim_inv_def Let_def)
  next
    case (Inr x)
    then obtain w dec where x: "res = Inr (w, dec)" by (cases x) simp
    have "w \<in> fst ` set (sr_backends r)"
      using pick_registered [OF inv] p x assms by (auto simp: sim_inv_def)
    then obtain b where b: "map_of (sr_backends r) w = Some b" by (metis map_of_eq_None_iff option.exhaust)
    obtain b' y where y: "sim_serve b ?n (u (sr_draws r)) = (b', y)" by (cases "sim_serve b ?n (u (sr_draws r))")
    let ?s2 = "feedback (set_vram s1 w (sb_free_vram b')) w y ?n True (clock i)"
    have "idle ?s2" using accounts_neutral_pick [OF id] p x neutral_set_vram by blast
    moreover have "adm_admitted (s_admission s1) = adm_admitted (s_admission ?s) + 1"
      using pick_admit(2) [OF inv] p x by (auto simp: admits_def)
    moreover have "fst ` set (s_predictors ?s2) = fst ` set (s_predictors ?s)"
      using keys by (metis feedback_success_frame(2) set_map set_vram_frame(2))
    ultimately show ?thesis
      using assms moved by (auto simp: sim_step_def p x b y sim_inv_def Let_def feedback_success_counts count_route_sum)
  qed
qed

text \<open>
  C28: every run of the simulated load completes and adds up: whatever backends, strategy, tokens and
  draws, no exception escapes, every request is either completed or rejected, the reported counts, the
  latencies and the routes agree with each other and with the scheduler's own counters, and when the
  run ends no request is in flight.
\<close>

theorem simulation_adds_up:
  assumes "scheduler_init a = Inr s" and "own_ids backends"
  shows "\<exists>r. sim_experiment h clock u a backends n tokens_fn tier_fn k = Inr r \<and>
    sr_ok r + sr_rej r = n \<and> sr_fail r = sr_rej r \<and>
    length (sr_lats r) = sr_ok r \<and> sum_list (map snd (sr_routes r)) = sr_ok r \<and>
    adm_admitted (s_admission (sr_sched r)) = sr_ok r \<and>
    adm_completed_total (s_admission (sr_sched r)) = sr_ok r \<and>
    outcome_total (s_admission (sr_sched r)) = n \<and> (\<forall>w. pending_of (sr_sched r) w = 0)"
proof -
  have "\<exists>r. simulate_load h clock u s backends n tokens_fn tier_fn k = Inr r \<and> sim_inv n r"
    unfolding simulate_load_def
    by (rule for_range [where J = sim_inv]) (auto intro: sim_inv_start [OF assms] sim_inv_step)
  then show ?thesis using assms(1) by (auto simp: sim_experiment_def sim_inv_def idle_pending)
qed

theorem simulation_adds_up_witness:
  "\<exists>r. exp_N5 (\<lambda>t. 0) (\<lambda>i. 0) (\<lambda>k. 1 / 2) 3 2 0 = Inr r \<and> sr_ok r + sr_rej r = 2"
proof -
  obtain s where "scheduler_init open_args = Inr s"
    by (simp add: scheduler_init_def open_args_def sched_default_args_def)
  moreover have "own_ids (n5_backends 3)"
    by (simp add: own_ids_def n5_backends_def list_all_iff sim_backend_default_def)
  ultimately show ?thesis
    using simulation_adds_up unfolding exp_N5_def by blast
qed

subsection \<open>The queue ablation in a closed loop\<close>

text \<open>The same scheduler with the queue term switched off, under another ablation name.\<close>

definition no_queue :: "string \<Rightarrow> sched \<Rightarrow> sched" where
  "no_queue nm s =
     s\<lparr>s_cfg := (s_cfg s)\<lparr>c_ablation := (c_ablation (s_cfg s))\<lparr>ab_name := nm, ab_disable_queue := True\<rparr>\<rparr>\<rparr>"

lemma no_queue_fields [simp]:
  "s_predictors (no_queue nm s) = s_predictors s" "s_rls (no_queue nm s) = s_rls s"
  "s_ewma_e2e (no_queue nm s) = s_ewma_e2e s" "s_ewma_samples (no_queue nm s) = s_ewma_samples s"
  "s_prefix_cache (no_queue nm s) = s_prefix_cache s" "s_engine_snap (no_queue nm s) = s_engine_snap s"
  "s_rr_index (no_queue nm s) = s_rr_index s" "s_admission (no_queue nm s) = s_admission s"
  "s_recent_e2e (no_queue nm s) = s_recent_e2e s"
  "s_cfg (no_queue nm s) =
     (s_cfg s)\<lparr>c_ablation := (c_ablation (s_cfg s))\<lparr>ab_name := nm, ab_disable_queue := True\<rparr>\<rparr>"
  by (simp_all add: no_queue_def)

lemma no_queue_update [simp]:
  "(no_queue nm s)\<lparr>s_predictors := x1\<rparr> = no_queue nm (s\<lparr>s_predictors := x1\<rparr>)"
  "(no_queue nm s)\<lparr>s_rls := x2\<rparr> = no_queue nm (s\<lparr>s_rls := x2\<rparr>)"
  "(no_queue nm s)\<lparr>s_ewma_e2e := x3\<rparr> = no_queue nm (s\<lparr>s_ewma_e2e := x3\<rparr>)"
  "(no_queue nm s)\<lparr>s_ewma_samples := x4\<rparr> = no_queue nm (s\<lparr>s_ewma_samples := x4\<rparr>)"
  "(no_queue nm s)\<lparr>s_prefix_cache := x5\<rparr> = no_queue nm (s\<lparr>s_prefix_cache := x5\<rparr>)"
  "(no_queue nm s)\<lparr>s_rr_index := x7\<rparr> = no_queue nm (s\<lparr>s_rr_index := x7\<rparr>)"
  "(no_queue nm s)\<lparr>s_affinity_decisions := x8\<rparr> = no_queue nm (s\<lparr>s_affinity_decisions := x8\<rparr>)"
  "(no_queue nm s)\<lparr>s_affinity_hits := x9\<rparr> = no_queue nm (s\<lparr>s_affinity_hits := x9\<rparr>)"
  "(no_queue nm s)\<lparr>s_affinity_evictions := x10\<rparr> = no_queue nm (s\<lparr>s_affinity_evictions := x10\<rparr>)"
  "(no_queue nm s)\<lparr>s_fail_streak := x11\<rparr> = no_queue nm (s\<lparr>s_fail_streak := x11\<rparr>)"
  "(no_queue nm s)\<lparr>s_decision_log := x12\<rparr> = no_queue nm (s\<lparr>s_decision_log := x12\<rparr>)"
  "(no_queue nm s)\<lparr>s_pred_history := x13\<rparr> = no_queue nm (s\<lparr>s_pred_history := x13\<rparr>)"
  "(no_queue nm s)\<lparr>s_recent_e2e := x14\<rparr> = no_queue nm (s\<lparr>s_recent_e2e := x14\<rparr>)"
  "(no_queue nm s)\<lparr>s_admission := x15\<rparr> = no_queue nm (s\<lparr>s_admission := x15\<rparr>)"
  "(no_queue nm s)\<lparr>s_last_decision := x16\<rparr> = no_queue nm (s\<lparr>s_last_decision := x16\<rparr>)"
  by (simp_all add: no_queue_def)

lemma no_queue_more [simp]:
  "s_fail_streak (no_queue nm s) = s_fail_streak s" "s_decision_log (no_queue nm s) = s_decision_log s"
  "s_pred_history (no_queue nm s) = s_pred_history s"
  "s_affinity_decisions (no_queue nm s) = s_affinity_decisions s"
  "s_affinity_hits (no_queue nm s) = s_affinity_hits s"
  "s_affinity_evictions (no_queue nm s) = s_affinity_evictions s"
  by (simp_all add: no_queue_def)

lemma no_queue_with_predictor [simp]:
  "with_predictor (no_queue nm s) w f = no_queue nm (with_predictor s w f)"
  by (simp add: with_predictor_def split: option.split)

lemma no_queue_register: "register (no_queue nm s) w tier tot free = no_queue nm (register s w tier tot free)"
  by (simp add: register_def Let_def split: option.split)

lemma no_queue_operations [simp]:
  "set_vram (no_queue nm s) w x = no_queue nm (set_vram s w x)"
  "mark_admitted (no_queue nm s) w = no_queue nm (mark_admitted s w)"
  "bump_admission g (no_queue nm s) = no_queue nm (bump_admission g s)"
  "log_decision (no_queue nm s) dec = no_queue nm (log_decision s dec)"
  "release (no_queue nm s) w = no_queue nm (release s w)"
  "pending_of (no_queue nm s) = pending_of s"
  "candidate_ids (no_queue nm s) al = candidate_ids s al"
  "ewma_sample_count (no_queue nm s) = ewma_sample_count s"
  by (simp_all add: set_vram_def mark_admitted_def bump_admission_def log_decision_def release_def
      pending_of_def [abs_def] candidate_ids_def
      ewma_sample_count_def [abs_def] Let_def)

lemma no_queue_ewma [simp]: "ewma_decision (no_queue nm s) n = ewma_decision s n"
proof -
  have "ewma_of (no_queue nm s) w = ewma_of s w" for w by (simp add: ewma_of_def split: option.split)
  then show ?thesis by (simp add: ewma_decision_def [abs_def] Let_def)
qed

lemma no_queue_feedback: "feedback (no_queue nm s) w y n ok t = no_queue nm (feedback s w y n ok t)"
proof -
  have "pop_inflight (no_queue nm s) w = map_prod (no_queue nm) (\<lambda>k. k) (pop_inflight s w)" for s
    by (simp add: pop_inflight_def split: option.split list.split)
  moreover have "feedback_ewma (no_queue nm s) w y = no_queue nm (feedback_ewma s w y)" for s
    by (simp add: feedback_ewma_def Let_def split: option.split)
  then have "feedback_learn (no_queue nm s) w y n k t = no_queue nm (feedback_learn s w y n k t)" for s k
    by (simp add: feedback_learn_def Let_def split_beta split: option.split)
  moreover have "feedback_count (no_queue nm s) w y = no_queue nm (feedback_count s w y)" for s
    by (simp add: feedback_count_def Let_def)
  ultimately show ?thesis by (simp add: feedback_def Let_def split_beta)
qed

text \<open>With nothing in flight the queue term is 0, whatever the flag says.\<close>

lemma no_queue_terms:
  "hard_blocked (no_queue nm s) w p n tier = hard_blocked s w p n tier"
  "tier_term (s_cfg (no_queue nm s)) p tier = tier_term (s_cfg s) p tier"
  "vram_term (s_cfg (no_queue nm s)) p = vram_term (s_cfg s) p"
  "engine_terms (s_cfg (no_queue nm s)) e = engine_terms (s_cfg s) e"
  "affinity_term (no_queue nm s) w key = affinity_term s w key"
  "eng_get (no_queue nm s) w = eng_get s w"
  "c_strategy (s_cfg (no_queue nm s)) = c_strategy (s_cfg s)"
  "n_pending p = 0 \<Longrightarrow> wait_term (s_cfg (no_queue nm s)) p x avg = wait_term (s_cfg s) p x avg"
  by (simp_all add: hard_blocked_def tier_term_def vram_term_def engine_terms_def affinity_term_def eng_get_def
      wait_term_def Let_def)

lemma no_queue_cost:
  "n_pending p = 0 \<Longrightarrow> joint_cost (no_queue nm s) w p n tier key est = joint_cost s w p n tier key est"
  unfolding joint_cost_def Let_def no_queue_terms by (simp add: no_queue_terms split_beta del: no_queue_fields(10))

lemma no_queue_score:
  assumes "idle s"
  shows "score_id h (no_queue nm s) n tier prompt key = score_id h s n tier prompt key"
proof
  fix w
  show "score_id h (no_queue nm s) n tier prompt key w = score_id h s n tier prompt key w"
  proof (cases "map_of (s_predictors s) w")
    case None
    then show ?thesis by (simp add: score_id_def)
  next
    case (Some p)
    then have "n_pending p = 0" using idle_pending [OF assms, of w] by (simp add: pending_of_def)
    then have cost: "joint_cost (no_queue nm s) w p n tier k est = joint_cost s w p n tier k est" for k est
      by (rule no_queue_cost)
    show ?thesis
      unfolding score_id_def no_queue_fields(1,2) Some option.case score_def no_queue_terms(1,7) cost ..
  qed
qed

lemma no_queue_verdict:
  "should_reject_slo (no_queue nm s) b scores = map_prod (no_queue nm) (\<lambda>x. x) (should_reject_slo s b scores)"
  unfolding should_reject_slo_def Let_def by (simp add: rank_mode_def strict_mode_def empirical_mode_def)

lemma no_queue_gate:
  "gate (no_queue nm s) b scores = map_prod (no_queue nm) (\<lambda>x. x) (gate s b scores)"
proof -
  have "s_admission (no_queue nm s) = s_admission s" "c_slo_ms (s_cfg (no_queue nm s)) = c_slo_ms (s_cfg s)" by simp_all
  then show ?thesis
    unfolding gate_def Let_def by (simp add: no_queue_verdict split_beta if_distrib [of "no_queue nm"] cong: if_cong)
qed

lemma no_queue_admit:
  "admit_ewma (no_queue nm s) dec = map_prod (no_queue nm) (\<lambda>x. x) (admit_ewma s dec)"
  "admit_cost (no_queue nm s) key w dec = map_prod (no_queue nm) (\<lambda>x. x) (admit_cost s key w dec)"
  by (simp_all add: admit_ewma_def admit_cost_def Let_def split_beta)

lemma no_queue_baselines:
  "pick_round_robin (no_queue nm s) ids n = map_prod (no_queue nm) (\<lambda>x. x) (pick_round_robin s ids n)"
  "pick_least_loaded (no_queue nm s) ids n = map_prod (no_queue nm) (\<lambda>x. x) (pick_least_loaded s ids n)"
  "pick_ewma (no_queue nm s) ids n = map_prod (no_queue nm) (\<lambda>x. x) (pick_ewma s ids n)"
    apply (simp add: pick_round_robin_def Let_def)
   apply (simp add: pick_least_loaded_def Let_def split: option.split)
  apply (simp add: pick_ewma_def no_queue_admit Let_def split: option.split)
  done

lemma no_queue_pick_cost:
  assumes "idle s"
  shows "pick_cost h (no_queue nm s) ids p tier n = map_prod (no_queue nm) (\<lambda>x. x) (pick_cost h s ids p tier n)"
proof (cases "rank_loop (score_id h s n tier p (prefix_hash h p)) ids (None, False, [])")
  case (Inl e)
  then show ?thesis by (simp add: pick_cost_def no_queue_score [OF assms])
next
  case (Inr acc)
  obtain best some scores where acc: "acc = (best, some, scores)" by (cases acc)
  show ?thesis
  proof (cases best)
    case None
    with Inr acc show ?thesis by (simp add: pick_cost_def no_queue_score [OF assms])
  next
    case (Some e)
    obtain w b dec where e: "e = (w, b, dec)" by (cases e)
    obtain s1 verdict reason where g: "gate s b scores = (s1, verdict, reason)" by (cases "gate s b scores")
    with Inr acc Some e show ?thesis
      by (simp add: pick_cost_def no_queue_score [OF assms] no_queue_gate no_queue_admit)
  qed
qed

lemma no_queue_pick:
  assumes "idle s"
  shows "pick h (no_queue nm s) p tier n al = map_prod (no_queue nm) (\<lambda>x. x) (pick h s p tier n al)"
  by (simp add: pick_eq no_queue_baselines no_queue_pick_cost [OF assms] Let_def)

lemma no_queue_init:
  assumes "g_ablation a = Some abl"
  shows "scheduler_init (a\<lparr>g_ablation := Some (abl\<lparr>ab_name := nm, ab_disable_queue := True\<rparr>)\<rparr>) =
    map_sum (\<lambda>e. e) (no_queue nm) (scheduler_init a)"
  using assms by (simp add: scheduler_init_def sched_cfg_of_def no_queue_def Let_def)

abbreviation run_no_queue :: "string \<Rightarrow> sim_run \<Rightarrow> sim_run" where
  "run_no_queue nm r \<equiv> r\<lparr>sr_sched := no_queue nm (sr_sched r)\<rparr>"

lemma no_queue_sim_step:
  assumes "idle (sr_sched r)"
  shows "sim_step h clock u tokens_fn tier_fn i (run_no_queue nm r) =
    map_sum (\<lambda>e. e) (run_no_queue nm) (sim_step h clock u tokens_fn tier_fn i r)"
proof -
  let ?n = "tokens_fn i"
  obtain s1 res where p: "pick h (sr_sched r) (sim_prompt ?n) (tier_fn i) (Some ?n) None = (s1, res)"
    by (cases "pick h (sr_sched r) (sim_prompt ?n) (tier_fn i) (Some ?n) None")
  then have q: "pick h (no_queue nm (sr_sched r)) (sim_prompt ?n) (tier_fn i) (Some ?n) None = (no_queue nm s1, res)"
    by (simp add: no_queue_pick [OF assms])
  show ?thesis
    by (simp add: sim_step_def p q Let_def no_queue_feedback split_beta
        split: sum.split pick_error.split option.split)
qed

lemma no_queue_start:
  "sim_start (no_queue nm s) backends k = run_no_queue nm (sim_start s backends k)"
proof -
  have "sim_register (no_queue nm s) backends = no_queue nm (sim_register s backends)"
    unfolding sim_register_def
    by (induction backends arbitrary: s) (auto simp: no_queue_register)
  then show ?thesis by (simp add: sim_start_def)
qed

text \<open>
  C29: the queue ablation of the closed-loop experiments measures nothing. Whatever the scheduler, the
  backends and the draws, the run with the queue term disabled is the run with the queue term enabled:
  the same picks, latencies, counters and learner states, up to the flag itself. (Experiment N4
  compares the two on consecutive draws of one generator, so what it reports is noise.)
\<close>

theorem queue_ablation_void:
  assumes "g_ablation a = Some abl" and "own_ids backends"
  shows "sim_experiment h clock u (a\<lparr>g_ablation := Some (abl\<lparr>ab_name := nm, ab_disable_queue := True\<rparr>)\<rparr>)
      backends n tokens_fn tier_fn k =
    map_sum (\<lambda>e. e) (\<lambda>r. r\<lparr>sr_sched := no_queue nm (sr_sched r)\<rparr>)
      (sim_experiment h clock u a backends n tokens_fn tier_fn k)"
proof (cases "scheduler_init a")
  case (Inl e)
  then show ?thesis by (simp add: sim_experiment_def no_queue_init [OF assms(1)])
next
  case (Inr s)
  have "for_loop (sim_step h clock u tokens_fn tier_fn) [0..<n] (run_no_queue nm (sim_start s backends k)) =
      map_sum (\<lambda>e. e) (run_no_queue nm) (for_loop (sim_step h clock u tokens_fn tier_fn) [0..<n] (sim_start s backends k))"
  proof (rule for_loop_map [where J = "\<lambda>r. \<exists>i. sim_inv i r"])
    show "\<exists>i. sim_inv i (sim_start s backends k)" using sim_inv_start [OF Inr assms(2)] by blast
    show "sim_step h clock u tokens_fn tier_fn i (run_no_queue nm r) =
        map_sum (\<lambda>e. e) (run_no_queue nm) (sim_step h clock u tokens_fn tier_fn i r)" if "\<exists>i. sim_inv i r" for i r
      using that by (intro no_queue_sim_step) (auto simp: sim_inv_def)
    show "\<exists>i. sim_inv i r'" if "\<exists>i. sim_inv i r" and "sim_step h clock u tokens_fn tier_fn i r = Inr r'" for i r r'
      using that sim_inv_step [of _ r h clock u tokens_fn tier_fn i] by (metis sum.inject(2))
  qed
  with Inr show ?thesis
    by (simp add: sim_experiment_def simulate_load_def no_queue_init [OF assms(1)] no_queue_start)
qed

theorem queue_ablation_void_witness:
  "sim_experiment (\<lambda>t. 0) (\<lambda>i. 0) (\<lambda>k. 1 / 2) (n4_args (n4_variants ! 1)) n4_backends 3 n4_tokens always_small 0 =
   map_sum (\<lambda>e. e) (\<lambda>r. r\<lparr>sr_sched := no_queue ''no_queue'' (sr_sched r)\<rparr>)
     (sim_experiment (\<lambda>t. 0) (\<lambda>i. 0) (\<lambda>k. 1 / 2) (n4_args (n4_variants ! 0)) n4_backends 3 n4_tokens always_small 0)"
proof -
  have "n4_args (n4_variants ! 1) =
      (n4_args (n4_variants ! 0))\<lparr>g_ablation := Some (ablation_full\<lparr>ab_name := ''no_queue'', ab_disable_queue := True\<rparr>)\<rparr>"
    by (simp add: n4_args_def n4_variants_def ablation_full_def)
  moreover have "g_ablation (n4_args (n4_variants ! 0)) = Some ablation_full" "own_ids n4_backends"
    by (simp_all add: n4_args_def n4_variants_def own_ids_def n4_backends_def sim_backend_default_def)
  ultimately show ?thesis using queue_ablation_void by simp
qed

subsection \<open>The backlog of the hybrid experiment\<close>

lemma pick_or_raise_closed:
  assumes "idle s" and "pick_or_raise h s p n = Inr (s1, w, dec)"
  shows "slots.accounts s1 [w]" and "pending_of s1 w = 1" and "idle (feedback s1 w y k ok t)"
proof -
  have p: "pick h s p ''small'' (Some n) None = (s1, Inr (w, dec))"
    using assms(2) by (auto simp: pick_or_raise_def split: prod.splits sum.splits)
  show acc: "slots.accounts s1 [w]" by (rule accounts_pick [OF assms(1) p])
  then show "pending_of s1 w = 1" by (simp add: slots.accounts_def)
  from acc show "idle (feedback s1 w y k ok t)" by (rule idle_feedback)
qed

lemma idle_set_engine_metrics: "idle s \<Longrightarrow> idle (set_engine_metrics s w snap)"
  by (rule accounts_neutral [OF _ neutral_set_engine_metrics])

lemma idle_register_default: "idle s \<Longrightarrow> idle (register_default s w)"
  by (simp add: register_default_def idle_register)

text \<open>The same requests with a fixed surcharge of 40 ms on the hot worker and a fixed queue length of 6.\<close>

definition flat_request ::
  "(string \<Rightarrow> nat) \<Rightarrow> int \<Rightarrow> draws \<Rightarrow> string \<Rightarrow> int \<Rightarrow> nat \<Rightarrow> sched \<Rightarrow> hybrid_run \<Rightarrow> pick_error + hybrid_run" where
  "flat_request h now g prompt tokens k s r =
     py_bind (pick_or_raise h s prompt tokens) (\<lambda>(s1, wid, dec).
       let y = hybrid_true_lat g tokens k + (if wid = ''hot'' then 40 else 0)
       in Inr \<lparr>hr_sched = feedback s1 wid y tokens True now, hr_draws = k + 1,
               hr_lats = hr_lats r @ [y], hr_cool = hr_cool r + (if wid = ''cool'' then 1 else 0)\<rparr>)"

definition flat_hybrid ::
  "(string \<Rightarrow> nat) \<Rightarrow> (nat \<Rightarrow> int) \<Rightarrow> draws \<Rightarrow> nat \<Rightarrow> bool \<Rightarrow> nat \<Rightarrow> hybrid_run \<Rightarrow> pick_error + hybrid_run" where
  "flat_hybrid h clock g seed hybrid i r =
     (let prompt = ''req-'' @ show_nat seed @ ''-'' @ show_nat i @ '' '' @ replicate 20 (CHR ''x'');
          kv = 0.8 + 0.05 * dr_random g (hr_draws r)
      in if hybrid \<and> i mod 5 = 0
         then flat_request h (clock i) g prompt (int (40 + i mod 30)) (hr_draws r + 1)
                (set_engine_metrics (hr_sched r) ''hot'' (SnapDict (metrics_dict kv 6 0))) r
         else flat_request h (clock i) g prompt (int (40 + i mod 30)) (hr_draws r) (hr_sched r) r)"

definition flat_coeff ::
  "(string \<Rightarrow> nat) \<Rightarrow> (nat \<Rightarrow> int) \<Rightarrow> draws \<Rightarrow> nat \<Rightarrow> nat \<Rightarrow> hybrid_run \<Rightarrow> pick_error + hybrid_run" where
  "flat_coeff h clock g seed i r =
     (let prompt = ''sens-'' @ show_nat seed @ ''-'' @ show_nat i @ '' '' @ replicate 20 (CHR ''x'');
          kv = 0.8 + 0.05 * dr_random g (hr_draws r);
          s1 = set_engine_metrics (hr_sched r) ''cool'' (SnapDict (metrics_dict 0.15 0 0))
      in if i mod 5 = 0
         then flat_request h (clock i) g prompt (int (40 + i mod 30)) (hr_draws r + 1)
                (set_engine_metrics s1 ''hot'' (SnapDict (metrics_dict kv 6 0))) r
         else flat_request h (clock i) g prompt (int (40 + i mod 30)) (hr_draws r) (hr_sched r) r)"

lemma flat_request_idle:
  assumes "idle s" and "flat_request h now g prompt tokens k s r = Inr r'"
  shows "idle (hr_sched r')"
  using assms pick_or_raise_closed(3) [OF assms(1)]
  by (cases "pick_or_raise h s prompt tokens") (auto simp: flat_request_def Let_def)

lemma surcharge:
  assumes "idle s"
  shows "py_bind (pick_or_raise h s prompt tokens) (\<lambda>(s1, wid, dec).
      let extra = (if wid = ''hot'' then 40 * of_int (pending_of s1 wid) else 0);
          y = hybrid_true_lat g tokens k + extra
      in Inr \<lparr>hr_sched = feedback s1 wid y tokens True now, hr_draws = k + 1,
              hr_lats = hr_lats r @ [y], hr_cool = hr_cool r + (if wid = ''cool'' then 1 else 0)\<rparr>) =
    flat_request h now g prompt tokens k s r"
proof (cases "pick_or_raise h s prompt tokens")
  case (Inl e)
  then show ?thesis by (simp add: flat_request_def)
next
  case (Inr x)
  obtain s1 w dec where x: "x = (s1, w, dec)" by (cases x)
  with Inr have "pending_of s1 w = 1" using pick_or_raise_closed(2) [OF assms] by blast
  with Inr x show ?thesis by (auto simp: flat_request_def Let_def)
qed

lemma hybrid_step_flat:
  assumes "idle (hr_sched r)"
  shows "hybrid_step h clock g seed hybrid 0 i r = flat_hybrid h clock g seed hybrid i r"
  using surcharge [OF assms] surcharge [OF idle_set_engine_metrics [OF assms]]
  by (simp add: hybrid_step_def flat_hybrid_def Let_def)

lemma coeff_step_flat:
  assumes "idle (hr_sched r)"
  shows "coeff_step h clock g seed i r = flat_coeff h clock g seed i r"
  using surcharge [OF assms] surcharge [OF idle_set_engine_metrics [OF idle_set_engine_metrics [OF assms]]]
    idle_pending [OF idle_set_engine_metrics [OF assms]]
  by (simp add: coeff_step_def flat_coeff_def Let_def)

lemma flat_steps_idle:
  assumes "idle (hr_sched r)"
  shows "flat_hybrid h clock g seed hybrid i r = Inr r' \<Longrightarrow> idle (hr_sched r')"
    and "flat_coeff h clock g seed i r = Inr r' \<Longrightarrow> idle (hr_sched r')"
proof -
  note one = idle_set_engine_metrics [OF assms]
  note two = idle_set_engine_metrics [OF one]
  show "flat_hybrid h clock g seed hybrid i r = Inr r' \<Longrightarrow> idle (hr_sched r')"
    unfolding flat_hybrid_def Let_def
    by (simp only: split: if_splits) (erule flat_request_idle [OF assms] flat_request_idle [OF one])+
  show "flat_coeff h clock g seed i r = Inr r' \<Longrightarrow> idle (hr_sched r')"
    unfolding flat_coeff_def Let_def
    by (simp only: split: if_splits) (erule flat_request_idle [OF assms] flat_request_idle [OF two])+
qed

text \<open>
  The backlog of the hybrid-cost experiment and of the coefficient sweep is a constant. The code
  means to slow the hot worker down with its pending requests and to report them as waiting, but in
  the closed loop the in-flight count it reads is always that of the one request just picked: both
  experiments are the ones in which the hot worker costs 40 ms more and always reports 6 waiting.
\<close>

lemma hybrid_backlog_constant:
  "hybrid_simulate h clock g seed strategy hybrid n k =
     py_bind (raised (scheduler_init (hybrid_args strategy hybrid))) (\<lambda>s0.
     for_loop (flat_hybrid h clock g seed hybrid) [0..<n]
       \<lparr>hr_sched = hybrid_setup hybrid s0, hr_draws = k, hr_lats = [], hr_cool = 0\<rparr>) \<and>
   coeff_simulate h clock g seed scales n =
     py_bind (raised (scheduler_init (coeff_args scales))) (\<lambda>s0.
     for_loop (flat_coeff h clock g seed) [0..<n]
       \<lparr>hr_sched = register_default (register_default s0 ''cool'') ''hot'', hr_draws = 0, hr_lats = [], hr_cool = 0\<rparr>)"
proof (intro conjI)
  have idle_setup: "idle (hybrid_setup hybrid s0)" if "idle s0" for s0
    using that by (simp add: hybrid_setup_def Let_def idle_set_engine_metrics idle_register_default)
  have loop: "for_loop (hybrid_step h clock g seed hybrid 0) [0..<n] r = for_loop (flat_hybrid h clock g seed hybrid) [0..<n] r"
    if "idle (hr_sched r)" for r
    by (rule for_loop_cong [where J = "\<lambda>r. idle (hr_sched r)", OF that hybrid_step_flat])
       (simp_all only: hybrid_step_flat flat_steps_idle(1))
  show "hybrid_simulate h clock g seed strategy hybrid n k =
     py_bind (raised (scheduler_init (hybrid_args strategy hybrid))) (\<lambda>s0.
     for_loop (flat_hybrid h clock g seed hybrid) [0..<n]
       \<lparr>hr_sched = hybrid_setup hybrid s0, hr_draws = k, hr_lats = [], hr_cool = 0\<rparr>)"
  proof (cases "scheduler_init (hybrid_args strategy hybrid)")
    case (Inr s0)
    show ?thesis
      unfolding hybrid_simulate_def Inr Simulations.raised.simps py_bind.simps
      by (rule loop) (simp add: idle_setup idle_init [OF Inr])
  qed (simp add: hybrid_simulate_def)
  have loop: "for_loop (coeff_step h clock g seed) [0..<n] r = for_loop (flat_coeff h clock g seed) [0..<n] r"
    if "idle (hr_sched r)" for r
    by (rule for_loop_cong [where J = "\<lambda>r. idle (hr_sched r)", OF that coeff_step_flat])
       (simp_all only: coeff_step_flat flat_steps_idle(2))
  show "coeff_simulate h clock g seed scales n =
     py_bind (raised (scheduler_init (coeff_args scales))) (\<lambda>s0.
     for_loop (flat_coeff h clock g seed) [0..<n]
       \<lparr>hr_sched = register_default (register_default s0 ''cool'') ''hot'', hr_draws = 0, hr_lats = [], hr_cool = 0\<rparr>)"
  proof (cases "scheduler_init (coeff_args scales)")
    case (Inr s0)
    show ?thesis
      unfolding coeff_simulate_def Inr Simulations.raised.simps py_bind.simps
      by (rule loop) (simp add: idle_register_default idle_init [OF Inr])
  qed (simp add: coeff_simulate_def)
qed

end
