(* ===== verification/Gate_Experiment.thy ===== *)
theory Gate_Experiment
  imports Simulation_Props
begin

text \<open>
  What the admission experiment of \<open>run_abc_experiments.py\<close> can show: the outcome of its three modes,
  for every number of requests and every generator whose normal draws stay within sixteen deviations.
\<close>

subsection \<open>The one worker\<close>

text \<open>A learner within its bounds on a healthy, roomy, small worker.\<close>

definition roomy :: "nlms \<Rightarrow> bool" where
  "roomy p \<longleftrightarrow> nlms_within p \<and> n_slope_max p = 200 \<and> n_intercept_max p = 1000000 \<and> n_healthy p \<and>
     n_tier p = ''small'' \<and> n_free_vram_mb p = 24000 \<and> n_total_vram_mb p = 24000"

definition gate_cfg :: "string \<Rightarrow> sched_cfg" where
  "gate_cfg mode = sched_cfg_of (gate_args mode)"

lemma gate_cfg_fields [simp]:
  "c_strategy (gate_cfg mode) = ''nlms''" "c_slo_ms (gate_cfg mode) = 500" "c_ablation (gate_cfg mode) = ablation_full"
  "c_vram_hard_mb (gate_cfg mode) = 2400" "c_vram_soft_mb (gate_cfg mode) = 4096"
  "c_admission_off (gate_cfg mode) = False" "c_admission_percentile (gate_cfg mode) = 95"
  by (simp_all add: gate_cfg_def sched_cfg_of_def gate_args_def sched_default_args_def Let_def
      py_lower_def py_lower_char_def replace_char_def)

text \<open>The state between two requests of a run.\<close>

definition gate_state :: "string \<Rightarrow> sched \<Rightarrow> bool" where
  "gate_state mode s \<longleftrightarrow>
     idle s \<and> s_cfg s = gate_cfg mode \<and> s_engine_snap s = [] \<and>
     (\<exists>p. s_predictors s = [(''w0'', p)] \<and> roomy p)"

lemma roomy_fields [simp]:
  "roomy (p\<lparr>n_pending := k\<rparr>) = roomy p" "roomy (p\<lparr>n_inflight_log := l\<rparr>) = roomy p"
  "roomy p \<Longrightarrow> roomy (fst (nlms_update p y n k))"
  by (simp_all add: roomy_def nlms_within_def nlms_ok_def)
     (use nlms_update_within [of p y n k] in \<open>simp add: nlms_within_def nlms_ok_def\<close>)

lemma one_worker_update:
  "s_predictors s = [(''w0'', p)] \<Longrightarrow> s_predictors (with_predictor s ''w0'' f) = [(''w0'', f p)]"
  by (simp add: with_predictor_def)

lemma one_worker_feedback:
  assumes "s_predictors s = [(''w0'', p)]" and "roomy p"
  shows "\<exists>q. s_predictors (feedback s ''w0'' y n True t) = [(''w0'', q)] \<and> roomy q"
proof -
  have "s_predictors (fst (pop_inflight s ''w0'')) = [(''w0'', p\<lparr>n_inflight_log := tl (n_inflight_log p)\<rparr>)]"
    unfolding pop_inflight_eq by (rule one_worker_update [OF assms(1)])
  then show ?thesis
    using assms(2)
    by (auto simp: feedback_def Let_def split_beta release_def with_predictor_def feedback_count_def feedback_learn_def
        split: option.split)
qed

lemma feedback_frame:
  "s_engine_snap (feedback s w y n True t) = s_engine_snap s"
  "s_recent_e2e (feedback s w y n True t) = deque_append (c_recent_maxlen (s_cfg s)) (s_recent_e2e s) y"
  by (simp_all add: feedback_def Let_def split_beta release_def feedback_count_def pop_inflight_eq)

lemma deque_append_set: "set (deque_append n xs x) \<subseteq> insert x (set xs)"
  by (auto simp: deque_append_def Let_def dest: in_set_dropD)

subsection \<open>One request\<close>

lemma gate_score:
  assumes "gate_state mode s" and "s_predictors s = [(''w0'', p)]" and "n \<le> 1000"
  shows "score_id h s n ''small'' prompt key ''w0'' =
    (let d = joint_cost s ''w0'' p n ''small'' key (nlms_estimate p n) in Inr (Some (rd_total_ms d, d)))"
proof -
  have p: "roomy p" and c: "s_cfg s = gate_cfg mode" "s_engine_snap s = []"
    using assms(1,2) by (auto simp: gate_state_def)
  have "\<not> hard_blocked s ''w0'' p n ''small''"
    using p c by (simp add: hard_blocked_def roomy_def eng_get_def eng_ok_def Let_def)
  moreover have "fst (nlms_estimate p n) < 10 ^ 300"
  proof -
    have "fst (nlms_estimate p n) \<le> 200 * of_int (max 1 n) + 1000000"
      using nlms_estimate_le [of p n] p by (simp add: roomy_def)
    also have "\<dots> \<le> 200 * 1000 + 1000000" using assms(3) by simp
    also have "\<dots> < 10 ^ 300" by simp
    finally show ?thesis .
  qed
  ultimately show ?thesis using assms(2) c by (simp add: score_id_def score_def Let_def)
qed

lemma gate_pick:
  fixes h :: "string \<Rightarrow> nat" and prompt :: string
  assumes "gate_state mode s" and "s_predictors s = [(''w0'', p)]" and "n \<le> 1000"
  defines "d \<equiv> joint_cost s ''w0'' p n ''small'' (prefix_hash h prompt) (nlms_estimate p n)"
  shows "\<exists>e. pick h s prompt ''small'' (Some n) None =
    (if slo_verdict s (rd_total_ms d) [rd_total_ms d]
     then (s\<lparr>s_admission := inc_rejected_slo (gate_stats s (rd_total_ms d) [rd_total_ms d])\<rparr>, Inl e)
     else (book_cost (s\<lparr>s_admission := gate_stats s (rd_total_ms d) [rd_total_ms d]\<rparr>)
             (prefix_hash h prompt) ''w0'' d, Inr (''w0'', d)))"
proof -
  have inv: "sched_inv s" and p: "roomy p" and c: "s_cfg s = gate_cfg mode"
    using assms(1,2) by (auto simp: gate_state_def dest: accounts_inv)
  have ids: "candidate_ids s None = [''w0'']" using assms(2) p by (simp add: candidate_ids_def roomy_def)
  have "scored h s prompt ''small'' n None = [(''w0'', rd_total_ms d, d)]"
    using gate_score [OF assms(1-3), of h prompt "prefix_hash h prompt"]
    by (simp add: scored_def ids d_def Let_def)
  then show ?thesis
    using pick_cost_eq [OF inv, of h None prompt "''small''" n] c
    by (simp add: pick_eq pick_tokens_def ids rr_strategy_def ll_strategy_def ewma_strategy_def Let_def)
qed

lemma gate_admitted:
  assumes "gate_state mode s" and "\<And>b. \<not> slo_verdict s b [b]" and "n \<le> 1000"
  shows "\<exists>s1 d. pick h s prompt ''small'' (Some n) None = (s1, Inr (''w0'', d)) \<and>
    gate_state mode (feedback s1 ''w0'' y n True t) \<and>
    s_recent_e2e (feedback s1 ''w0'' y n True t) = deque_append (c_recent_maxlen (s_cfg s)) (s_recent_e2e s) y"
proof -
  obtain p where p: "s_predictors s = [(''w0'', p)]" "roomy p" using assms(1) by (auto simp: gate_state_def)
  obtain s1 d where pick: "pick h s prompt ''small'' (Some n) None = (s1, Inr (''w0'', d))"
    using gate_pick [OF assms(1) p(1) assms(3), of h prompt] assms(2) by auto
  have inv: "sched_inv s" and id: "idle s" and c: "s_cfg s = gate_cfg mode" "s_engine_snap s = []"
    using assms(1) by (auto simp: gate_state_def dest: accounts_inv)
  have adm: "admits s ''w0'' d s1" by (rule pick_admit(2) [OF inv pick])
  then have "s_predictors s1 = [(''w0'', p\<lparr>n_pending := n_pending p + 1,
      n_inflight_log := deque_append 1024 (n_inflight_log p) (n_pending p + 1)\<rparr>)]"
    using one_worker_update [OF p(1)] by (simp add: admits_def mark_admitted_def)
  then have "\<exists>q. s_predictors (feedback s1 ''w0'' y n True t) = [(''w0'', q)] \<and> roomy q"
    by (rule one_worker_feedback) (simp add: p(2))
  moreover have "idle (feedback s1 ''w0'' y n True t)"
    by (rule idle_feedback) (rule accounts_pick [OF id pick])
  ultimately show ?thesis
    using pick adm c by (simp add: gate_state_def admits_def feedback_frame feedback_success_frame)
qed

subsection \<open>The three modes\<close>

lemma gate_setup_state:
  assumes "scheduler_init (gate_args mode) = Inr s0"
  shows "gate_state mode (gate_setup s0) \<and> s_recent_e2e (gate_setup s0) = [] \<and> s_prefix_cache (gate_setup s0) = [] \<and>
    (\<exists>p. s_predictors (gate_setup s0) = [(''w0'', p)] \<and> n_pending p = 0 \<and>
       (\<forall>n. fst (nlms_estimate p n) = 40 * of_int (max 1 n) + 800))"
proof -
  have s0: "s_predictors s0 = []" "s_engine_snap s0 = []" "s_cfg s0 = gate_cfg mode" "s_recent_e2e s0 = []"
    "s_prefix_cache s0 = []"
    using assms by (auto simp: scheduler_init_def gate_cfg_def split: if_splits)
  have bounds: "c_slope_max (gate_cfg mode) = 200" "c_intercept_max (gate_cfg mode) = 1000000"
    "c_blend (gate_cfg mode) = 4 / 5" "c_dual (gate_cfg mode)"
    by (simp_all add: gate_cfg_def sched_cfg_of_def gate_args_def sched_default_args_def ablation_full_def Let_def)
  have "idle (register_default s0 ''w0'')" by (rule idle_register_default [OF idle_init [OF assms]])
  then have "idle (gate_setup s0)"
    unfolding gate_setup_def by (rule accounts_neutral) (rule neutral_with_predictor, simp_all add: pred_wf_def)
  moreover have "\<exists>p. s_predictors (gate_setup s0) = [(''w0'', p)] \<and> roomy p \<and> n_pending p = 0 \<and>
      (\<forall>n. fst (nlms_estimate p n) = 40 * of_int (max 1 n) + 800)"
    by (simp add: gate_setup_def register_default_def register_def Let_def s0 with_predictor_def nlms_init_def
        roomy_def nlms_within_def nlms_ok_def fst_nlms_estimate effective_slope_def bounds)
  moreover have "s_cfg (gate_setup s0) = gate_cfg mode" "s_engine_snap (gate_setup s0) = []"
    "s_recent_e2e (gate_setup s0) = []" "s_prefix_cache (gate_setup s0) = []"
    by (simp_all add: gate_setup_def register_default_def register_def Let_def s0)
  ultimately show ?thesis by (auto simp: gate_state_def)
qed

lemma gate_init: "\<exists>s0. scheduler_init (gate_args mode) = Inr s0"
  by (simp add: scheduler_init_def gate_args_def sched_default_args_def)

lemma gate_tokens: "int (20 + i mod 10) \<le> 1000"
proof -
  have "i mod 10 < 10" by simp
  then show ?thesis by linarith
qed

text \<open>A mode that never sees a reason to reject, as long as the observed latencies have the property \<open>P\<close>.\<close>

lemma gate_run_admits:
  assumes "\<And>s b. gate_state mode s \<Longrightarrow> \<forall>y \<in> set (s_recent_e2e s). P y \<Longrightarrow> \<not> slo_verdict s b [b]"
    and "\<And>i j. P (gate_true_lat g i j)"
  shows "\<exists>r. gate_simulate h clock g mode n k = Inr r \<and> gt_admitted r = n \<and> gt_rejected r = 0 \<and>
    ((\<forall>y. P y \<longrightarrow> y \<le> 500) \<longrightarrow> gt_under r = n)"
proof -
  obtain s0 where s0: "scheduler_init (gate_args mode) = Inr s0" using gate_init by blast
  let ?J = "\<lambda>i r. gate_state mode (gt_sched r) \<and> (\<forall>y \<in> set (s_recent_e2e (gt_sched r)). P y) \<and>
    gt_admitted r = i \<and> gt_rejected r = 0 \<and> ((\<forall>y. P y \<longrightarrow> y \<le> 500) \<longrightarrow> gt_under r = i)"
  have "\<exists>r'. gate_step h clock g i r = Inr r' \<and> ?J (Suc i) r'" if J: "?J i r" for i r
  proof -
    let ?y = "gate_true_lat g i (gt_draws r)" and ?n = "int (20 + i mod 10)"
    from gate_tokens obtain s1 d where pick: "pick h (gt_sched r) (''prompt '' @ show_nat i) ''small'' (Some ?n) None = (s1, Inr (''w0'', d))"
      and st: "gate_state mode (feedback s1 ''w0'' ?y ?n True (clock i))"
      and recent: "s_recent_e2e (feedback s1 ''w0'' ?y ?n True (clock i)) =
        deque_append (c_recent_maxlen (s_cfg (gt_sched r))) (s_recent_e2e (gt_sched r)) ?y"
      using gate_admitted [of mode "gt_sched r" ?n h "''prompt '' @ show_nat i" ?y "clock i"] J assms(1) by blast
    have "\<forall>y \<in> set (s_recent_e2e (feedback s1 ''w0'' ?y ?n True (clock i))). P y"
      using recent deque_append_set J assms(2) by (metis insertE subsetD)
    with J st pick assms(2) [of i "gt_draws r"] show ?thesis by (simp add: gate_step_def Let_def)
  qed
  moreover have "?J 0 \<lparr>gt_sched = gate_setup s0, gt_draws = k, gt_admitted = 0, gt_rejected = 0, gt_under = 0\<rparr>"
    using gate_setup_state [OF s0] by simp
  ultimately have "\<exists>r. for_loop (gate_step h clock g) [0..<n]
      \<lparr>gt_sched = gate_setup s0, gt_draws = k, gt_admitted = 0, gt_rejected = 0, gt_under = 0\<rparr> = Inr r \<and> ?J n r"
    by (intro for_range)
  then show ?thesis by (auto simp: gate_simulate_def s0)
qed

lemma gate_cost:
  assumes "gate_state mode s" and "s_predictors s = [(''w0'', p)]" and "s_prefix_cache s = []" and "n_pending p = 0"
  shows "rd_total_ms (joint_cost s ''w0'' p n ''small'' key est) = max 0 (fst est)"
proof -
  have c: "s_cfg s = gate_cfg mode" "s_engine_snap s = []" and p: "roomy p" using assms(1,2) by (auto simp: gate_state_def)
  show ?thesis
    using p assms(3,4)
    by (simp add: joint_cost_def c wait_term_def tier_term_def vram_term_def engine_terms_def eng_get_def eng_ok_def
        affinity_term_def roomy_def ablation_full_def bonus_scale_def Let_def split_beta)
qed

lemma gate_run_rejects:
  assumes "\<And>s b. gate_state mode s \<Longrightarrow> slo_verdict s b [b] \<longleftrightarrow> 500 < b"
  shows "\<exists>r. gate_simulate h clock g mode n k = Inr r \<and> gt_admitted r = 0 \<and> gt_rejected r = n"
proof -
  obtain s0 where s0: "scheduler_init (gate_args mode) = Inr s0" using gate_init by blast
  let ?J = "\<lambda>i r. gate_state mode (gt_sched r) \<and> s_prefix_cache (gt_sched r) = [] \<and>
    s_predictors (gt_sched r) = s_predictors (gate_setup s0) \<and> gt_admitted r = 0 \<and> gt_rejected r = i"
  obtain p where p: "s_predictors (gate_setup s0) = [(''w0'', p)]" "n_pending p = 0"
    "\<And>n. fst (nlms_estimate p n) = 40 * of_int (max 1 n) + 800"
    using gate_setup_state [OF s0] by blast
  have "\<exists>r'. gate_step h clock g i r = Inr r' \<and> ?J (Suc i) r'" if J: "?J i r" for i r
  proof -
    let ?n = "int (20 + i mod 10)" and ?s = "gt_sched r" and ?p = "''prompt '' @ show_nat i"
    let ?d = "joint_cost ?s ''w0'' p ?n ''small'' (prefix_hash h ?p) (nlms_estimate p ?n)"
    have preds: "s_predictors ?s = [(''w0'', p)]" using J p(1) by simp
    have "rd_total_ms ?d = 40 * of_int ?n + 800"
      using gate_cost [of mode ?s p ?n "prefix_hash h ?p" "nlms_estimate p ?n"] J preds p(2,3) by simp
    then have verdict: "slo_verdict ?s (rd_total_ms ?d) [rd_total_ms ?d]" using assms J by simp
    obtain e a where pick: "pick h ?s ?p ''small'' (Some ?n) None = (?s\<lparr>s_admission := a\<rparr>, Inl e)"
      using gate_pick [of mode ?s p ?n h ?p] gate_tokens J preds verdict by auto
    have inv: "sched_inv ?s" and id: "idle ?s" using J by (auto simp: gate_state_def dest: accounts_inv)
    obtain msg retry where e: "e = AdmissionError msg retry" using pick_never_raises [OF inv pick] by blast
    have "gate_step h clock g i r = Inr (r\<lparr>gt_sched := ?s\<lparr>s_admission := a\<rparr>, gt_draws := gt_draws r + 1,
        gt_rejected := gt_rejected r + 1\<rparr>)"
      unfolding gate_step_def Let_def pick e by simp
    moreover have "idle (?s\<lparr>s_admission := a\<rparr>)" by (rule accounts_reject [OF id pick])
    ultimately show ?thesis using J by (auto simp: gate_state_def)
  qed
  moreover have "?J 0 \<lparr>gt_sched = gate_setup s0, gt_draws = k, gt_admitted = 0, gt_rejected = 0, gt_under = 0\<rparr>"
    using gate_setup_state [OF s0] by simp
  ultimately have "\<exists>r. for_loop (gate_step h clock g) [0..<n]
      \<lparr>gt_sched = gate_setup s0, gt_draws = k, gt_admitted = 0, gt_rejected = 0, gt_under = 0\<rparr> = Inr r \<and> ?J n r"
    by (intro for_range)
  then show ?thesis by (auto simp: gate_simulate_def s0)
qed

text \<open>
  C30: the admission experiment shows what it claims, for every number of requests: with the poisoned
  learner the absolute mode rejects every request, although each would meet the budget; the ranking
  mode admits every request; and the empirical mode, which believes the observed latencies instead of
  the estimate, admits and completes every request within the budget, as long as no normal draw
  exceeds sixteen deviations.
\<close>

theorem admission_experiment:
  assumes "\<forall>j. \<bar>dr_normal g j\<bar> \<le> 16"
  shows "(\<exists>r. gate_simulate h clock g ''absolute'' n k = Inr r \<and> gt_admitted r = 0 \<and> gt_rejected r = n) \<and>
    (\<exists>r. gate_simulate h clock g ''rank_only'' n k = Inr r \<and> gt_admitted r = n \<and> gt_rejected r = 0) \<and>
    (\<exists>r. gate_simulate h clock g ''empirical'' n k = Inr r \<and> gt_admitted r = n \<and> gt_under r = n)"
proof (intro conjI)
  have mode: "c_admission_mode (gate_cfg ''absolute'') = ''absolute''"
    "c_admission_mode (gate_cfg ''rank_only'') = ''rank_only''"
    "c_admission_mode (gate_cfg ''empirical'') = ''empirical''"
    by (simp_all add: gate_cfg_def sched_cfg_of_def gate_args_def sched_default_args_def Let_def
        py_lower_def py_lower_char_def replace_char_def)
  have "slo_verdict s b [b] \<longleftrightarrow> 500 < b" if "gate_state ''absolute'' s" for s b
    using that mode by (simp add: slo_verdict_eq gate_state_def rank_mode_def strict_mode_def empirical_mode_def)
  then show "\<exists>r. gate_simulate h clock g ''absolute'' n k = Inr r \<and> gt_admitted r = 0 \<and> gt_rejected r = n"
    by (rule gate_run_rejects)
  have "\<not> slo_verdict s b [b]" if "gate_state ''rank_only'' s" for s b
    using that mode by (simp add: slo_verdict_eq gate_state_def rank_mode_def)
  then show "\<exists>r. gate_simulate h clock g ''rank_only'' n k = Inr r \<and> gt_admitted r = n \<and> gt_rejected r = 0"
    using gate_run_admits [of "''rank_only''" "\<lambda>y. True" g h clock n k] by auto
  have "\<not> slo_verdict s b [b]"
    if "gate_state ''empirical'' s" "\<forall>y \<in> set (s_recent_e2e s). y \<le> 500" for s b
  proof -
    have "percentile (s_recent_e2e s) 95 \<le> 500" if "8 \<le> length (s_recent_e2e s)"
      using that \<open>\<forall>y \<in> set (s_recent_e2e s). y \<le> 500\<close> by (intro percentile_le) auto
    with that(1) mode show ?thesis
      by (auto simp: slo_verdict_eq gate_state_def rank_mode_def strict_mode_def empirical_mode_def tail_over_slo_def)
  qed
  moreover have "gate_true_lat g i j \<le> 500" for i j
  proof -
    have "\<bar>gauss g 20 j\<bar> \<le> 320" using assms [rule_format, of j] by (simp add: gauss_def abs_mult)
    moreover have "20 + i mod 10 \<le> 29" by (simp add: less_Suc_eq_le [symmetric])
    then have "real (20 + i mod 10) \<le> real 29" by (simp only: of_nat_le_iff)
    then have "15 / 10 * real (20 + i mod 10) \<le> 87 / 2" by simp
    ultimately show ?thesis unfolding gate_true_lat_def by linarith
  qed
  ultimately show "\<exists>r. gate_simulate h clock g ''empirical'' n k = Inr r \<and> gt_admitted r = n \<and> gt_under r = n"
    using gate_run_admits [of "''empirical''" "\<lambda>y. y \<le> 500" g h clock n k] by auto
qed

theorem admission_experiment_witness:
  "\<exists>r. gate_simulate (\<lambda>t. 0) (\<lambda>i. 0) \<lparr>dr_random = (\<lambda>k. 0), dr_normal = (\<lambda>k. - 1), dr_int = (\<lambda>k. 0)\<rparr>
     ''empirical'' 12 0 = Inr r \<and> gt_under r = 12"
  using admission_experiment [of "\<lparr>dr_random = (\<lambda>k. 0), dr_normal = (\<lambda>k. - 1), dr_int = (\<lambda>k. 0)\<rparr>"
      "\<lambda>t. 0" "\<lambda>i. 0" 12 0] by auto

end
