(* ===== verification/Engine_Servers.thy ===== *)
theory Engine_Servers
  imports Worker_Proxy
begin

text \<open>
  The engines that the repository ships for its own tests: \<open>real_engine_server.py\<close> (a transformers
  model behind the OpenAI routes), \<open>mock_latency_model.py\<close> (the calibrated latency of an emulated
  GPU), the two gRPC workers \<open>worker_gpu.py\<close> and \<open>model_server.py\<close>, and \<open>vllm_launcher.py\<close>. The
  model itself, the tokenizer, torch, gRPC and the clock are parameters: a generation is a function
  from the prompt and the token limit, and measured times are arguments.
\<close>

subsection \<open>real\_engine\_server.py\<close>

record engine_reply =
  en_body :: json
  en_slept_s :: real

text \<open>The chat template of the tokenizer, None when it has none or raises.\<close>

definition messages_to_text :: "py_text \<Rightarrow> (json \<Rightarrow> string option) \<Rightarrow> json \<Rightarrow> string py" where
  "messages_to_text t template messages =
     (case template messages of
        Some s \<Rightarrow> Inr s
      | None \<Rightarrow>
          py_bind (py_iter messages) (\<lambda>ms.
          py_bind (py_map (\<lambda>m.
             py_bind (jget_def m ''role'' (JStr ''user'')) (\<lambda>role.
             py_bind (jget_def m ''content'' (JStr [])) (\<lambda>content.
             Inr (py_str t role @ '': '' @ py_str t content)))) ms) (\<lambda>parts.
          Inr (join_with [CHR 0x0A] (parts @ [''assistant:''])))))"

definition engine_max_new :: "py_text \<Rightarrow> (string \<times> json) list \<Rightarrow> int py" where
  "engine_max_new t body =
     py_bind (py_int t (or_else (or_else (dget body ''max_tokens'') (dget body ''max_completion_tokens'')) (JInt 32)))
       (\<lambda>n. Inr (max 1 (min n 128)))"

text \<open>What the model returns: the tokens of the prompt, the number of new tokens, and their text.\<close>

record generation =
  ge_prompt_tokens :: nat
  ge_new_tokens :: nat
  ge_text :: string

definition engine_usage :: "generation \<Rightarrow> json" where
  "engine_usage g =
     (let p = int (ge_prompt_tokens g); c = (if ge_new_tokens g > 0 then int (ge_new_tokens g) else 1)
      in JObj [(''prompt_tokens'', JInt p), (''completion_tokens'', JInt c), (''total_tokens'', JInt (p + c))])"

definition engine_answer :: "string \<Rightarrow> real \<Rightarrow> generation \<Rightarrow> real \<Rightarrow> json" where
  "engine_answer model_id now g e2e =
     JObj [(''id'', JStr (''chatcmpl-real-'' @ show_int (py_trunc (now * 1000)))),
           (''object'', JStr ''chat.completion''), (''created'', JInt (py_trunc now)), (''model'', JStr model_id),
           (''choices'', JArr [JObj [(''index'', JInt 0),
              (''message'', JObj [(''role'', JStr ''assistant''), (''content'', JStr (ge_text g))]),
              (''finish_reason'', JStr ''stop'')]]),
           (''usage'', engine_usage g), (''dio_engine_e2e_ms'', JFloat (round_to 2 e2e))]"

text \<open>
  \<open>chat\<close>: \<open>measured\<close> is the time of the generation in milliseconds. A factor above one is paid in
  sleep and reported, a factor below one is ignored.
\<close>

definition engine_chat ::
  "py_text \<Rightarrow> (json \<Rightarrow> string option) \<Rightarrow> (string \<Rightarrow> int \<Rightarrow> generation) \<Rightarrow> string \<Rightarrow> real \<Rightarrow> real \<Rightarrow> real \<Rightarrow>
    (string \<times> json) list \<Rightarrow> engine_reply py" where
  "engine_chat t template generate model_id latency_mult now measured body =
     (let messages = or_else (dget body ''messages'') (JArr [JObj [(''role'', JStr ''user''), (''content'', JStr ''hi'')]])
      in py_bind (engine_max_new t body) (\<lambda>max_new.
         py_bind (messages_to_text t template messages) (\<lambda>prompt.
         let g = generate prompt max_new;
             extra = (if latency_mult > 1 then measured * (latency_mult - 1) else 0);
             e2e = (if latency_mult > 1 then measured * latency_mult else measured)
         in Inr \<lparr>en_body = engine_answer model_id now g e2e, en_slept_s = extra / 1000\<rparr>)))"

definition engine_completions ::
  "py_text \<Rightarrow> (json \<Rightarrow> string option) \<Rightarrow> (string \<Rightarrow> int \<Rightarrow> generation) \<Rightarrow> string \<Rightarrow> real \<Rightarrow> real \<Rightarrow> real \<Rightarrow>
    (string \<times> json) list \<Rightarrow> engine_reply py" where
  "engine_completions t template generate model_id latency_mult now measured body =
     (let prompt = py_str t (or_else (dget body ''prompt'') (JStr ''Hello''))
      in engine_chat t template generate model_id latency_mult now measured
           [(''model'', dget body ''model''),
            (''messages'', JArr [JObj [(''role'', JStr ''user''), (''content'', JStr prompt)]]),
            (''max_tokens'', dget_def body ''max_tokens'' (JInt 32))])"

definition engine_models :: "string \<Rightarrow> json" where
  "engine_models model_id =
     JObj [(''object'', JStr ''list''),
           (''data'', JArr [JObj [(''id'', JStr model_id), (''object'', JStr ''model''), (''owned_by'', JStr ''local'')]])]"

definition engine_health :: "string \<Rightarrow> string option \<Rightarrow> json" where
  "engine_health model_id gpu_name =
     JObj [(''status'', JStr ''ok''), (''model'', JStr model_id),
           (''device'', JStr (if gpu_name \<noteq> None then ''cuda'' else ''cpu'')), (''cuda'', JBool (gpu_name \<noteq> None)),
           (''gpu_name'', case gpu_name of Some n \<Rightarrow> JStr n | None \<Rightarrow> JNull)]"

subsection \<open>mock\_latency\_model.py\<close>

record thermal_throttle =
  th_enabled :: bool
  th_start :: int
  th_ramp :: real
  th_max :: real

definition thermal_default :: thermal_throttle where
  "thermal_default = \<lparr>th_enabled = False, th_start = 40, th_ramp = 0.02, th_max = 1.4\<rparr>"

definition thermal_factor :: "thermal_throttle \<Rightarrow> int \<Rightarrow> real" where
  "thermal_factor th request_idx =
     (if \<not> th_enabled th \<or> request_idx < th_start th then 1
      else min (th_max th) (1 + of_int (request_idx - th_start th) * th_ramp th))"

record latency_profile =
  lp_name :: string
  lp_gpu :: json
  lp_intercept :: real
  lp_prefill :: real
  lp_decode :: real
  lp_jitter :: real
  lp_thermal :: thermal_throttle
  lp_mult :: real

definition profile_default :: "string \<Rightarrow> latency_profile" where
  "profile_default name =
     \<lparr>lp_name = name, lp_gpu = JStr ''emulated'', lp_intercept = 180, lp_prefill = 0.5, lp_decode = 12,
      lp_jitter = 0.1, lp_thermal = thermal_default, lp_mult = 1\<rparr>"

definition float_field :: "py_text \<Rightarrow> json \<Rightarrow> string \<Rightarrow> json \<Rightarrow> real py" where
  "float_field t d key dflt = py_bind (jget_def d key dflt) (py_float t)"

definition thermal_from :: "py_text \<Rightarrow> json \<Rightarrow> thermal_throttle py" where
  "thermal_from t th =
     py_bind (jget_def th ''enabled'' (JBool False)) (\<lambda>enabled.
     py_bind (py_bind (jget_def th ''start_request'' (JInt 40)) (py_int t)) (\<lambda>start.
     py_bind (float_field t th ''ramp_per_request'' (JFloat 0.02)) (\<lambda>ramp.
     py_bind (float_field t th ''max_factor'' (JFloat 1.4)) (\<lambda>top.
     Inr \<lparr>th_enabled = truthy enabled, th_start = start, th_ramp = ramp, th_max = top\<rparr>))))"

definition profile_from_dict :: "py_text \<Rightarrow> string \<Rightarrow> json \<Rightarrow> real \<Rightarrow> latency_profile py" where
  "profile_from_dict t name d latency_mult =
     py_bind (jget_def d ''thermal_throttle'' JNull) (\<lambda>th0.
     py_bind (jget_def d ''gpu'' (JStr ''emulated'')) (\<lambda>gpu.
     py_bind (float_field t d ''ttft_intercept_ms'' (JInt 180)) (\<lambda>intercept.
     py_bind (float_field t d ''prefill_slope_ms_per_token'' (JFloat 0.5)) (\<lambda>prefill.
     py_bind (float_field t d ''decode_slope_ms_per_token'' (JInt 12)) (\<lambda>decode.
     py_bind (float_field t d ''jitter_pct'' (JFloat 0.1)) (\<lambda>jitter.
     py_bind (thermal_from t (or_else th0 (JObj []))) (\<lambda>thermal.
     Inr \<lparr>lp_name = name, lp_gpu = gpu, lp_intercept = intercept, lp_prefill = prefill, lp_decode = decode,
          lp_jitter = jitter, lp_thermal = thermal, lp_mult = latency_mult\<rparr>)))))))"

text \<open>
  \<open>profiles[key]\<close> for a key that the file itself names: the keys of a JSON object are strings, so any
  other scalar is missing, and a list or an object cannot be a key at all.
\<close>

definition profile_entry :: "py_text \<Rightarrow> string \<Rightarrow> json \<Rightarrow> json \<Rightarrow> (string \<times> json) py" where
  "profile_entry t pairing key profiles =
     (let missing = KeyError (''Profile '' @ [CHR 0x27] @ py_str t key @ [CHR 0x27] @ '' missing for pairing '' @
                              [CHR 0x27] @ pairing @ [CHR 0x27])
      in case key of
           JStr k \<Rightarrow> py_bind (py_contains k profiles) (\<lambda>found.
                      if \<not> found then Inl missing
                      else py_bind (py_getitem profiles k) (\<lambda>d. Inr (k, d)))
         | JArr xs \<Rightarrow> Inl (TypeError ''unhashable type'')
         | JObj d \<Rightarrow> Inl (TypeError ''unhashable type'')
         | _ \<Rightarrow> Inl missing)"

definition resolve_pairing ::
  "py_text \<Rightarrow> json \<Rightarrow> json \<Rightarrow> string \<Rightarrow> string option \<Rightarrow> real \<Rightarrow> latency_profile py" where
  "resolve_pairing t profiles pairings pairing_name role latency_mult =
     py_bind (py_getitem pairings pairing_name) (\<lambda>pairing.
     let r = py_lower (case role of None \<Rightarrow> ''slow'' | Some s \<Rightarrow> if s = [] then ''slow'' else s)
     in py_bind (py_getitem pairing (if r = ''fast'' then ''fast'' else ''slow'')) (\<lambda>key.
        py_bind (profile_entry t pairing_name key profiles) (\<lambda>(k, d). profile_from_dict t k d latency_mult)))"

definition legacy_profile :: "real \<Rightarrow> latency_profile" where
  "legacy_profile latency_mult =
     (profile_default ''legacy_uniform'')
       \<lparr>lp_intercept := 50 * max 1 latency_mult, lp_decode := 10 * max 1 latency_mult, lp_jitter := 0.05\<rparr>"

text \<open>The name of a pairing where a profile is expected is resolved as that pairing.\<close>

definition named_or_legacy ::
  "py_text \<Rightarrow> json \<Rightarrow> json \<Rightarrow> string option \<Rightarrow> string option \<Rightarrow> real \<Rightarrow> latency_profile py" where
  "named_or_legacy t profiles pairings profile_name role latency_mult =
     (case profile_name of
        Some (c # cs) \<Rightarrow>
          (let name = c # cs
           in py_bind (py_contains name pairings) (\<lambda>paired.
              if paired
              then resolve_pairing t profiles pairings name
                     (case role of None \<Rightarrow> Some ''slow'' | Some s \<Rightarrow> Some (if s = [] then ''slow'' else s)) latency_mult
              else py_bind (py_contains name profiles) (\<lambda>known.
                   if known then py_bind (py_getitem profiles name) (\<lambda>d. profile_from_dict t name d latency_mult)
                   else Inr (legacy_profile latency_mult))))
      | _ \<Rightarrow> Inr (legacy_profile latency_mult))"

definition resolve_profile ::
  "py_text \<Rightarrow> json \<Rightarrow> string option \<Rightarrow> string option \<Rightarrow> string option \<Rightarrow> real \<Rightarrow> latency_profile py" where
  "resolve_profile t data profile_name role pairing_name latency_mult =
     py_bind (jget_def data ''profiles'' (JObj [])) (\<lambda>profiles.
     py_bind (jget_def data ''pairings'' (JObj [])) (\<lambda>pairings.
     case pairing_name of
       Some (c # cs) \<Rightarrow>
         py_bind (py_contains (c # cs) pairings) (\<lambda>paired.
         if paired then resolve_pairing t profiles pairings (c # cs) role latency_mult
         else named_or_legacy t profiles pairings profile_name role latency_mult)
     | _ \<Rightarrow> named_or_legacy t profiles pairings profile_name role latency_mult))"

definition estimate_prompt_tokens :: "string \<Rightarrow> int" where
  "estimate_prompt_tokens prompt = max 1 (int (length prompt) div 4)"

record mock_result =
  mr_ttft :: real
  mr_total :: real
  mr_tokens :: int
  mr_profile :: string
  mr_thermal :: real

record latency_simulator =
  ls_profile :: latency_profile
  ls_count :: nat

definition simulator_init :: "latency_profile \<Rightarrow> latency_simulator" where
  "simulator_init p = \<lparr>ls_profile = p, ls_count = 0\<rparr>"

text \<open>\<open>gauss\<close> is what \<open>random.gauss\<close> draws for the mean and the deviation it is given.\<close>

definition simulator_predict ::
  "(real \<Rightarrow> real \<Rightarrow> real) \<Rightarrow> string \<Rightarrow> int \<Rightarrow> latency_simulator \<Rightarrow> latency_simulator \<times> mock_result" where
  "simulator_predict gauss prompt output_len s0 =
     (let s = s0\<lparr>ls_count := ls_count s0 + 1\<rparr>; p = ls_profile s;
          ttft = lp_intercept p + lp_prefill p * of_int (estimate_prompt_tokens prompt);
          base_ms = ttft + lp_decode p * of_int output_len;
          noise = max 0.65 (min 1.45 (gauss 1 (lp_jitter p)));
          thermal = thermal_factor (lp_thermal p) (int (ls_count s))
      in (s, \<lparr>mr_ttft = ttft * noise * thermal * lp_mult p, mr_total = base_ms * noise * thermal * lp_mult p,
              mr_tokens = output_len, mr_profile = lp_name p, mr_thermal = thermal\<rparr>))"

subsection \<open>worker\_gpu.py\<close>

record gpu_args =
  ga_worker_id :: string
  ga_port :: int
  ga_tier :: string
  ga_vram :: int
  ga_latency_mult :: real
  ga_latency_profile :: string
  ga_profile_role :: string
  ga_mock :: bool

record gpu_worker =
  gk_mock :: "latency_simulator option"
  gk_model :: bool
  gk_ready :: bool
  gk_load_error :: "string option"

text \<open>The constructor: a mock is ready at once, a real model is loaded by a background thread.\<close>

definition gpu_worker_init :: "py_text \<Rightarrow> json \<Rightarrow> gpu_args \<Rightarrow> gpu_worker py" where
  "gpu_worker_init t data a =
     (if ga_mock a
      then py_bind (resolve_profile t data
                      (if ga_latency_profile a = [] then None else Some (ga_latency_profile a))
                      (Some (if ga_profile_role a = [] then ''slow'' else ga_profile_role a)) None (ga_latency_mult a))
             (\<lambda>p. Inr \<lparr>gk_mock = Some (simulator_init p), gk_model = False, gk_ready = True, gk_load_error = None\<rparr>)
      else Inr \<lparr>gk_mock = None, gk_model = False, gk_ready = False, gk_load_error = None\<rparr>)"

datatype load_outcome = ModelLoaded | LoadFailed | LoadRaised string

definition load_model_bg ::
  "(py_exc \<Rightarrow> string) \<Rightarrow> py_text \<Rightarrow> json \<Rightarrow> gpu_args \<Rightarrow> load_outcome \<Rightarrow> gpu_worker \<Rightarrow> gpu_worker" where
  "load_model_bg exc t data a outcome w =
     (case outcome of
        ModelLoaded \<Rightarrow> w\<lparr>gk_model := True\<rparr>
      | LoadRaised e \<Rightarrow> w\<lparr>gk_load_error := Some e\<rparr>
      | LoadFailed \<Rightarrow>
          (case resolve_profile t data None None None (ga_latency_mult a) of
             Inl e \<Rightarrow> w\<lparr>gk_load_error := Some (exc e)\<rparr>
           | Inr p \<Rightarrow> w\<lparr>gk_mock := Some (simulator_init p)\<rparr>))\<lparr>gk_ready := True\<rparr>"

text \<open>A handler answers, aborts with a status and a text, or raises.\<close>

datatype grpc_failure = GrpcAbort string string | GrpcRaise py_exc

record worker_reply =
  wr_latency_ms :: real
  wr_tokens_used :: int
  wr_ttft_ms :: real

text \<open>What the two generations took: the first token, and everything, since the start of the request.\<close>

record gpu_run =
  gr_first_ms :: real
  gr_all_ms :: real
  gr_new_tokens :: nat

definition gpu_real_reply :: "real \<Rightarrow> gpu_run \<Rightarrow> worker_reply \<times> real" where
  "gpu_real_reply latency_mult r =
     (if latency_mult > 1
      then (\<lparr>wr_latency_ms = gr_all_ms r * latency_mult, wr_tokens_used = int (gr_new_tokens r),
             wr_ttft_ms = gr_first_ms r * latency_mult\<rparr>, gr_all_ms r * latency_mult - gr_all_ms r)
      else (\<lparr>wr_latency_ms = gr_all_ms r, wr_tokens_used = int (gr_new_tokens r), wr_ttft_ms = gr_first_ms r\<rparr>, 0))"

text \<open>
  \<open>Predict\<close> after the wait of at most 600 seconds: the worker, the outcome, and the milliseconds slept.
\<close>

definition gpu_predict ::
  "(real \<Rightarrow> real \<Rightarrow> real) \<Rightarrow> (string \<Rightarrow> gpu_run) \<Rightarrow> real \<Rightarrow> string py \<Rightarrow> gpu_worker \<Rightarrow>
    gpu_worker \<times> (grpc_failure + worker_reply) \<times> real" where
  "gpu_predict gauss run latency_mult decoded w =
     (if \<not> gk_ready w then (w, Inl (GrpcAbort ''UNAVAILABLE'' ''model still loading (timeout)''), 0)
      else case decoded of
        Inl e \<Rightarrow> (w, Inl (GrpcRaise e), 0)
      | Inr prompt \<Rightarrow>
          (case gk_mock w of
             Some s \<Rightarrow>
               (case simulator_predict gauss prompt 128 s of (s', r) \<Rightarrow>
                 (w\<lparr>gk_mock := Some s'\<rparr>,
                  Inr \<lparr>wr_latency_ms = mr_total r, wr_tokens_used = mr_tokens r, wr_ttft_ms = mr_ttft r\<rparr>, mr_total r))
           | None \<Rightarrow>
               (if \<not> gk_model w
                then (w, Inl (GrpcAbort ''INTERNAL''
                        (case gk_load_error w of
                           Some e \<Rightarrow> if e = [] then ''model not available'' else e
                         | None \<Rightarrow> ''model not available'')), 0)
                else case gpu_real_reply latency_mult (run prompt) of (rep, slept) \<Rightarrow> (w, Inr rep, slept))))"

definition gpu_registration :: "gpu_args \<Rightarrow> int option \<Rightarrow> string \<times> string \<times> string \<times> int" where
  "gpu_registration a total_bytes =
     (ga_worker_id a, ''localhost:'' @ show_int (ga_port a), ga_tier a,
      if ga_vram a > 0 then ga_vram a
      else (case total_bytes of Some n \<Rightarrow> n div (1024 * 1024) | None \<Rightarrow> 24000))"

subsection \<open>model\_server.py\<close>

text \<open>\<open>len(s.split())\<close>: the runs of characters that are not white space.\<close>

fun word_count :: "bool \<Rightarrow> string \<Rightarrow> nat" where
  "word_count inside [] = 0"
| "word_count inside (c # cs) =
     (if py_isspace c then word_count False cs else (if inside then 0 else 1) + word_count True cs)"

text \<open>\<open>s.replace(x, "")\<close> for a text of at least one character.\<close>

function py_remove :: "string \<Rightarrow> string \<Rightarrow> string" where
  "py_remove x [] = []"
| "py_remove x (c # cs) =
     (if startswith (c # cs) x then py_remove x (drop (length x - 1) cs) else c # py_remove x cs)"
  by pat_completeness auto

termination by (relation "measure (\<lambda>(x, s). length s)") auto

definition generated_text :: "json \<Rightarrow> json py" where
  "generated_text outputs =
     (case outputs of
        JArr (v # vs) \<Rightarrow> py_getitem v ''generated_text''
      | JArr [] \<Rightarrow> Inl (IndexError ''list index out of range'')
      | JObj d \<Rightarrow> Inl (KeyError ''0'')
      | _ \<Rightarrow> Inl (TypeError ''indices must be integers''))"

text \<open>The pipeline answers or raises; None stands for a model that could not be loaded.\<close>

definition served_text ::
  "(py_exc \<Rightarrow> string) \<Rightarrow> (string \<Rightarrow> json py) option \<Rightarrow> string \<Rightarrow> string" where
  "served_text exc pipe input_text =
     (case pipe of
        None \<Rightarrow> ''Model not loaded, simulation mode.''
      | Some run \<Rightarrow>
          (case py_bind (run input_text) generated_text of
             Inl e \<Rightarrow> ''Error: '' @ exc e
           | Inr (JStr s) \<Rightarrow> (if startswith s input_text then drop (length input_text) s else s)
           | Inr v \<Rightarrow> ''Error: '' @ exc (AttributeError ''startswith'')))"

record server_reply =
  sv_output :: string
  sv_latency_ms :: real
  sv_ttft_ms :: real
  sv_tokens_used :: nat

definition server_predict ::
  "(py_exc \<Rightarrow> string) \<Rightarrow> (string \<Rightarrow> json py) option \<Rightarrow> real \<Rightarrow> string py \<Rightarrow> server_reply py" where
  "server_predict exc pipe latency decoded =
     py_bind decoded (\<lambda>input_text.
     let s = served_text exc pipe input_text
     in Inr \<lparr>sv_output = s, sv_latency_ms = latency, sv_ttft_ms = latency / 10, sv_tokens_used = word_count False s\<rparr>)"

text \<open>The channel to the manager: whether it is encrypted, and the target. Then the request, whose memory is read as an integer.\<close>

definition manager_channel :: "string \<Rightarrow> bool \<times> string" where
  "manager_channel addr =
     (if is_infix ''ngrok'' addr \<or> is_infix ''443'' addr
      then (True, py_remove ''http://'' (py_remove ''https://'' addr))
      else (False, addr))"

definition server_registration ::
  "py_text \<Rightarrow> string \<Rightarrow> string \<Rightarrow> string option \<Rightarrow> string \<Rightarrow> string \<Rightarrow> (string \<times> string \<times> string \<times> int) py" where
  "server_registration t hostname tier resolved port vram =
     py_bind (py_int t (JStr vram)) (\<lambda>n.
     Inr (hostname @ ''-'' @ tier, (case resolved of Some ip \<Rightarrow> ip | None \<Rightarrow> ''127.0.0.1'') @ '':'' @ port, tier, n))"

subsection \<open>vllm\_launcher.py\<close>

record launcher_args =
  la_model :: string
  la_port :: int
  la_gpu_index :: int
  la_mem_util :: real
  la_max_model_len :: int
  la_tensor_parallel :: int
  la_quantization :: "string option"
  la_dtype :: string
  la_max_num_seqs :: int
  la_enforce_eager :: bool
  la_host :: string
  la_trust_remote_code :: bool

definition launcher_command :: "py_text \<Rightarrow> string \<Rightarrow> launcher_args \<Rightarrow> string list" where
  "launcher_command t executable a =
     [executable, ''-m'', ''vllm.entrypoints.openai.api_server'', ''--model'', la_model a,
      ''--port'', show_int (la_port a), ''--host'', la_host a,
      ''--gpu-memory-utilization'', pt_repr_float t (la_mem_util a),
      ''--max-model-len'', show_int (la_max_model_len a),
      ''--tensor-parallel-size'', show_int (la_tensor_parallel a), ''--dtype'', la_dtype a,
      ''--max-num-seqs'', show_int (la_max_num_seqs a)] @
     (case la_quantization a of
        Some q \<Rightarrow> if q = [] then [] else [''--quantization'', q]
      | None \<Rightarrow> []) @
     (if la_enforce_eager a then [''--enforce-eager''] else []) @
     (if la_trust_remote_code a then [''--trust-remote-code''] else [])"

definition launcher_env :: "launcher_args \<Rightarrow> (string \<times> string) list \<Rightarrow> (string \<times> string) list" where
  "launcher_env a env = AList.update ''CUDA_VISIBLE_DEVICES'' (show_int (la_gpu_index a)) env"

text \<open>
  A probe of the models route succeeds on status 200 with a document that lists models; any exception
  counts as not ready. The rounds sleep three seconds.
\<close>

definition ready_probe :: "(int \<times> json option) option \<Rightarrow> bool" where
  "ready_probe answer =
     (case answer of
        Some (status, Some data) \<Rightarrow>
          status = 200 \<and>
          (case py_bind (jget_def data ''data'' (JArr [])) (\<lambda>xs.
                py_bind (py_iter xs) (py_map (\<lambda>m. py_getitem m ''id''))) of Inr ids \<Rightarrow> True | Inl e \<Rightarrow> False)
      | _ \<Rightarrow> False)"

definition wait_for_vllm_ready ::
  "(nat \<Rightarrow> real) \<Rightarrow> (nat \<Rightarrow> (int \<times> json option) option) \<Rightarrow> real \<Rightarrow> bool option" where
  "wait_for_vllm_ready clock answers timeout = wait_from clock (\<lambda>i. ready_probe (answers i)) timeout 0"

subsection \<open>Lemmas\<close>

text \<open>A request can never ask the test engine for more than 128 new tokens, nor for none.\<close>

lemma engine_max_new_range:
  assumes "engine_max_new t body = Inr n"
  shows "1 \<le> n \<and> n \<le> 128"
proof -
  from assms obtain m where "n = max 1 (min m 128)" unfolding engine_max_new_def py_bind_Inr by blast
  then show ?thesis by simp
qed

text \<open>The client waits for what the reply reports: the measured time, multiplied when the factor exceeds one.\<close>

lemma engine_chat_waits:
  assumes "engine_chat t template generate model_id mult now measured body = Inr r"
  shows "measured + en_slept_s r * 1000 = measured * max 1 mult"
proof -
  from assms have "en_slept_s r = (if mult > 1 then measured * (mult - 1) else 0) / 1000"
    unfolding engine_chat_def Let_def py_bind_Inr by auto
  then show ?thesis by (auto simp: algebra_simps max_def)
qed

text \<open>The completions route reaches the model with the prompt as the only message.\<close>

lemma completions_prompt:
  assumes "truthy (dget body ''prompt'')" and "dget body ''prompt'' = JStr s"
  shows "engine_completions t (\<lambda>_. None) generate model_id mult now measured body =
    py_bind (engine_max_new t [(''max_tokens'', dget_def body ''max_tokens'' (JInt 32))]) (\<lambda>n.
      Inr \<lparr>en_body = engine_answer model_id now (generate (''user: '' @ s @ [CHR 0x0A] @ ''assistant:'') n)
              (if mult > 1 then measured * mult else measured),
           en_slept_s = (if mult > 1 then measured * (mult - 1) else 0) / 1000\<rparr>)"
  using assms
  by (simp add: engine_completions_def engine_chat_def messages_to_text_def engine_max_new_def or_else_def dget_def_def Let_def)

text \<open>The thermal factor starts at one, never falls and stays below its cap.\<close>

lemma thermal_factor_range:
  assumes "0 \<le> th_ramp th" and "1 \<le> th_max th"
  shows "1 \<le> thermal_factor th i \<and> thermal_factor th i \<le> th_max th"
  using assms by (auto simp: thermal_factor_def not_less)

lemma thermal_factor_mono:
  assumes "0 \<le> th_ramp th" and "1 \<le> th_max th" and "i \<le> j"
  shows "thermal_factor th i \<le> thermal_factor th j"
proof -
  have "of_int (i - th_start th) * th_ramp th \<le> of_int (j - th_start th) * th_ramp th"
    using assms by (intro mult_right_mono) auto
  with assms thermal_factor_range [OF assms(1,2), of j] show ?thesis
    by (auto simp: thermal_factor_def not_less)
qed

text \<open>
  The emulated latency: at least the first token's share, linear in the latency factor, and within the
  clamped noise and the thermal cap of the calibrated line.
\<close>

definition calibrated_ms :: "latency_profile \<Rightarrow> string \<Rightarrow> int \<Rightarrow> real" where
  "calibrated_ms p prompt output_len =
     lp_intercept p + lp_prefill p * of_int (estimate_prompt_tokens prompt) + lp_decode p * of_int output_len"

lemma simulator_predict_bounds:
  assumes "0 \<le> th_ramp (lp_thermal (ls_profile s))" and "1 \<le> th_max (lp_thermal (ls_profile s))"
    and "0 \<le> lp_mult (ls_profile s)" and "0 \<le> calibrated_ms (ls_profile s) prompt n"
    and "simulator_predict gauss prompt n s = (s', r)"
  shows "0.65 * lp_mult (ls_profile s) * calibrated_ms (ls_profile s) prompt n \<le> mr_total r \<and>
    mr_total r \<le> 1.45 * th_max (lp_thermal (ls_profile s)) * lp_mult (ls_profile s) *
      calibrated_ms (ls_profile s) prompt n"
proof -
  define noise where "noise = max 0.65 (min 1.45 (gauss 1 (lp_jitter (ls_profile s))))"
  define th where "th = thermal_factor (lp_thermal (ls_profile s)) (int (ls_count s + 1))"
  have noise: "0.65 \<le> noise" "noise \<le> 1.45" by (auto simp: noise_def)
  have th: "1 \<le> th" "th \<le> th_max (lp_thermal (ls_profile s))"
    unfolding th_def using thermal_factor_range [OF assms(1,2)] by blast+
  have low: "0.65 * 1 \<le> noise * th" using noise th by (intro mult_mono) auto
  have high: "noise * th \<le> 1.45 * th_max (lp_thermal (ls_profile s))" using noise th by (intro mult_mono) auto
  have pos: "0 \<le> lp_mult (ls_profile s) * calibrated_ms (ls_profile s) prompt n" using assms by simp
  have "mr_total r = (noise * th) * (lp_mult (ls_profile s) * calibrated_ms (ls_profile s) prompt n)"
    using assms(5) by (auto simp: simulator_predict_def Let_def noise_def th_def calibrated_ms_def algebra_simps)
  with mult_right_mono [OF low pos] mult_right_mono [OF high pos] show ?thesis by (simp add: algebra_simps)
qed

lemma simulator_ttft_le_total:
  assumes "0 \<le> lp_decode (ls_profile s)" and "0 \<le> n" and "0 \<le> lp_mult (ls_profile s)"
    and "0 \<le> th_ramp (lp_thermal (ls_profile s))" and "1 \<le> th_max (lp_thermal (ls_profile s))"
    and "simulator_predict gauss prompt n s = (s', r)"
  shows "mr_ttft r \<le> mr_total r"
proof -
  have "0 \<le> thermal_factor (lp_thermal (ls_profile s)) (int (ls_count s + 1))"
    using thermal_factor_range [OF assms(4,5)] by (meson order.trans zero_le_one)
  moreover have "0 \<le> lp_decode (ls_profile s) * of_int n" using assms by simp
  ultimately show ?thesis
    using assms(3,6) by (auto simp: simulator_predict_def Let_def intro!: mult_right_mono)
qed

text \<open>The factor of the legacy profile is applied once: in the slopes, with the profile's own factor left at one.\<close>

lemma legacy_factor_once:
  "1 \<le> mult \<Longrightarrow> lp_mult (legacy_profile mult) * (lp_intercept (legacy_profile mult) + lp_decode (legacy_profile mult) * n) =
     mult * (lp_intercept (legacy_profile 1) + lp_decode (legacy_profile 1) * n)"
  by (simp add: legacy_profile_def profile_default_def algebra_simps)

text \<open>
  A worker whose model fails to load still answers: it becomes a mock with the legacy profile, whatever
  profile it was started with.
\<close>

lemma failed_load_serves_mock:
  assumes "resolve_profile t data None None None (ga_latency_mult a) = Inr p"
  shows "gk_mock (load_model_bg exc t data a LoadFailed w) = Some (simulator_init p) \<and>
    gk_ready (load_model_bg exc t data a LoadFailed w) \<and> p = legacy_profile (ga_latency_mult a)"
proof -
  have "p = legacy_profile (ga_latency_mult a)"
    using assms unfolding resolve_profile_def named_or_legacy_def py_bind_Inr option.case sum.inject by blast
  with assms show ?thesis by (simp add: load_model_bg_def)
qed

text \<open>A ready worker never reports less than it took, and pays a factor above one in sleep.\<close>

lemma gpu_real_reply_time:
  "gpu_real_reply mult r = (rep, slept) \<Longrightarrow> wr_latency_ms rep = gr_all_ms r + slept"
  by (auto simp: gpu_real_reply_def split: if_splits)

lemma word_count_le: "word_count inside s \<le> length s"
  by (induction inside s rule: word_count.induct) (auto simp: le_SucI)

text \<open>Every port that contains the digits 443 is taken for an encrypted endpoint.\<close>

lemma manager_channel_port: "is_infix ''443'' addr \<Longrightarrow> fst (manager_channel addr)"
  unfolding manager_channel_def by (simp only: disjI2 if_True fst_conv)

lemma wait_for_vllm_ready_ends:
  assumes "mono clock" and "\<forall>i. 3 * of_nat i \<le> clock i"
  shows "wait_for_vllm_ready clock answers timeout =
    Some (\<exists>i. clock i < timeout \<and> ready_probe (answers i))"
proof -
  have slow: "\<forall>i. 2 * of_nat i \<le> clock i"
  proof
    fix i
    have "2 * real i \<le> 3 * real i" by simp
    also have "\<dots> \<le> clock i" using assms(2) by blast
    finally show "2 * of_nat i \<le> clock i" .
  qed
  obtain k :: nat where "timeout \<le> 2 * of_nat k" using real_arch_simple [of "timeout / 2"] by (auto simp: field_simps)
  with wait_from_ends [OF assms(1) slow, of timeout 0 k] show ?thesis by (simp add: wait_for_vllm_ready_def)
qed

end
