(* ===== verification/Load_Runs.thy ===== *)
theory Load_Runs
  imports Experiment_Stats Py_Values
begin

text \<open>
  The load generators of the experiment scripts and the aggregation of their rows
  (\<open>run_workshop_final_suite.py\<close>, \<open>run_gpu_abc_suite.py\<close>): the counting loops over the answers of the
  gateway, the concurrent multi-turn sessions with their shared counters, the matrix of strategies and
  seeds, the coefficient sweep and the paired gains. The answers, the measured times and the documents
  of the debug routes are arguments; starting processes and printing are left out.
\<close>

subsection \<open>Answers\<close>

text \<open>A post raises, or answers with a status, the backend header, and a body (None when it is no JSON).\<close>

datatype http_post = PostRaised | Answered int "string option" "json option"

definition served_by :: "string option \<Rightarrow> string" where
  "served_by header =
     (case header of None \<Rightarrow> ''unknown'' | Some w \<Rightarrow> if w = [] then ''unknown'' else w)"

text \<open>\<open>fetch_json\<close>: the document of a 200, an empty one otherwise.\<close>

definition fetch_json :: "(int \<times> json option) option \<Rightarrow> json" where
  "fetch_json answer =
     (case answer of Some (status, Some doc) \<Rightarrow> if status = 200 then doc else JObj [] | _ \<Rightarrow> JObj [])"

definition route_total :: "nat dict \<Rightarrow> nat" where
  "route_total routes = (let n = sum_list (map snd routes) in if n = 0 then 1 else n)"

definition route_share :: "nat dict \<Rightarrow> string \<Rightarrow> real" where
  "route_share routes w =
     real (case map_of routes w of None \<Rightarrow> 0 | Some n \<Rightarrow> n) / real (route_total routes)"

text \<open>The statistics of a campaign, None where the script writes NaN.\<close>

record campaign_stats =
  cs_mean :: "real option"
  cs_std :: "real option"
  cs_ci95 :: "real option"
  cs_n :: nat

definition stats95 :: "real list \<Rightarrow> campaign_stats" where
  "stats95 xs =
     (if xs = [] then \<lparr>cs_mean = None, cs_std = None, cs_ci95 = None, cs_n = 0\<rparr>
      else \<lparr>cs_mean = Some (stats_mean xs), cs_std = Some (if length xs > 1 then stats_stdev xs else 0),
            cs_ci95 = Some (half_width xs), cs_n = length xs\<rparr>)"

subsection \<open>The sequential load\<close>

record load_counts =
  lc_ok :: nat
  lc_fail :: nat
  lc_e2e :: "real list"
  lc_routes :: "nat dict"

definition load_start :: load_counts where
  "load_start = \<lparr>lc_ok = 0, lc_fail = 0, lc_e2e = [], lc_routes = []\<rparr>"

definition load_step :: "load_counts \<Rightarrow> http_post \<times> real \<Rightarrow> load_counts" where
  "load_step c answer =
     (case answer of
        (Answered status header doc, ms) \<Rightarrow>
          (if status = 200
           then c\<lparr>lc_ok := lc_ok c + 1, lc_e2e := lc_e2e c @ [ms],
                  lc_routes := count_route (served_by header) (lc_routes c)\<rparr>
           else c\<lparr>lc_fail := lc_fail c + 1\<rparr>)
      | (PostRaised, ms) \<Rightarrow> c\<lparr>lc_fail := lc_fail c + 1\<rparr>)"

definition load_answers :: "(http_post \<times> real) list \<Rightarrow> load_counts" where
  "load_answers answers = foldl load_step load_start answers"

text \<open>The prediction block of the debug document; any exception leaves its text as \<open>error\<close>.\<close>

definition worker_mape :: "py_text \<Rightarrow> json \<Rightarrow> real list py" where
  "worker_mape t w =
     (case w of
        JObj d \<Rightarrow> (if dget d ''mape_pct'' = JNull then Inr []
                   else py_bind (py_float t (dget d ''mape_pct'')) (\<lambda>x. Inr [x]))
      | _ \<Rightarrow> Inr [])"

definition worker_docs :: "json \<Rightarrow> json list py" where
  "worker_docs m =
     py_bind (jget_def m ''workers'' JNull) (\<lambda>ws.
     case or_else ws (JObj []) of
       JObj d \<Rightarrow> Inr (map snd d)
     | _ \<Rightarrow> Inl (AttributeError ''values''))"

definition prediction_block :: "py_text \<Rightarrow> json \<Rightarrow> (string \<times> json) list py" where
  "prediction_block t m =
     py_bind (worker_docs m) (\<lambda>ws.
     py_bind (py_map (worker_mape t) ws) (\<lambda>mapes.
     py_bind (jget_def m ''prediction'' JNull) (\<lambda>p.
     py_bind (jget_def m ''admission'' JNull) (\<lambda>adm.
     let mean = (if concat mapes = [] then JNull else JFloat (stats_mean (concat mapes)));
         block = (\<lambda>v. [(''mape_pct'', v), (''prediction_block'', p), (''admission'', adm)])
     in if truthy p
        then py_bind (jget_def p ''mape_pct'' JNull) (\<lambda>v. Inr (block (if v = JNull then mean else v)))
        else Inr (block mean)))))"

definition prediction_report ::
  "(py_exc \<Rightarrow> string) \<Rightarrow> py_text \<Rightarrow> string + json \<Rightarrow> (string \<times> json) list" where
  "prediction_report exc t metrics =
     (case metrics of
        Inl e \<Rightarrow> [(''error'', JStr e)]
      | Inr m \<Rightarrow> (case prediction_block t m of Inl e \<Rightarrow> [(''error'', JStr (exc e))] | Inr p \<Rightarrow> p))"

text \<open>One row of a matrix: the fields that the aggregation reads, None where the row lacks them.\<close>

record load_row =
  rw_error :: "string option"
  rw_seed :: int
  rw_ok :: nat
  rw_fail :: nat
  rw_routes :: "nat dict"
  rw_frac_e0 :: "real option"
  rw_p50 :: "real option"
  rw_p99 :: "real option"
  rw_mean :: "real option"
  rw_mape :: json

definition error_row :: "string \<Rightarrow> int \<Rightarrow> nat \<Rightarrow> load_row" where
  "error_row e seed failed =
     \<lparr>rw_error = Some e, rw_seed = seed, rw_ok = 0, rw_fail = failed, rw_routes = [], rw_frac_e0 = None,
      rw_p50 = None, rw_p99 = None, rw_mean = None, rw_mape = JNull\<rparr>"

text \<open>
  \<open>run_load\<close>: when the health probe raises, nothing is sent. The share of the first backend is that of
  the routed requests.
\<close>

definition run_load ::
  "(py_exc \<Rightarrow> string) \<Rightarrow> py_text \<Rightarrow> int \<Rightarrow> string option \<Rightarrow> (http_post \<times> real) list \<Rightarrow> string + json \<Rightarrow> load_row" where
  "run_load exc t seed health_error answers metrics =
     (case health_error of
        Some e \<Rightarrow> error_row e seed (length answers)
      | None \<Rightarrow>
          (let c = load_answers answers; pred = prediction_report exc t metrics
           in \<lparr>rw_error = None, rw_seed = seed, rw_ok = lc_ok c, rw_fail = lc_fail c, rw_routes = lc_routes c,
               rw_frac_e0 = Some (route_share (lc_routes c) ''e0''), rw_p50 = nearest_pct (lc_e2e c) 50,
               rw_p99 = nearest_pct (lc_e2e c) 99,
               rw_mean = (if lc_e2e c = [] then None else Some (stats_mean (lc_e2e c))),
               rw_mape = dget pred ''mape_pct''\<rparr>))"

subsection \<open>The matrix of strategies and seeds\<close>

record strategy_block =
  sb_p99 :: campaign_stats
  sb_p50 :: campaign_stats
  sb_mape :: campaign_stats
  sb_frac_e0 :: campaign_stats
  sb_ok_sum :: nat
  sb_rows :: "load_row list"

definition strategy_summary :: "py_text \<Rightarrow> load_row list \<Rightarrow> strategy_block py" where
  "strategy_summary t rows =
     py_bind (py_map (py_float t) (filter (\<lambda>v. v \<noteq> JNull) (map rw_mape rows))) (\<lambda>mapes.
     Inr \<lparr>sb_p99 = stats95 (List.map_filter rw_p99 rows), sb_p50 = stats95 (List.map_filter rw_p50 rows),
          sb_mape = stats95 mapes, sb_frac_e0 = stats95 (List.map_filter rw_frac_e0 rows),
          sb_ok_sum = sum_list (map rw_ok rows), sb_rows = rows\<rparr>)"

text \<open>A percentile that Python takes for true: present and not zero.\<close>

definition nonzero :: "real option \<Rightarrow> real option" where
  "nonzero x = (case x of None \<Rightarrow> None | Some v \<Rightarrow> if v = 0 then None else Some v)"

text \<open>
  The improvement over round robin as the matrix computes it: the baseline list keeps only the seeds that
  have a percentile, and is then read at the position of the seed in the full list.
\<close>

definition matrix_baseline :: "load_row list \<Rightarrow> real list" where
  "matrix_baseline rr = List.map_filter (\<lambda>r. nonzero (rw_p99 r)) rr"

definition gain_pct :: "real \<Rightarrow> real \<Rightarrow> real" where
  "gain_pct base treat = (base - treat) / base * 100"

definition matrix_improvements :: "load_row list \<Rightarrow> load_row list \<Rightarrow> real list" where
  "matrix_improvements rr rows =
     List.map_filter (\<lambda>(i, r).
       case nonzero (rw_p99 r) of
         None \<Rightarrow> None
       | Some p \<Rightarrow>
           (if i < length (matrix_baseline rr) \<and> matrix_baseline rr ! i > 0
            then Some (gain_pct (matrix_baseline rr ! i) p) else None)) (enumerate 0 rows)"

definition matrix_blocks :: "(string \<times> strategy_block) list \<Rightarrow> (string \<times> campaign_stats) list" where
  "matrix_blocks blocks =
     (case (case map_of blocks ''round_robin'' of Some b \<Rightarrow> Some b | None \<Rightarrow> map_of blocks ''rr'') of
        None \<Rightarrow> []
      | Some rr \<Rightarrow>
          (if sb_rows rr = [] then []
           else map (\<lambda>(name, b). (name, stats95 (matrix_improvements (sb_rows rr) (sb_rows b))))
                  (filter (\<lambda>(name, b). name \<noteq> ''round_robin'' \<and> name \<noteq> ''rr'') blocks)))"

text \<open>The same gain with both lists read seed by seed, as the A/B/C suite computes it.\<close>

definition paired_gains :: "real option list \<Rightarrow> real option list \<Rightarrow> real list" where
  "paired_gains base treat =
     List.map_filter (\<lambda>(a, b).
       case (nonzero a, nonzero b) of
         (Some x, Some y) \<Rightarrow> if x > 0 then Some (100 * (x - y) / x) else None
       | _ \<Rightarrow> None) (zip base treat)"

subsection \<open>The coefficient sweep\<close>

definition coeff_envs :: "(string \<times> string \<times> string) list" where
  "coeff_envs =
     [(''baseline'', ''500'', ''200''), (''tier_p50'', ''750'', ''200''), (''tier_m50'', ''250'', ''200''),
      (''cache_p50'', ''500'', ''300''), (''cache_m50'', ''500'', ''100''), (''both_p50'', ''750'', ''300''),
      (''both_m50'', ''250'', ''100'')]"

definition coeff_env :: "string \<times> string \<Rightarrow> (string \<times> string) list" where
  "coeff_env v = [(''DIO_TIER_MISMATCH_MS'', fst v), (''DIO_CACHE_BONUS_MS'', snd v)]"

text \<open>The percentile of each variant, None when its gateway did not start; no deltas without a baseline.\<close>

definition coeff_deltas :: "real option dict \<Rightarrow> (string \<times> real) list option" where
  "coeff_deltas variants =
     (case map_of variants ''baseline'' of
        Some (Some base) \<Rightarrow>
          (if base > 0
           then Some (List.map_filter (\<lambda>(name, p).
                        if name = ''baseline'' then None
                        else map_option (\<lambda>x. (name, (x - base) / base * 100)) p) variants)
           else None)
      | _ \<Rightarrow> None)"

definition max_abs_delta :: "(string \<times> real) list \<Rightarrow> real option" where
  "max_abs_delta deltas = (if deltas = [] then None else Some (Max (set (map (\<lambda>d. \<bar>snd d\<bar>) deltas))))"

subsection \<open>Concurrent multi-turn sessions\<close>

text \<open>
  The counters that the session threads share. Each answer updates them in one critical section, so a
  run is a sequence of answers in the order in which the threads take the lock.
\<close>

record turn_counts =
  tc_ok :: nat
  tc_fail :: nat
  tc_rejects :: nat
  tc_e2e :: "real list"
  tc_routes :: "nat dict"
  tc_home :: "(nat \<times> string) list"
  tc_sticky :: nat
  tc_turns :: nat

definition turn_start :: turn_counts where
  "turn_start =
     \<lparr>tc_ok = 0, tc_fail = 0, tc_rejects = 0, tc_e2e = [], tc_routes = [], tc_home = [], tc_sticky = 0, tc_turns = 0\<rparr>"

definition turn_served :: "nat \<Rightarrow> string \<Rightarrow> real \<Rightarrow> turn_counts \<Rightarrow> turn_counts" where
  "turn_served s wid ms c =
     (let home = (case map_of (tc_home c) s of None \<Rightarrow> AList.update s wid (tc_home c) | Some w \<Rightarrow> tc_home c)
      in c\<lparr>tc_ok := tc_ok c + 1, tc_e2e := tc_e2e c @ [ms], tc_routes := count_route wid (tc_routes c),
           tc_home := home, tc_sticky := tc_sticky c + (if map_of home s = Some wid then 1 else 0),
           tc_turns := tc_turns c + 1\<rparr>)"

definition turn_step :: "turn_counts \<Rightarrow> nat \<times> http_post \<times> real \<Rightarrow> turn_counts" where
  "turn_step c event =
     (case event of
        (s, Answered status header doc, ms) \<Rightarrow>
          (if status = 200 then turn_served s (served_by header) ms c
           else if status = 503 then c\<lparr>tc_fail := tc_fail c + 1, tc_rejects := tc_rejects c + 1\<rparr>
           else c\<lparr>tc_fail := tc_fail c + 1\<rparr>)
      | (s, PostRaised, ms) \<Rightarrow> c\<lparr>tc_fail := tc_fail c + 1\<rparr>)"

definition multiturn :: "(nat \<times> http_post \<times> real) list \<Rightarrow> turn_counts" where
  "multiturn events = foldl turn_step turn_start events"

text \<open>The answers of one session, in the order of its turns.\<close>

definition session_events :: "nat \<Rightarrow> (nat \<times> http_post \<times> real) list \<Rightarrow> (nat \<times> http_post \<times> real) list" where
  "session_events s events = filter (\<lambda>e. fst e = s) events"

definition stickiness :: "turn_counts \<Rightarrow> real" where
  "stickiness c = real (tc_sticky c) / real (max 1 (tc_turns c))"

text \<open>One sample of the engine gauges, which raises the high-water marks of running and waiting requests.\<close>

definition raise_peak :: "py_text \<Rightarrow> string \<Rightarrow> json \<Rightarrow> real \<Rightarrow> real" where
  "raise_peak t key snap peak =
     (case snap of
        JObj d \<Rightarrow> (case py_float t (or_else (dget d key) (JFloat 0)) of Inl e \<Rightarrow> peak | Inr v \<Rightarrow> max peak v)
      | _ \<Rightarrow> peak)"

definition sample_peaks :: "py_text \<Rightarrow> json list \<Rightarrow> real \<times> real \<Rightarrow> real \<times> real" where
  "sample_peaks t snaps peaks =
     foldl (\<lambda>(running, waiting) snap.
       (raise_peak t ''num_running'' snap running, raise_peak t ''num_waiting'' snap waiting)) peaks snaps"

record session_report =
  se_seed :: int
  se_counts :: turn_counts
  se_frac_e0 :: real
  se_stickiness :: real
  se_p50 :: "real option"
  se_p99 :: "real option"
  se_mean :: "real option"
  se_affinity :: json
  se_engine_debug :: json
  se_admission :: json
  se_prediction :: json
  se_mape :: json
  se_peaks :: "real \<times> real"

definition multiturn_report ::
  "int \<Rightarrow> (nat \<times> http_post \<times> real) list \<Rightarrow> real \<times> real \<Rightarrow> json \<Rightarrow> json \<Rightarrow> session_report py" where
  "multiturn_report seed events peaks dbg eng =
     py_bind (jget_def dbg ''affinity'' JNull) (\<lambda>a1.
     py_bind (if truthy a1 then Inr a1 else py_bind (jget_def eng ''affinity'' JNull) (\<lambda>a2. Inr (or_else a2 (JObj [])))) (\<lambda>aff.
     py_bind (jget_def eng ''snapshots'' JNull) (\<lambda>snaps.
     py_bind (if truthy snaps then Inr snaps else jget_def dbg ''engine_metrics'' JNull) (\<lambda>debug.
     py_bind (jget_def dbg ''admission'' JNull) (\<lambda>adm.
     py_bind (jget_def dbg ''prediction'' JNull) (\<lambda>pred.
     py_bind (jget_def (or_else pred (JObj [])) ''mape_pct'' JNull) (\<lambda>mape.
     let c = multiturn events
     in Inr \<lparr>se_seed = seed, se_counts = c, se_frac_e0 = route_share (tc_routes c) ''e0'',
             se_stickiness = stickiness c, se_p50 = nearest_pct (tc_e2e c) 50, se_p99 = nearest_pct (tc_e2e c) 99,
             se_mean = (if tc_e2e c = [] then None else Some (stats_mean (tc_e2e c))), se_affinity = aff,
             se_engine_debug = debug, se_admission = or_else adm (JObj []), se_prediction = or_else pred (JObj []),
             se_mape = mape, se_peaks = peaks\<rparr>)))))))"

subsection \<open>The admission load and the blocks of a campaign\<close>

record admission_counts =
  ac_ok :: nat
  ac_fail :: nat
  ac_rejects :: nat
  ac_e2e :: "real list"

definition admission_step :: "admission_counts \<Rightarrow> http_post \<times> real \<Rightarrow> admission_counts" where
  "admission_step c answer =
     (case answer of
        (Answered status header doc, ms) \<Rightarrow>
          (if status = 200 then c\<lparr>ac_ok := ac_ok c + 1, ac_e2e := ac_e2e c @ [ms]\<rparr>
           else if status = 503 then c\<lparr>ac_rejects := ac_rejects c + 1, ac_fail := ac_fail c + 1\<rparr>
           else c\<lparr>ac_fail := ac_fail c + 1\<rparr>)
      | (PostRaised, ms) \<Rightarrow> c\<lparr>ac_fail := ac_fail c + 1\<rparr>)"

definition admission_load :: "(http_post \<times> real) list \<Rightarrow> admission_counts" where
  "admission_load answers =
     foldl admission_step \<lparr>ac_ok = 0, ac_fail = 0, ac_rejects = 0, ac_e2e = []\<rparr> answers"

definition reject_share :: "nat \<Rightarrow> admission_counts \<Rightarrow> real" where
  "reject_share n c = real (ac_rejects c) / real (max 1 n)"

text \<open>What a block reads of a row, whichever of the two loads produced it.\<close>

record block_row =
  br_p99 :: "real option"
  br_stickiness :: "real option"
  br_reject_rate :: "real option"
  br_affinity :: json
  br_admission :: json

definition start_failed_row :: block_row where
  "start_failed_row =
     \<lparr>br_p99 = None, br_stickiness = None, br_reject_rate = None, br_affinity = JNull, br_admission = JNull\<rparr>"

definition session_row :: "session_report \<Rightarrow> block_row" where
  "session_row r =
     \<lparr>br_p99 = se_p99 r, br_stickiness = Some (se_stickiness r), br_reject_rate = None, br_affinity = se_affinity r,
      br_admission = se_admission r\<rparr>"

definition admission_row :: "nat \<Rightarrow> (http_post \<times> real) list \<Rightarrow> json \<Rightarrow> block_row py" where
  "admission_row n answers dbg =
     py_bind (jget_def dbg ''admission'' JNull) (\<lambda>adm.
     py_bind (jget_def dbg ''prediction'' JNull) (\<lambda>pred.
     py_bind (jget_def (or_else pred (JObj [])) ''mape_pct'' JNull) (\<lambda>mape.
     let c = admission_load answers
     in Inr \<lparr>br_p99 = nearest_pct (ac_e2e c) 99, br_stickiness = None, br_reject_rate = Some (reject_share n c),
             br_affinity = JNull, br_admission = or_else adm (JObj [])\<rparr>)))"

definition given_floats :: "py_text \<Rightarrow> string \<Rightarrow> json list \<Rightarrow> real list py" where
  "given_floats t key docs =
     py_bind (py_map (\<lambda>d. py_bind (jget_def (or_else d (JObj [])) key JNull) (\<lambda>v.
        if v = JNull then Inr [] else py_bind (py_float t v) (\<lambda>x. Inr [x]))) docs) (\<lambda>xss. Inr (concat xss))"

record config_block =
  cb_p99 :: campaign_stats
  cb_stickiness :: campaign_stats
  cb_reject_rate :: campaign_stats
  cb_affinity_hit_rate :: campaign_stats
  cb_abs_disagree :: campaign_stats

definition config_summary :: "py_text \<Rightarrow> block_row list \<Rightarrow> config_block py" where
  "config_summary t rows =
     py_bind (given_floats t ''hit_rate'' (map br_affinity rows)) (\<lambda>hits.
     py_bind (given_floats t ''absolute_vs_active_disagree'' (map br_admission rows)) (\<lambda>disagrees.
     Inr \<lparr>cb_p99 = stats95 (List.map_filter br_p99 rows), cb_stickiness = stats95 (List.map_filter br_stickiness rows),
          cb_reject_rate = stats95 (List.map_filter br_reject_rate rows), cb_affinity_hit_rate = stats95 hits,
          cb_abs_disagree = stats95 disagrees\<rparr>))"

text \<open>\<open>_paired_gain\<close>: None when an arm is missing or no seed has both percentiles.\<close>

definition paired_gain :: "block_row list dict \<Rightarrow> string \<Rightarrow> string \<Rightarrow> campaign_stats option" where
  "paired_gain arms base treat =
     (case (map_of arms base, map_of arms treat) of
        (Some bs, Some ts) \<Rightarrow>
          (let gains = paired_gains (map br_p99 bs) (map br_p99 ts)
           in if gains = [] then None else Some (stats95 gains))
      | _ \<Rightarrow> None)"

definition factorial_margins :: "block_row list dict \<Rightarrow> (string \<times> campaign_stats option) list" where
  "factorial_margins arms =
     [(''engine_metrics_effect_pct'', paired_gain arms ''nlms_affinity_only'' ''nlms_hybrid_on''),
      (''affinity_effect_pct'', paired_gain arms ''nlms_metrics_only'' ''nlms_hybrid_on''),
      (''metrics_only_vs_off_pct'', paired_gain arms ''nlms_hybrid_off'' ''nlms_metrics_only''),
      (''affinity_only_vs_off_pct'', paired_gain arms ''nlms_hybrid_off'' ''nlms_affinity_only''),
      (''both_vs_rr_pct'', paired_gain arms ''rr'' ''nlms_hybrid_on'')]"

end
