(* ===== verification/Regime_D.thy ===== *)
theory Regime_D
  imports Load_Runs Cli "HOL-Library.List_Lexorder" "HOL-Library.Char_ord"
begin

text \<open>
  The capacity study on heterogeneous engines (\<open>run_regime_d_hetero.py\<close>) and the discovery run of
  \<open>run_post_d_priority.py\<close>: the specification of backends, the gateway command, the workload, the load
  with its per-request log and least-squares fits, the aggregation of the cells D1, D2 and D3, and the
  search for the request at which the learned order of the slopes is right. The answers of the gateway,
  the draws of the generator and the measured times are arguments.
\<close>

subsection \<open>Backends, command and workload\<close>

definition kv_entry :: "nat \<times> string \<Rightarrow> (string \<times> string) option" where
  "kv_entry entry =
     (case entry of (i, raw) \<Rightarrow>
        if raw = [] then None
        else if CHR ''='' \<in> set raw \<and> \<not> startswith raw ''http''
        then (case partition_at (CHR ''='') raw of (k, found, v) \<Rightarrow> Some (py_strip k, py_strip v))
        else Some (''e'' @ show_nat i, raw))"

definition parse_kv :: "string \<Rightarrow> (string \<times> string) list" where
  "parse_kv spec = List.map_filter kv_entry (enumerate 0 (map py_strip (split_on (CHR '','') spec)))"

definition vram_for :: "real dict \<Rightarrow> string \<Rightarrow> real" where
  "vram_for vram bid = (case map_of vram bid of None \<Rightarrow> 24000 | Some x \<Rightarrow> x)"

definition backend_flags :: "(string \<times> string) list \<Rightarrow> string list" where
  "backend_flags backends = map (\<lambda>(bid, url). bid @ ''='' @ url) backends"

definition vram_flags :: "(string \<times> string) list \<Rightarrow> real dict \<Rightarrow> real list" where
  "vram_flags backends vram = map (\<lambda>(bid, url). vram_for vram bid) backends"

definition gateway_command ::
  "py_text \<Rightarrow> string \<Rightarrow> int \<Rightarrow> string \<Rightarrow> bool \<Rightarrow> string \<Rightarrow> (string \<times> string) list \<Rightarrow> real dict \<Rightarrow> string list" where
  "gateway_command t executable port strategy engine_metrics tokenizer backends vram =
     [executable, ''-m'', ''dio'', ''serve'', ''--host'', ''127.0.0.1'', ''--port'', show_int port,
      ''--strategy'', strategy, ''--nlms-mode'', ''dual'', ''--slo-ms'', ''180000'', ''--admission-off'',
      ''--admission-mode'', ''rank_only''] @
     [if engine_metrics then ''--engine-metrics'' else ''--no-engine-metrics''] @
     (if tokenizer = [] then [] else [''--tokenizer'', tokenizer]) @
     concat (map (\<lambda>b. [''-b'', b]) (backend_flags backends)) @
     concat (map (\<lambda>x. [''--vram'', pt_repr_float t x]) (vram_flags backends vram))"

definition prompt_seeds :: "string list" where
  "prompt_seeds =
     [''Summarize the causes of the industrial revolution.'', ''Explain how a B-tree index speeds up lookups.'',
      ''Describe the tradeoffs between TCP and UDP.'', ''What is gradient descent and why does it converge?'',
      ''Compare optimistic and pessimistic concurrency control.'', ''Explain KV-cache reuse in transformer inference.'',
      ''Why does batching improve GPU utilization?'', ''Describe how paged attention manages memory.'']"

text \<open>The two draws of a request: how often the padding is repeated, and the token limit that is chosen.\<close>

definition workload_item :: "int \<Rightarrow> nat \<times> nat \<times> int \<Rightarrow> string \<times> int" where
  "workload_item seed entry =
     (case entry of (i, pads, max_tokens) \<Rightarrow>
        (py_strip (prompt_seeds ! (i mod 8) @ '' '' @ concat (replicate pads ''Provide relevant background detail. '') @
           ''(seed='' @ show_int seed @ '' i='' @ show_nat i @ '')''), max_tokens))"

definition build_workload :: "int \<Rightarrow> (nat \<times> int) list \<Rightarrow> (string \<times> int) list" where
  "build_workload seed draws = map (workload_item seed) (enumerate 0 draws)"

subsection \<open>The load\<close>

record request_log =
  rq_worker :: string
  rq_e2e :: real
  rq_tokens :: json
  rq_max_tokens :: int
  rq_completion :: json
  rq_prompt :: json

record cell_counts =
  ce_load :: load_counts
  ce_log :: "request_log list"

text \<open>The decision tokens and the usage of a body; any exception leaves no tokens and an empty usage.\<close>

definition reply_fields :: "json option \<Rightarrow> json \<times> json" where
  "reply_fields body =
     (case body of
        None \<Rightarrow> (JNull, JObj [])
      | Some j \<Rightarrow>
          (case py_bind (jget_def j ''dio'' JNull) (\<lambda>dio.
                py_bind (jget_def (or_else dio (JObj [])) ''decision'' JNull) (\<lambda>dec.
                py_bind (jget_def (or_else dec (JObj [])) ''tokens'' JNull) (\<lambda>tokens.
                py_bind (jget_def j ''usage'' JNull) (\<lambda>usage. Inr (tokens, or_else usage (JObj [])))))) of
             Inl e \<Rightarrow> (JNull, JObj [])
           | Inr res \<Rightarrow> res))"

definition count_failure :: "load_counts \<Rightarrow> load_counts" where
  "count_failure c = c\<lparr>lc_fail := lc_fail c + 1\<rparr>"

text \<open>
  One request. The usage is read after the request was counted as served: a usage that is no object
  raises there, and the handler counts the same request as failed too.
\<close>

definition cell_step :: "cell_counts \<Rightarrow> int \<times> http_post \<times> real \<Rightarrow> cell_counts" where
  "cell_step c entry =
     (case entry of
        (max_tokens, Answered status header body, ms) \<Rightarrow>
          (let counts = load_step (ce_load c) (Answered status header body, ms)
           in if status \<noteq> 200 then c\<lparr>ce_load := counts\<rparr>
              else case reply_fields body of (tokens, usage) \<Rightarrow>
                   (case usage of
                      JObj d \<Rightarrow>
                        c\<lparr>ce_load := counts,
                          ce_log := ce_log c @ [\<lparr>rq_worker = served_by header, rq_e2e = ms, rq_tokens = tokens,
                            rq_max_tokens = max_tokens, rq_completion = dget d ''completion_tokens'',
                            rq_prompt = dget d ''prompt_tokens''\<rparr>]\<rparr>
                    | _ \<Rightarrow> c\<lparr>ce_load := count_failure counts\<rparr>))
      | (max_tokens, PostRaised, ms) \<Rightarrow> c\<lparr>ce_load := count_failure (ce_load c)\<rparr>)"

definition cell_load :: "(int \<times> http_post \<times> real) list \<Rightarrow> cell_counts" where
  "cell_load entries = foldl cell_step \<lparr>ce_load = load_start, ce_log = []\<rparr> entries"

text \<open>\<open>x > 0\<close> and \<open>float(x)\<close> of a logged token count.\<close>

fun token_value :: "json \<Rightarrow> real py" where
  "token_value (JBool b) = Inr (if b then 1 else 0)"
| "token_value (JInt i) = Inr (of_int i)"
| "token_value (JFloat x) = Inr x"
| "token_value v = Inl (TypeError ''not supported between instances'')"

definition worker_points :: "string \<Rightarrow> request_log list \<Rightarrow> (real \<times> real) list py" where
  "worker_points w reqs =
     py_map (\<lambda>r. py_bind (token_value (rq_tokens r)) (\<lambda>x. Inr (x, rq_e2e r)))
       (filter (\<lambda>r. rq_worker r = w \<and> truthy (rq_tokens r)) reqs)"

definition worker_fits :: "cell_counts \<Rightarrow> ols_line dict py" where
  "worker_fits c =
     py_map (\<lambda>w. py_bind (worker_points w (ce_log c)) (\<lambda>pts. Inr (w, ols_fit pts))) (map fst (lc_routes (ce_load c)))"

definition learned_keys :: "string list" where
  "learned_keys =
     [''fast_slope'', ''slow_slope'', ''intercept'', ''updates'', ''mape_pct'', ''mae_ms'', ''avg_latency_ms'', ''tier'',
      ''free_vram_mb'']"

definition worker_items :: "json \<Rightarrow> json dict py" where
  "worker_items m =
     py_bind (jget_def m ''workers'' JNull) (\<lambda>ws.
     case or_else ws (JObj []) of JObj d \<Rightarrow> Inr d | _ \<Rightarrow> Inl (AttributeError ''items''))"

definition learned_snapshot :: "(py_exc \<Rightarrow> string) \<Rightarrow> string + json \<Rightarrow> json dict \<times> json" where
  "learned_snapshot exc metrics =
     (case metrics of
        Inl e \<Rightarrow> ([(''error'', JStr e)], JArr [])
      | Inr m \<Rightarrow>
          (case py_bind (worker_items m) (\<lambda>ws.
                py_bind (jget_def m ''prediction'' JNull) (\<lambda>p.
                py_bind (jget_def (or_else p (JObj [])) ''samples'' JNull) (\<lambda>samples. Inr (ws, samples)))) of
             Inl e \<Rightarrow> ([(''error'', JStr (exc e))], JArr [])
           | Inr (ws, samples) \<Rightarrow>
               (List.map_filter (\<lambda>(w, doc).
                  case doc of JObj d \<Rightarrow> Some (w, JObj (map (\<lambda>k. (k, dget d k)) learned_keys)) | _ \<Rightarrow> None) ws,
                or_else samples (JArr []))))"

text \<open>The row of one seed; a gateway that did not start leaves a row without measurements.\<close>

record cell_row =
  ro_ok :: nat
  ro_fail :: nat
  ro_routes :: "nat dict"
  ro_frac :: "real dict"
  ro_p50 :: "real option"
  ro_p95 :: "real option"
  ro_p99 :: "real option"
  ro_mean :: "real option"
  ro_learned :: "json dict"
  ro_fits :: "ols_line dict"
  ro_samples :: nat
  ro_log :: "request_log list"

definition cell_run ::
  "(py_exc \<Rightarrow> string) \<Rightarrow> (int \<times> http_post \<times> real) list \<Rightarrow> string + json \<Rightarrow> cell_row py" where
  "cell_run exc entries metrics =
     (let c = cell_load entries; counts = ce_load c
      in case learned_snapshot exc metrics of (snap, samples) \<Rightarrow>
         py_bind (worker_fits c) (\<lambda>fits.
         py_bind (py_len samples) (\<lambda>n.
         Inr \<lparr>ro_ok = lc_ok counts, ro_fail = lc_fail counts, ro_routes = lc_routes counts,
              ro_frac = map (\<lambda>(w, k). (w, real k / real (route_total (lc_routes counts)))) (lc_routes counts),
              ro_p50 = pct_interpolated (lc_e2e counts) 50, ro_p95 = pct_interpolated (lc_e2e counts) 95,
              ro_p99 = pct_interpolated (lc_e2e counts) 99,
              ro_mean = (if lc_e2e counts = [] then None else Some (stats_mean (lc_e2e counts))),
              ro_learned = snap, ro_fits = fits, ro_samples = n, ro_log = ce_log c\<rparr>)))"

type_synonym seed_row = "cell_row option"

subsection \<open>D1: strategies head to head\<close>

definition good_rows :: "seed_row list \<Rightarrow> cell_row list" where
  "good_rows rows = List.map_filter id rows"

text \<open>\<open>frac_acc.setdefault(wid, []).append(f)\<close>\<close>

definition collect :: "string \<Rightarrow> 'a \<Rightarrow> 'a list dict \<Rightarrow> 'a list dict" where
  "collect w x acc = AList.update w ((case map_of acc w of None \<Rightarrow> [] | Some xs \<Rightarrow> xs) @ [x]) acc"

definition fractions :: "cell_row list \<Rightarrow> real list dict" where
  "fractions rows = foldl (\<lambda>acc (w, f). collect w f acc) [] (concat (map ro_frac rows))"

definition spread :: "real list \<Rightarrow> real" where
  "spread xs = (if length xs > 1 then stats_stdev xs else 0)"

record strategy_cell =
  st_p50 :: seed_stats
  st_p95 :: seed_stats
  st_p99 :: seed_stats
  st_mean :: seed_stats
  st_frac :: "real dict"
  st_frac_std :: "real dict"
  st_seeds_ok :: nat

definition strategy_cell_of :: "seed_row list \<Rightarrow> strategy_cell" where
  "strategy_cell_of rows =
     (let good = good_rows rows; fr = fractions good
      in \<lparr>st_p50 = mean_std (map ro_p50 good), st_p95 = mean_std (map ro_p95 good), st_p99 = mean_std (map ro_p99 good),
          st_mean = mean_std (map ro_mean good), st_frac = map (\<lambda>(w, xs). (w, stats_mean xs)) fr,
          st_frac_std = map (\<lambda>(w, xs). (w, spread xs)) fr, st_seeds_ok = length good\<rparr>)"

definition seed_p99 :: "seed_row \<Rightarrow> real option" where
  "seed_p99 r = Option.bind r ro_p99"

text \<open>The paired improvement over round robin, and how many seeds it wins.\<close>

definition seed_improvements :: "seed_row list \<Rightarrow> seed_row list \<Rightarrow> real list" where
  "seed_improvements rows rr =
     List.map_filter (\<lambda>(a, b).
       case (nonzero (seed_p99 a), nonzero (seed_p99 b)) of
         (Some pa, Some pb) \<Rightarrow> if pb > 0 then Some ((pb - pa) / pb * 100) else None
       | _ \<Rightarrow> None) (zip rows rr)"

record improvement =
  im_stats :: seed_stats
  im_wins :: nat
  im_of :: nat

definition improvement_over :: "seed_row list \<Rightarrow> seed_row list \<Rightarrow> improvement" where
  "improvement_over rows rr =
     (let imps = seed_improvements rows rr
      in \<lparr>im_stats = mean_std (map Some imps), im_wins = length (filter (\<lambda>x. x > 0) imps), im_of = length imps\<rparr>)"

definition improvement_key :: "string \<Rightarrow> string" where
  "improvement_key strat =
     (if strat = ''nlms'' then ''p99_improvement_vs_rr'' else ''p99_improvement_vs_rr_'' @ strat)"

definition d1_summary :: "seed_row list dict \<Rightarrow> strategy_cell dict \<times> improvement dict" where
  "d1_summary rows =
     (map (\<lambda>(strat, rs). (strat, strategy_cell_of rs)) rows,
      (case map_of rows ''round_robin'' of
         None \<Rightarrow> []
       | Some rr \<Rightarrow>
           map (\<lambda>(strat, rs). (improvement_key strat, improvement_over rs rr))
             (filter (\<lambda>(strat, rs). strat \<noteq> ''round_robin'') rows)))"

subsection \<open>D2: learned slopes against least squares\<close>

definition pooled_points :: "seed_row list \<Rightarrow> (real \<times> real) list dict py" where
  "pooled_points rows =
     py_bind (py_map (\<lambda>r. py_bind (token_value (rq_tokens r)) (\<lambda>x. Inr (rq_worker r, x, rq_e2e r)))
                (filter (\<lambda>r. truthy (rq_tokens r)) (concat (map ro_log (good_rows rows))))) (\<lambda>pts.
     Inr (foldl (\<lambda>acc (w, p). collect w p acc) [] pts))"

text \<open>A learned value counts when it is a number; a boolean is one for \<open>isinstance\<close>.\<close>

fun number_of :: "json \<Rightarrow> real option" where
  "number_of (JBool b) = Some (if b then 1 else 0)"
| "number_of (JInt i) = Some (of_int i)"
| "number_of (JFloat x) = Some x"
| "number_of v = None"

definition learned_slopes :: "string \<Rightarrow> cell_row list \<Rightarrow> real list py" where
  "learned_slopes w rows =
     py_bind (py_map (\<lambda>r. jget_def (dget_def (ro_learned r) w (JObj [])) ''fast_slope'' JNull) rows) (\<lambda>vs.
     Inr (List.map_filter number_of vs))"

record worker_slopes =
  wk_vram :: real
  wk_learned :: seed_stats
  wk_fit :: ols_line
  wk_samples :: nat

definition slopes_by_worker :: "real dict \<Rightarrow> seed_row list \<Rightarrow> worker_slopes dict py" where
  "slopes_by_worker vram rows =
     py_bind (pooled_points rows) (\<lambda>pooled.
     py_map (\<lambda>(w, pts). py_bind (learned_slopes w (good_rows rows)) (\<lambda>vals.
       Inr (w, \<lparr>wk_vram = vram_for vram w, wk_learned = mean_std (map Some vals), wk_fit = ols_fit pts,
                wk_samples = length pts\<rparr>))) pooled)"

definition slope_ratio :: "real option \<Rightarrow> real option \<Rightarrow> real option" where
  "slope_ratio a b = (case (nonzero a, nonzero b) of (Some x, Some y) \<Rightarrow> Some (x / y) | _ \<Rightarrow> None)"

text \<open>The slopes relative to the slowest worker, the first one with the largest slope.\<close>

record normalized =
  nm_reference :: string
  nm_ratios :: "real dict"
  nm_order :: "string list"

definition usable_slopes :: "real option dict \<Rightarrow> real dict" where
  "usable_slopes slopes =
     List.map_filter (\<lambda>(w, v). case v of None \<Rightarrow> None | Some x \<Rightarrow> if x > 0 then Some (w, x) else None) slopes"

definition slope_at :: "real dict \<Rightarrow> string \<Rightarrow> real" where
  "slope_at usable w = (case map_of usable w of None \<Rightarrow> 0 | Some x \<Rightarrow> x)"

definition normalize_slopes :: "real option dict \<Rightarrow> normalized option" where
  "normalize_slopes slopes =
     (let usable = usable_slopes slopes
      in if length usable < 2 then None
         else map_option (\<lambda>ref.
                \<lparr>nm_reference = ref, nm_ratios = map (\<lambda>(w, x). (w, slope_at usable w / slope_at usable ref)) usable,
                 nm_order = sort_key (slope_at usable) (map fst usable)\<rparr>)
              (min_by (\<lambda>w. - slope_at usable w) (map fst usable)))"

text \<open>The workers are taken in the order of their names; a single ratio is reported for a pair only.\<close>

record slope_report =
  sl_pair :: "(real option \<times> real option) option"
  sl_learned :: "normalized option"
  sl_fitted :: "normalized option"

definition slope_report_of :: "worker_slopes dict \<Rightarrow> slope_report" where
  "slope_report_of by_worker =
     (let ws = sort_key fst by_worker;
          lrn = map (\<lambda>(w, s). (w, ss_mean (wk_learned s))) ws; fitted = map (\<lambda>(w, s). (w, ol_slope (wk_fit s))) ws
      in \<lparr>sl_pair = (case (lrn, fitted) of
                       ([(a, la), (b, lb)], [(a', oa), (b', ob)]) \<Rightarrow> Some (slope_ratio la lb, slope_ratio oa ob)
                     | _ \<Rightarrow> None),
          sl_learned = normalize_slopes lrn, sl_fitted = normalize_slopes fitted\<rparr>)"

subsection \<open>D3: fixed lengths\<close>

record length_cell =
  le_max_tokens :: int
  le_p99 :: seed_stats
  le_learned :: "seed_stats dict"
  le_frac :: "real dict"
  le_degenerate :: nat
  le_seeds_ok :: nat

definition length_cell_of :: "(string \<times> string) list \<Rightarrow> int \<Rightarrow> seed_row list \<Rightarrow> length_cell py" where
  "length_cell_of backends max_tokens rows =
     (let good = good_rows rows
      in py_bind (py_map (\<lambda>(w, url). py_bind (learned_slopes w good) (\<lambda>vals. Inr (w, mean_std (map Some vals)))) backends)
           (\<lambda>slopes.
         Inr \<lparr>le_max_tokens = max_tokens, le_p99 = mean_std (map ro_p99 good), le_learned = slopes,
              le_frac = map (\<lambda>(w, xs). (w, stats_mean xs)) (fractions good),
              le_degenerate = length (filter (\<lambda>(w, fit). ol_degenerate fit) (concat (map ro_fits good))),
              le_seeds_ok = length good\<rparr>))"

subsection \<open>The discovery run\<close>

text \<open>The slopes of the two engines after a request; the slow slope is preferred.\<close>

definition preferred_slope :: "(string \<times> json) list \<Rightarrow> json" where
  "preferred_slope w = (if dget w ''slow_slope'' = JNull then dget w ''fast_slope'' else dget w ''slow_slope'')"

text \<open>A slope that is no number does not occur in the gateway's own report.\<close>

definition engine_slope :: "json dict \<Rightarrow> string \<Rightarrow> real option" where
  "engine_slope workers name =
     (case map_of workers name of Some (JObj w) \<Rightarrow> number_of (preferred_slope w) | _ \<Rightarrow> None)"

definition discovery_slopes :: "json dict \<Rightarrow> real option \<times> real option" where
  "discovery_slopes workers = (engine_slope workers ''t4'', engine_slope workers ''a30'')"

definition order_ok :: "real \<Rightarrow> real option \<times> real option \<Rightarrow> bool" where
  "order_ok margin slopes =
     (case slopes of (Some t4, Some a30) \<Rightarrow> a30 > 0 \<and> t4 > a30 * (1 + margin) | _ \<Rightarrow> False)"

text \<open>
  The loop over the requests, numbered from 1: it stops ten requests after the order was right for the
  first time. The curve holds the number of the request and whether the order was right.
\<close>

fun discovery_loop ::
  "real \<Rightarrow> nat \<Rightarrow> nat option \<Rightarrow> (real option \<times> real option) list \<Rightarrow> (nat \<times> bool) list \<times> nat option" where
  "discovery_loop margin n found [] = ([], found)"
| "discovery_loop margin n found (s # ss) =
     (let ok = order_ok margin s;
          found' = (if ok \<and> found = None then Some n else found)
      in if (case found' of None \<Rightarrow> False | Some k \<Rightarrow> n \<ge> k + 10) then ([(n, ok)], found')
         else case discovery_loop margin (n + 1) found' ss of (curve, found'') \<Rightarrow> ((n, ok) # curve, found''))"

text \<open>The first point from which five in a row are right.\<close>

fun stable_at :: "(nat \<times> bool) list \<Rightarrow> nat option" where
  "stable_at [] = None"
| "stable_at (p # ps) =
     (if snd p \<and> length (take 5 (p # ps)) = 5 \<and> list_all snd (take 5 (p # ps)) then Some (fst p) else stable_at ps)"

definition discovery_run ::
  "real \<Rightarrow> (real option \<times> real option) list \<Rightarrow> (nat \<times> bool) list \<times> nat option \<times> nat option" where
  "discovery_run margin slopes =
     (case discovery_loop margin 1 None slopes of (curve, found) \<Rightarrow> (curve, found, stable_at curve))"

text \<open>The request count that the report claims: the stable one, or else the first.\<close>

definition claimed_at :: "(nat \<times> bool) list \<times> nat option \<times> nat option \<Rightarrow> nat option" where
  "claimed_at r = (case r of (curve, found, firm) \<Rightarrow> (case firm of Some n \<Rightarrow> Some n | None \<Rightarrow> found))"

end
