(* ===== verification/Load_Run_Props.thy ===== *)
theory Load_Run_Props
  imports Load_Runs "HOL-Library.Multiset"
begin

text \<open>
  What the load generators report. The counts of a run add up; the counters that the session threads
  share do not depend on how the threads interleave; and the gain over round robin that the matrix
  reports compares seed by seed only as long as no baseline seed failed.
\<close>

subsection \<open>The counts of a sequential load\<close>

lemma load_answers_snoc: "load_answers (xs @ [x]) = load_step (load_answers xs) x"
  by (simp add: load_answers_def)

lemma load_accounts:
  "lc_ok (load_answers xs) + lc_fail (load_answers xs) = length xs \<and>
   length (lc_e2e (load_answers xs)) = lc_ok (load_answers xs) \<and>
   sum_list (map snd (lc_routes (load_answers xs))) = lc_ok (load_answers xs)"
proof (induction xs rule: rev_induct)
  case Nil
  show ?case by (simp add: load_answers_def load_start_def)
next
  case (snoc x xs)
  then show ?case
    by (cases x) (auto simp: load_answers_snoc load_step_def count_route_sum split: http_post.splits)
qed

lemma admission_accounts:
  "ac_ok (admission_load xs) + ac_fail (admission_load xs) = length xs \<and>
   ac_rejects (admission_load xs) \<le> ac_fail (admission_load xs)"
proof (induction xs rule: rev_induct)
  case Nil
  show ?case by (simp add: admission_load_def)
next
  case (snoc x xs)
  then show ?case by (cases x) (auto simp: admission_load_def admission_step_def split: http_post.splits)
qed

text \<open>The shares of the backends are fractions, and add up to one as soon as a request was served.\<close>

lemma share_sum:
  "distinct (map fst routes) \<Longrightarrow>
    sum_list (map (\<lambda>w. real (case map_of routes w of None \<Rightarrow> 0 | Some n \<Rightarrow> n)) (map fst routes)) =
    real (sum_list (map snd routes))"
proof (induction routes)
  case (Cons p routes)
  obtain w n where [simp]: "p = (w, n)" by (cases p)
  have "sum_list (map (\<lambda>v. real (case map_of (p # routes) v of None \<Rightarrow> 0 | Some n \<Rightarrow> n)) (map fst routes)) =
      sum_list (map (\<lambda>v. real (case map_of routes v of None \<Rightarrow> 0 | Some n \<Rightarrow> n)) (map fst routes))"
    using Cons.prems by (intro arg_cong [where f = sum_list] map_cong refl) auto
  also have "\<dots> = real (sum_list (map snd routes))" using Cons by simp
  finally show ?case by simp
qed simp

lemma route_shares_sum:
  assumes "distinct (map fst routes)" and "sum_list (map snd routes) > 0"
  shows "sum_list (map (route_share routes) (map fst routes)) = 1"
proof -
  let ?n = "\<lambda>w. real (case map_of routes w of None \<Rightarrow> 0 | Some n \<Rightarrow> n)"
  have "sum_list (map (route_share routes) (map fst routes)) =
      sum_list (map (\<lambda>w. ?n w * (1 / real (route_total routes))) (map fst routes))"
    by (simp add: route_share_def [abs_def])
  also have "\<dots> = sum_list (map ?n (map fst routes)) * (1 / real (route_total routes))"
    by (rule sum_list_mult_const)
  also have "\<dots> = 1"
    using assms(2) by (simp only: share_sum [OF assms(1)]) (simp add: route_total_def Let_def del: sum_list_eq_0_iff)
  finally show ?thesis .
qed

lemma load_routes_distinct: "distinct (map fst (lc_routes (load_answers xs)))"
proof (induction xs rule: rev_induct)
  case Nil
  show ?case by (simp add: load_answers_def load_start_def)
next
  case (snoc x xs)
  then show ?case
    by (cases x) (auto simp: load_answers_snoc load_step_def count_route_def distinct_update split: http_post.splits)
qed

subsection \<open>Concurrent sessions\<close>

text \<open>The backend that an answer names, when it serves the turn.\<close>

definition turn_home :: "http_post \<Rightarrow> string option" where
  "turn_home p =
     (case p of Answered status header doc \<Rightarrow> if status = 200 then Some (served_by header) else None | PostRaised \<Rightarrow> None)"

definition turn_rejected :: "http_post \<Rightarrow> bool" where
  "turn_rejected p = (case p of Answered status header doc \<Rightarrow> status = 503 | PostRaised \<Rightarrow> False)"

definition home_of :: "nat \<Rightarrow> turn_counts \<Rightarrow> string option" where
  "home_of s c = map_of (tc_home c) s"

lemma turn_step_cases:
  "turn_step c (s, p, ms) =
     (case turn_home p of
        Some w \<Rightarrow> turn_served s w ms c
      | None \<Rightarrow> (if turn_rejected p then c\<lparr>tc_fail := tc_fail c + 1, tc_rejects := tc_rejects c + 1\<rparr>
                 else c\<lparr>tc_fail := tc_fail c + 1\<rparr>))"
  by (cases p) (auto simp: turn_step_def turn_home_def turn_rejected_def)

lemma home_turn_step:
  "home_of s (turn_step c (s', p, ms)) =
     (if s = s' \<and> home_of s c = None then turn_home p else home_of s c)"
  by (auto simp: turn_step_cases home_of_def turn_served_def Let_def update_conv' split: option.splits)

definition keeps_home :: "nat \<Rightarrow> http_post \<Rightarrow> string option \<Rightarrow> bool" where
  "keeps_home s p home \<longleftrightarrow> turn_home p \<noteq> None \<and> (home = None \<or> home = turn_home p)"

lemma sticky_turn_step:
  "tc_sticky (turn_step c (s, p, ms)) = tc_sticky c + (if keeps_home s p (home_of s c) then 1 else 0)"
  by (auto simp: turn_step_cases keeps_home_def home_of_def turn_served_def Let_def update_conv' split: option.splits)

lemma multiturn_snoc: "multiturn (xs @ [x]) = turn_step (multiturn xs) x"
  by (simp add: multiturn_def)

lemma session_events_snoc:
  "session_events s (xs @ [x]) = session_events s xs @ (if fst x = s then [x] else [])"
  by (simp add: session_events_def)

lemma multiturn_Nil [simp]: "multiturn [] = turn_start" "session_events s [] = []"
  by (simp_all add: multiturn_def session_events_def)

lemma home_of_session: "home_of s (multiturn xs) = home_of s (multiturn (session_events s xs))"
proof (induction xs rule: rev_induct)
  case (snoc x xs)
  then show ?case by (cases x) (auto simp: multiturn_snoc session_events_snoc home_turn_step)
qed simp

lemma sticky_sum:
  assumes "finite S"
  shows "fst ` set xs \<subseteq> S \<Longrightarrow>
    tc_sticky (multiturn xs) = (\<Sum>s\<in>S. tc_sticky (multiturn (session_events s xs)))"
proof (induction xs rule: rev_induct)
  case Nil
  show ?case by (simp add: turn_start_def)
next
  case (snoc x xs)
  obtain s p ms where [simp]: "x = (s, p, ms)" by (cases x)
  let ?inc = "if keeps_home s p (home_of s (multiturn xs)) then 1 else 0 :: nat"
  have "tc_sticky (multiturn (session_events v (xs @ [x]))) =
      tc_sticky (multiturn (session_events v xs)) + (if v = s then ?inc else 0)" for v
    by (simp add: session_events_snoc multiturn_snoc sticky_turn_step home_of_session [of s xs, symmetric])
  then have "(\<Sum>v\<in>S. tc_sticky (multiturn (session_events v (xs @ [x])))) =
      (\<Sum>v\<in>S. tc_sticky (multiturn (session_events v xs))) + ?inc"
    using assms snoc.prems by (simp add: sum.distrib)
  with snoc show ?case by (simp add: multiturn_snoc sticky_turn_step)
qed

lemma turn_counters:
  "tc_ok (multiturn xs) = length (filter (\<lambda>(s, p, ms). turn_home p \<noteq> None) xs) \<and>
   tc_fail (multiturn xs) = length (filter (\<lambda>(s, p, ms). turn_home p = None) xs) \<and>
   tc_rejects (multiturn xs) = length (filter (\<lambda>(s, p, ms). turn_home p = None \<and> turn_rejected p) xs) \<and>
   tc_turns (multiturn xs) = tc_ok (multiturn xs) \<and>
   tc_e2e (multiturn xs) = map (\<lambda>(s, p, ms). ms) (filter (\<lambda>(s, p, ms). turn_home p \<noteq> None) xs) \<and>
   sum_list (map snd (tc_routes (multiturn xs))) = tc_ok (multiturn xs) \<and>
   tc_sticky (multiturn xs) \<le> tc_turns (multiturn xs)"
proof (induction xs rule: rev_induct)
  case Nil
  show ?case by (simp add: turn_start_def)
next
  case (snoc x xs)
  then show ?case
    by (cases x)
      (auto simp: multiturn_snoc turn_step_cases turn_served_def Let_def count_route_sum split: option.splits if_splits)
qed

lemma turn_routes:
  "map_of (tc_routes (multiturn xs)) w =
    (let n = length (filter (\<lambda>(s, p, ms). turn_home p = Some w) xs) in if n = 0 then None else Some n)"
proof (induction xs rule: rev_induct)
  case Nil
  show ?case by (simp add: turn_start_def)
next
  case (snoc x xs)
  then show ?case
    by (cases x)
      (auto simp: multiturn_snoc turn_step_cases turn_served_def count_route_def Let_def update_conv'
        split: option.splits if_splits)
qed

lemma same_sessions_mset:
  assumes "\<And>s. session_events s xs = session_events s ys"
  shows "mset xs = mset ys"
proof (rule multiset_eqI)
  fix x
  have "count (mset zs) x = count (mset (session_events (fst x) zs)) x" for zs :: "(nat \<times> http_post \<times> real) list"
    unfolding session_events_def mset_filter by simp
  then show "count (mset xs) x = count (mset ys) x" using assms by metis
qed

lemma same_mset_length: "mset xs = mset ys \<Longrightarrow> length (filter P xs) = length (filter P ys)"
  by (metis mset_filter size_mset)

lemma same_mset_map: "mset xs = mset ys \<Longrightarrow> mset (map f (filter P xs)) = mset (map f (filter P ys))"
  by (metis mset_filter mset_map)

lemma same_mset_stats:
  assumes "mset xs = mset ys"
  shows "nearest_pct xs p = nearest_pct ys p" and "stats_mean xs = stats_mean ys" and "(xs = []) = (ys = [])"
proof -
  have "sort xs = sort ys" using assms by (metis mset_sort sorted_sort properties_for_sort)
  then show "nearest_pct xs p = nearest_pct ys p"
    by (metis nearest_pct_def length_sort list.size(3) sort_eq_Nil)
  show "stats_mean xs = stats_mean ys"
    using assms unfolding stats_mean_def by (metis size_mset sum_mset_sum_list)
  show "(xs = []) = (ys = [])" using assms by (metis mset_zero_iff_right)
qed

text \<open>
  C26: what a concurrent multi-turn run reports does not depend on how its session threads interleave.
  Whenever two runs give every session the same answers in the order of its own turns, they agree in
  all counters, in the first backend of every session, in the stickiness, the share of every backend,
  the percentiles and the mean.
\<close>

theorem multiturn_schedule:
  assumes "\<And>s. session_events s xs = session_events s ys"
  shows "tc_ok (multiturn xs) = tc_ok (multiturn ys) \<and> tc_fail (multiturn xs) = tc_fail (multiturn ys) \<and>
    tc_rejects (multiturn xs) = tc_rejects (multiturn ys) \<and> stickiness (multiturn xs) = stickiness (multiturn ys) \<and>
    map_of (tc_home (multiturn xs)) = map_of (tc_home (multiturn ys)) \<and>
    route_share (tc_routes (multiturn xs)) = route_share (tc_routes (multiturn ys)) \<and>
    nearest_pct (tc_e2e (multiturn xs)) p = nearest_pct (tc_e2e (multiturn ys)) p \<and>
    stats_mean (tc_e2e (multiturn xs)) = stats_mean (tc_e2e (multiturn ys))"
proof -
  note m = same_sessions_mset [OF assms]
  note counts = turn_counters [of xs] turn_counters [of ys]
  have counters: "tc_ok (multiturn zs) = length (filter (\<lambda>(s, p, ms). turn_home p \<noteq> None) zs)"
    "tc_fail (multiturn zs) = length (filter (\<lambda>(s, p, ms). turn_home p = None) zs)"
    "tc_rejects (multiturn zs) = length (filter (\<lambda>(s, p, ms). turn_home p = None \<and> turn_rejected p) zs)"
    "tc_e2e (multiturn zs) = map (\<lambda>(s, p, ms). ms) (filter (\<lambda>(s, p, ms). turn_home p \<noteq> None) zs)" for zs
    using turn_counters [of zs] by blast+
  have ok: "tc_ok (multiturn xs) = tc_ok (multiturn ys)" by (simp only: counters(1) same_mset_length [OF m])
  have fail: "tc_fail (multiturn xs) = tc_fail (multiturn ys)" by (simp only: counters(2) same_mset_length [OF m])
  have rej: "tc_rejects (multiturn xs) = tc_rejects (multiturn ys)" by (simp only: counters(3) same_mset_length [OF m])
  have lats: "mset (tc_e2e (multiturn xs)) = mset (tc_e2e (multiturn ys))"
    by (simp only: counters(4) same_mset_map [OF m])
  have routes: "map_of (tc_routes (multiturn xs)) = map_of (tc_routes (multiturn ys))"
    by (rule ext) (simp only: turn_routes same_mset_length [OF m])
  have sums: "route_total (tc_routes (multiturn xs)) = route_total (tc_routes (multiturn ys))"
    using counts ok by (simp add: route_total_def)
  have home: "map_of (tc_home (multiturn xs)) = map_of (tc_home (multiturn ys))"
    by (rule ext) (metis home_of_def home_of_session assms)
  have "set xs = set ys" using m by (metis set_mset_mset)
  then have "tc_sticky (multiturn xs) = tc_sticky (multiturn ys)"
    using sticky_sum [of "fst ` set xs" xs] sticky_sum [of "fst ` set xs" ys] assms by simp
  with ok counts have sticky: "stickiness (multiturn xs) = stickiness (multiturn ys)" by (simp add: stickiness_def)
  show ?thesis
    using ok fail rej sticky home same_mset_stats [OF lats] routes sums by (simp add: route_share_def [abs_def])
qed

text \<open>Two sessions of two turns, run one after the other or in turns.\<close>

definition demo_turns :: "nat \<Rightarrow> (nat \<times> http_post \<times> real) list" where
  "demo_turns s = [(s, Answered 200 (Some ''x'') None, 10), (s, Answered 200 (if s = 0 then Some ''x'' else None) None, 20)]"

theorem multiturn_schedule_witness:
  "stickiness (multiturn (demo_turns 0 @ demo_turns 1)) =
     stickiness (multiturn [demo_turns 0 ! 0, demo_turns 1 ! 0, demo_turns 1 ! 1, demo_turns 0 ! 1]) \<and>
   stickiness (multiturn (demo_turns 0 @ demo_turns 1)) = 3 / 4"
proof
  show "stickiness (multiturn (demo_turns 0 @ demo_turns 1)) =
     stickiness (multiturn [demo_turns 0 ! 0, demo_turns 1 ! 0, demo_turns 1 ! 1, demo_turns 0 ! 1])"
    using multiturn_schedule [of "demo_turns 0 @ demo_turns 1"
        "[demo_turns 0 ! 0, demo_turns 1 ! 0, demo_turns 1 ! 1, demo_turns 0 ! 1]"]
    by (simp add: session_events_def demo_turns_def)
  show "stickiness (multiturn (demo_turns 0 @ demo_turns 1)) = 3 / 4"
    by (simp add: demo_turns_def multiturn_def turn_start_def turn_step_def turn_served_def served_by_def stickiness_def)
qed

lemma stickiness_range: "0 \<le> stickiness (multiturn xs) \<and> stickiness (multiturn xs) \<le> 1"
proof -
  have "tc_sticky (multiturn xs) \<le> tc_turns (multiturn xs)" using turn_counters [of xs] by blast
  then show ?thesis by (auto simp: stickiness_def divide_le_eq le_max_iff_disj)
qed

subsection \<open>Gains over a baseline\<close>

lemma matrix_baseline_given:
  "\<forall>r \<in> set rr. nonzero (rw_p99 r) \<noteq> None \<Longrightarrow> map nonzero (map rw_p99 rr) = map Some (matrix_baseline rr)"
  by (induction rr) (auto simp: matrix_baseline_def List.map_filter_def)

lemma map_filter_append: "List.map_filter f (xs @ ys) = List.map_filter f xs @ List.map_filter f ys"
  by (simp add: List.map_filter_def)

lemma matrix_baseline_insert:
  "nonzero (rw_p99 r) = None \<Longrightarrow> matrix_baseline (xs @ r # ys) = matrix_baseline (xs @ ys)"
  by (simp add: matrix_baseline_def map_filter_append List.map_filter_def)

lemma map_filter_Cons:
  "List.map_filter f (x # xs) = (case f x of None \<Rightarrow> List.map_filter f xs | Some y \<Rightarrow> y # List.map_filter f xs)"
  by (simp add: List.map_filter_def split: option.splits)

lemma matrix_improvements_zip:
  assumes "map nonzero base = map Some bs" and "k \<le> length bs"
  shows "List.map_filter (\<lambda>(i, r). case nonzero (rw_p99 r) of None \<Rightarrow> None
      | Some p \<Rightarrow> if i < length bs \<and> bs ! i > 0 then Some (gain_pct (bs ! i) p) else None) (enumerate k rows) =
    paired_gains (drop k base) (map rw_p99 rows)"
proof -
  have len: "length base = length bs" using assms(1) by (metis length_map)
  have at: "nonzero (base ! i) = Some (bs ! i)" if "i < length bs" for i
    using assms(1) that len by (metis nth_map)
  have "k \<le> length bs \<Longrightarrow> ?thesis"
  proof (induction rows arbitrary: k)
    case Nil
    then show ?case by (simp add: paired_gains_def List.map_filter_def)
  next
    case (Cons r rows)
    show ?case
    proof (cases "k < length bs")
      case True
      then have "drop k base = base ! k # drop (Suc k) base" using len by (simp add: Cons_nth_drop_Suc)
      with Cons.IH [of "Suc k"] True show ?thesis
        by (auto simp: paired_gains_def map_filter_Cons at gain_pct_def split: option.splits)
    next
      case False
      then have "drop k base = []" using Cons.prems len by simp
      moreover have "List.map_filter (\<lambda>(i, r). case nonzero (rw_p99 r) of None \<Rightarrow> None
          | Some p \<Rightarrow> if i < length bs \<and> bs ! i > 0 then Some (gain_pct (bs ! i) p) else None)
          (enumerate k (r # rows)) = []"
      proof -
        have "i \<ge> length bs" if "(i, v) \<in> set (enumerate k (r # rows))" for i v
          using that False by (auto simp: in_set_enumerate_eq simp del: enumerate_simps)
        then show ?thesis
          unfolding List.map_filter_def
          by (simp del: enumerate_simps add: filter_empty_conv) (force split: option.splits)
      qed
      ultimately show ?thesis by (simp add: paired_gains_def List.map_filter_def del: enumerate_simps)
    qed
  qed
  with assms(2) show ?thesis by blast
qed

text \<open>
  C27: the gain over round robin that the matrix of the workshop suite reports is the seed-by-seed gain as
  long as every baseline seed has a percentile. A baseline seed that failed to start does not drop out of
  the comparison: with one inserted anywhere, the report is unchanged, so from there on every seed of
  the treatment is compared with the baseline of the following seed.
\<close>

theorem matrix_pairing:
  assumes "\<forall>r \<in> set (rr1 @ rr2). nonzero (rw_p99 r) \<noteq> None"
  shows "matrix_improvements (rr1 @ rr2) rows = paired_gains (map rw_p99 (rr1 @ rr2)) (map rw_p99 rows) \<and>
    matrix_improvements (rr1 @ error_row e seed n # rr2) rows = paired_gains (map rw_p99 (rr1 @ rr2)) (map rw_p99 rows)"
proof -
  have "matrix_improvements (rr1 @ rr2) rows = paired_gains (map rw_p99 (rr1 @ rr2)) (map rw_p99 rows)"
    using matrix_improvements_zip [OF matrix_baseline_given [OF assms], of 0 rows] by (simp add: matrix_improvements_def)
  moreover have "matrix_improvements (rr1 @ error_row e seed n # rr2) rows = matrix_improvements (rr1 @ rr2) rows"
  proof -
    have "nonzero (rw_p99 (error_row e seed n)) = None" by (simp add: error_row_def nonzero_def)
    then show ?thesis by (simp only: matrix_improvements_def matrix_baseline_insert)
  qed
  ultimately show ?thesis by simp
qed

definition measured_row :: "real \<Rightarrow> load_row" where
  "measured_row x = (error_row [] 0 0)\<lparr>rw_error := None, rw_p99 := Some x\<rparr>"

theorem matrix_pairing_witness:
  "matrix_improvements [error_row ''down'' 0 8, measured_row 100, measured_row 200]
      [measured_row 50, measured_row 100, measured_row 200] = [50, 50] \<and>
   paired_gains (map rw_p99 [error_row ''down'' 0 8, measured_row 100, measured_row 200])
      (map rw_p99 [measured_row 50, measured_row 100, measured_row 200]) = [0, 0]"
  using matrix_pairing [of "[]" "[measured_row 100, measured_row 200]"
      "[measured_row 50, measured_row 100, measured_row 200]" "''down''" 0 8]
  by (simp add: measured_row_def error_row_def nonzero_def paired_gains_def List.map_filter_def)

text \<open>A gain never exceeds one hundred percent, and it is positive exactly when the treatment is faster.\<close>

lemma paired_gains_range:
  "list_all (\<lambda>x. x > 0) treat \<Longrightarrow> list_all (\<lambda>g. g < 100) (paired_gains (map Some base) (map Some treat))"
  by (auto simp: paired_gains_def list_all_iff List.map_filter_def nonzero_def field_simps dest!: set_zip_rightD
      split: option.splits if_splits)

end
