(* ===== verification/Regime_D_Props.thy ===== *)
theory Regime_D_Props
  imports Regime_D Load_Run_Props Engine_Props Backend_Props
begin

text \<open>
  What the capacity study reports: the harness and the command line agree on the backends and their
  declared memory; the counts of a cell, with the one case in which a request is counted twice; the
  normalised slopes and their order; the fits of fixed-length traffic; and when the discovery run claims
  that the order of the engines was found.
\<close>

subsection \<open>The counts of a cell\<close>

lemma cell_load_snoc: "cell_load (xs @ [x]) = cell_step (cell_load xs) x"
  by (simp add: cell_load_def)

text \<open>A served request whose body has a usage that is no object, so that reading it raises.\<close>

fun bad_usage :: "int \<times> http_post \<times> real \<Rightarrow> bool" where
  "bad_usage (m, Answered status header body, ms) \<longleftrightarrow> status = 200 \<and> \<not> is_obj (snd (reply_fields body))"
| "bad_usage (m, PostRaised, ms) \<longleftrightarrow> False"

lemma cell_step_counts:
  "lc_ok (ce_load (cell_step c x)) + lc_fail (ce_load (cell_step c x)) =
     lc_ok (ce_load c) + lc_fail (ce_load c) + 1 + (if bad_usage x then 1 else 0) \<and>
   length (ce_log (cell_step c x)) + lc_ok (ce_load c) + (if bad_usage x then 1 else 0) =
     length (ce_log c) + lc_ok (ce_load (cell_step c x)) \<and>
   length (lc_e2e (ce_load (cell_step c x))) + lc_ok (ce_load c) =
     length (lc_e2e (ce_load c)) + lc_ok (ce_load (cell_step c x)) \<and>
   sum_list (map snd (lc_routes (ce_load (cell_step c x)))) + lc_ok (ce_load c) =
     sum_list (map snd (lc_routes (ce_load c))) + lc_ok (ce_load (cell_step c x))"
proof (cases x rule: bad_usage.cases)
  case (1 m status header body ms)
  obtain tokens usage where f: "reply_fields body = (tokens, usage)" by fastforce
  show ?thesis
  proof (cases "status = 200")
    case True
    with 1 f show ?thesis
      by (cases usage) (simp_all add: cell_step_def load_step_def count_failure_def count_route_sum)
  next
    case False
    with 1 show ?thesis by (simp add: cell_step_def load_step_def)
  qed
next
  case (2 m ms)
  then show ?thesis by (simp add: cell_step_def count_failure_def)
qed

text \<open>
  The counts of a measured cell add up, with one exception. Latencies and routes cover exactly the
  served requests. Served and failed requests together are the requests sent, plus one for every answer
  of status 200 whose usage is no object: the code counts such a request as served and as failed, and
  leaves it out of the per-request log.
\<close>

lemma cell_accounts:
  "lc_ok (ce_load (cell_load xs)) + lc_fail (ce_load (cell_load xs)) = length xs + length (filter bad_usage xs) \<and>
   length (ce_log (cell_load xs)) + length (filter bad_usage xs) = lc_ok (ce_load (cell_load xs)) \<and>
   length (lc_e2e (ce_load (cell_load xs))) = lc_ok (ce_load (cell_load xs)) \<and>
   sum_list (map snd (lc_routes (ce_load (cell_load xs)))) = lc_ok (ce_load (cell_load xs))"
proof (induction xs rule: rev_induct)
  case Nil
  show ?case by (simp add: cell_load_def load_start_def)
next
  case (snoc x xs)
  with cell_step_counts [of "cell_load xs" x] show ?case by (auto simp: cell_load_snoc)
qed

subsection \<open>Normalised slopes\<close>

lemma map_filter_keys:
  "distinct (map fst xs) \<Longrightarrow>
    distinct (map fst (List.map_filter (\<lambda>(w, v). case v of None \<Rightarrow> None | Some x \<Rightarrow> if P x then Some (w, x) else None) xs)) \<and>
    set (map fst (List.map_filter (\<lambda>(w, v). case v of None \<Rightarrow> None | Some x \<Rightarrow> if P x then Some (w, x) else None) xs)) \<subseteq>
      set (map fst xs)"
proof (induction xs)
  case Nil
  show ?case by (simp add: List.map_filter_def)
next
  case (Cons p xs)
  then show ?case by (cases p) (auto simp: map_filter_Cons split: option.splits if_splits)
qed

lemma usable_slopes_in:
  "(w, x) \<in> set (usable_slopes slopes) \<longleftrightarrow> (w, Some x) \<in> set slopes \<and> x > 0"
  by (force simp: usable_slopes_def List.map_filter_def split: option.splits if_splits)

lemma usable_slopes_distinct: "distinct (map fst slopes) \<Longrightarrow> distinct (map fst (usable_slopes slopes))"
  using map_filter_keys [of slopes "\<lambda>x. x > 0"] unfolding usable_slopes_def by blast

lemma slope_at_usable:
  assumes "distinct (map fst slopes)" and "(w, x) \<in> set (usable_slopes slopes)"
  shows "slope_at (usable_slopes slopes) w = x" and "x > 0"
  using assms usable_slopes_distinct [OF assms(1)] usable_slopes_in [of w x slopes] by (simp_all add: slope_at_def)

text \<open>
  C36: the normalised slopes of a fleet rank it. The reference is a worker with the largest slope, its own
  ratio is one and every ratio lies in (0, 1]; the ratio of two workers is the ratio of their slopes,
  whichever worker is the reference, so that for two workers it is the single ratio that is reported
  beside it; and the order lists the same workers with slopes that never fall.
\<close>

theorem slope_ranking:
  assumes "normalize_slopes slopes = Some r" and "distinct (map fst slopes)"
    and "(a, Some x) \<in> set slopes" and "x > 0" and "(b, Some y) \<in> set slopes" and "y > 0"
  shows "map_of (nm_ratios r) (nm_reference r) = Some 1 \<and>
    (\<exists>p q. map_of (nm_ratios r) a = Some p \<and> map_of (nm_ratios r) b = Some q \<and> 0 < p \<and> p \<le> 1 \<and>
       Some (p / q) = slope_ratio (Some x) (Some y)) \<and>
    set (nm_order r) = fst ` set (usable_slopes slopes) \<and> distinct (nm_order r) \<and>
    sorted (map (slope_at (usable_slopes slopes)) (nm_order r))"
proof -
  let ?u = "usable_slopes slopes" and ?s = "slope_at (usable_slopes slopes)"
  from assms(1) obtain ref where ref: "min_by (\<lambda>w. - ?s w) (map fst ?u) = Some ref"
    and r: "r = \<lparr>nm_reference = ref, nm_ratios = map (\<lambda>(w, x). (w, ?s w / ?s ref)) ?u,
      nm_order = sort_key ?s (map fst ?u)\<rparr>"
    by (auto simp: normalize_slopes_def Let_def split: if_splits)
  have dist: "distinct (map fst ?u)" using usable_slopes_distinct [OF assms(2)] .
  have "ref \<in> set (map fst ?u)" using ref by (rule min_by_in_set)
  then obtain z where z: "(ref, z) \<in> set ?u" by auto
  note at = slope_at_usable [OF assms(2)]
  have in_u: "(a, x) \<in> set ?u" "(b, y) \<in> set ?u" using assms usable_slopes_in by blast+
  have ratio: "map_of (nm_ratios r) w = Some (v / z)" if "(w, v) \<in> set ?u" for w v
  proof -
    have "(w, ?s w / ?s ref) \<in> set (nm_ratios r)" using that r by force
    moreover have "distinct (map fst (nm_ratios r))"
    proof -
      have "map fst (nm_ratios r) = map fst ?u" by (simp add: r case_prod_unfold)
      with dist show ?thesis by (simp only:)
    qed
    ultimately show ?thesis using at(1) [OF that] at(1) [OF z] by simp
  qed
  have top: "x \<le> z" using min_by_least [OF ref, of a] in_u(1) at(1) [OF in_u(1)] at(1) [OF z] by force
  have pos: "0 < x" "0 < y" "0 < z" using assms(4,6) at(2) [OF z] by blast+
  have "map_of (nm_ratios r) (nm_reference r) = Some 1" using ratio [OF z] pos by (simp add: r)
  moreover have "x / z / (y / z) = x / y" using pos by (simp add: field_simps)
  then have "\<exists>p q. map_of (nm_ratios r) a = Some p \<and> map_of (nm_ratios r) b = Some q \<and> 0 < p \<and> p \<le> 1 \<and>
      Some (p / q) = slope_ratio (Some x) (Some y)"
    using ratio [OF in_u(1)] ratio [OF in_u(2)] pos top by (simp add: slope_ratio_def nonzero_def)
  moreover have "set (nm_order r) = fst ` set ?u" "distinct (nm_order r)" "sorted (map ?s (nm_order r))"
    using dist by (simp_all add: r)
  ultimately show ?thesis by blast
qed

theorem slope_ranking_witness:
  "\<exists>r p q. normalize_slopes [(''a'', Some 3), (''b'', Some (12 :: real)), (''c'', None)] = Some r \<and>
     map_of (nm_ratios r) ''a'' = Some p \<and> map_of (nm_ratios r) ''b'' = Some q \<and>
     Some (p / q) = slope_ratio (Some 3) (Some 12)"
proof -
  let ?s = "[(''a'', Some 3), (''b'', Some (12 :: real)), (''c'', None)]"
  have "usable_slopes ?s = [(''a'', 3), (''b'', 12)]" by (simp add: usable_slopes_def List.map_filter_def)
  then have "normalize_slopes ?s \<noteq> None"
    by (simp add: normalize_slopes_def Let_def min_by_eq_None del: min_by.simps)
  then obtain r where r: "normalize_slopes ?s = Some r" by blast
  have "\<exists>p q. map_of (nm_ratios r) ''a'' = Some p \<and> map_of (nm_ratios r) ''b'' = Some q \<and> 0 < p \<and> p \<le> 1 \<and>
      Some (p / q) = slope_ratio (Some 3) (Some 12)"
    using slope_ranking [OF r, of "''a''" 3 "''b''" 12] by simp
  with r show ?thesis by blast
qed

subsection \<open>Fixed lengths\<close>

text \<open>Traffic in which every request has the same token count has no slope, and the fit says so.\<close>

lemma constant_tokens_degenerate:
  assumes "3 \<le> length ys" and "0 < x"
  shows "ol_degenerate (ols_fit (map (Pair x) ys)) \<and> ol_slope (ols_fit (map (Pair x) ys)) = None"
proof -
  have pts: "ols_points (map (Pair x) ys) = map (Pair x) ys"
    using assms(2) by (simp add: ols_points_def filter_map comp_def)
  have "map (fst \<circ> Pair x) ys = replicate (length ys) x" by (simp add: comp_def map_replicate_const)
  then have mean: "stats_mean (map fst (map (Pair x) ys)) = x"
    using assms(1) by (simp add: stats_mean_def sum_list_replicate) (auto simp: field_simps)
  have "sum_over (\<lambda>(v, y). (v - x) ^ 2) (map (Pair x) ys) = 0"
    by (simp add: sum_over_def comp_def)
  with assms(1) show ?thesis unfolding ols_fit_def pts mean Let_def by simp
qed

subsection \<open>The discovery run\<close>

text \<open>The numbers of the curve are consecutive, and its marks are those of the slopes.\<close>

lemma discovery_loop_curve:
  assumes "discovery_loop margin n found ss = (curve, res)"
  shows "\<exists>k \<le> length ss. curve = zip [n..<n + k] (map (order_ok margin) (take k ss))"
  using assms
proof (induction margin n found ss arbitrary: curve res rule: discovery_loop.induct)
  case (1 margin n found)
  then show ?case by simp
next
  case (2 margin n found s ss)
  define ok found' where "ok = order_ok margin s" and "found' = (if ok \<and> found = None then Some n else found)"
  show ?case
  proof (cases "case found' of None \<Rightarrow> False | Some k \<Rightarrow> n \<ge> k + 10")
    case True
    with 2 have "curve = [(n, ok)]" by (auto simp: ok_def found'_def Let_def)
    then show ?thesis by (intro exI [of _ 1]) (simp add: ok_def)
  next
    case False
    obtain rest res' where rest: "discovery_loop margin (n + 1) found' ss = (rest, res')" by fastforce
    with 2(2) False have curve: "curve = (n, ok) # rest" by (auto simp: ok_def found'_def Let_def)
    from 2(1) [OF ok_def found'_def False rest] obtain k where k: "k \<le> length ss"
      "rest = zip [n + 1..<n + 1 + k] (map (order_ok margin) (take k ss))" by blast
    have "[n..<n + Suc k] = n # [n + 1..<n + 1 + k]" by (simp add: upt_rec)
    with k curve show ?thesis by (intro exI [of _ "Suc k"]) (simp add: ok_def)
  qed
qed

lemma discovery_loop_keeps: "discovery_loop margin n (Some k) ss = (curve, res) \<Longrightarrow> res = Some k"
  by (induction margin n "Some k" ss arbitrary: curve res rule: discovery_loop.induct)
    (auto simp: Let_def split: if_splits prod.splits)

lemma discovery_loop_found:
  assumes "discovery_loop margin n None ss = (curve, res)"
  shows "(case res of None \<Rightarrow> \<not> list_ex snd curve \<and> length curve = length ss
    | Some k \<Rightarrow> (k, True) \<in> set curve \<and> (\<forall>i. i < k \<longrightarrow> (i, True) \<notin> set curve))"
  using assms
proof (induction margin n "None :: nat option" ss arbitrary: curve res rule: discovery_loop.induct)
  case (1 margin n)
  then show ?case by simp
next
  case (2 margin n s ss)
  show ?case
  proof (cases "order_ok margin s")
    case True
    with 2(2) obtain rest where "curve = (n, True) # rest" "res = Some n"
      by (auto simp: Let_def split: if_splits prod.splits dest: discovery_loop_keeps)
    moreover have "n \<le> i" if "(i, True) \<in> set curve" for i
    proof -
      from discovery_loop_curve [OF 2(2)] obtain k where
        "curve = zip [n..<n + k] (map (order_ok margin) (take k (s # ss)))" by blast
      with that have "i \<in> set [n..<n + k]" by (metis set_zip_leftD)
      then show ?thesis by simp
    qed
    ultimately show ?thesis by (auto simp: not_less [symmetric])
  next
    case False
    then obtain rest where rest: "discovery_loop margin (n + 1) None ss = (rest, res)" "curve = (n, False) # rest"
      using 2(2) by (auto simp: Let_def split: prod.splits)
    from 2(1) [OF refl _ _ rest(1)] False rest(2) show ?thesis by (auto split: option.splits)
  qed
qed

lemma stable_at_in:
  "stable_at curve = Some n \<Longrightarrow> \<exists>xs ys. curve = xs @ ys \<and> 5 \<le> length ys \<and> fst (hd ys) = n \<and> list_all snd (take 5 ys)"
proof (induction curve)
  case (Cons p ps)
  show ?case
  proof (cases "snd p \<and> length (take 5 (p # ps)) = 5 \<and> list_all snd (take 5 (p # ps))")
    case True
    with Cons.prems have "fst p = n" by simp
    with True show ?thesis by (intro exI [of _ "[]"] exI [of _ "p # ps"]) auto
  next
    case False
    then have "stable_at (p # ps) = stable_at ps" by (simp only: stable_at.simps if_False)
    with Cons.prems have "stable_at ps = Some n" by simp
    from Cons.IH [OF this] obtain xs ys where "ps = xs @ ys" "5 \<le> length ys" "fst (hd ys) = n" "list_all snd (take 5 ys)"
      by blast
    then show ?thesis by (intro exI [of _ "p # xs"] exI [of _ ys]) simp
  qed
qed simp

text \<open>
  What the discovery run may claim. The first discovery is the first request after which the margin
  held; the stable one is never earlier, and there the margin held for five requests in a row. When no
  five requests in a row confirm the order, the report falls back to the first discovery.
\<close>

lemma discovery_claims:
  assumes "discovery_run margin slopes = (curve, found, firm)" and "firm = Some n"
  shows "claimed_at (curve, found, firm) = Some n \<and>
    (\<exists>k \<le> n. found = Some k \<and> order_ok margin (slopes ! (k - 1)) \<and> 0 < k) \<and>
    (\<forall>i < 5. n - 1 + i < length slopes \<and> order_ok margin (slopes ! (n - 1 + i))) \<and> 0 < n"
proof -
  from assms obtain res where loop: "discovery_loop margin 1 None slopes = (curve, found)" and firm: "stable_at curve = Some n"
    by (auto simp: discovery_run_def split: prod.splits)
  from discovery_loop_curve [OF loop] obtain m where m: "m \<le> length slopes"
    "curve = zip [1..<1 + m] (map (order_ok margin) (take m slopes))" by blast
  have len: "length curve = m" using m by simp
  have at: "curve ! i = (i + 1, order_ok margin (slopes ! i))" if "i < m" for i
    using that m by (simp add: nth_append del: upt_Suc)
  from stable_at_in [OF firm] obtain xs ys where ys: "curve = xs @ ys" "5 \<le> length ys" "fst (hd ys) = n"
    "list_all snd (take 5 ys)" by blast
  have n: "n = length xs + 1"
  proof -
    have "length xs < m" using len ys by (metis length_append less_add_same_cancel1 less_le_trans zero_less_numeral)
    then have "curve ! length xs = (length xs + 1, order_ok margin (slopes ! length xs))" by (rule at)
    moreover have "curve ! length xs = hd ys" using ys by (metis hd_conv_nth length_greater_0_conv less_le_trans nth_append_length_plus add_0_right zero_less_numeral)
    ultimately show ?thesis using ys(3) by simp
  qed
  have five: "n - 1 + i < length slopes \<and> order_ok margin (slopes ! (n - 1 + i))" if "i < 5" for i
  proof -
    have lt: "length xs + i < m" using len ys that by (metis length_append add_less_cancel_left less_le_trans)
    have "snd (ys ! i)" using ys(2,4) that by (simp add: list_all_length)
    moreover have "curve ! (length xs + i) = ys ! i" using ys(1) by (simp add: nth_append)
    ultimately have "order_ok margin (slopes ! (length xs + i))" using at [OF lt] by (metis snd_conv)
    with lt m(1) n show ?thesis by simp
  qed
  have mark: "(n, True) \<in> set curve"
  proof -
    have "length xs < m" using len ys by (metis length_append less_add_same_cancel1 less_le_trans zero_less_numeral)
    with at [of "length xs"] five [of 0] n show ?thesis by (metis add_0_right add_diff_cancel_right' len nth_mem zero_less_numeral)
  qed
  have "found \<noteq> None"
    using discovery_loop_found [OF loop] mark by (cases found) (auto simp: list_ex_iff)
  then obtain k where found: "found = Some k" by blast
  then have k: "found = Some k" "(k, True) \<in> set curve" "k \<le> n"
    using discovery_loop_found [OF loop] mark by (simp_all add: not_less [symmetric]) blast
  from k(2) obtain i where "i < m" "curve ! i = (k, True)" by (metis in_set_conv_nth len)
  with at have "k = i + 1" "order_ok margin (slopes ! i)" by auto
  with k n five assms(2) show ?thesis by (auto simp: claimed_at_def)
qed

lemma discovery_claims_witness:
  "claimed_at (discovery_run 0 (replicate 2 (None, None) @ replicate 6 (Some 2, Some 1))) = Some 3"
proof -
  have "discovery_run 0 (replicate 2 (None, None) @ replicate 6 (Some 2, Some 1)) =
      (zip [1..<9] [False, False, True, True, True, True, True, True], Some 3, Some 3)"
    by (simp add: discovery_run_def order_ok_def numeral_eq_Suc upt_rec)
  from discovery_claims [OF this refl] this show ?thesis by simp
qed

text \<open>
  The fallback: one lucky request is claimed as the discovery although the order is wrong ever after.
\<close>

lemma discovery_flap: "claimed_at (discovery_run 0 ((Some 2, Some 1) # replicate 20 (Some 1, Some 2))) = Some 1"
  by (simp add: discovery_run_def order_ok_def claimed_at_def numeral_eq_Suc)

subsection \<open>The harness and the command line\<close>

lemma strip_ends:
  assumes "strip_by P s \<noteq> []"
  shows "\<not> P (hd (strip_by P s)) \<and> \<not> P (last (strip_by P s))"
proof -
  let ?l = "dropWhile P s"
  have strip: "strip_by P s = rev (dropWhile P (rev ?l))" by (simp add: strip_by_def rstrip_by_def lstrip_by_def)
  with assms have rest: "dropWhile P (rev ?l) \<noteq> []" by simp
  then have last: "\<not> P (last (strip_by P s))" using hd_dropWhile [OF rest] by (simp add: strip last_rev)
  obtain w where w: "?l = strip_by P s @ w"
    using rstrip_ends [of ?l P] by (metis lstrip_by_def strip_by_def)
  with assms have "?l \<noteq> []" and "hd ?l = hd (strip_by P s)" by auto
  then have "\<not> P (hd (strip_by P s))" using hd_dropWhile [of P s] by metis
  with last show ?thesis by blast
qed

lemma strip_again: "strip_by P (strip_by P s) = strip_by P s"
proof (cases "strip_by P s = []")
  case True
  have "strip_by P [] = []" by (simp add: strip_by_def lstrip_by_def rstrip_by_def)
  with True show ?thesis by simp
next
  case False
  with strip_id [OF False] strip_ends [OF False] show ?thesis by blast
qed

text \<open>The head of a stripped text loses only white space at its end when it is stripped again.\<close>

lemma strip_head:
  assumes "py_strip s = u @ c # v" and "\<not> py_isspace c"
  shows "\<exists>w. u = py_strip u @ w"
proof (cases u)
  case (Cons a as)
  have "strip_by py_isspace s \<noteq> []" using assms(1) by (simp add: py_strip_def)
  from strip_ends [OF this] assms(1) Cons have "\<not> py_isspace a" by (simp add: py_strip_def)
  with Cons have "dropWhile py_isspace u = u" by simp
  with rstrip_ends [of u py_isspace] show ?thesis by (metis lstrip_by_def py_strip_def strip_by_def)
qed (simp add: py_strip_def strip_by_def lstrip_by_def rstrip_by_def)

text \<open>An identifier that the harness reads is one that the command line reads back from a flag.\<close>

definition flag_name :: "string \<Rightarrow> bool" where
  "flag_name k \<longleftrightarrow> CHR ''='' \<notin> set k \<and> py_strip k = k \<and> \<not> startswith k ''http''"

lemma positional_name: "flag_name (''e'' @ show_nat i)"
proof -
  have digits: "py_isdigit c" if "c \<in> set (show_nat i)" for c
    using show_nat_digits [of i] that by (simp add: list_all_iff)
  then have "CHR ''='' \<notin> set (show_nat i)" by (auto simp: py_isdigit_def Let_def dest!: digits)
  moreover have "\<not> py_isspace (last (''e'' @ show_nat i))"
    using show_nat_digits [of i] digits isdigit_facts by (metis last_appendR last_in_set)
  then have "py_strip (''e'' @ show_nat i) = ''e'' @ show_nat i"
    unfolding py_strip_def by (intro strip_id) (simp_all add: py_isspace_def Let_def)
  ultimately show ?thesis by (simp add: flag_name_def startswith_def)
qed

lemma kv_entry_name:
  assumes "kv_entry (i, py_strip raw) = Some (k, v)"
  shows "flag_name k"
proof (cases "CHR ''='' \<in> set (py_strip raw) \<and> \<not> startswith (py_strip raw) ''http''")
  case False
  with assms have "k = ''e'' @ show_nat i" by (auto simp: kv_entry_def split: if_splits)
  then show ?thesis using positional_name by simp
next
  case True
  obtain a f b where p: "partition_at (CHR ''='') (py_strip raw) = (a, f, b)" by (cases "partition_at (CHR ''='') (py_strip raw)")
  have f: "f" using partition_at_missing [of "CHR ''=''" "py_strip raw" a b] p True by (cases f) auto
  with p have eq: "py_strip raw = a @ CHR ''='' # b" "CHR ''='' \<notin> set a"
    using partition_at_found [of "CHR ''=''" "py_strip raw" a b] by auto
  have k: "k = py_strip a" using assms True p by (auto simp: kv_entry_def split: if_splits)
  obtain w where w: "a = k @ w" using strip_head [OF eq(1)] k by (auto simp: py_isspace_def)
  have "\<not> startswith k ''http''" using True eq(1) w by (auto simp: startswith_iff)
  moreover have "py_strip k = k" unfolding k py_strip_def by (rule strip_again)
  ultimately show ?thesis using eq(2) w by (auto simp: flag_name_def)
qed

lemma parse_kv_names:
  assumes "(k, v) \<in> set (parse_kv spec)"
  shows "flag_name k"
proof -
  obtain i raw where "kv_entry (i, py_strip raw) = Some (k, v)"
    using assms unfolding parse_kv_def List.map_filter_def by (auto simp: in_set_enumerate_eq)
  then show ?thesis by (rule kv_entry_name)
qed

lemma flag_not_url: "flag_name k \<Longrightarrow> \<not> startswith (k @ CHR ''='' # url) ''http''"
proof
  assume k: "flag_name k" and s: "startswith (k @ CHR ''='' # url) ''http''"
  show False
  proof (cases "length k \<ge> 4")
    case True
    with s have "startswith k ''http''" by (simp add: startswith_def)
    with k show ?thesis by (simp add: flag_name_def)
  next
    case False
    from s have "take 4 (k @ CHR ''='' # url) = ''http''" by (simp add: startswith_def eval_nat_numeral)
    then have "(k @ CHR ''='' # url) ! length k = ''http'' ! length k" using False by (metis not_le nth_take)
    moreover have "length k = 0 \<or> length k = 1 \<or> length k = 2 \<or> length k = 3" using False by linarith
    ultimately show ?thesis by auto
  qed
qed

lemma flag_backend_fields:
  assumes "flag_name k" and "i < length vrams" and "flag_backend ok tiers vrams (i, k @ ''='' @ url) = Inr b"
  shows "be_id b = k \<and> be_total_vram_mb b = vrams ! i \<and> be_free_vram_mb b = vrams ! i"
proof -
  have "partition_at (CHR ''='') (k @ CHR ''='' # url) = (k, True, url)"
    using assms(1) by (intro partition_no_sep) (simp add: flag_name_def)
  with assms flag_not_url [OF assms(1)] show ?thesis
    by (auto simp: flag_backend_def flag_name_def backend_post_init_def backend_default_def py_bind_Inr Let_def
        split: option.splits prod.splits)
qed

lemma py_map_nth: "py_map f xs = Inr ys \<Longrightarrow> i < length xs \<Longrightarrow> f (xs ! i) = Inr (ys ! i)"
proof (induction xs arbitrary: ys i)
  case (Cons x xs)
  then show ?case by (cases i) (auto split: sum.splits)
qed simp



end
