(* ===== verification/Campaign_Reports.thy ===== *)
theory Campaign_Reports
  imports Load_Runs Scheduler
begin

text \<open>
  The scripts that audit and compare finished campaigns: the confound audit of
  \<open>audit_g1_confound.py\<close>, which replays recorded gauges through the real scheduler, the paired
  bootstrap of \<open>reanalyze_committed_results.py\<close>, the concurrency cells of
  \<open>run_mock_hetero_concurrency.py\<close> and the GPU runs of \<open>run_gpu_cluster_validation.py\<close>. Documents are
  JSON values, the draws of the bootstrap and the answers of the gateway are arguments.
\<close>

subsection \<open>The confound audit\<close>

definition dict_values :: "json \<Rightarrow> json list py" where
  "dict_values v = (case v of JObj d \<Rightarrow> Inr (map snd d) | _ \<Rightarrow> Inl (AttributeError ''values''))"

definition snapshot_ok :: "json \<Rightarrow> bool" where
  "snapshot_ok v = (case v of JObj d \<Rightarrow> truthy (dget d ''ok'') | _ \<Rightarrow> False)"

definition row_snapshots :: "json \<Rightarrow> json list py" where
  "row_snapshots row =
     py_bind (jget_def row ''engine_debug'' JNull) (\<lambda>ed.
     case ed of JObj d \<Rightarrow> Inr (filter snapshot_ok (map snd d)) | _ \<Rightarrow> Inr [])"

definition config_snapshots :: "json \<Rightarrow> json list py" where
  "config_snapshots cfg =
     py_bind (jget_def cfg ''per_seed'' (JArr [])) (\<lambda>rows.
     py_bind (py_iter rows) (\<lambda>rs.
     py_bind (py_map row_snapshots rs) (\<lambda>snaps. Inr (concat snaps))))"

definition block_snapshots :: "json \<Rightarrow> json list py" where
  "block_snapshots block =
     (case block of
        JObj d \<Rightarrow>
          (case map_of d ''configs'' of
             None \<Rightarrow> Inr []
           | Some configs \<Rightarrow>
               py_bind (dict_values configs) (\<lambda>cfgs.
               py_bind (py_map config_snapshots cfgs) (\<lambda>snaps. Inr (concat snaps))))
      | _ \<Rightarrow> Inr [])"

definition collect_snapshots :: "(string \<times> json) list \<Rightarrow> json list py" where
  "collect_snapshots summary =
     py_bind (py_map block_snapshots (map snd summary)) (\<lambda>snaps. Inr (concat snaps))"

definition gauge :: "py_text \<Rightarrow> string \<Rightarrow> json \<Rightarrow> real py" where
  "gauge t key snap = py_bind (jget_def snap key JNull) (\<lambda>v. py_float t (or_else v (JFloat 0)))"

record gauge_stats =
  gs_min :: real
  gs_mean :: real
  gs_max :: real
  gs_cost_mean :: real
  gs_cost_max :: real

definition gauge_stats_of :: "real \<Rightarrow> real list \<Rightarrow> gauge_stats" where
  "gauge_stats_of coeff xs =
     \<lparr>gs_min = Min (set xs), gs_mean = stats_mean xs, gs_max = Max (set xs),
      gs_cost_mean = stats_mean (map (\<lambda>x. x * coeff) xs), gs_cost_max = Max (set (map (\<lambda>x. x * coeff) xs))\<rparr>"

text \<open>The gauges with their default coefficients, and the largest penalty that they could have caused.\<close>

record decomposition =
  dc_kv :: gauge_stats
  dc_waiting :: gauge_stats
  dc_hits :: gauge_stats
  dc_running :: gauge_stats
  dc_total_max :: real

definition decompose :: "py_text \<Rightarrow> json list \<Rightarrow> decomposition option py" where
  "decompose t snaps =
     (if snaps = [] then Inr None
      else py_bind (py_map (gauge t ''kv_cache_usage'') snaps) (\<lambda>kv.
           py_bind (py_map (gauge t ''num_waiting'') snaps) (\<lambda>wq.
           py_bind (py_map (gauge t ''prefix_hit_rate'') snaps) (\<lambda>hit.
           py_bind (py_map (gauge t ''num_running'') snaps) (\<lambda>run.
           Inr (Some \<lparr>dc_kv = gauge_stats_of 800 kv, dc_waiting = gauge_stats_of 50 wq, dc_hits = gauge_stats_of 150 hit,
                      dc_running = gauge_stats_of 1 run,
                      dc_total_max = Max (set (map (\<lambda>k. k * 800) kv)) + Max (set (map (\<lambda>w. w * 50) wq))\<rparr>))))))"

text \<open>The four arms of the replay: whether metrics are on, and the affinity bonus.\<close>

definition replay_arms :: "(bool \<times> real) list" where
  "replay_arms = [(True, 200), (False, 0), (False, 200), (True, 0)]"

definition replay_args :: "bool \<times> real \<Rightarrow> sched_args" where
  "replay_args arm =
     sched_default_args\<lparr>g_strategy := ''nlms'', g_use_engine_metrics := fst arm, g_cache_bonus_ms := snd arm,
       g_admission_off := True, g_admission_mode := ''rank_only''\<rparr>"

definition replay_prompt :: string where
  "replay_prompt = ''SYSTEM: long shared agent prefix. '' @ concat (replicate 40 ''alpha beta gamma delta '')"

definition replay_state :: "(string \<Rightarrow> nat) \<Rightarrow> bool \<Rightarrow> eng_dict \<Rightarrow> sched \<Rightarrow> sched" where
  "replay_state h metrics_on worst s0 =
     (let s1 = register (register s0 ''e0'' ''small'' 16000 None) ''e1'' ''small'' 16000 None;
          s2 = (if metrics_on
                then set_engine_metrics (set_engine_metrics s1 ''e0'' (SnapDict worst)) ''e1'' (SnapDict worst) else s1)
      in s2\<lparr>s_prefix_cache := AList.update (prefix_hash h replay_prompt) ''e0'' (s_prefix_cache s2)\<rparr>)"

definition replay_scheduler ::
  "(string \<Rightarrow> nat) \<Rightarrow> eng_dict \<Rightarrow> bool \<times> real \<Rightarrow> (real \<times> routing_decision) option py" where
  "replay_scheduler h worst arm =
     py_bind (scheduler_init (replay_args arm)) (\<lambda>s0.
     let s = replay_state h (fst arm) worst s0
     in case map_of (s_predictors s) ''e0'' of
          None \<Rightarrow> Inl (KeyError ''e0'')
        | Some p \<Rightarrow> score h s ''e0'' p 280 ''small'' replay_prompt False None)"

subsection \<open>The paired bootstrap\<close>

definition finite_value :: "py_text \<Rightarrow> json \<Rightarrow> real option" where
  "finite_value t v = (case py_float t v of Inl e \<Rightarrow> None | Inr x \<Rightarrow> Some x)"

definition rows_values :: "py_text \<Rightarrow> string \<Rightarrow> json list \<Rightarrow> real list py" where
  "rows_values t field rows =
     py_bind (py_map (\<lambda>row. jget_def row field JNull) rows) (\<lambda>vs. Inr (List.map_filter (finite_value t) vs))"

definition per_seed_values :: "py_text \<Rightarrow> json \<Rightarrow> string \<Rightarrow> real list py" where
  "per_seed_values t section config =
     py_bind (py_getitem section ''configs'') (\<lambda>configs.
     py_bind (py_getitem configs config) (\<lambda>cfg.
     py_bind (jget_def cfg ''per_seed'' (JArr [])) (\<lambda>rows.
     py_bind (py_iter rows) (rows_values t ''e2e_p99_ms''))))"

text \<open>
  \<open>paired_stats\<close>: both samples are cut to the shorter length, and drawing an index from an empty sample
  raises. \<open>draws\<close> are the index vectors of the resamples; the infinite effect size is None, and the
  baseline latencies, by which the relative improvement divides, are positive.
\<close>

record paired_report =
  pr_n :: nat
  pr_treatment_mean :: real
  pr_baseline_mean :: real
  pr_delta :: real
  pr_relative_pct :: real
  pr_ci95 :: "real option \<times> real option"
  pr_dz :: "real option"
  pr_wins :: nat
  pr_ties :: nat
  pr_win_rate :: real
  pr_deltas :: "real list"

definition paired_deltas :: "real list \<Rightarrow> real list \<Rightarrow> real list" where
  "paired_deltas a b = map (\<lambda>(x, y). y - x) (zip a b)"

definition resample_means :: "real list \<Rightarrow> nat list list \<Rightarrow> real list" where
  "resample_means d draws = map (\<lambda>idx. stats_mean (map ((!) d) idx)) draws"

definition paired_report_of :: "nat list list \<Rightarrow> real list \<Rightarrow> real list \<Rightarrow> paired_report" where
  "paired_report_of draws x y =
     (let n = length x; d = paired_deltas x y; boot = resample_means d draws;
          sd = (if n > 1 then stats_stdev d else 0);
          wins = length (filter (\<lambda>v. v > 0) d)
      in \<lparr>pr_n = n, pr_treatment_mean = stats_mean x, pr_baseline_mean = stats_mean y, pr_delta = stats_mean d,
          pr_relative_pct = 100 * stats_mean (map (\<lambda>(u, v). (v - u) / v) (zip x y)),
          pr_ci95 = (pct_interpolated boot 2.5, pct_interpolated boot 97.5),
          pr_dz = (if sd > 0 then Some (stats_mean d / sd) else if stats_mean d > 0 then None else Some 0),
          pr_wins = wins, pr_ties = length (filter (\<lambda>v. v = 0) d), pr_win_rate = real wins / real n, pr_deltas = d\<rparr>)"

definition paired_stats :: "nat list list \<Rightarrow> real list \<Rightarrow> real list \<Rightarrow> paired_report py" where
  "paired_stats draws a b =
     (let n = min (length a) (length b)
      in if n = 0 then Inl (ValueError ''low >= high'') else Inr (paired_report_of draws (take n a) (take n b)))"

subsection \<open>Concurrency cells on mock engines\<close>

text \<open>The result of one request: whether it was answered below 400, and its latency.\<close>

definition request_result :: "http_post \<times> real \<Rightarrow> bool \<times> real" where
  "request_result answer =
     (case answer of (Answered status header body, ms) \<Rightarrow> (status < 400, ms) | (PostRaised, ms) \<Rightarrow> (False, ms))"

definition decision_worker :: "json \<Rightarrow> string py" where
  "decision_worker d =
     py_bind (jget_def (or_else d (JObj [])) ''worker_id'' JNull) (\<lambda>w.
     case or_else w (JStr ''unknown'') of JStr s \<Rightarrow> Inr s | _ \<Rightarrow> Inl (TypeError ''worker_id''))"

definition no_routes :: "nat dict" where
  "no_routes = [(''slow'', 0), (''fast'', 0), (''unknown'', 0)]"

text \<open>
  The routes are those of the last decisions in the log, when it holds at least half of the requests;
  \<open>decs[-0:]\<close> is the whole log. An exception after the counts were reset leaves those read so far.
\<close>

fun count_decisions :: "json list \<Rightarrow> nat dict \<Rightarrow> nat dict" where
  "count_decisions [] routes = routes"
| "count_decisions (d # ds) routes =
     (case decision_worker d of Inl e \<Rightarrow> routes | Inr w \<Rightarrow> count_decisions ds (count_route w routes))"

definition logged_routes :: "nat \<Rightarrow> json option \<Rightarrow> nat dict" where
  "logged_routes n dbg =
     (case dbg of
        Some (JObj d) \<Rightarrow>
          (case or_else (dget d ''decisions'') (JArr []) of
             JArr decs \<Rightarrow>
               (if length decs \<ge> n div 2
                then count_decisions (if n = 0 then decs else drop (length decs - n) decs) no_routes else no_routes)
           | _ \<Rightarrow> no_routes)
      | _ \<Rightarrow> no_routes)"

record concurrency_cell =
  cc_ok :: nat
  cc_fail :: nat
  cc_p50 :: "real option"
  cc_p95 :: "real option"
  cc_p99 :: "real option"
  cc_mean :: "real option"
  cc_routes :: "nat dict"
  cc_frac_fast :: real
  cc_frac_slow :: real
  cc_rps :: real

definition run_cell :: "(http_post \<times> real) list \<Rightarrow> json option \<Rightarrow> real \<Rightarrow> concurrency_cell" where
  "run_cell answers dbg elapsed_s =
     (let results = map request_result answers;
          e2e = map snd (filter fst results);
          ok = length e2e;
          routes0 = logged_routes (length answers) dbg;
          routes = (if sum_list (map snd routes0) = 0 then [(''slow'', 0), (''fast'', 0), (''unknown'', ok)] else routes0);
          share = (\<lambda>w. real (case map_of routes w of None \<Rightarrow> 0 | Some k \<Rightarrow> k) / real (route_total routes0))
      in \<lparr>cc_ok = ok, cc_fail = length (filter (Not \<circ> fst) results), cc_p50 = pct_interpolated e2e 50,
          cc_p95 = pct_interpolated e2e 95, cc_p99 = pct_interpolated e2e 99,
          cc_mean = (if e2e = [] then None else Some (stats_mean e2e)), cc_routes = routes, cc_frac_fast = share ''fast'',
          cc_frac_slow = share ''slow'', cc_rps = real ok / max (1 / 10 ^ 6) elapsed_s\<rparr>)"

text \<open>The improvement over round robin seed by seed; None is the NaN of a cell without a served request.\<close>

definition cell_improvements :: "concurrency_cell list \<Rightarrow> concurrency_cell list \<Rightarrow> real option list" where
  "cell_improvements cells rr =
     List.map_filter (\<lambda>(a, b).
       case cc_p99 b of
         Some y \<Rightarrow> (if y > 0 then Some (map_option (\<lambda>x. 100 * (y - x) / y) (cc_p99 a)) else None)
       | None \<Rightarrow> None) (zip cells rr)"

definition cell_wins :: "real option list \<Rightarrow> nat" where
  "cell_wins imps = length (filter (\<lambda>v. case v of Some x \<Rightarrow> x > 0 | None \<Rightarrow> False) imps)"

subsection \<open>GPU runs\<close>

text \<open>
  What \<open>chat_once\<close> keeps of a reply. An exception while the body is read keeps what was set before it,
  and a text that cannot be cut to its preview raises; \<open>header_ms\<close> is the engine header for the first
  token, None when it is absent or empty.
\<close>

record chat_result =
  ch_ok :: bool
  ch_status :: int
  ch_e2e :: real
  ch_ttft :: json
  ch_text :: json
  ch_backend :: "string option"

definition choice_text :: "json \<Rightarrow> json py" where
  "choice_text ch =
     py_bind (py_contains ''message'' ch) (\<lambda>has_message.
     if has_message
     then py_bind (py_getitem ch ''message'') (\<lambda>m. py_bind (jget_def m ''content'' JNull) (\<lambda>v. Inr (or_else v (JStr []))))
     else py_bind (py_contains ''text'' ch) (\<lambda>has_text.
          if has_text then py_bind (jget_def ch ''text'' JNull) (\<lambda>v. Inr (or_else v (JStr [])))
          else Inr (JStr [])))"

definition first_choice :: "json \<Rightarrow> json py" where
  "first_choice v =
     (case v of
        JArr (c # cs) \<Rightarrow> Inr c
      | JStr (c # cs) \<Rightarrow> Inr (JStr [c])
      | JObj d \<Rightarrow> Inl (KeyError ''0'')
      | _ \<Rightarrow> Inl (TypeError ''not subscriptable''))"

definition body_text :: "json \<Rightarrow> json py" where
  "body_text body =
     py_bind (jget_def body ''choices'' JNull) (\<lambda>choices.
     if truthy choices then py_bind (first_choice choices) choice_text else Inr (JStr []))"

definition text_preview :: "json \<Rightarrow> json py" where
  "text_preview v =
     (case or_else v (JStr []) of
        JStr s \<Rightarrow> Inr (JStr (take 120 s))
      | JArr xs \<Rightarrow> Inr (JArr (take 120 xs))
      | _ \<Rightarrow> Inl (TypeError ''not subscriptable''))"

definition read_chat :: "py_text \<Rightarrow> string option \<Rightarrow> json option \<Rightarrow> json \<times> json" where
  "read_chat t header_ms body =
     (case body of
        Some (JObj d) \<Rightarrow>
          (case body_text (JObj d) of
             Inl e \<Rightarrow> (dget d ''dio_engine_e2e_ms'', JStr [])
           | Inr answer \<Rightarrow>
               (case Option.bind header_ms (pt_read_float t) of
                  None \<Rightarrow> (dget d ''dio_engine_e2e_ms'', answer)
                | Some x \<Rightarrow> (JFloat x, answer)))
      | _ \<Rightarrow> (JNull, JStr []))"

definition chat_once ::
  "py_text \<Rightarrow> int \<Rightarrow> string option \<Rightarrow> string option \<Rightarrow> json option \<Rightarrow> real \<Rightarrow> chat_result py" where
  "chat_once t status backend header_ms body ms =
     (let (ttft, answer) = read_chat t header_ms body
      in py_bind (text_preview answer) (\<lambda>preview.
         Inr \<lparr>ch_ok = (status = 200), ch_status = status, ch_e2e = ms, ch_ttft = ttft, ch_text = preview,
              ch_backend = backend\<rparr>))"

record gpu_counts =
  gc_ok :: nat
  gc_fail :: nat
  gc_e2e :: "real list"
  gc_ttft :: "real list"
  gc_routes :: "nat dict"
  gc_samples :: "json list"

definition gpu_start :: gpu_counts where
  "gpu_start = \<lparr>gc_ok = 0, gc_fail = 0, gc_e2e = [], gc_ttft = [], gc_routes = [], gc_samples = []\<rparr>"

definition gpu_step :: "py_text \<Rightarrow> gpu_counts \<Rightarrow> chat_result \<Rightarrow> gpu_counts" where
  "gpu_step t c r =
     (if ch_ok r
      then (let ttft = (if ch_ttft r = JNull then gc_ttft c
                        else case py_float t (ch_ttft r) of Inl e \<Rightarrow> gc_ttft c | Inr x \<Rightarrow> gc_ttft c @ [x]);
                b = (case ch_backend r of None \<Rightarrow> ''?'' | Some s \<Rightarrow> if s = [] then ''?'' else s)
            in c\<lparr>gc_ok := gc_ok c + 1, gc_e2e := gc_e2e c @ [ch_e2e r], gc_ttft := ttft,
                 gc_routes := count_route b (gc_routes c),
                 gc_samples := (if length (gc_samples c) < 3 then gc_samples c @ [ch_text r] else gc_samples c)\<rparr>)
      else c\<lparr>gc_fail := gc_fail c + 1\<rparr>)"

definition gpu_load :: "py_text \<Rightarrow> chat_result list \<Rightarrow> gpu_counts" where
  "gpu_load t results = foldl (gpu_step t) gpu_start results"

text \<open>\<open>exp_G5_admission\<close>: one arm of the admission experiment.\<close>

definition admission_arm :: "chat_result list \<Rightarrow> nat \<times> nat \<times> real option" where
  "admission_arm rows =
     (length (filter ch_ok rows), length (filter (\<lambda>r. ch_status r = 503) rows),
      nearest_pct (map ch_e2e (filter ch_ok rows)) 99)"

subsection \<open>Lemmas\<close>

text \<open>Without metrics, and so without snapshots, the engine terms of the replay are zero.\<close>

lemma replay_metrics_off:
  assumes "replay_scheduler h worst (False, bonus) = Inr (Some (x, dec))"
  shows "rd_engine_kv_cost_ms dec = 0 \<and> rd_engine_queue_cost_ms dec = 0 \<and> rd_engine_prefix_bonus_ms dec = 0"
proof -
  from assms obtain s0 p where init: "scheduler_init (replay_args (False, bonus)) = Inr s0"
    and sc: "score h (replay_state h False worst s0) ''e0'' p 280 ''small'' replay_prompt False None = Inr (Some (x, dec))"
    unfolding replay_scheduler_def py_bind_Inr Let_def fst_conv by (auto split: option.splits)
  have "s_engine_snap s0 = []" using init by (auto simp: scheduler_init_def split: if_splits)
  then have "eng_get (replay_state h False worst s0) ''e0'' = None"
    by (simp add: replay_state_def eng_get_def register_def Let_def)
  then have "engine_terms (s_cfg (replay_state h False worst s0)) (eng_get (replay_state h False worst s0) ''e0'') = (0, 0, 0)"
    by (simp add: engine_terms_def eng_ok_def)
  moreover have "dec = joint_cost (replay_state h False worst s0) ''e0'' p 280 ''small'' (prefix_hash h replay_prompt)
      (nlms_estimate p 280)"
    using sc unfolding score_def by (auto simp: Let_def split: if_splits sum.splits)
  ultimately show ?thesis by (cases "nlms_estimate p 280") (simp add: joint_cost_def Let_def split: prod.splits)
qed

text \<open>The mean of the paired deltas is the difference of the means, and wins and ties are seeds.\<close>

lemma sum_deltas: "length a = length b \<Longrightarrow> sum_list (paired_deltas a b) = sum_list b - sum_list a"
proof (induction a b rule: list_induct2)
  case Nil
  then show ?case by (simp add: paired_deltas_def)
next
  case (Cons x xs y ys)
  then show ?case by (simp add: paired_deltas_def)
qed

lemma paired_report_delta:
  assumes "length x = length y" and "x \<noteq> []"
  shows "pr_delta (paired_report_of draws x y) =
      pr_baseline_mean (paired_report_of draws x y) - pr_treatment_mean (paired_report_of draws x y)"
proof -
  have "length (paired_deltas x y) = length x" using assms by (simp add: paired_deltas_def)
  then have "stats_mean (paired_deltas x y) = stats_mean y - stats_mean x"
    using assms by (simp add: stats_mean_def sum_deltas diff_divide_distrib)
  then show ?thesis by (simp add: paired_report_of_def Let_def)
qed

lemma paired_report_wins:
  assumes "length x = length y"
  shows "pr_wins (paired_report_of draws x y) + pr_ties (paired_report_of draws x y) \<le> pr_n (paired_report_of draws x y)"
proof -
  have "length (filter (\<lambda>v. v > 0) ds) + length (filter (\<lambda>v. v = 0) ds) \<le> length ds" for ds :: "real list"
    by (induction ds) auto
  from this [of "paired_deltas x y"] assms show ?thesis by (simp add: paired_report_of_def Let_def paired_deltas_def)
qed

text \<open>The bootstrap interval lies between the smallest and the largest delta.\<close>

lemma mean_between:
  fixes xs :: "real list"
  assumes "xs \<noteq> []" and "\<forall>x \<in> set xs. lo \<le> x \<and> x \<le> hi"
  shows "lo \<le> stats_mean xs \<and> stats_mean xs \<le> hi"
proof -
  have "lo * real (length ys) \<le> sum_list ys \<and> sum_list ys \<le> hi * real (length ys)"
    if "\<forall>x \<in> set ys. lo \<le> x \<and> x \<le> hi" for ys
    using that by (induction ys) (auto simp: algebra_simps)
  from this [OF assms(2)] assms(1) show ?thesis by (simp add: stats_mean_def le_divide_eq divide_le_eq)
qed

lemma resample_means_between:
  assumes "\<forall>idx \<in> set draws. idx \<noteq> [] \<and> (\<forall>i \<in> set idx. i < length d)" and "m \<in> set (resample_means d draws)"
  shows "Min (set d) \<le> m \<and> m \<le> Max (set d)"
proof -
  from assms obtain idx where idx: "idx \<noteq> []" "\<forall>i \<in> set idx. i < length d" "m = stats_mean (map ((!) d) idx)"
    by (auto simp: resample_means_def)
  then have "\<forall>x \<in> set (map ((!) d) idx). Min (set d) \<le> x \<and> x \<le> Max (set d)" by auto
  with mean_between [of "map ((!) d) idx" "Min (set d)" "Max (set d)"] idx show ?thesis by simp
qed

text \<open>A GPU run counts every reply once.\<close>

lemma gpu_load_accounts:
  "gc_ok (gpu_load t rs) + gc_fail (gpu_load t rs) = length rs \<and>
   length (gc_e2e (gpu_load t rs)) = gc_ok (gpu_load t rs) \<and>
   sum_list (map snd (gc_routes (gpu_load t rs))) = gc_ok (gpu_load t rs) \<and>
   length (gc_ttft (gpu_load t rs)) \<le> gc_ok (gpu_load t rs) \<and> length (gc_samples (gpu_load t rs)) \<le> 3"
proof (induction rs rule: rev_induct)
  case Nil
  show ?case by (simp add: gpu_load_def gpu_start_def)
next
  case (snoc r rs)
  then show ?case by (auto simp: gpu_load_def gpu_step_def Let_def count_route_sum split: sum.splits)
qed

text \<open>A reply whose body is not a JSON object is still counted by its status, with an empty text.\<close>

lemma chat_unreadable_body:
  "chat_once t status backend header_ms None ms =
     Inr \<lparr>ch_ok = (status = 200), ch_status = status, ch_e2e = ms, ch_ttft = JNull, ch_text = JStr [],
         ch_backend = backend\<rparr>"
  by (simp add: chat_once_def read_chat_def text_preview_def or_else_def)

lemma run_cell_accounts:
  "cc_ok (run_cell answers dbg s) + cc_fail (run_cell answers dbg s) = length answers"
  by (simp add: run_cell_def Let_def sum_length_filter_compl comp_def)

end
